(* ===== verification/Prelude.thy ===== *)
theory Prelude
  imports Complex_Main "HOL-Library.Multiset"
begin

text \<open>
  Shared vocabulary of the development.

  \<^item> Actions: an asynchronous service method of the code takes the world it runs in and
    either returns a value or throws; what it already wrote stays written when it throws.
    An \<^emph>\<open>action\<close> is therefore a function from a state to a sum (\<open>Inl\<close> the exception,
    \<open>Inr\<close> the value) paired with the new state.
  \<^item> Ordered result lists: \<open>orderBy\<close> clauses are comparison relations.  The executable
    insertion sort by a relation is the reference for them.
  \<^item> The locale \<open>step_system\<close>: invariants of every state reachable by the steps of a
    component.
\<close>

named_theorems action_simps "unfolding rules for actions"

section \<open>Definitions\<close>

subsection \<open>Actions\<close>

type_synonym ('e, 's, 'a) action = "'s \<Rightarrow> ('e + 'a) \<times> 's"

definition ret :: "'a \<Rightarrow> ('e, 's, 'a) action" where
  "ret a = (\<lambda>s. (Inr a, s))"

definition throw :: "'e \<Rightarrow> ('e, 's, 'a) action" where
  "throw e = (\<lambda>s. (Inl e, s))"

definition bind_action ::
    "('e, 's, 'a) action \<Rightarrow> ('a \<Rightarrow> ('e, 's, 'b) action) \<Rightarrow> ('e, 's, 'b) action" where
  "bind_action m f = (\<lambda>s. case m s of (Inl e, s') \<Rightarrow> (Inl e, s') | (Inr a, s') \<Rightarrow> f a s')"

definition reads :: "('s \<Rightarrow> 'a) \<Rightarrow> ('e, 's, 'a) action" where
  "reads f = (\<lambda>s. (Inr (f s), s))"

text \<open>\<open>try { m } catch (e) { h(e) }\<close>: the handler runs in the state the body left.\<close>

definition try_catch ::
    "('e, 's, 'a) action \<Rightarrow> ('e \<Rightarrow> ('e, 's, 'a) action) \<Rightarrow> ('e, 's, 'a) action" where
  "try_catch m h = (\<lambda>s. case m s of (Inl e, s') \<Rightarrow> h e s' | (Inr a, s') \<Rightarrow> (Inr a, s'))"

text \<open>Awaiting one call per element of a list, in order, and collecting the results.\<close>

fun map_action :: "('a \<Rightarrow> ('e, 's, 'b) action) \<Rightarrow> 'a list \<Rightarrow> ('e, 's, 'b list) action" where
  "map_action f [] = ret []"
| "map_action f (x # xs) =
     bind_action (f x) (\<lambda>y. bind_action (map_action f xs) (\<lambda>ys. ret (y # ys)))"

definition succeeds :: "('e + 'a) \<times> 's \<Rightarrow> bool" where
  "succeeds r = (case fst r of Inl _ \<Rightarrow> False | Inr _ \<Rightarrow> True)"

subsection \<open>Optional properties\<close>

lemma pred_option_code [code]: "pred_option P None = True" "pred_option P (Some x) = P x"
  by simp_all

text \<open>An optional property of a request body: absent, \<open>null\<close>, or a value.  An update writes
  the properties that are present.\<close>

datatype 'a field = Undefined | Null | Value 'a

definition field_opt :: "'a field \<Rightarrow> 'a option" where
  "field_opt f = (case f of Undefined \<Rightarrow> None | Null \<Rightarrow> None | Value a \<Rightarrow> Some a)"

definition set_field :: "'a field \<Rightarrow> 'a \<Rightarrow> 'a" where
  "set_field f old = (case f of Undefined \<Rightarrow> old | Null \<Rightarrow> old | Value a \<Rightarrow> a)"

definition set_nullable :: "'a field \<Rightarrow> 'a option \<Rightarrow> 'a option" where
  "set_nullable f old = (case f of Undefined \<Rightarrow> old | Null \<Rightarrow> None | Value a \<Rightarrow> Some a)"

definition field_all :: "('a \<Rightarrow> bool) \<Rightarrow> 'a field \<Rightarrow> bool" where
  "field_all P f = (case f of Undefined \<Rightarrow> True | Null \<Rightarrow> True | Value a \<Rightarrow> P a)"

subsection \<open>Sorting by a comparison relation\<close>

fun insort_by :: "('a \<Rightarrow> 'a \<Rightarrow> bool) \<Rightarrow> 'a \<Rightarrow> 'a list \<Rightarrow> 'a list" where
  "insort_by le x [] = [x]"
| "insort_by le x (y # ys) = (if le x y then x # y # ys else y # insort_by le x ys)"

fun sort_by :: "('a \<Rightarrow> 'a \<Rightarrow> bool) \<Rightarrow> 'a list \<Rightarrow> 'a list" where
  "sort_by le [] = []"
| "sort_by le (x # xs) = insort_by le x (sort_by le xs)"

text \<open>A \<open>Map\<close> of the language, or the own keys of an object, in insertion order.\<close>

definition map_set :: "'k \<Rightarrow> 'v \<Rightarrow> ('k \<times> 'v) list \<Rightarrow> ('k \<times> 'v) list" where
  "map_set k v m =
     (if k \<in> fst ` set m then map (\<lambda>(k', v'). (k', if k' = k then v else v')) m else m @ [(k, v)])"

definition map_remove :: "'k \<Rightarrow> ('k \<times> 'v) list \<Rightarrow> ('k \<times> 'v) list" where
  "map_remove k m = filter (\<lambda>p. fst p \<noteq> k) m"

definition order_asc :: "('a \<Rightarrow> 'k::linorder) \<Rightarrow> 'a \<Rightarrow> 'a \<Rightarrow> bool" where
  "order_asc k x y = (k x \<le> k y)"

definition order_desc :: "('a \<Rightarrow> 'k::linorder) \<Rightarrow> 'a \<Rightarrow> 'a \<Rightarrow> bool" where
  "order_desc k x y = (k y \<le> k x)"

definition no_order :: "'a \<Rightarrow> 'a \<Rightarrow> bool" where
  "no_order x y = True"

definition total_preorder :: "('a \<Rightarrow> 'a \<Rightarrow> bool) \<Rightarrow> bool" where
  "total_preorder le = ((\<forall>x y z. le x y \<longrightarrow> le y z \<longrightarrow> le x z) \<and> (\<forall>x y. le x y \<or> le y x))"

section \<open>Lemmas\<close>

subsection \<open>Actions\<close>

lemmas action_defs = ret_def throw_def bind_action_def reads_def try_catch_def

lemma bind_ret [simp]: "bind_action (ret a) f = f a"
  by (simp add: bind_action_def ret_def)

lemma bind_pair [simp]:
  "bind_action (Pair (Inr a)) f = f a" "bind_action (Pair (Inl e)) f = Pair (Inl e)"
  by (simp_all add: bind_action_def)

lemma bind_throw [simp]: "bind_action (throw e) f = throw e"
  by (simp add: bind_action_def throw_def)

lemma bind_reads [simp]: "bind_action (reads g) f s = f (g s) s"
  by (simp add: bind_action_def reads_def)

lemma ret_apply [simp]: "ret a s = (Inr a, s)"
  by (simp add: ret_def)

lemma throw_apply [simp]: "throw e s = (Inl e, s)"
  by (simp add: throw_def)

lemma reads_apply [simp]: "reads g s = (Inr (g s), s)"
  by (simp add: reads_def)

lemma bind_apply_Inl: "m s = (Inl e, s') \<Longrightarrow> bind_action m f s = (Inl e, s')"
  by (simp add: bind_action_def)

lemma bind_apply_Inr: "m s = (Inr a, s') \<Longrightarrow> bind_action m f s = f a s'"
  by (simp add: bind_action_def)

lemma bind_eq_Inr:
  "bind_action m f s = (Inr b, t) \<longleftrightarrow> (\<exists>a s'. m s = (Inr a, s') \<and> f a s' = (Inr b, t))"
  by (auto simp: bind_action_def split: prod.splits sum.splits)

lemma bind_eq_Inl:
  "bind_action m f s = (Inl e, t) \<longleftrightarrow>
     m s = (Inl e, t) \<or> (\<exists>a s'. m s = (Inr a, s') \<and> f a s' = (Inl e, t))"
  by (auto simp: bind_action_def split: prod.splits sum.splits)

lemma succeeds_simps [simp]:
  "succeeds (Inr a, s) = True" "succeeds (Inl e, s) = False"
  by (simp_all add: succeeds_def)

text \<open>An action that keeps an invariant of the state, whether it returns or throws.\<close>

definition preserves :: "('s \<Rightarrow> bool) \<Rightarrow> ('e, 's, 'a) action \<Rightarrow> bool" where
  "preserves I m = (\<forall>s. I s \<longrightarrow> I (snd (m s)))"

lemma preservesI: "(\<And>s. I s \<Longrightarrow> I (snd (m s))) \<Longrightarrow> preserves I m"
  by (simp add: preserves_def)

lemma preservesD: "preserves I m \<Longrightarrow> I s \<Longrightarrow> m s = (r, s') \<Longrightarrow> I s'"
  by (fastforce simp: preserves_def)

lemma preserves_snd: "preserves I m \<Longrightarrow> I s \<Longrightarrow> I (snd (m s))"
  by (simp add: preserves_def)

lemma preserves_pair [intro, simp]: "preserves I (Pair r)"
  by (simp add: preserves_def)

lemma preserves_ret [intro, simp]: "preserves I (ret a)"
  by (simp add: preserves_def)

lemma preserves_throw [intro, simp]: "preserves I (throw e)"
  by (simp add: preserves_def)

lemma preserves_reads [intro, simp]: "preserves I (reads f)"
  by (simp add: preserves_def)

lemma preserves_bind [intro]:
  assumes "preserves I m" and "\<And>a. preserves I (f a)"
  shows "preserves I (bind_action m f)"
  using assms by (auto simp: preserves_def bind_action_def split: prod.splits sum.splits)

lemma preserves_bind_reads [intro]:
  assumes "\<And>a. preserves I (f a)"
  shows "preserves I (bind_action (reads g) f)"
  using assms by (auto simp: preserves_def)

lemma preserves_try [intro]:
  assumes "preserves I m" and "\<And>e. preserves I (h e)"
  shows "preserves I (try_catch m h)"
  using assms by (auto simp: preserves_def try_catch_def split: prod.splits sum.splits)

lemma preserves_map_action [intro]:
  assumes "\<And>x. preserves I (f x)"
  shows "preserves I (map_action f xs)"
  by (induction xs) (auto intro: assms)

lemma map_action_pure:
  assumes "\<And>x. x \<in> set xs \<Longrightarrow> f x s = (Inr (g x), s)"
  shows "map_action f xs s = (Inr (map g xs), s)"
  using assms by (induction xs) (auto simp: bind_action_def)

lemma preserves_option [intro]:
  assumes "preserves I a" and "\<And>x. preserves I (b x)"
  shows "preserves I (case v of None \<Rightarrow> a | Some x \<Rightarrow> b x)"
  using assms by (cases v) auto

lemma preserves_if [intro]:
  assumes "preserves I a" and "preserves I b"
  shows "preserves I (if c then a else b)"
  using assms by simp

lemma preserves_conj:
  "preserves I m \<Longrightarrow> preserves K m \<Longrightarrow> preserves (\<lambda>s. I s \<and> K s) m"
  by (simp add: preserves_def)

text \<open>A read-only action never changes the state.\<close>

definition read_only :: "('e, 's, 'a) action \<Rightarrow> bool" where
  "read_only m = (\<forall>s. snd (m s) = s)"

lemma read_only_preserves: "read_only m \<Longrightarrow> preserves I m"
  by (simp add: read_only_def preserves_def)

lemma read_only_simps [simp]:
  "read_only (Pair r)" "read_only (ret a)" "read_only (throw e)" "read_only (reads f)"
  by (simp_all add: read_only_def)

lemma read_only_bind [intro]:
  assumes "read_only m" and "\<And>a. read_only (f a)"
  shows "read_only (bind_action m f)"
  unfolding read_only_def
proof
  fix s
  show "snd (bind_action m f s) = s"
    using assms by (cases "m s") (auto simp: read_only_def bind_action_def split: sum.splits
      dest: spec [of _ s])
qed

lemma read_only_map_action [intro]:
  assumes "\<And>x. read_only (f x)"
  shows "read_only (map_action f xs)"
  by (induction xs) (auto intro!: read_only_bind assms)

lemma read_only_option [intro]:
  assumes "read_only a" and "\<And>x. read_only (b x)"
  shows "read_only (case v of None \<Rightarrow> a | Some x \<Rightarrow> b x)"
  using assms by (cases v) auto

lemma read_only_if [intro]:
  "read_only a \<Longrightarrow> read_only b \<Longrightarrow> read_only (if c then a else b)"
  by simp

lemma read_only_snd: "read_only m \<Longrightarrow> snd (m s) = s"
  by (simp add: read_only_def)

lemma bind_read_only:
  "read_only m \<Longrightarrow> bind_action m f s = (case fst (m s) of Inl e \<Rightarrow> (Inl e, s) | Inr a \<Rightarrow> f a s)"
  by (cases "m s") (auto simp: bind_action_def read_only_def split: sum.splits dest: spec [of _ s])

subsection \<open>Sorting by a relation\<close>

lemma mset_insort_by [simp]: "mset (insort_by le x xs) = add_mset x (mset xs)"
  by (induction xs) auto

lemma set_insort_by [simp]: "set (insort_by le x xs) = insert x (set xs)"
  by (induction xs) auto

lemma mset_sort_by [simp]: "mset (sort_by le xs) = mset xs"
  by (induction xs) auto

lemma set_sort_by [simp]: "set (sort_by le xs) = set xs"
  by (induction xs) auto

lemma length_sort_by [simp]: "length (sort_by le xs) = length xs"
  by (metis mset_sort_by size_mset)

lemma total_preorder_trans: "total_preorder le \<Longrightarrow> le x y \<Longrightarrow> le y z \<Longrightarrow> le x z"
  unfolding total_preorder_def by blast

lemma total_preorder_total: "total_preorder le \<Longrightarrow> \<not> le x y \<Longrightarrow> le y x"
  unfolding total_preorder_def by blast

lemma sorted_insort_by:
  assumes "total_preorder le" and "sorted_wrt le xs"
  shows "sorted_wrt le (insort_by le x xs)"
  using assms(2)
proof (induction xs)
  case Nil
  then show ?case by simp
next
  case (Cons y ys)
  show ?case
  proof (cases "le x y")
    case True
    then have "le x z" if "z \<in> set ys" for z
      using Cons.prems that by (auto intro: total_preorder_trans [OF assms(1) True])
    with True Cons.prems show ?thesis by simp
  next
    case False
    then have "le y x" by (rule total_preorder_total [OF assms(1)])
    with False Cons show ?thesis by simp
  qed
qed

lemma sorted_sort_by: "total_preorder le \<Longrightarrow> sorted_wrt le (sort_by le xs)"
  by (induction xs) (auto intro: sorted_insort_by)

lemma insort_by_map: "insort_by le (f x) (map f xs) = map f (insort_by (\<lambda>a b. le (f a) (f b)) x xs)"
  by (induction xs) auto

lemma sort_by_map: "sort_by le (map f xs) = map f (sort_by (\<lambda>a b. le (f a) (f b)) xs)"
  by (induction xs) (auto simp: insort_by_map)

text \<open>The first elements of a sorted list dominate the rest.\<close>

lemma sorted_take_drop:
  "sorted_wrt le xs \<Longrightarrow> x \<in> set (take n xs) \<Longrightarrow> y \<in> set (drop n xs) \<Longrightarrow> le x y"
  by (metis append_take_drop_id sorted_wrt_append)

lemma total_preorder_orders [simp]:
  "total_preorder (order_asc k)" "total_preorder (order_desc k)" "total_preorder no_order"
  by (auto simp: total_preorder_def order_asc_def order_desc_def no_order_def)

subsection \<open>Lists\<close>

lemma filter_key_unique:
  assumes "distinct (map key xs)" and "x \<in> set xs"
  shows "filter (\<lambda>y. key y = key x) xs = [x]"
  using assms
proof (induction xs)
  case Nil
  then show ?case by simp
next
  case (Cons y ys)
  show ?case
  proof (cases "x = y")
    case True
    with Cons.prems have "\<forall>z \<in> set ys. key z \<noteq> key x"
      by (auto simp: image_iff)
    with True show ?thesis by (simp add: filter_empty_conv)
  next
    case False
    with Cons.prems have "x \<in> set ys" and "key y \<noteq> key x"
      by (auto simp: image_iff)
    with Cons show ?thesis by simp
  qed
qed

lemma distinct_key_eqD:
  "distinct (map key xs) \<Longrightarrow> x \<in> set xs \<Longrightarrow> y \<in> set xs \<Longrightarrow> key x = key y \<Longrightarrow> x = y"
  by (metis distinct_map inj_onD)

lemma filter_another:
  assumes "distinct (map key xs)" and "1 < length (filter w xs)"
  shows "\<exists>y \<in> set xs. w y \<and> key y \<noteq> k"
proof (rule ccontr)
  assume "\<not> (\<exists>y \<in> set xs. w y \<and> key y \<noteq> k)"
  then have sub: "set (map key (filter w xs)) \<subseteq> {k}" by auto
  have "distinct (map key (filter w xs))"
    using assms(1) by (simp add: distinct_map_filter)
  then have "length (filter w xs) = card (set (map key (filter w xs)))"
    using distinct_card by fastforce
  also have "\<dots> \<le> 1" using card_mono [OF _ sub] by simp
  finally show False using assms(2) by simp
qed

lemma take_drop_pages:
  "concat (map (\<lambda>p. take n (drop (p * n) xs)) [0..<k]) = take (k * n) xs"
proof (induction k)
  case 0
  then show ?case by simp
next
  case (Suc k)
  have "take (k * n) xs @ take n (drop (k * n) xs) = take (k * n + n) xs"
    by (simp add: take_add)
  with Suc show ?case by (simp add: add.commute)
qed

lemma sum_list_filter_le:
  "length (filter (\<lambda>x. P x \<and> Q x) xs) \<le> length (filter P xs)"
  by (induction xs) auto

section \<open>Step systems\<close>

text \<open>
  A component with one step per operation.  Whatever each step keeps holds in every state
  a sequence of steps reaches.
\<close>

locale step_system =
  fixes step :: "'s \<Rightarrow> 'o \<Rightarrow> 's"
    and inv :: "'s \<Rightarrow> bool"
  assumes step_inv: "inv s \<Longrightarrow> inv (step s c)"
begin

lemma run_inv: "inv s \<Longrightarrow> inv (foldl step s cs)"
  by (induction cs arbitrary: s) (auto intro: step_inv)

lemma run_prefix_inv: "inv s \<Longrightarrow> inv (foldl step s (take n cs))"
  by (rule run_inv)

end

end
