(* ===== verification/Exceptions.thy ===== *)
theory Exceptions
  imports Js_Text
begin

text \<open>
  The errors a request can end with and how the global exception filter answers them:
  \<open>common/exceptions/domain.exception.ts\<close>, \<open>common/dto/error-response.dto.ts\<close> and
  \<open>common/filters/http-exception.filter.ts\<close> of the Nest backend.

  The exception classes of \<open>@nestjs/common\<close> are outside the repository: what a built-in
  exception answers to \<open>getResponse()\<close> and \<open>getStatus()\<close> is the parameter \<open>nest_lib\<close>, with
  the documented values as the locale \<open>nest_builtin\<close>.
\<close>

section \<open>Definitions\<close>

datatype prisma_error = P2002 | P2003 | P2025 | InvalidArgument | Inconsistent

record ErrorResponseDto =
  err_code :: string
  err_message :: string
  err_details :: "string option"

definition new_ErrorResponseDto :: "string \<Rightarrow> string \<Rightarrow> string option \<Rightarrow> ErrorResponseDto" where
  "new_ErrorResponseDto code message details =
     \<lparr>err_code = code, err_message = message,
      err_details = (case details of None \<Rightarrow> None | Some d \<Rightarrow> if truthy d then Some d else None)\<rparr>"

datatype http_message = MsgText string | MsgList "string list"

datatype http_response =
    RespDto ErrorResponseDto
  | RespMessage http_message "string option"
  | RespText string

datatype nest_kind = NestBadRequest | NestForbidden | NestNotFound

text \<open>
  \<open>DomainException\<close> is the class of the repository (an \<open>HttpException\<close> whose response is an
  \<open>ErrorResponseDto\<close>), \<open>NestException\<close> a built-in one thrown with a text,
  \<open>ValidationError\<close> what the global validation pipe throws for a request it rejects,
  \<open>HttpException\<close> any other of that class, \<open>PrismaError\<close> and \<open>JsError\<close> are other \<open>Error\<close> objects, \<open>Thrown\<close> a thrown value that is not an \<open>Error\<close>.
\<close>

datatype exn =
    DomainException ErrorResponseDto nat
  | NestException nest_kind string
  | ValidationError
  | HttpException http_response nat string
  | PrismaError prisma_error
  | JsError string
  | Thrown

definition domain_exception :: "string \<Rightarrow> string \<Rightarrow> nat \<Rightarrow> exn" where
  "domain_exception code message status =
     DomainException (new_ErrorResponseDto code message None) status"

definition NotFoundException :: "string \<Rightarrow> int option \<Rightarrow> exn" where
  "NotFoundException resource rid =
     domain_exception (toUpperCase resource @ ''_NOT_FOUND'')
       (case rid of
          None \<Rightarrow> resource @ '' not found''
        | Some i \<Rightarrow> if i \<noteq> 0 then resource @ '' with id '' @ show_int i @ '' not found''
                   else resource @ '' not found'')
       404"

definition UnauthorizedException :: "string \<Rightarrow> exn" where
  "UnauthorizedException message = domain_exception ''UNAUTHORIZED'' message 401"

definition ForbiddenException :: "string \<Rightarrow> exn" where
  "ForbiddenException message = domain_exception ''FORBIDDEN'' message 403"

definition ConflictException :: "string \<Rightarrow> exn" where
  "ConflictException message = domain_exception ''CONFLICT'' message 409"

record nest_lib =
  nest_response :: "nest_kind \<Rightarrow> string \<Rightarrow> http_response"
  nest_status :: "nest_kind \<Rightarrow> nat"
  validation_messages :: "string list"
  prisma_message :: "prisma_error \<Rightarrow> string"

text \<open>The branch of the filter for an \<open>HttpException\<close>, from its response, status and message.\<close>

definition http_error_response :: "http_response \<Rightarrow> string \<Rightarrow> ErrorResponseDto" where
  "http_error_response resp message =
     (case resp of
        RespDto dto \<Rightarrow> dto
      | RespMessage m err \<Rightarrow>
          new_ErrorResponseDto ''VALIDATION_ERROR''
            (case m of MsgList ms \<Rightarrow> join '', '' ms | MsgText t \<Rightarrow> t) err
      | RespText _ \<Rightarrow> new_ErrorResponseDto ''HTTP_ERROR'' message None)"

definition exception_filter :: "nest_lib \<Rightarrow> exn \<Rightarrow> nat \<times> ErrorResponseDto" where
  "exception_filter N e =
     (case e of
        DomainException dto status \<Rightarrow> (status, http_error_response (RespDto dto) (err_message dto))
      | NestException k m \<Rightarrow> (nest_status N k, http_error_response (nest_response N k m) m)
      | ValidationError \<Rightarrow>
          (nest_status N NestBadRequest,
           http_error_response (RespMessage (MsgList (validation_messages N)) (Some ''Bad Request''))
             ''Bad Request Exception'')
      | HttpException resp status m \<Rightarrow> (status, http_error_response resp m)
      | PrismaError p \<Rightarrow> (500, new_ErrorResponseDto ''INTERNAL_ERROR'' (prisma_message N p) None)
      | JsError m \<Rightarrow> (500, new_ErrorResponseDto ''INTERNAL_ERROR'' m None)
      | Thrown \<Rightarrow> (500, new_ErrorResponseDto ''UNKNOWN_ERROR'' ''An unknown error occurred'' None))"

section \<open>The built-in exceptions\<close>

definition nest_description :: "nest_kind \<Rightarrow> string" where
  "nest_description k =
     (case k of NestBadRequest \<Rightarrow> ''Bad Request'' | NestForbidden \<Rightarrow> ''Forbidden''
      | NestNotFound \<Rightarrow> ''Not Found'')"

locale nest_builtin =
  fixes N :: nest_lib
  assumes nest_response_text:
      "nest_response N k m = RespMessage (MsgText m) (Some (nest_description k))"
    and nest_bad_request: "nest_status N NestBadRequest = 400"
    and nest_forbidden: "nest_status N NestForbidden = 403"
    and nest_not_found: "nest_status N NestNotFound = 404"
begin

lemma filter_builtin:
  "exception_filter N (NestException k m) =
     (nest_status N k, \<lparr>err_code = ''VALIDATION_ERROR'', err_message = m,
        err_details = Some (nest_description k)\<rparr>)"
  by (cases k) (simp_all add: exception_filter_def http_error_response_def nest_response_text
      new_ErrorResponseDto_def nest_description_def truthy_def)

lemma filter_builtin_status_4xx: "fst (exception_filter N (NestException k m)) div 100 = 4"
  by (cases k) (simp_all add: filter_builtin nest_bad_request nest_forbidden nest_not_found)

end

definition documented_nest :: nest_lib where
  "documented_nest = \<lparr>
     nest_response = (\<lambda>k m. RespMessage (MsgText m) (Some (nest_description k))),
     nest_status = (\<lambda>k. case k of NestBadRequest \<Rightarrow> 400 | NestForbidden \<Rightarrow> 403 | NestNotFound \<Rightarrow> 404),
     validation_messages = [''email must be an email''],
     prisma_message = (\<lambda>p. case p of P2002 \<Rightarrow> ''Unique constraint failed''
        | P2003 \<Rightarrow> ''Foreign key constraint failed'' | P2025 \<Rightarrow> ''Record to update not found'')\<rparr>"

interpretation documented: nest_builtin documented_nest
  by unfold_locales (auto simp: documented_nest_def)

section \<open>Lemmas\<close>

lemma upper_resources [simp]:
  "toUpperCase ''Issue'' = ''ISSUE''" "toUpperCase ''User'' = ''USER''"
  "toUpperCase ''Project'' = ''PROJECT''"
  by code_simp+

lemma filter_domain:
  "exception_filter N (domain_exception code message status) =
     (status, \<lparr>err_code = code, err_message = message, err_details = None\<rparr>)"
  by (simp add: exception_filter_def domain_exception_def http_error_response_def
      new_ErrorResponseDto_def)

text \<open>The filter answers every error that is not an HTTP exception with status 500 and
  answers every exception of the repository's own classes with the class's own status and
  code, an upper-case resource name followed by \<open>_NOT_FOUND\<close> for a missing resource.\<close>

theorem exception_filter_own_errors:
  "exception_filter N (NotFoundException ''Issue'' (Some i)) =
     (404, \<lparr>err_code = ''ISSUE_NOT_FOUND'',
            err_message = (if i = 0 then ''Issue not found''
                           else ''Issue with id '' @ show_int i @ '' not found''),
            err_details = None\<rparr>) \<and>
   exception_filter N (UnauthorizedException m) =
     (401, \<lparr>err_code = ''UNAUTHORIZED'', err_message = m, err_details = None\<rparr>) \<and>
   exception_filter N (ConflictException m) =
     (409, \<lparr>err_code = ''CONFLICT'', err_message = m, err_details = None\<rparr>) \<and>
   fst (exception_filter N (PrismaError p)) = 500 \<and>
   fst (exception_filter N (JsError m)) = 500 \<and>
   fst (exception_filter N Thrown) = 500"
  by (simp add: NotFoundException_def UnauthorizedException_def ConflictException_def filter_domain, simp add: exception_filter_def)

text \<open>With the documented behaviour of the built-in exceptions, a team or order that is not
  there is answered with the exception's own status and text but the code
  \<open>VALIDATION_ERROR\<close>, the same code as a rejected request body.\<close>

theorem exception_filter_builtin_code:
  assumes "nest_builtin N"
  shows "exception_filter N (NestException NestNotFound m) =
           (404, \<lparr>err_code = ''VALIDATION_ERROR'', err_message = m, err_details = Some ''Not Found''\<rparr>)
       \<and> err_code (snd (exception_filter N (NestException k m))) =
         err_code (snd (exception_filter N ValidationError))"
  using nest_builtin.filter_builtin [OF assms] nest_builtin.nest_not_found [OF assms]
  by (simp add: nest_description_def exception_filter_def http_error_response_def
      new_ErrorResponseDto_def)

theorem exception_filter_builtin_code_witness:
  "exception_filter documented_nest (NestException NestNotFound ''Team not found'') =
     (404, \<lparr>err_code = ''VALIDATION_ERROR'', err_message = ''Team not found'',
            err_details = Some ''Not Found''\<rparr>)"
  using exception_filter_builtin_code [OF documented.nest_builtin_axioms] by blast

end
