(* ===== verification/Database.thy ===== *)
theory Database
  imports Exceptions
begin

text \<open>
  The relational store of the Nest backend, as \<open>backend/node.js/prisma/schema.prisma\<close>
  declares it: one record per model, one table per model, the unique and foreign-key
  constraints and the \<open>onDelete\<close> actions.

  The Prisma client itself is a package outside the repository.  Its model delegates
  (\<open>prisma.user\<close>, \<open>prisma.issue\<close>, ...) are a parameter: the record \<open>prisma\<close> of
  \<open>delegate\<close>s.  The locale \<open>prisma_table\<close> states the documented behaviour of one delegate
  that the services rely on; \<open>prisma_client\<close> states it for all of them.  An in-memory
  implementation \<open>mem_prisma\<close> shows that the laws hold together.

  \<open>db_inv\<close> is the integrity of the store: identifiers are unique and below the sequence, and
  every row passes the constraints of its model.  Every write the services make keeps it.

  Dates are milliseconds since the epoch (\<open>int\<close>), identifiers \<open>int\<close>, prices \<open>rat\<close>.
\<close>

section \<open>Models\<close>

type_synonym time = int

datatype TeamRole = OWNER | MANAGER | MEMBER

datatype IssueStatus = OPEN | IN_PROGRESS | RESOLVED | CLOSED

datatype ProductStatus = ACTIVE | INACTIVE

datatype OrderStatus = PENDING | PAID | CANCELLED

datatype OrderEventType = ORDER_CREATED | ORDER_PAID | ORDER_CANCELLED

record user =
  user_id :: int
  user_email :: string
  user_passwordHash :: string
  user_nickname :: string
  user_createdAt :: time

record project =
  project_id :: int
  project_name :: string
  project_description :: "string option"
  project_createdAt :: time

record issue =
  issue_id :: int
  issue_projectId :: int
  issue_reporterId :: int
  issue_assigneeId :: "int option"
  issue_title :: string
  issue_description :: "string option"
  issue_status :: IssueStatus
  issue_viewCount :: int
  issue_createdAt :: time
  issue_updatedAt :: time

record comment =
  comment_id :: int
  comment_issueId :: int
  comment_authorId :: int
  comment_content :: string
  comment_createdAt :: time
  comment_updatedAt :: time

record team =
  team_id :: int
  team_name :: string
  team_createdAt :: time

record team_member =
  member_id :: int
  member_teamId :: int
  member_userId :: int
  member_role :: TeamRole
  member_joinedAt :: time

record workspace_item =
  item_id :: int
  item_teamId :: int
  item_title :: string
  item_content :: "string option"
  item_createdBy :: int
  item_createdAt :: time
  item_updatedAt :: time

record daily_stats =
  stats_id :: int
  stats_date :: string
  stats_createdCount :: int
  stats_resolvedCount :: int
  stats_commentCount :: int
  stats_createdAt :: time

record product =
  product_id :: int
  product_name :: string
  product_description :: "string option"
  product_category :: string
  product_brand :: string
  product_price :: rat
  product_status :: ProductStatus
  product_createdAt :: time
  product_updatedAt :: time

record order =
  order_id :: int
  order_userId :: int
  order_totalAmount :: rat
  order_status :: OrderStatus
  order_createdAt :: time

record order_item =
  oitem_id :: int
  oitem_orderId :: int
  oitem_productId :: int
  oitem_quantity :: int
  oitem_price :: rat

record notification =
  notif_id :: int
  notif_userId :: int
  notif_type :: OrderEventType
  notif_message :: string
  notif_createdAt :: time

section \<open>Tables\<close>

text \<open>The rows of a table and the largest identifier its autoincrement column has issued.\<close>

record 'r table =
  rows :: "'r list"
  seq :: int

definition empty_table :: "'r table" where
  "empty_table = \<lparr>rows = [], seq = 0\<rparr>"

record db =
  users :: "user table"
  projects :: "project table"
  issues :: "issue table"
  comments :: "comment table"
  teams :: "team table"
  members :: "team_member table"
  items :: "workspace_item table"
  stats :: "daily_stats table"
  products :: "product table"
  orders :: "order table"
  oitems :: "order_item table"
  notifs :: "notification table"

definition empty_db :: db where
  "empty_db = \<lparr>users = empty_table, projects = empty_table, issues = empty_table,
     comments = empty_table, teams = empty_table, members = empty_table, items = empty_table,
     stats = empty_table, products = empty_table, orders = empty_table,
     oitems = empty_table, notifs = empty_table\<rparr>"

definition has_row :: "('r \<Rightarrow> int) \<Rightarrow> 'r table \<Rightarrow> int \<Rightarrow> bool" where
  "has_row key t k = list_ex (\<lambda>r. key r = k) (rows t)"

section \<open>Errors of the client and the constraints of the schema\<close>

text \<open>
  \<open>P2002\<close> is a violated unique constraint, \<open>P2003\<close> a violated foreign key, \<open>P2025\<close> a
  row to update or delete that does not exist, \<open>InvalidArgument\<close> an argument the client
  refuses before it asks the database, \<open>Inconsistent\<close> a required relation with no row.
\<close>

definition user_check :: "'z db_scheme \<Rightarrow> user \<Rightarrow> prisma_error option" where
  "user_check s u =
     (if list_ex (\<lambda>v. user_id v \<noteq> user_id u \<and> user_email v = user_email u) (rows (users s))
      then Some P2002 else None)"

definition issue_check :: "'z db_scheme \<Rightarrow> issue \<Rightarrow> prisma_error option" where
  "issue_check s i =
     (if has_row project_id (projects s) (issue_projectId i) \<and>
         has_row user_id (users s) (issue_reporterId i) \<and>
         pred_option (has_row user_id (users s)) (issue_assigneeId i)
      then None else Some P2003)"

definition comment_check :: "'z db_scheme \<Rightarrow> comment \<Rightarrow> prisma_error option" where
  "comment_check s c =
     (if has_row issue_id (issues s) (comment_issueId c) \<and>
         has_row user_id (users s) (comment_authorId c)
      then None else Some P2003)"

definition member_check :: "'z db_scheme \<Rightarrow> team_member \<Rightarrow> prisma_error option" where
  "member_check s m =
     (if list_ex (\<lambda>n. member_id n \<noteq> member_id m \<and> member_teamId n = member_teamId m \<and>
                      member_userId n = member_userId m) (rows (members s))
      then Some P2002
      else if has_row team_id (teams s) (member_teamId m) \<and>
              has_row user_id (users s) (member_userId m)
      then None else Some P2003)"

definition item_check :: "'z db_scheme \<Rightarrow> workspace_item \<Rightarrow> prisma_error option" where
  "item_check s w =
     (if has_row team_id (teams s) (item_teamId w) \<and> has_row user_id (users s) (item_createdBy w)
      then None else Some P2003)"

definition stats_check :: "'z db_scheme \<Rightarrow> daily_stats \<Rightarrow> prisma_error option" where
  "stats_check s d =
     (if list_ex (\<lambda>e. stats_id e \<noteq> stats_id d \<and> stats_date e = stats_date d) (rows (stats s))
      then Some P2002 else None)"

definition order_check :: "'z db_scheme \<Rightarrow> order \<Rightarrow> prisma_error option" where
  "order_check s r =
     (if has_row user_id (users s) (order_userId r) then None else Some P2003)"

definition oitem_check :: "'z db_scheme \<Rightarrow> order_item \<Rightarrow> prisma_error option" where
  "oitem_check s r =
     (if has_row order_id (orders s) (oitem_orderId r) \<and>
         has_row product_id (products s) (oitem_productId r)
      then None else Some P2003)"

definition notif_check :: "'z db_scheme \<Rightarrow> notification \<Rightarrow> prisma_error option" where
  "notif_check s n =
     (if has_row user_id (users s) (notif_userId n) then None else Some P2003)"

definition no_check :: "'z db_scheme \<Rightarrow> 'r \<Rightarrow> prisma_error option" where
  "no_check s r = None"

text \<open>
  The \<open>onDelete: Cascade\<close> actions of the two models whose rows the services delete and
  other rows refer to: comments go with their issue, order items with their product.
\<close>

definition cascade_issue :: "int \<Rightarrow> 'z db_scheme \<Rightarrow> 'z db_scheme" where
  "cascade_issue k s =
     s\<lparr>comments := (comments s)\<lparr>rows := filter (\<lambda>c. comment_issueId c \<noteq> k) (rows (comments s))\<rparr>\<rparr>"

definition cascade_product :: "int \<Rightarrow> 'z db_scheme \<Rightarrow> 'z db_scheme" where
  "cascade_product k s =
     s\<lparr>oitems := (oitems s)\<lparr>rows := filter (\<lambda>c. oitem_productId c \<noteq> k) (rows (oitems s))\<rparr>\<rparr>"

section \<open>The client\<close>

text \<open>
  One model delegate.  A \<open>where\<close> clause is a predicate on rows, an \<open>orderBy\<close> clause a
  comparison, the \<open>data\<close> of a create a function of the new identifier, the \<open>data\<close> of an
  update a function of the old row.  The constraint check of the model comes with every
  write, as the database evaluates it on the row to be written.
\<close>

record 'r delegate =
  findFirst :: "('r \<Rightarrow> bool) \<Rightarrow> 'r table \<Rightarrow> 'r option"
  findMany :: "('r \<Rightarrow> bool) \<Rightarrow> ('r \<Rightarrow> 'r \<Rightarrow> bool) \<Rightarrow> 'r table \<Rightarrow> 'r list"
  countRows :: "('r \<Rightarrow> bool) \<Rightarrow> 'r table \<Rightarrow> nat"
  createRow :: "('r \<Rightarrow> prisma_error option) \<Rightarrow> (int \<Rightarrow> 'r) \<Rightarrow> 'r table \<Rightarrow> prisma_error + 'r \<times> 'r table"
  updateRow :: "('r \<Rightarrow> prisma_error option) \<Rightarrow> int \<Rightarrow> ('r \<Rightarrow> 'r) \<Rightarrow> 'r table \<Rightarrow> prisma_error + 'r \<times> 'r table"
  deleteRow :: "int \<Rightarrow> 'r table \<Rightarrow> prisma_error + 'r \<times> 'r table"

record prisma =
  user_d :: "user delegate"
  project_d :: "project delegate"
  issue_d :: "issue delegate"
  comment_d :: "comment delegate"
  team_d :: "team delegate"
  member_d :: "team_member delegate"
  item_d :: "workspace_item delegate"
  stats_d :: "daily_stats delegate"
  product_d :: "product delegate"
  order_d :: "order delegate"
  oitem_d :: "order_item delegate"
  notif_d :: "notification delegate"

definition table_wf :: "('r \<Rightarrow> int) \<Rightarrow> 'r table \<Rightarrow> bool" where
  "table_wf key t = (distinct (map key (rows t)) \<and> list_all (\<lambda>r. key r \<le> seq t) (rows t))"

locale prisma_table =
  fixes D :: "'r delegate"
    and key :: "'r \<Rightarrow> int"
  assumes findFirst_none: "findFirst D w t = None \<longleftrightarrow> (\<forall>r \<in> set (rows t). \<not> w r)"
    and findFirst_some: "findFirst D w t = Some r \<Longrightarrow> r \<in> set (rows t) \<and> w r"
    and findMany_mset: "mset (findMany D w le t) = filter_mset w (mset (rows t))"
    and findMany_sorted: "total_preorder le \<Longrightarrow> sorted_wrt le (findMany D w le t)"
    and countRows_eq: "countRows D w t = length (filter w (rows t))"
    and createRow_eq: "\<exists>i > seq t. createRow D chk mk t =
      (case chk (mk i) of Some e \<Rightarrow> Inl e
       | None \<Rightarrow> Inr (mk i, \<lparr>rows = rows t @ [mk i], seq = i\<rparr>))"
    and updateRow_missing: "\<not> has_row key t k \<Longrightarrow> updateRow D chk k f t = Inl P2025"
    and updateRow_found: "table_wf key t \<Longrightarrow> r \<in> set (rows t) \<Longrightarrow>
      updateRow D chk (key r) f t =
      (case chk (f r) of Some e \<Rightarrow> Inl e
       | None \<Rightarrow> Inr (f r, t\<lparr>rows := map (\<lambda>x. if key x = key r then f x else x) (rows t)\<rparr>))"
    and deleteRow_missing: "\<not> has_row key t k \<Longrightarrow> deleteRow D k t = Inl P2025"
    and deleteRow_found: "table_wf key t \<Longrightarrow> r \<in> set (rows t) \<Longrightarrow>
      deleteRow D (key r) t = Inr (r, t\<lparr>rows := filter (\<lambda>x. key x \<noteq> key r) (rows t)\<rparr>)"

locale prisma_client =
  fixes P :: prisma
  assumes user_table: "prisma_table (user_d P) user_id"
    and project_table: "prisma_table (project_d P) project_id"
    and issue_table: "prisma_table (issue_d P) issue_id"
    and comment_table: "prisma_table (comment_d P) comment_id"
    and team_table: "prisma_table (team_d P) team_id"
    and member_table: "prisma_table (member_d P) member_id"
    and item_table: "prisma_table (item_d P) item_id"
    and stats_table: "prisma_table (stats_d P) stats_id"
    and product_table: "prisma_table (product_d P) product_id"
    and order_table: "prisma_table (order_d P) order_id"
    and oitem_table: "prisma_table (oitem_d P) oitem_id"
    and notif_table: "prisma_table (notif_d P) notif_id"

section \<open>Client calls as actions\<close>

definition q_first :: "'r delegate \<Rightarrow> ('s \<Rightarrow> 'r table) \<Rightarrow> ('r \<Rightarrow> bool) \<Rightarrow> (exn, 's, 'r option) action" where
  "q_first D tab w = reads (\<lambda>s. findFirst D w (tab s))"

definition q_many ::
    "'r delegate \<Rightarrow> ('s \<Rightarrow> 'r table) \<Rightarrow> ('r \<Rightarrow> bool) \<Rightarrow> ('r \<Rightarrow> 'r \<Rightarrow> bool) \<Rightarrow> (exn, 's, 'r list) action" where
  "q_many D tab w le = reads (\<lambda>s. findMany D w le (tab s))"

definition q_count :: "'r delegate \<Rightarrow> ('s \<Rightarrow> 'r table) \<Rightarrow> ('r \<Rightarrow> bool) \<Rightarrow> (exn, 's, nat) action" where
  "q_count D tab w = reads (\<lambda>s. countRows D w (tab s))"

definition q_create ::
    "'r delegate \<Rightarrow> ('s \<Rightarrow> 'r table) \<Rightarrow> ('r table \<Rightarrow> 's \<Rightarrow> 's) \<Rightarrow> ('s \<Rightarrow> 'r \<Rightarrow> prisma_error option)
      \<Rightarrow> (int \<Rightarrow> 'r) \<Rightarrow> (exn, 's, 'r) action" where
  "q_create D tab put chk mk =
     (\<lambda>s. case createRow D (chk s) mk (tab s) of
            Inl e \<Rightarrow> (Inl (PrismaError e), s)
          | Inr (r, t) \<Rightarrow> (Inr r, put t s))"

definition q_update ::
    "'r delegate \<Rightarrow> ('s \<Rightarrow> 'r table) \<Rightarrow> ('r table \<Rightarrow> 's \<Rightarrow> 's) \<Rightarrow> ('s \<Rightarrow> 'r \<Rightarrow> prisma_error option)
      \<Rightarrow> int \<Rightarrow> ('r \<Rightarrow> 'r) \<Rightarrow> (exn, 's, 'r) action" where
  "q_update D tab put chk k f =
     (\<lambda>s. case updateRow D (chk s) k f (tab s) of
            Inl e \<Rightarrow> (Inl (PrismaError e), s)
          | Inr (r, t) \<Rightarrow> (Inr r, put t s))"

definition q_delete ::
    "'r delegate \<Rightarrow> ('s \<Rightarrow> 'r table) \<Rightarrow> ('r table \<Rightarrow> 's \<Rightarrow> 's) \<Rightarrow> (int \<Rightarrow> 's \<Rightarrow> 's)
      \<Rightarrow> int \<Rightarrow> (exn, 's, 'r) action" where
  "q_delete D tab put cascade k =
     (\<lambda>s. case deleteRow D k (tab s) of
            Inl e \<Rightarrow> (Inl (PrismaError e), s)
          | Inr (r, t) \<Rightarrow> (Inr r, cascade k (put t s)))"

text \<open>The \<open>include\<close> of a required relation: the row its foreign key names.\<close>

definition q_related :: "'r delegate \<Rightarrow> ('s \<Rightarrow> 'r table) \<Rightarrow> ('r \<Rightarrow> bool) \<Rightarrow> (exn, 's, 'r) action" where
  "q_related D tab w =
     bind_action (q_first D tab w) (\<lambda>r.
     case r of None \<Rightarrow> throw (PrismaError Inconsistent) | Some x \<Rightarrow> ret x)"

text \<open>\<open>prisma.$transaction\<close>: the documented contract of an interactive transaction.\<close>

definition atomic :: "((exn, 's, 'a) action \<Rightarrow> (exn, 's, 'a) action) \<Rightarrow> bool" where
  "atomic tx = (\<forall>m s. tx m s =
     (case m s of (Inl e, s') \<Rightarrow> (Inl e, s) | (Inr a, s') \<Rightarrow> (Inr a, s')))"

definition rollback_tx :: "(exn, 's, 'a) action \<Rightarrow> (exn, 's, 'a) action" where
  "rollback_tx m = (\<lambda>s. case m s of (Inl e, s') \<Rightarrow> (Inl e, s) | (Inr a, s') \<Rightarrow> (Inr a, s'))"

definition put_users :: "user table \<Rightarrow> 'z db_scheme \<Rightarrow> 'z db_scheme" where
  "put_users t s = s\<lparr>users := t\<rparr>"

definition put_projects :: "project table \<Rightarrow> 'z db_scheme \<Rightarrow> 'z db_scheme" where
  "put_projects t s = s\<lparr>projects := t\<rparr>"

definition put_issues :: "issue table \<Rightarrow> 'z db_scheme \<Rightarrow> 'z db_scheme" where
  "put_issues t s = s\<lparr>issues := t\<rparr>"

definition put_comments :: "comment table \<Rightarrow> 'z db_scheme \<Rightarrow> 'z db_scheme" where
  "put_comments t s = s\<lparr>comments := t\<rparr>"

definition put_teams :: "team table \<Rightarrow> 'z db_scheme \<Rightarrow> 'z db_scheme" where
  "put_teams t s = s\<lparr>teams := t\<rparr>"

definition put_members :: "team_member table \<Rightarrow> 'z db_scheme \<Rightarrow> 'z db_scheme" where
  "put_members t s = s\<lparr>members := t\<rparr>"

definition put_items :: "workspace_item table \<Rightarrow> 'z db_scheme \<Rightarrow> 'z db_scheme" where
  "put_items t s = s\<lparr>items := t\<rparr>"

definition put_stats :: "daily_stats table \<Rightarrow> 'z db_scheme \<Rightarrow> 'z db_scheme" where
  "put_stats t s = s\<lparr>stats := t\<rparr>"

definition put_products :: "product table \<Rightarrow> 'z db_scheme \<Rightarrow> 'z db_scheme" where
  "put_products t s = s\<lparr>products := t\<rparr>"

definition put_orders :: "order table \<Rightarrow> 'z db_scheme \<Rightarrow> 'z db_scheme" where
  "put_orders t s = s\<lparr>orders := t\<rparr>"

definition put_oitems :: "order_item table \<Rightarrow> 'z db_scheme \<Rightarrow> 'z db_scheme" where
  "put_oitems t s = s\<lparr>oitems := t\<rparr>"

definition put_notifs :: "notification table \<Rightarrow> 'z db_scheme \<Rightarrow> 'z db_scheme" where
  "put_notifs t s = s\<lparr>notifs := t\<rparr>"

lemmas put_defs = put_users_def put_projects_def put_issues_def put_comments_def put_teams_def
  put_members_def put_items_def put_stats_def put_products_def put_orders_def put_oitems_def
  put_notifs_def

section \<open>The in-memory client\<close>

definition mem_delegate :: "('r \<Rightarrow> int) \<Rightarrow> 'r delegate" where
  "mem_delegate key = \<lparr>
     findFirst = (\<lambda>w t. List.find w (rows t)),
     findMany = (\<lambda>w le t. sort_by le (filter w (rows t))),
     countRows = (\<lambda>w t. length (filter w (rows t))),
     createRow = (\<lambda>chk mk t. let i = seq t + 1 in
       case chk (mk i) of Some e \<Rightarrow> Inl e
       | None \<Rightarrow> Inr (mk i, \<lparr>rows = rows t @ [mk i], seq = i\<rparr>)),
     updateRow = (\<lambda>chk k f t. case List.find (\<lambda>r. key r = k) (rows t) of
         None \<Rightarrow> Inl P2025
       | Some r \<Rightarrow> (case chk (f r) of Some e \<Rightarrow> Inl e
           | None \<Rightarrow> Inr (f r, t\<lparr>rows := map (\<lambda>x. if key x = k then f x else x) (rows t)\<rparr>))),
     deleteRow = (\<lambda>k t. case List.find (\<lambda>r. key r = k) (rows t) of
         None \<Rightarrow> Inl P2025
       | Some r \<Rightarrow> Inr (r, t\<lparr>rows := filter (\<lambda>x. key x \<noteq> k) (rows t)\<rparr>))\<rparr>"

definition mem_prisma :: prisma where
  "mem_prisma = \<lparr>user_d = mem_delegate user_id, project_d = mem_delegate project_id,
     issue_d = mem_delegate issue_id, comment_d = mem_delegate comment_id,
     team_d = mem_delegate team_id, member_d = mem_delegate member_id,
     item_d = mem_delegate item_id, stats_d = mem_delegate stats_id,
     product_d = mem_delegate product_id, order_d = mem_delegate order_id,
     oitem_d = mem_delegate oitem_id, notif_d = mem_delegate notif_id\<rparr>"

section \<open>Integrity\<close>

definition tables_wf :: "'z db_scheme \<Rightarrow> bool" where
  "tables_wf s = (table_wf user_id (users s) \<and> table_wf project_id (projects s) \<and>
     table_wf issue_id (issues s) \<and> table_wf comment_id (comments s) \<and>
     table_wf team_id (teams s) \<and> table_wf member_id (members s) \<and>
     table_wf item_id (items s) \<and> table_wf stats_id (stats s) \<and>
     table_wf product_id (products s) \<and> table_wf order_id (orders s) \<and>
     table_wf oitem_id (oitems s) \<and> table_wf notif_id (notifs s))"

definition passes :: "('z db_scheme \<Rightarrow> 'r \<Rightarrow> prisma_error option) \<Rightarrow> 'r table \<Rightarrow> 'z db_scheme \<Rightarrow> bool" where
  "passes chk t s = list_all (\<lambda>r. chk s r = None) (rows t)"

definition rows_ok :: "'z db_scheme \<Rightarrow> bool" where
  "rows_ok s = (passes user_check (users s) s \<and> passes issue_check (issues s) s \<and>
     passes comment_check (comments s) s \<and> passes member_check (members s) s \<and>
     passes item_check (items s) s \<and> passes stats_check (stats s) s \<and>
     passes order_check (orders s) s \<and> passes oitem_check (oitems s) s \<and>
     passes notif_check (notifs s) s)"

definition db_inv :: "'z db_scheme \<Rightarrow> bool" where
  "db_inv s = (tables_wf s \<and> rows_ok s)"

section \<open>Laws of one delegate\<close>

lemma has_row_iff: "has_row key t k \<longleftrightarrow> (\<exists>r \<in> set (rows t). key r = k)"
  by (auto simp: has_row_def list_ex_iff)

lemma has_row_image: "has_row key t k \<longleftrightarrow> k \<in> key ` set (rows t)"
  by (auto simp: has_row_iff)

lemma update_keys:
  assumes "\<And>x. key (f x) = key x"
  shows "map key (map (\<lambda>x. if key x = k then f x else x) xs) = map key xs"
  by (simp add: assms)

lemma has_row_append [simp]:
  "has_row key \<lparr>rows = rows t @ [r], seq = i\<rparr> k \<longleftrightarrow> has_row key t k \<or> key r = k"
  by (auto simp: has_row_iff)

lemma has_row_update [simp]:
  assumes "\<And>x. key (f x) = key x"
  shows "has_row key (t\<lparr>rows := map (\<lambda>x. if key x = k then f x else x) (rows t)\<rparr>) j \<longleftrightarrow> has_row key t j"
  using arg_cong [OF update_keys [of key f k "rows t"], of set]
  by (simp add: assms has_row_image del: map_map)

lemma has_row_delete [simp]:
  "has_row key (t\<lparr>rows := filter (\<lambda>x. key x \<noteq> k) (rows t)\<rparr>) j \<longleftrightarrow> has_row key t j \<and> j \<noteq> k"
  by (auto simp: has_row_iff)

lemma table_wf_empty [simp]: "table_wf key empty_table"
  by (simp add: table_wf_def empty_table_def)

lemma table_wf_append:
  "table_wf key t \<Longrightarrow> seq t < i \<Longrightarrow> key r = i \<Longrightarrow> table_wf key \<lparr>rows = rows t @ [r], seq = i\<rparr>"
  by (fastforce simp: table_wf_def list_all_iff)

lemma table_wf_update:
  assumes "table_wf key t" and "\<And>x. key (f x) = key x"
  shows "table_wf key (t\<lparr>rows := map (\<lambda>x. if key x = k then f x else x) (rows t)\<rparr>)"
  using assms update_keys [of key f k "rows t"]
  by (auto simp: table_wf_def list_all_iff simp del: map_map)

lemma table_wf_filter:
  "table_wf key t \<Longrightarrow> table_wf key (t\<lparr>rows := filter w (rows t)\<rparr>)"
  by (auto simp: table_wf_def list_all_iff distinct_map_filter)

lemma table_wf_unique:
  "table_wf key t \<Longrightarrow> x \<in> set (rows t) \<Longrightarrow> y \<in> set (rows t) \<Longrightarrow> key x = key y \<Longrightarrow> x = y"
  unfolding table_wf_def using distinct_key_eqD by metis

context prisma_table begin

lemma findMany_set: "set (findMany D w le t) = {r \<in> set (rows t). w r}"
proof -
  have "set_mset (mset (findMany D w le t)) = set_mset (filter_mset w (mset (rows t)))"
    by (simp add: findMany_mset)
  then show ?thesis by auto
qed

lemma findMany_length: "length (findMany D w le t) = length (filter w (rows t))"
  by (metis findMany_mset mset_filter size_mset)

lemma findMany_distinct:
  assumes "table_wf key t"
  shows "distinct (map key (findMany D w le t))"
proof -
  have "mset (map key (findMany D w le t)) = mset (map key (filter w (rows t)))"
    by (simp add: findMany_mset)
  moreover have "distinct (map key (filter w (rows t)))"
    using assms by (simp add: table_wf_def distinct_map_filter)
  ultimately show ?thesis by (metis mset_eq_imp_distinct_iff)
qed

lemma find_key_some:
  assumes "table_wf key t" and "r \<in> set (rows t)"
  shows "findFirst D (\<lambda>x. key x = key r) t = Some r"
proof (cases "findFirst D (\<lambda>x. key x = key r) t")
  case None
  then show ?thesis using assms(2) by (auto simp: findFirst_none)
next
  case (Some x)
  then have "x \<in> set (rows t)" and "key x = key r" using findFirst_some by blast+
  with assms Some show ?thesis using table_wf_unique by fastforce
qed

lemma find_key_has_row:
  "findFirst D (\<lambda>x. key x = k) t = None \<longleftrightarrow> \<not> has_row key t k"
  by (auto simp: findFirst_none has_row_iff)

lemma create_cases:
  obtains i where "seq (tab s) < i" and
    "q_create D tab put chk mk s =
      (case chk s (mk i) of Some e \<Rightarrow> (Inl (PrismaError e), s)
       | None \<Rightarrow> (Inr (mk i), put \<lparr>rows = rows (tab s) @ [mk i], seq = i\<rparr> s))"
proof -
  obtain i where i: "seq (tab s) < i" "createRow D (chk s) mk (tab s) =
      (case chk s (mk i) of Some e \<Rightarrow> Inl e
       | None \<Rightarrow> Inr (mk i, \<lparr>rows = rows (tab s) @ [mk i], seq = i\<rparr>))"
    using createRow_eq by blast
  show ?thesis
    by (rule that [OF i(1)]) (auto simp: q_create_def i(2) split: option.splits)
qed

lemma preserves_create:
  assumes "\<And>s i. I s \<Longrightarrow> seq (tab s) < i \<Longrightarrow> chk s (mk i) = None \<Longrightarrow>
      I (put \<lparr>rows = rows (tab s) @ [mk i], seq = i\<rparr> s)"
  shows "preserves I (q_create D tab put chk mk)"
proof (rule preservesI)
  fix s assume "I s"
  obtain i where i: "seq (tab s) < i" "q_create D tab put chk mk s =
      (case chk s (mk i) of Some e \<Rightarrow> (Inl (PrismaError e), s)
       | None \<Rightarrow> (Inr (mk i), put \<lparr>rows = rows (tab s) @ [mk i], seq = i\<rparr> s))"
    by (rule create_cases)
  then show "I (snd (q_create D tab put chk mk s))"
    using \<open>I s\<close> assms by (auto split: option.splits)
qed

lemma update_eq:
  assumes "table_wf key (tab s)" and "r \<in> set (rows (tab s))"
  shows "q_update D tab put chk (key r) f s =
      (case chk s (f r) of Some e \<Rightarrow> (Inl (PrismaError e), s)
       | None \<Rightarrow> (Inr (f r), put ((tab s)\<lparr>rows :=
            map (\<lambda>x. if key x = key r then f x else x) (rows (tab s))\<rparr>) s))"
  by (auto simp: q_update_def updateRow_found [OF assms] split: option.splits)

lemma update_missing:
  "\<not> has_row key (tab s) k \<Longrightarrow> q_update D tab put chk k f s = (Inl (PrismaError P2025), s)"
  by (simp add: q_update_def updateRow_missing)

lemma preserves_update:
  assumes wf: "\<And>s. I s \<Longrightarrow> table_wf key (tab s)"
    and step: "\<And>s r. I s \<Longrightarrow> r \<in> set (rows (tab s)) \<Longrightarrow> key r = k \<Longrightarrow> chk s (f r) = None \<Longrightarrow>
      I (put ((tab s)\<lparr>rows := map (\<lambda>x. if key x = k then f x else x) (rows (tab s))\<rparr>) s)"
  shows "preserves I (q_update D tab put chk k f)"
proof (rule preservesI)
  fix s assume I: "I s"
  show "I (snd (q_update D tab put chk k f s))"
  proof (cases "has_row key (tab s) k")
    case True
    then obtain r where "r \<in> set (rows (tab s))" "key r = k" by (auto simp: has_row_iff)
    then show ?thesis
      using update_eq [of tab s r put chk f] wf [OF I] step I by (auto split: option.splits)
  next
    case False
    then show ?thesis using I by (simp add: update_missing)
  qed
qed

lemma delete_eq:
  assumes "table_wf key (tab s)" and "r \<in> set (rows (tab s))"
  shows "q_delete D tab put cascade (key r) s =
      (Inr r, cascade (key r) (put ((tab s)\<lparr>rows := filter (\<lambda>x. key x \<noteq> key r) (rows (tab s))\<rparr>) s))"
  by (simp add: q_delete_def deleteRow_found [OF assms])

lemma delete_missing:
  "\<not> has_row key (tab s) k \<Longrightarrow> q_delete D tab put cascade k s = (Inl (PrismaError P2025), s)"
  by (simp add: q_delete_def deleteRow_missing)

lemma preserves_delete:
  assumes wf: "\<And>s. I s \<Longrightarrow> table_wf key (tab s)"
    and step: "\<And>s. I s \<Longrightarrow>
      I (cascade k (put ((tab s)\<lparr>rows := filter (\<lambda>x. key x \<noteq> k) (rows (tab s))\<rparr>) s))"
  shows "preserves I (q_delete D tab put cascade k)"
proof (rule preservesI)
  fix s assume I: "I s"
  show "I (snd (q_delete D tab put cascade k s))"
  proof (cases "has_row key (tab s) k")
    case True
    then obtain r where "r \<in> set (rows (tab s))" "key r = k" by (auto simp: has_row_iff)
    then show ?thesis
      using delete_eq [of tab s r put cascade] wf [OF I] step I by auto
  next
    case False
    then show ?thesis using I by (simp add: delete_missing)
  qed
qed

end

context prisma_table begin

lemma related_found:
  assumes "table_wf key (tab s)" and "r \<in> set (rows (tab s))"
  shows "q_related D tab (\<lambda>x. key x = key r) s = (Inr r, s)"
  using find_key_some [OF assms] by (simp add: q_related_def q_first_def)

lemma related_has_row:
  assumes "table_wf key (tab s)" and "has_row key (tab s) k"
  obtains r where "r \<in> set (rows (tab s))" "key r = k" "q_related D tab (\<lambda>x. key x = k) s = (Inr r, s)"
  using assms related_found unfolding has_row_iff by metis

end

lemma read_only_q [simp]:
  "read_only (q_first D tab w)" "read_only (q_many D tab w le)" "read_only (q_count D tab w)"
  by (simp_all add: q_first_def q_many_def q_count_def)

lemma preserves_q [simp, intro]:
  "preserves I (q_first D tab w)" "preserves I (q_many D tab w le)" "preserves I (q_count D tab w)"
  by (simp_all add: q_first_def q_many_def q_count_def)

text \<open>A write to one table keeps what does not depend on it.\<close>

lemma preserves_q_put:
  assumes "\<And>t s. I s \<Longrightarrow> I (put t s)"
  shows "preserves I (q_create D tab put chk mk)" "preserves I (q_update D tab put chk k f)"
    "(\<And>k s. I s \<Longrightarrow> I (cascade k s)) \<Longrightarrow> preserves I (q_delete D tab put cascade k)"
  using assms
  by (auto simp: preserves_def q_create_def q_update_def q_delete_def split: sum.splits)

lemma bind_q [simp]:
  "bind_action (q_first D tab w) f s = f (findFirst D w (tab s)) s"
  "bind_action (q_many D tab w le) g s = g (findMany D w le (tab s)) s"
  "bind_action (q_count D tab w) h s = h (countRows D w (tab s)) s"
  by (simp_all add: q_first_def q_many_def q_count_def)

lemma read_only_related [simp]: "read_only (q_related D tab w)"
  unfolding q_related_def by (intro read_only_bind read_only_option) simp_all

lemma preserves_related [simp, intro]: "preserves I (q_related D tab w)"
  by (rule read_only_preserves) simp

lemma atomic_rollback [simp]: "atomic rollback_tx"
  by (simp add: atomic_def rollback_tx_def)

lemma preserves_atomic: "atomic tx \<Longrightarrow> preserves I m \<Longrightarrow> preserves I (tx m)"
  unfolding atomic_def preserves_def by (auto split: prod.splits sum.splits)

section \<open>The in-memory client satisfies the laws\<close>

lemma mem_delegate_laws: "prisma_table (mem_delegate key) key"
proof
  fix w t r le chk mk f k
  show "findFirst (mem_delegate key) w t = None \<longleftrightarrow> (\<forall>r \<in> set (rows t). \<not> w r)"
    by (auto simp: mem_delegate_def find_None_iff)
  show "findFirst (mem_delegate key) w t = Some r \<Longrightarrow> r \<in> set (rows t) \<and> w r"
    by (auto simp: mem_delegate_def find_Some_iff)
  show "mset (findMany (mem_delegate key) w le t) = filter_mset w (mset (rows t))"
    by (simp add: mem_delegate_def)
  show "total_preorder le \<Longrightarrow> sorted_wrt le (findMany (mem_delegate key) w le t)"
    by (simp add: mem_delegate_def sorted_sort_by)
  show "countRows (mem_delegate key) w t = length (filter w (rows t))"
    by (simp add: mem_delegate_def)
  show "\<exists>i > seq t. createRow (mem_delegate key) chk mk t =
      (case chk (mk i) of Some e \<Rightarrow> Inl e
       | None \<Rightarrow> Inr (mk i, \<lparr>rows = rows t @ [mk i], seq = i\<rparr>))"
    by (intro exI [of _ "seq t + 1"]) (simp add: mem_delegate_def Let_def)
  show "\<not> has_row key t k \<Longrightarrow> updateRow (mem_delegate key) chk k f t = Inl P2025"
    by (auto simp: mem_delegate_def has_row_iff find_None_iff split: option.splits dest!: find_Some_iff [THEN iffD1])
  show "\<not> has_row key t k \<Longrightarrow> deleteRow (mem_delegate key) k t = Inl P2025"
    by (auto simp: mem_delegate_def has_row_iff find_None_iff split: option.splits dest!: find_Some_iff [THEN iffD1])
next
  fix t :: "'a table" and r and chk :: "'a \<Rightarrow> prisma_error option" and f
  assume wf: "table_wf key t" and r: "r \<in> set (rows t)"
  have f: "List.find (\<lambda>x. key x = key r) (rows t) = Some r"
  proof (cases "List.find (\<lambda>x. key x = key r) (rows t)")
    case None
    then show ?thesis using r by (auto simp: find_None_iff)
  next
    case (Some x)
    then have "x \<in> set (rows t)" "key x = key r" by (auto simp: find_Some_iff)
    then show ?thesis using Some table_wf_unique [OF wf _ r] by auto
  qed
  show "updateRow (mem_delegate key) chk (key r) f t =
      (case chk (f r) of Some e \<Rightarrow> Inl e
       | None \<Rightarrow> Inr (f r, t\<lparr>rows := map (\<lambda>x. if key x = key r then f x else x) (rows t)\<rparr>))"
    by (simp add: mem_delegate_def f)
  show "deleteRow (mem_delegate key) (key r) t =
      Inr (r, t\<lparr>rows := filter (\<lambda>x. key x \<noteq> key r) (rows t)\<rparr>)"
    by (simp add: mem_delegate_def f)
qed

interpretation mem_users: prisma_table "mem_delegate user_id" user_id
  by (rule mem_delegate_laws)

interpretation mem: prisma_client mem_prisma
  by (rule prisma_client.intro) (simp_all add: mem_prisma_def mem_delegate_laws)

sublocale prisma_client \<subseteq> user: prisma_table "user_d P" user_id
  by (rule user_table)

sublocale prisma_client \<subseteq> project: prisma_table "project_d P" project_id
  by (rule project_table)

sublocale prisma_client \<subseteq> issue: prisma_table "issue_d P" issue_id
  by (rule issue_table)

sublocale prisma_client \<subseteq> comment: prisma_table "comment_d P" comment_id
  by (rule comment_table)

sublocale prisma_client \<subseteq> team: prisma_table "team_d P" team_id
  by (rule team_table)

sublocale prisma_client \<subseteq> member: prisma_table "member_d P" member_id
  by (rule member_table)

sublocale prisma_client \<subseteq> item: prisma_table "item_d P" item_id
  by (rule item_table)

sublocale prisma_client \<subseteq> stat: prisma_table "stats_d P" stats_id
  by (rule stats_table)

sublocale prisma_client \<subseteq> product: prisma_table "product_d P" product_id
  by (rule product_table)

sublocale prisma_client \<subseteq> order: prisma_table "order_d P" order_id
  by (rule order_table)

sublocale prisma_client \<subseteq> oitem: prisma_table "oitem_d P" oitem_id
  by (rule oitem_table)

sublocale prisma_client \<subseteq> notif: prisma_table "notif_d P" notif_id
  by (rule notif_table)

end
