(* ===== verification/Integrity.thy ===== *)
theory Integrity
  imports Database
begin

text \<open>
  The writes of the services keep the integrity of the store: one lemma per table and kind
  of write.  The constraint the database checks on the written row is exactly what its
  lemma needs; rows that refer to a table stay valid when the table grows.
\<close>

lemmas check_defs = user_check_def issue_check_def comment_check_def member_check_def
  item_check_def stats_check_def order_check_def oitem_check_def notif_check_def

lemmas inv_defs = db_inv_def tables_wf_def rows_ok_def

lemma passes_iff: "passes chk t s \<longleftrightarrow> (\<forall>r \<in> set (rows t). chk s r = None)"
  by (simp add: passes_def list_all_iff)

lemma check_none [simp]:
  "(if b then None else Some e) = None \<longleftrightarrow> b" "(if b then Some e else None) = None \<longleftrightarrow> \<not> b"
  "(if a then Some e else if b then None else Some e') = None \<longleftrightarrow> \<not> a \<and> b"
  by auto

lemma db_inv_empty: "db_inv empty_db"
  by (simp add: inv_defs empty_db_def passes_iff) (simp add: empty_table_def)

lemma wf_tables:
  assumes "db_inv s"
  shows "table_wf user_id (users s)" "table_wf project_id (projects s)"
    "table_wf issue_id (issues s)" "table_wf comment_id (comments s)"
    "table_wf team_id (teams s)" "table_wf member_id (members s)"
    "table_wf item_id (items s)" "table_wf stats_id (stats s)"
    "table_wf product_id (products s)" "table_wf order_id (orders s)"
    "table_wf oitem_id (oitems s)" "table_wf notif_id (notifs s)"
  using assms by (auto simp: inv_defs)

named_theorems integrity_simps "what it takes to check the constraints of every row after a write"

declare inv_defs [integrity_simps] put_defs [integrity_simps] check_defs [integrity_simps]
  passes_iff [integrity_simps] list_ex_iff [integrity_simps] table_wf_append [integrity_simps]
  table_wf_update [integrity_simps] table_wf_filter [integrity_simps] no_check_def [integrity_simps]
  option.pred_set [integrity_simps] cascade_issue_def [integrity_simps] cascade_product_def [integrity_simps]

section \<open>Creation\<close>

lemma inv_create_user:
  assumes "db_inv s" "seq (users s) < i" "user_id r = i" "user_check s r = None"
  shows "db_inv (put_users \<lparr>rows = rows (users s) @ [r], seq = i\<rparr> s)"
  using assms by (auto simp: integrity_simps split: if_splits option.splits)

lemma inv_create_project:
  assumes "db_inv s" "seq (projects s) < i" "project_id r = i" 
  shows "db_inv (put_projects \<lparr>rows = rows (projects s) @ [r], seq = i\<rparr> s)"
  using assms by (auto simp: integrity_simps split: if_splits option.splits)

lemma inv_create_issue:
  assumes "db_inv s" "seq (issues s) < i" "issue_id r = i" "issue_check s r = None"
  shows "db_inv (put_issues \<lparr>rows = rows (issues s) @ [r], seq = i\<rparr> s)"
  using assms by (auto simp: integrity_simps split: if_splits option.splits)

lemma inv_create_comment:
  assumes "db_inv s" "seq (comments s) < i" "comment_id r = i" "comment_check s r = None"
  shows "db_inv (put_comments \<lparr>rows = rows (comments s) @ [r], seq = i\<rparr> s)"
  using assms by (auto simp: integrity_simps split: if_splits option.splits)

lemma inv_create_team:
  assumes "db_inv s" "seq (teams s) < i" "team_id r = i" 
  shows "db_inv (put_teams \<lparr>rows = rows (teams s) @ [r], seq = i\<rparr> s)"
  using assms by (auto simp: integrity_simps split: if_splits option.splits)

lemma inv_create_member:
  assumes "db_inv s" "seq (members s) < i" "member_id r = i" "member_check s r = None"
  shows "db_inv (put_members \<lparr>rows = rows (members s) @ [r], seq = i\<rparr> s)"
  using assms by (auto simp: integrity_simps split: if_splits option.splits)

lemma inv_create_item:
  assumes "db_inv s" "seq (items s) < i" "item_id r = i" "item_check s r = None"
  shows "db_inv (put_items \<lparr>rows = rows (items s) @ [r], seq = i\<rparr> s)"
  using assms by (auto simp: integrity_simps split: if_splits option.splits)

lemma inv_create_stats:
  assumes "db_inv s" "seq (stats s) < i" "stats_id r = i" "stats_check s r = None"
  shows "db_inv (put_stats \<lparr>rows = rows (stats s) @ [r], seq = i\<rparr> s)"
  using assms by (auto simp: integrity_simps split: if_splits option.splits)

lemma inv_create_product:
  assumes "db_inv s" "seq (products s) < i" "product_id r = i" 
  shows "db_inv (put_products \<lparr>rows = rows (products s) @ [r], seq = i\<rparr> s)"
  using assms by (auto simp: integrity_simps split: if_splits option.splits)

lemma inv_create_order:
  assumes "db_inv s" "seq (orders s) < i" "order_id r = i" "order_check s r = None"
  shows "db_inv (put_orders \<lparr>rows = rows (orders s) @ [r], seq = i\<rparr> s)"
  using assms by (auto simp: integrity_simps split: if_splits option.splits)

lemma inv_create_oitem:
  assumes "db_inv s" "seq (oitems s) < i" "oitem_id r = i" "oitem_check s r = None"
  shows "db_inv (put_oitems \<lparr>rows = rows (oitems s) @ [r], seq = i\<rparr> s)"
  using assms by (auto simp: integrity_simps split: if_splits option.splits)

lemma inv_create_notif:
  assumes "db_inv s" "seq (notifs s) < i" "notif_id r = i" "notif_check s r = None"
  shows "db_inv (put_notifs \<lparr>rows = rows (notifs s) @ [r], seq = i\<rparr> s)"
  using assms by (auto simp: integrity_simps split: if_splits option.splits)

section \<open>Update\<close>

text \<open>
  An update keeps the identifier; the check on the new row is the database's.
\<close>

lemma passes_update:
  assumes "\<And>x. x \<in> set (rows t) \<Longrightarrow> key x \<noteq> k \<Longrightarrow> chk s x = None"
    and "\<And>x. x \<in> set (rows t) \<Longrightarrow> key x = k \<Longrightarrow> chk s (f x) = None"
  shows "passes chk (t\<lparr>rows := map (\<lambda>x. if key x = k then f x else x) (rows t)\<rparr>) s"
  using assms by (auto simp: passes_iff)

lemma set_update_row:
  assumes "table_wf key t" "r \<in> set (rows t)" "key r = k"
  shows "set (map (\<lambda>x. if key x = k then f x else x) (rows t)) =
         insert (f r) {x \<in> set (rows t). key x \<noteq> k}"
proof -
  have "key x = k \<longleftrightarrow> x = r" if "x \<in> set (rows t)" for x
    using table_wf_unique [OF assms(1) that assms(2)] assms(3) by auto
  with assms(2,3) show ?thesis by (auto simp: image_iff)
qed

lemma keys_update_has_row:
  assumes "\<And>x. key (f x) = key x"
  shows "has_row key (t\<lparr>rows := map (\<lambda>x. if key x = k then f x else x) (rows t)\<rparr>) = has_row key t"
  by (intro ext, rule has_row_update, rule assms)

lemma db_inv_put_issues:
  assumes "db_inv s" "table_wf issue_id t" "has_row issue_id t = has_row issue_id (issues s)"
    "passes issue_check t (put_issues t s)"
  shows "db_inv (put_issues t s)"
  using assms by (simp add: inv_defs put_defs passes_iff check_defs)

lemma inv_update_issue:
  assumes "db_inv s" "r \<in> set (rows (issues s))" "issue_id r = k" "issue_check s (f r) = None"
    and key: "\<And>x. issue_id (f x) = issue_id x"
  shows "db_inv (put_issues ((issues s)\<lparr>rows := map (\<lambda>x. if issue_id x = k then f x else x) (rows (issues s))\<rparr>) s)"
proof (rule db_inv_put_issues [OF assms(1)])
  let ?t = "(issues s)\<lparr>rows := map (\<lambda>x. if issue_id x = k then f x else x) (rows (issues s))\<rparr>"
  show "passes issue_check ?t (put_issues ?t s)"
  proof (rule passes_update)
    fix x assume x: "x \<in> set (rows (issues s))" "issue_id x \<noteq> k"
    then have "issue_check s x = None" using assms(1) by (simp add: inv_defs passes_iff)
    then show "issue_check (put_issues ?t s) x = None"
      using assms(2,3,4) x key by (simp add: issue_check_def put_defs)
  next
    fix x assume x: "x \<in> set (rows (issues s))" "issue_id x = k"
    then have "x = r" using table_wf_unique [OF wf_tables(3) [OF assms(1)] x(1) assms(2)] assms(3) by simp
    then show "issue_check (put_issues ?t s) (f x) = None"
      using assms(3,4) key by (simp add: issue_check_def put_defs)
  qed
qed (use assms key wf_tables(3) [OF assms(1)] in \<open>auto simp: table_wf_update keys_update_has_row\<close>)

lemma db_inv_put_members:
  assumes "db_inv s" "table_wf member_id t" "has_row member_id t = has_row member_id (members s)"
    "passes member_check t (put_members t s)"
  shows "db_inv (put_members t s)"
  using assms by (simp add: inv_defs put_defs passes_iff check_defs)

lemma inv_update_member:
  assumes "db_inv s" "r \<in> set (rows (members s))" "member_id r = k" "member_check s (f r) = None"
    and key: "\<And>x. member_id (f x) = member_id x"
  shows "db_inv (put_members ((members s)\<lparr>rows := map (\<lambda>x. if member_id x = k then f x else x) (rows (members s))\<rparr>) s)"
proof (rule db_inv_put_members [OF assms(1)])
  let ?t = "(members s)\<lparr>rows := map (\<lambda>x. if member_id x = k then f x else x) (rows (members s))\<rparr>"
  show "passes member_check ?t (put_members ?t s)"
  proof (rule passes_update)
    fix x assume x: "x \<in> set (rows (members s))" "member_id x \<noteq> k"
    then have "member_check s x = None" using assms(1) by (simp add: inv_defs passes_iff)
    then show "member_check (put_members ?t s) x = None"
      using assms(2,3,4) x key
      by (auto simp: member_check_def put_defs list_ex_iff
          set_update_row [OF wf_tables(6) [OF assms(1)] assms(2,3)] simp del: set_map list.set_map
          split: if_splits)
  next
    fix x assume x: "x \<in> set (rows (members s))" "member_id x = k"
    then have "x = r" using table_wf_unique [OF wf_tables(6) [OF assms(1)] x(1) assms(2)] assms(3) by simp
    then show "member_check (put_members ?t s) (f x) = None"
      using assms(3,4) key by (auto simp: member_check_def put_defs list_ex_iff split: if_splits)
  qed
qed (use assms key wf_tables(6) [OF assms(1)] in \<open>auto simp: table_wf_update keys_update_has_row\<close>)

lemma db_inv_put_items:
  assumes "db_inv s" "table_wf item_id t" "has_row item_id t = has_row item_id (items s)"
    "passes item_check t (put_items t s)"
  shows "db_inv (put_items t s)"
  using assms by (simp add: inv_defs put_defs passes_iff check_defs)

lemma inv_update_item:
  assumes "db_inv s" "r \<in> set (rows (items s))" "item_id r = k" "item_check s (f r) = None"
    and key: "\<And>x. item_id (f x) = item_id x"
  shows "db_inv (put_items ((items s)\<lparr>rows := map (\<lambda>x. if item_id x = k then f x else x) (rows (items s))\<rparr>) s)"
proof (rule db_inv_put_items [OF assms(1)])
  let ?t = "(items s)\<lparr>rows := map (\<lambda>x. if item_id x = k then f x else x) (rows (items s))\<rparr>"
  show "passes item_check ?t (put_items ?t s)"
  proof (rule passes_update)
    fix x assume x: "x \<in> set (rows (items s))" "item_id x \<noteq> k"
    then have "item_check s x = None" using assms(1) by (simp add: inv_defs passes_iff)
    then show "item_check (put_items ?t s) x = None"
      using assms(2,3,4) x key by (simp add: item_check_def put_defs)
  next
    fix x assume x: "x \<in> set (rows (items s))" "item_id x = k"
    then have "x = r" using table_wf_unique [OF wf_tables(7) [OF assms(1)] x(1) assms(2)] assms(3) by simp
    then show "item_check (put_items ?t s) (f x) = None"
      using assms(3,4) key by (simp add: item_check_def put_defs)
  qed
qed (use assms key wf_tables(7) [OF assms(1)] in \<open>auto simp: table_wf_update keys_update_has_row\<close>)

lemma db_inv_put_stats:
  assumes "db_inv s" "table_wf stats_id t" "has_row stats_id t = has_row stats_id (stats s)"
    "passes stats_check t (put_stats t s)"
  shows "db_inv (put_stats t s)"
  using assms by (simp add: inv_defs put_defs passes_iff check_defs)

lemma inv_update_stats:
  assumes "db_inv s" "r \<in> set (rows (stats s))" "stats_id r = k" "stats_check s (f r) = None"
    and key: "\<And>x. stats_id (f x) = stats_id x"
  shows "db_inv (put_stats ((stats s)\<lparr>rows := map (\<lambda>x. if stats_id x = k then f x else x) (rows (stats s))\<rparr>) s)"
proof (rule db_inv_put_stats [OF assms(1)])
  let ?t = "(stats s)\<lparr>rows := map (\<lambda>x. if stats_id x = k then f x else x) (rows (stats s))\<rparr>"
  show "passes stats_check ?t (put_stats ?t s)"
  proof (rule passes_update)
    fix x assume x: "x \<in> set (rows (stats s))" "stats_id x \<noteq> k"
    then have "stats_check s x = None" using assms(1) by (simp add: inv_defs passes_iff)
    then show "stats_check (put_stats ?t s) x = None"
      using assms(2,3,4) x key
      by (auto simp: stats_check_def put_defs list_ex_iff
          set_update_row [OF wf_tables(8) [OF assms(1)] assms(2,3)] simp del: set_map list.set_map
          split: if_splits)
  next
    fix x assume x: "x \<in> set (rows (stats s))" "stats_id x = k"
    then have "x = r" using table_wf_unique [OF wf_tables(8) [OF assms(1)] x(1) assms(2)] assms(3) by simp
    then show "stats_check (put_stats ?t s) (f x) = None"
      using assms(3,4) key by (auto simp: stats_check_def put_defs list_ex_iff split: if_splits)
  qed
qed (use assms key wf_tables(8) [OF assms(1)] in \<open>auto simp: table_wf_update keys_update_has_row\<close>)

lemma inv_update_product:
  assumes "db_inv s" and key: "\<And>x. product_id (f x) = product_id x"
  shows "db_inv (put_products ((products s)\<lparr>rows := map (\<lambda>x. if product_id x = k then f x else x) (rows (products s))\<rparr>) s)"
  using assms by (simp add: inv_defs put_defs passes_iff check_defs table_wf_update)

lemma db_inv_put_orders:
  assumes "db_inv s" "table_wf order_id t" "has_row order_id t = has_row order_id (orders s)"
    "passes order_check t (put_orders t s)"
  shows "db_inv (put_orders t s)"
  using assms by (simp add: inv_defs put_defs passes_iff check_defs)

lemma inv_update_order:
  assumes "db_inv s" "r \<in> set (rows (orders s))" "order_id r = k" "order_check s (f r) = None"
    and key: "\<And>x. order_id (f x) = order_id x"
  shows "db_inv (put_orders ((orders s)\<lparr>rows := map (\<lambda>x. if order_id x = k then f x else x) (rows (orders s))\<rparr>) s)"
proof (rule db_inv_put_orders [OF assms(1)])
  let ?t = "(orders s)\<lparr>rows := map (\<lambda>x. if order_id x = k then f x else x) (rows (orders s))\<rparr>"
  show "passes order_check ?t (put_orders ?t s)"
  proof (rule passes_update)
    fix x assume x: "x \<in> set (rows (orders s))" "order_id x \<noteq> k"
    then have "order_check s x = None" using assms(1) by (simp add: inv_defs passes_iff)
    then show "order_check (put_orders ?t s) x = None"
      using assms(2,3,4) x key by (simp add: order_check_def put_defs)
  next
    fix x assume x: "x \<in> set (rows (orders s))" "order_id x = k"
    then have "x = r" using table_wf_unique [OF wf_tables(10) [OF assms(1)] x(1) assms(2)] assms(3) by simp
    then show "order_check (put_orders ?t s) (f x) = None"
      using assms(3,4) key by (simp add: order_check_def put_defs)
  qed
qed (use assms key wf_tables(10) [OF assms(1)] in \<open>auto simp: table_wf_update keys_update_has_row\<close>)

section \<open>Deletion\<close>

lemma inv_delete_issue:
  assumes "db_inv s"
  shows "db_inv (cascade_issue k (put_issues ((issues s)\<lparr>rows := filter (\<lambda>x. issue_id x \<noteq> k) (rows (issues s))\<rparr>) s))"
  using assms by (auto simp: integrity_simps split: if_splits option.splits)

lemma inv_delete_member:
  assumes "db_inv s"
  shows "db_inv (put_members ((members s)\<lparr>rows := filter (\<lambda>x. member_id x \<noteq> k) (rows (members s))\<rparr>) s)"
  using assms by (auto simp: integrity_simps split: if_splits option.splits)

lemma inv_delete_item:
  assumes "db_inv s"
  shows "db_inv (put_items ((items s)\<lparr>rows := filter (\<lambda>x. item_id x \<noteq> k) (rows (items s))\<rparr>) s)"
  using assms by (auto simp: integrity_simps split: if_splits option.splits)

lemma inv_delete_product:
  assumes "db_inv s"
  shows "db_inv (cascade_product k (put_products ((products s)\<lparr>rows := filter (\<lambda>x. product_id x \<noteq> k) (rows (products s))\<rparr>) s))"
  using assms by (auto simp: integrity_simps split: if_splits option.splits)

section \<open>Client calls keep the integrity\<close>

context prisma_client begin

lemma keep_user_create [intro]:
  "(\<And>i. user_id (mk i) = i) \<Longrightarrow> preserves db_inv (q_create (user_d P) users put_users user_check mk)"
  by (rule user.preserves_create) (simp add: inv_create_user)

lemma keep_project_create [intro]:
  "(\<And>i. project_id (mk i) = i) \<Longrightarrow> preserves db_inv (q_create (project_d P) projects put_projects no_check mk)"
  by (rule project.preserves_create) (simp add: inv_create_project)

lemma keep_issue_create [intro]:
  "(\<And>i. issue_id (mk i) = i) \<Longrightarrow> preserves db_inv (q_create (issue_d P) issues put_issues issue_check mk)"
  by (rule issue.preserves_create) (simp add: inv_create_issue)

lemma keep_comment_create [intro]:
  "(\<And>i. comment_id (mk i) = i) \<Longrightarrow> preserves db_inv (q_create (comment_d P) comments put_comments comment_check mk)"
  by (rule comment.preserves_create) (simp add: inv_create_comment)

lemma keep_team_create [intro]:
  "(\<And>i. team_id (mk i) = i) \<Longrightarrow> preserves db_inv (q_create (team_d P) teams put_teams no_check mk)"
  by (rule team.preserves_create) (simp add: inv_create_team)

lemma keep_member_create [intro]:
  "(\<And>i. member_id (mk i) = i) \<Longrightarrow> preserves db_inv (q_create (member_d P) members put_members member_check mk)"
  by (rule member.preserves_create) (simp add: inv_create_member)

lemma keep_item_create [intro]:
  "(\<And>i. item_id (mk i) = i) \<Longrightarrow> preserves db_inv (q_create (item_d P) items put_items item_check mk)"
  by (rule item.preserves_create) (simp add: inv_create_item)

lemma keep_stats_create [intro]:
  "(\<And>i. stats_id (mk i) = i) \<Longrightarrow> preserves db_inv (q_create (stats_d P) stats put_stats stats_check mk)"
  by (rule stat.preserves_create) (simp add: inv_create_stats)

lemma keep_product_create [intro]:
  "(\<And>i. product_id (mk i) = i) \<Longrightarrow> preserves db_inv (q_create (product_d P) products put_products no_check mk)"
  by (rule product.preserves_create) (simp add: inv_create_product)

lemma keep_order_create [intro]:
  "(\<And>i. order_id (mk i) = i) \<Longrightarrow> preserves db_inv (q_create (order_d P) orders put_orders order_check mk)"
  by (rule order.preserves_create) (simp add: inv_create_order)

lemma keep_oitem_create [intro]:
  "(\<And>i. oitem_id (mk i) = i) \<Longrightarrow> preserves db_inv (q_create (oitem_d P) oitems put_oitems oitem_check mk)"
  by (rule oitem.preserves_create) (simp add: inv_create_oitem)

lemma keep_notif_create [intro]:
  "(\<And>i. notif_id (mk i) = i) \<Longrightarrow> preserves db_inv (q_create (notif_d P) notifs put_notifs notif_check mk)"
  by (rule notif.preserves_create) (simp add: inv_create_notif)

lemma keep_issue_update [intro]:
  "(\<And>x. issue_id (f x) = issue_id x) \<Longrightarrow> preserves db_inv (q_update (issue_d P) issues put_issues issue_check k f)"
  by (rule issue.preserves_update) (auto simp: wf_tables inv_update_issue)

lemma keep_member_update [intro]:
  "(\<And>x. member_id (f x) = member_id x) \<Longrightarrow> preserves db_inv (q_update (member_d P) members put_members member_check k f)"
  by (rule member.preserves_update) (auto simp: wf_tables inv_update_member)

lemma keep_item_update [intro]:
  "(\<And>x. item_id (f x) = item_id x) \<Longrightarrow> preserves db_inv (q_update (item_d P) items put_items item_check k f)"
  by (rule item.preserves_update) (auto simp: wf_tables inv_update_item)

lemma keep_stats_update [intro]:
  "(\<And>x. stats_id (f x) = stats_id x) \<Longrightarrow> preserves db_inv (q_update (stats_d P) stats put_stats stats_check k f)"
  by (rule stat.preserves_update) (auto simp: wf_tables inv_update_stats)

lemma keep_product_update [intro]:
  "(\<And>x. product_id (f x) = product_id x) \<Longrightarrow> preserves db_inv (q_update (product_d P) products put_products no_check k f)"
  by (rule product.preserves_update) (auto simp: wf_tables inv_update_product)

lemma keep_order_update [intro]:
  "(\<And>x. order_id (f x) = order_id x) \<Longrightarrow> preserves db_inv (q_update (order_d P) orders put_orders order_check k f)"
  by (rule order.preserves_update) (auto simp: wf_tables inv_update_order)

lemma keep_issue_delete [intro]:
  "preserves db_inv (q_delete (issue_d P) issues put_issues cascade_issue k)"
  by (rule issue.preserves_delete) (auto simp: wf_tables inv_delete_issue)

lemma keep_member_delete [intro]:
  "preserves db_inv (q_delete (member_d P) members put_members (\<lambda>_ s. s) k)"
  by (rule member.preserves_delete) (auto simp: wf_tables inv_delete_member)

lemma keep_item_delete [intro]:
  "preserves db_inv (q_delete (item_d P) items put_items (\<lambda>_ s. s) k)"
  by (rule item.preserves_delete) (auto simp: wf_tables inv_delete_item)

lemma keep_product_delete [intro]:
  "preserves db_inv (q_delete (product_d P) products put_products cascade_product k)"
  by (rule product.preserves_delete) (auto simp: wf_tables inv_delete_product)

end

end
