(* ===== verification/Users_Auth.thy ===== *)
theory Users_Auth
  imports Integrity
begin

text \<open>
  Registration and authentication of the Nest backend: \<open>user/user.service.ts\<close>,
  \<open>user/user.controller.ts\<close>, \<open>auth/auth.service.ts\<close>, \<open>auth/auth.controller.ts\<close>, the JWT
  strategy and guard, and their DTOs.

  \<open>bcryptjs\<close>, \<open>@nestjs/jwt\<close> and the e-mail test of \<open>class-validator\<close> are outside the
  repository and are parameters (\<open>bcrypt_lib\<close>, \<open>jwt_lib\<close>, \<open>isEmail\<close>); the locales
  \<open>bcrypt\<close> and \<open>jwt_tokens\<close> state what the code relies on.  \<open>AuthService\<close> gets its user
  service injected, so its definition takes the two methods it calls, and the locale
  \<open>user_directory\<close> is the contract between the two.
\<close>

section \<open>Definitions\<close>

record CreateUserDto =
  cu_email :: string
  cu_password :: string
  cu_nickname :: string

record LoginDto =
  login_email :: string
  login_password :: string

record UserResponseDto =
  ur_id :: int
  ur_email :: string
  ur_nickname :: string
  ur_createdAt :: time

record JwtPayload =
  jwt_sub :: int
  jwt_email :: string

record CurrentUserPayload =
  cur_userId :: int
  cur_email :: string

record AuthResponseDto =
  auth_accessToken :: string
  auth_access_token :: string
  auth_user :: user

record bcrypt_lib =
  bcrypt_hash :: "string \<Rightarrow> string \<Rightarrow> string"
  bcrypt_compare :: "string \<Rightarrow> string \<Rightarrow> bool"

record jwt_lib =
  jwt_sign :: "time \<Rightarrow> JwtPayload \<Rightarrow> string"
  jwt_verify :: "time \<Rightarrow> string \<Rightarrow> JwtPayload option"

text \<open>
  \<open>new UserResponseDto(user)\<close> copies every column of the row into the instance; only the
  exposed ones leave the server, when the serializer interceptor turns the instance into
  the response body.
\<close>

definition serialize_user :: "user \<Rightarrow> UserResponseDto" where
  "serialize_user u = \<lparr>ur_id = user_id u, ur_email = user_email u, ur_nickname = user_nickname u,
     ur_createdAt = user_createdAt u\<rparr>"

definition valid_CreateUserDto :: "(string \<Rightarrow> bool) \<Rightarrow> CreateUserDto \<Rightarrow> bool" where
  "valid_CreateUserDto isEmail d =
     (isEmail (cu_email d) \<and> cu_email d \<noteq> [] \<and>
      cu_password d \<noteq> [] \<and> 6 \<le> length (cu_password d) \<and> cu_nickname d \<noteq> [])"

definition valid_LoginDto :: "(string \<Rightarrow> bool) \<Rightarrow> LoginDto \<Rightarrow> bool" where
  "valid_LoginDto isEmail d =
     (isEmail (login_email d) \<and> login_email d \<noteq> [] \<and> login_password d \<noteq> [])"

definition UserService_create ::
    "prisma \<Rightarrow> bcrypt_lib \<Rightarrow> time \<Rightarrow> string \<Rightarrow> CreateUserDto \<Rightarrow> (exn, 'z db_scheme, user) action" where
  "UserService_create P B now salt d =
     bind_action (q_first (user_d P) users (\<lambda>u. user_email u = cu_email d)) (\<lambda>existingUser.
     case existingUser of
       Some _ \<Rightarrow> throw (ConflictException ''User with this email already exists'')
     | None \<Rightarrow>
         q_create (user_d P) users put_users user_check
           (\<lambda>i. \<lparr>user_id = i, user_email = cu_email d,
                 user_passwordHash = bcrypt_hash B salt (cu_password d),
                 user_nickname = cu_nickname d, user_createdAt = now\<rparr>))"

definition UserService_findByEmail :: "prisma \<Rightarrow> string \<Rightarrow> (exn, 'z db_scheme, user) action" where
  "UserService_findByEmail P email =
     bind_action (q_first (user_d P) users (\<lambda>u. user_email u = email)) (\<lambda>u.
     case u of None \<Rightarrow> throw (NotFoundException ''User'' None) | Some user \<Rightarrow> ret user)"

definition UserService_findById :: "prisma \<Rightarrow> int \<Rightarrow> (exn, 'z db_scheme, user) action" where
  "UserService_findById P uid =
     bind_action (q_first (user_d P) users (\<lambda>u. user_id u = uid)) (\<lambda>u.
     case u of None \<Rightarrow> throw (NotFoundException ''User'' (Some uid)) | Some user \<Rightarrow> ret user)"

definition UserService_validatePassword :: "bcrypt_lib \<Rightarrow> user \<Rightarrow> string \<Rightarrow> bool" where
  "UserService_validatePassword B user password = bcrypt_compare B password (user_passwordHash user)"

definition new_AuthResponseDto :: "string \<Rightarrow> user \<Rightarrow> AuthResponseDto" where
  "new_AuthResponseDto token u =
     \<lparr>auth_accessToken = token, auth_access_token = token, auth_user = u\<rparr>"

definition AuthService_login ::
    "(string \<Rightarrow> (exn, 's, user) action) \<Rightarrow> (user \<Rightarrow> string \<Rightarrow> bool) \<Rightarrow> jwt_lib \<Rightarrow> time \<Rightarrow> LoginDto
      \<Rightarrow> (exn, 's, AuthResponseDto) action" where
  "AuthService_login findByEmail validatePassword J now d =
     bind_action (findByEmail (login_email d)) (\<lambda>user.
     if \<not> validatePassword user (login_password d)
     then throw (UnauthorizedException ''Invalid credentials'')
     else ret (new_AuthResponseDto
            (jwt_sign J now \<lparr>jwt_sub = user_id user, jwt_email = user_email user\<rparr>) user))"

definition AuthService_validateUser :: "(int \<Rightarrow> (exn, 's, user) action) \<Rightarrow> int \<Rightarrow> (exn, 's, user) action" where
  "AuthService_validateUser findById uid = findById uid"

definition JwtStrategy_validate :: "JwtPayload \<Rightarrow> CurrentUserPayload" where
  "JwtStrategy_validate p = \<lparr>cur_userId = jwt_sub p, cur_email = jwt_email p\<rparr>"

definition JwtAuthGuard_handleRequest :: "exn option \<Rightarrow> 'u option \<Rightarrow> exn + 'u" where
  "JwtAuthGuard_handleRequest err user =
     (case (err, user) of
        (None, Some u) \<Rightarrow> Inr u
      | _ \<Rightarrow> Inl (UnauthorizedException ''Invalid or missing authentication token''))"

text \<open>
  The guard on a request: the bearer token, if any, is verified and its payload validated;
  a handler behind \<open>@UseGuards(JwtAuthGuard)\<close> runs with the resulting user.
\<close>

definition jwt_guard :: "jwt_lib \<Rightarrow> time \<Rightarrow> string option \<Rightarrow> exn + CurrentUserPayload" where
  "jwt_guard J now token =
     JwtAuthGuard_handleRequest None
       (case token of None \<Rightarrow> None
        | Some t \<Rightarrow> map_option JwtStrategy_validate (jwt_verify J now t))"

definition with_user ::
    "jwt_lib \<Rightarrow> time \<Rightarrow> string option \<Rightarrow> (CurrentUserPayload \<Rightarrow> (exn, 's, 'a) action) \<Rightarrow> (exn, 's, 'a) action" where
  "with_user J now token handler =
     (case jwt_guard J now token of Inl e \<Rightarrow> throw e | Inr u \<Rightarrow> handler u)"

definition UserController_create ::
    "(string \<Rightarrow> bool) \<Rightarrow> prisma \<Rightarrow> bcrypt_lib \<Rightarrow> time \<Rightarrow> string \<Rightarrow> CreateUserDto
      \<Rightarrow> (exn, 'z db_scheme, UserResponseDto) action" where
  "UserController_create isEmail P B now salt d =
     (if \<not> valid_CreateUserDto isEmail d then throw ValidationError
      else bind_action (UserService_create P B now salt d) (\<lambda>u. ret (serialize_user u)))"

definition AuthController_login ::
    "(string \<Rightarrow> bool) \<Rightarrow> prisma \<Rightarrow> bcrypt_lib \<Rightarrow> jwt_lib \<Rightarrow> time \<Rightarrow> LoginDto
      \<Rightarrow> (exn, 'z db_scheme, string \<times> UserResponseDto) action" where
  "AuthController_login isEmail P B J now d =
     (if \<not> valid_LoginDto isEmail d then throw ValidationError
      else bind_action
        (AuthService_login (UserService_findByEmail P) (UserService_validatePassword B) J now d)
        (\<lambda>r. ret (auth_accessToken r, serialize_user (auth_user r))))"

section \<open>Interfaces\<close>

locale bcrypt =
  fixes B :: bcrypt_lib
  assumes compare_hash: "bcrypt_compare B p (bcrypt_hash B salt p)"

locale jwt_tokens =
  fixes J :: jwt_lib
    and expiresIn :: time
  assumes verify_sign:
    "t \<le> t' \<Longrightarrow> t' < t + expiresIn \<Longrightarrow> jwt_verify J t' (jwt_sign J t p) = Some p"
begin

lemma guard_accepts:
  "t \<le> t' \<Longrightarrow> t' < t + expiresIn \<Longrightarrow>
     jwt_guard J t' (Some (jwt_sign J t p)) = Inr \<lparr>cur_userId = jwt_sub p, cur_email = jwt_email p\<rparr>"
  by (simp add: jwt_guard_def verify_sign JwtStrategy_validate_def JwtAuthGuard_handleRequest_def)

lemma handler_runs:
  "t \<le> t' \<Longrightarrow> t' < t + expiresIn \<Longrightarrow>
     with_user J t' (Some (jwt_sign J t p)) h = h \<lparr>cur_userId = jwt_sub p, cur_email = jwt_email p\<rparr>"
  by (simp add: with_user_def guard_accepts)

end

locale user_directory =
  fixes create :: "CreateUserDto \<Rightarrow> (exn, 's, user) action"
    and findByEmail :: "string \<Rightarrow> (exn, 's, user) action"
    and validatePassword :: "user \<Rightarrow> string \<Rightarrow> bool"
    and inv :: "'s \<Rightarrow> bool"
  assumes create_find: "inv s \<Longrightarrow> create d s = (Inr u, s') \<Longrightarrow> findByEmail (cu_email d) s' = (Inr u, s')"
    and create_password: "inv s \<Longrightarrow> create d s = (Inr u, s') \<Longrightarrow> validatePassword u (cu_password d)"
    and create_email: "inv s \<Longrightarrow> create d s = (Inr u, s') \<Longrightarrow> user_email u = cu_email d"
begin

lemma login_after_create:
  assumes "inv s" and "create d s = (Inr u, s')"
  shows "AuthService_login findByEmail validatePassword J now
           \<lparr>login_email = cu_email d, login_password = cu_password d\<rparr> s' =
         (Inr (new_AuthResponseDto (jwt_sign J now \<lparr>jwt_sub = user_id u, jwt_email = cu_email d\<rparr>) u), s')"
  using create_find [OF assms] create_password [OF assms] create_email [OF assms]
  by (simp add: AuthService_login_def bind_action_def)

end

section \<open>Concrete libraries\<close>

definition plain_bcrypt :: bcrypt_lib where
  "plain_bcrypt = \<lparr>bcrypt_hash = (\<lambda>salt p. ''$2a$10$'' @ p),
     bcrypt_compare = (\<lambda>p h. h = ''$2a$10$'' @ p)\<rparr>"

definition plain_sign :: "time \<Rightarrow> JwtPayload \<Rightarrow> string" where
  "plain_sign t p = show_int t @ CHR ''.'' # show_int (jwt_sub p) @ CHR ''.'' # jwt_email p"

definition plain_verify :: "time \<Rightarrow> time \<Rightarrow> string \<Rightarrow> JwtPayload option" where
  "plain_verify ttl now tok =
     (let t = read_int (takeWhile (\<lambda>c. c \<noteq> CHR ''.'') tok);
          r = tl (dropWhile (\<lambda>c. c \<noteq> CHR ''.'') tok);
          sub = read_int (takeWhile (\<lambda>c. c \<noteq> CHR ''.'') r);
          email = tl (dropWhile (\<lambda>c. c \<noteq> CHR ''.'') r)
      in if t \<le> now \<and> now < t + ttl then Some \<lparr>jwt_sub = sub, jwt_email = email\<rparr> else None)"

definition plain_jwt :: "time \<Rightarrow> jwt_lib" where
  "plain_jwt ttl = \<lparr>jwt_sign = plain_sign, jwt_verify = plain_verify ttl\<rparr>"

interpretation plain_bcrypt: bcrypt plain_bcrypt
  by unfold_locales (simp add: plain_bcrypt_def)

lemma dot_not_digit [simp]: "\<not> is_digit CHR ''.''"
  by (simp add: is_digit_def)

interpretation day_jwt: jwt_tokens "plain_jwt 86400000" 86400000
  by unfold_locales (simp add: plain_jwt_def plain_verify_def plain_sign_def takeWhile_show_int)

section \<open>The user service implements the directory\<close>

context prisma_client begin

lemma user_create_result:
  assumes "UserService_create P B now salt d s = (Inr u, s')"
  obtains i where "seq (users s) < i"
    and "u = \<lparr>user_id = i, user_email = cu_email d, user_passwordHash = bcrypt_hash B salt (cu_password d),
          user_nickname = cu_nickname d, user_createdAt = now\<rparr>"
    and "s' = s\<lparr>users := \<lparr>rows = rows (users s) @ [u], seq = i\<rparr>\<rparr>"
    and "\<forall>v \<in> set (rows (users s)). user_email v \<noteq> cu_email d"
proof -
  let ?mk = "\<lambda>i. \<lparr>user_id = i, user_email = cu_email d,
    user_passwordHash = bcrypt_hash B salt (cu_password d), user_nickname = cu_nickname d,
    user_createdAt = now\<rparr>"
  have none: "findFirst (user_d P) (\<lambda>u. user_email u = cu_email d) (users s) = None"
    using assms by (auto simp: UserService_create_def split: option.splits)
  obtain i where i: "seq (users s) < i" "q_create (user_d P) users put_users user_check ?mk s =
      (case user_check s (?mk i) of Some e \<Rightarrow> (Inl (PrismaError e), s)
       | None \<Rightarrow> (Inr (?mk i), put_users \<lparr>rows = rows (users s) @ [?mk i], seq = i\<rparr> s))"
    by (rule user.create_cases)
  show ?thesis
    using assms none i by (intro that [of i]) (auto simp: UserService_create_def put_users_def
        user.findFirst_none split: option.splits)
qed

lemma user_find_created:
  assumes "UserService_create P B now salt d s = (Inr u, s')"
  shows "UserService_findByEmail P (cu_email d) s' = (Inr u, s')"
proof -
  obtain i where *: "user_email u = cu_email d" "rows (users s') = rows (users s) @ [u]"
    "\<forall>v \<in> set (rows (users s)). user_email v \<noteq> cu_email d"
    using assms by (rule user_create_result) auto
  have "findFirst (user_d P) (\<lambda>u. user_email u = cu_email d) (users s') = Some u"
  proof (cases "findFirst (user_d P) (\<lambda>u. user_email u = cu_email d) (users s')")
    case None
    then show ?thesis using * by (simp add: user.findFirst_none)
  next
    case (Some v)
    then have "v \<in> set (rows (users s'))" "user_email v = cu_email d"
      using user.findFirst_some by blast+
    with * Some show ?thesis by auto
  qed
  then show ?thesis by (simp add: UserService_findByEmail_def)
qed

lemma user_create_inv: "preserves db_inv (UserService_create P B now salt d)"
  unfolding UserService_create_def by (auto intro!: preserves_bind preserves_option keep_user_create)

lemma user_directory_laws:
  assumes "bcrypt B"
  shows "user_directory (UserService_create P B now salt) (UserService_findByEmail P)
           (UserService_validatePassword B) (\<lambda>s :: 'z db_scheme. True)"
proof
  fix d u and s s' :: "'z db_scheme"
  assume c: "UserService_create P B now salt d s = (Inr u, s')"
  show "UserService_findByEmail P (cu_email d) s' = (Inr u, s')"
    by (rule user_find_created [OF c])
  show "UserService_validatePassword B u (cu_password d)"
    using c by (rule user_create_result) (simp add: UserService_validatePassword_def bcrypt.compare_hash [OF assms])
  show "user_email u = cu_email d"
    using c by (rule user_create_result) simp
qed

end

interpretation directory: user_directory "UserService_create mem_prisma plain_bcrypt now salt"
  "UserService_findByEmail mem_prisma" "UserService_validatePassword plain_bcrypt" "\<lambda>s :: db. True"
  for now salt
  by (rule mem.user_directory_laws [OF plain_bcrypt.bcrypt_axioms])

section \<open>Properties\<close>

text \<open>C29: A user who registers can log in with the same credentials, and until the token expires
  every guarded handler that receives it runs as exactly that user.\<close>

theorem register_login_authenticates:
  assumes "prisma_client P" and "bcrypt B" and "jwt_tokens J expiresIn"
    and "UserService_create P B now salt d s = (Inr u, s')"
    and "t \<le> t'" and "t' < t + expiresIn"
  shows "\<exists>r. AuthService_login (UserService_findByEmail P) (UserService_validatePassword B) J t
               \<lparr>login_email = cu_email d, login_password = cu_password d\<rparr> s' = (Inr r, s') \<and>
             with_user J t' (Some (auth_accessToken r)) handler =
               handler \<lparr>cur_userId = user_id u, cur_email = cu_email d\<rparr>"
  using user_directory.login_after_create
      [OF prisma_client.user_directory_laws [OF assms(1,2), of now salt] _ assms(4)]
    jwt_tokens.handler_runs [OF assms(3,5,6), of "\<lparr>jwt_sub = user_id u, jwt_email = cu_email d\<rparr>" handler]
  by (auto simp: new_AuthResponseDto_def)

definition alice :: CreateUserDto where
  "alice = \<lparr>cu_email = ''alice@example.com'', cu_password = ''secret1'', cu_nickname = ''alice''\<rparr>"

definition alice_row :: user where
  "alice_row = \<lparr>user_id = 1, user_email = ''alice@example.com'',
     user_passwordHash = ''$2a$10$secret1'', user_nickname = ''alice'', user_createdAt = 5\<rparr>"

definition alice_db :: db where
  "alice_db = empty_db\<lparr>users := \<lparr>rows = [alice_row], seq = 1\<rparr>\<rparr>"

lemma alice_created:
  "UserService_create mem_prisma plain_bcrypt 5 ''salt'' alice empty_db = (Inr alice_row, alice_db)"
  by (simp add: UserService_create_def mem_prisma_def mem_delegate_def empty_db_def empty_table_def
      q_create_def user_check_def put_users_def alice_def alice_row_def alice_db_def plain_bcrypt_def)

theorem register_login_authenticates_witness:
  "\<exists>r. AuthService_login (UserService_findByEmail mem_prisma)
         (UserService_validatePassword plain_bcrypt) (plain_jwt 86400000) 10
         \<lparr>login_email = ''alice@example.com'', login_password = ''secret1''\<rparr> alice_db = (Inr r, alice_db) \<and>
       with_user (plain_jwt 86400000) 20 (Some (auth_accessToken r)) ret alice_db =
         (Inr \<lparr>cur_userId = 1, cur_email = ''alice@example.com''\<rparr> :: exn + _, alice_db)"
  using register_login_authenticates [OF mem.prisma_client_axioms plain_bcrypt.bcrypt_axioms
      day_jwt.jwt_tokens_axioms alice_created, of 10 20 "ret :: _ \<Rightarrow> (exn, db, _) action"]
  by (auto simp: alice_def alice_row_def)

text \<open>Registration with an address that is already taken is refused with 409 and changes
  nothing; otherwise it stores exactly one new row with a fresh identifier, and the
  integrity of the store, unique addresses included, is kept.\<close>

theorem register_unique_email:
  assumes "prisma_client P" and "db_inv s"
  shows "if \<exists>v \<in> set (rows (users s)). user_email v = cu_email d
         then UserService_create P B now salt d s =
                (Inl (ConflictException ''User with this email already exists''), s)
         else \<exists>u i. UserService_create P B now salt d s =
                (Inr u, s\<lparr>users := \<lparr>rows = rows (users s) @ [u], seq = i\<rparr>\<rparr>) \<and>
                user_id u = i \<and> \<not> has_row user_id (users s) i \<and> user_email u = cu_email d \<and>
                db_inv (s\<lparr>users := \<lparr>rows = rows (users s) @ [u], seq = i\<rparr>\<rparr>)"
proof (cases "\<exists>v \<in> set (rows (users s)). user_email v = cu_email d")
  case True
  then have "findFirst (user_d P) (\<lambda>u. user_email u = cu_email d) (users s) \<noteq> None"
    by (simp add: prisma_table.findFirst_none [OF prisma_client.user_table [OF assms(1)]])
  with True show ?thesis by (auto simp: UserService_create_def)
next
  case False
  let ?mk = "\<lambda>i. \<lparr>user_id = i, user_email = cu_email d,
    user_passwordHash = bcrypt_hash B salt (cu_password d), user_nickname = cu_nickname d,
    user_createdAt = now\<rparr>"
  have none: "findFirst (user_d P) (\<lambda>u. user_email u = cu_email d) (users s) = None"
    using False by (simp add: prisma_table.findFirst_none [OF prisma_client.user_table [OF assms(1)]])
  obtain i where i: "seq (users s) < i" "q_create (user_d P) users put_users user_check ?mk s =
      (case user_check s (?mk i) of Some e \<Rightarrow> (Inl (PrismaError e), s)
       | None \<Rightarrow> (Inr (?mk i), put_users \<lparr>rows = rows (users s) @ [?mk i], seq = i\<rparr> s))"
    by (rule prisma_table.create_cases [OF prisma_client.user_table [OF assms(1)]])
  have chk: "user_check s (?mk i) = None" using False by (auto simp: user_check_def list_ex_iff)
  have fresh: "\<not> has_row user_id (users s) i"
    using i(1) wf_tables(1) [OF assms(2)] by (auto simp: has_row_iff table_wf_def list_all_iff)
  have inv: "db_inv (put_users \<lparr>rows = rows (users s) @ [?mk i], seq = i\<rparr> s)"
    by (rule inv_create_user [OF assms(2) i(1) _ chk]) simp
  show ?thesis
    unfolding if_not_P [OF False]
    by (rule exI [of _ "?mk i"], rule exI [of _ i])
      (use none i(2) chk fresh inv in \<open>simp add: UserService_create_def put_users_def\<close>)
qed

theorem register_unique_email_witness:
  "UserService_create mem_prisma plain_bcrypt 9 ''salt'' alice alice_db =
     (Inl (ConflictException ''User with this email already exists''), alice_db)"
proof -
  have "db_inv alice_db"
    using preservesD [OF mem.user_create_inv db_inv_empty alice_created] .
  from register_unique_email [OF mem.prisma_client_axioms this, of alice plain_bcrypt 9 "''salt''"]
  show ?thesis by (simp add: alice_db_def alice_row_def alice_def)
qed

text \<open>Login answers an unknown address with 404 and a wrong password with 401, and never
  changes the store.\<close>

theorem login_rejects:
  assumes "prisma_client P"
  shows "snd (AuthService_login (UserService_findByEmail P) (UserService_validatePassword B) J now d s) = s \<and>
     (if \<exists>u \<in> set (rows (users s)). user_email u = login_email d
      then (\<forall>u \<in> set (rows (users s)). user_email u = login_email d \<longrightarrow>
              \<not> bcrypt_compare B (login_password d) (user_passwordHash u)) \<longrightarrow>
           fst (AuthService_login (UserService_findByEmail P) (UserService_validatePassword B) J now d s) =
             Inl (UnauthorizedException ''Invalid credentials'')
      else fst (AuthService_login (UserService_findByEmail P) (UserService_validatePassword B) J now d s) =
             Inl (NotFoundException ''User'' None))"
proof (cases "findFirst (user_d P) (\<lambda>u. user_email u = login_email d) (users s)")
  case None
  then show ?thesis
    using prisma_table.findFirst_none [OF prisma_client.user_table [OF assms], THEN iffD1, OF None]
    by (auto simp: AuthService_login_def UserService_findByEmail_def bind_action_def q_first_def)
next
  case (Some u)
  then show ?thesis
    using prisma_table.findFirst_some [OF prisma_client.user_table [OF assms] Some]
    by (auto simp: AuthService_login_def UserService_findByEmail_def bind_action_def q_first_def
        UserService_validatePassword_def)
qed

theorem login_rejects_witness:
  "AuthService_login (UserService_findByEmail mem_prisma) (UserService_validatePassword plain_bcrypt)
     (plain_jwt 86400000) 7 \<lparr>login_email = ''alice@example.com'', login_password = ''wrong''\<rparr> alice_db
   = (Inl (UnauthorizedException ''Invalid credentials''), alice_db)"
  using login_rejects [OF mem.prisma_client_axioms, of plain_bcrypt "plain_jwt 86400000" 7
      "\<lparr>login_email = ''alice@example.com'', login_password = ''wrong''\<rparr>" alice_db]
  by (auto simp: alice_db_def alice_row_def plain_bcrypt_def prod_eq_iff)

end
