(* ===== verification/Js_Number.thy ===== *)
theory Js_Number
  imports Js_Text "HOL-Library.Log_Nat"
begin

text \<open>
  Numbers of the language: IEEE 754 binary64.  A finite number is the rational it denotes;
  \<open>round_double\<close> rounds a rational to the nearest binary64 value, ties to even, with gradual
  underflow, and every arithmetic operator of the code rounds once.  \<open>jsnum\<close> adds the
  infinities and NaN where the code can meet them; values are below the overflow
  threshold \<open>2^1024\<close> elsewhere.  The remainder operator and the comparisons are exact.
\<close>

section \<open>Definitions\<close>

definition pow2 :: "int \<Rightarrow> rat" where
  "pow2 e = (if 0 \<le> e then 2 ^ nat e else 1 / 2 ^ nat (- e))"

text \<open>The exponent of a positive rational: \<open>2^e \<le> x < 2^(e+1)\<close>.\<close>

definition rat_exponent :: "rat \<Rightarrow> int" where
  "rat_exponent x =
     (let (p, q) = quotient_of x; k = bitlen p - bitlen q
      in if pow2 k \<le> x then k else k - 1)"

definition round_half_even :: "rat \<Rightarrow> int" where
  "round_half_even x =
     (let f = \<lfloor>x\<rfloor>; d = x - of_int f
      in if d < 1 / 2 then f else if 1 / 2 < d then f + 1 else if even f then f else f + 1)"

definition round_double :: "rat \<Rightarrow> rat" where
  "round_double x =
     (if x = 0 then 0
      else let e = max (- 1074) (rat_exponent \<bar>x\<bar> - 52)
           in sgn x * of_int (round_half_even (\<bar>x\<bar> / pow2 e)) * pow2 e)"

definition is_double :: "rat \<Rightarrow> bool" where
  "is_double x = (round_double x = x)"

definition js_add :: "rat \<Rightarrow> rat \<Rightarrow> rat" where
  "js_add x y = round_double (x + y)"

definition js_sub :: "rat \<Rightarrow> rat \<Rightarrow> rat" where
  "js_sub x y = round_double (x - y)"

definition js_mul :: "rat \<Rightarrow> rat \<Rightarrow> rat" where
  "js_mul x y = round_double (x * y)"

definition js_div :: "rat \<Rightarrow> rat \<Rightarrow> rat" where
  "js_div x y = round_double (x / y)"

text \<open>The remainder has the sign of the dividend and is exact.\<close>

definition js_mod :: "rat \<Rightarrow> rat \<Rightarrow> rat" where
  "js_mod x y = (let q = \<bar>x\<bar> / \<bar>y\<bar> in sgn x * (\<bar>x\<bar> - \<bar>y\<bar> * of_int \<lfloor>q\<rfloor>))"

text \<open>\<open>Number.prototype.toFixed(2)\<close> on a non-negative number: the integer of hundredths
  nearest to the value, the larger of two.\<close>

definition toFixed2 :: "rat \<Rightarrow> string" where
  "toFixed2 x =
     (let n = nat \<lfloor>x * 100 + 1 / 2\<rfloor>
      in show_nat (n div 100) @ ''.'' @ padStart 2 CHR ''0'' (show_nat (n mod 100)))"

datatype jsnum = Fin rat | Infinity | NegInfinity | NaN

definition isNaN :: "jsnum \<Rightarrow> bool" where
  "isNaN n = (n = NaN)"

definition to_jsnum :: "rat \<Rightarrow> jsnum" where
  "to_jsnum x =
     (let r = round_double x
      in if r \<noteq> 0 \<and> 1024 \<le> rat_exponent \<bar>r\<bar> then (if 0 < r then Infinity else NegInfinity) else Fin r)"

text \<open>
  \<open>Number(s)\<close> of a string: white space around the numeral is ignored, the empty string is
  zero, then a decimal literal with an optional sign, fraction and exponent, or an
  unsigned hexadecimal, octal or binary one; anything else is NaN.  Negative zero is
  zero here: no operation of the code tells them apart.
\<close>

definition pow10 :: "int \<Rightarrow> rat" where
  "pow10 e = (if 0 \<le> e then 10 ^ nat e else 1 / 10 ^ nat (- e))"

definition hex_digit :: "char \<Rightarrow> nat" where
  "hex_digit c = (let n = of_char c :: nat in
     if 48 \<le> n \<and> n \<le> 57 then n - 48 else if 97 \<le> n \<and> n \<le> 102 then n - 87
     else if 65 \<le> n \<and> n \<le> 70 then n - 55 else 16)"

definition radix_literal :: "nat \<Rightarrow> string \<Rightarrow> rat option" where
  "radix_literal b s =
     (if s \<noteq> [] \<and> list_all (\<lambda>c. hex_digit c < b) s
      then Some (of_nat (foldl (\<lambda>acc c. b * acc + hex_digit c) 0 s)) else None)"

definition exponent_part :: "string \<Rightarrow> int option" where
  "exponent_part s =
     (case s of
        [] \<Rightarrow> Some 0
      | c # r \<Rightarrow>
          (if c \<noteq> CHR ''e'' \<and> c \<noteq> CHR ''E'' then None
           else let d = (if r \<noteq> [] \<and> (hd r = CHR ''-'' \<or> hd r = CHR ''+'') then tl r else r)
                in if d \<noteq> [] \<and> list_all is_digit d
                   then Some (if hd r = CHR ''-'' then - int (read_nat d) else int (read_nat d))
                   else None))"

definition decimal_literal :: "string \<Rightarrow> rat option" where
  "decimal_literal s =
     (let ip = takeWhile is_digit s; r = dropWhile is_digit s;
          dot = (r \<noteq> [] \<and> hd r = CHR ''.'');
          fp = (if dot then takeWhile is_digit (tl r) else []);
          r' = (if dot then dropWhile is_digit (tl r) else r)
      in if ip @ fp = [] then None
         else map_option (\<lambda>e. of_nat (read_nat (ip @ fp)) * pow10 (e - int (length fp)))
                (exponent_part r'))"

definition signed_literal :: "string \<Rightarrow> jsnum" where
  "signed_literal s =
     (let neg = (hd s = CHR ''-'');
          u = (if neg \<or> hd s = CHR ''+'' then tl s else s)
      in if u = ''Infinity'' then (if neg then NegInfinity else Infinity)
         else case decimal_literal u of
                None \<Rightarrow> NaN
              | Some q \<Rightarrow> to_jsnum (if neg then - q else q))"

definition js_Number :: "string \<Rightarrow> jsnum" where
  "js_Number str =
     (let s = trim str; p = map to_upper (take 2 s)
      in if s = [] then Fin 0
         else if p = ''0X'' then (case radix_literal 16 (drop 2 s) of None \<Rightarrow> NaN | Some q \<Rightarrow> to_jsnum q)
         else if p = ''0O'' then (case radix_literal 8 (drop 2 s) of None \<Rightarrow> NaN | Some q \<Rightarrow> to_jsnum q)
         else if p = ''0B'' then (case radix_literal 2 (drop 2 s) of None \<Rightarrow> NaN | Some q \<Rightarrow> to_jsnum q)
         else signed_literal s)"

text \<open>A numeral of the pattern \<open>/^-?[0-9]+$/\<close>.\<close>

definition int_numeral :: "string \<Rightarrow> bool" where
  "int_numeral s =
     (let d = (if s \<noteq> [] \<and> hd s = CHR ''-'' then tl s else s) in d \<noteq> [] \<and> list_all is_digit d)"

section \<open>Powers of two\<close>

lemma pow2_pos [simp]: "0 < pow2 e"
  by (simp add: pow2_def)

lemma pow2_nonneg [simp]: "0 \<le> pow2 e"
  by (simp add: pow2_def)

lemma pow2_nonzero [simp]: "pow2 e \<noteq> 0"
  using pow2_pos [of e] by linarith

lemma pow2_powi: "pow2 e = 2 powi e"
  by (simp add: pow2_def power_int_def inverse_eq_divide power_one_over)

lemma pow2_add: "pow2 (a + b) = pow2 a * pow2 b"
  by (simp add: pow2_powi power_int_add)

lemma pow2_diff: "pow2 (a - b) = pow2 a / pow2 b"
  by (simp add: pow2_powi power_int_diff)

lemma pow2_nat: "pow2 (int n) = 2 ^ n"
  by (simp add: pow2_def)

lemma pow2_strict_mono: "a < b \<Longrightarrow> pow2 a < pow2 b"
  unfolding pow2_powi by (rule power_int_strict_increasing) simp_all

lemma pow2_less_iff [simp]: "pow2 a < pow2 b \<longleftrightarrow> a < b"
  by (metis linorder_neqE order_less_asym order_less_irrefl pow2_strict_mono)

lemma pow2_le_iff [simp]: "pow2 a \<le> pow2 b \<longleftrightarrow> a \<le> b"
  by (meson linorder_not_less pow2_less_iff)

lemma pow2_abs [simp]: "\<bar>pow2 e\<bar> = pow2 e"
  by (simp add: abs_of_pos)

lemma pow2_int: "0 \<le> e \<Longrightarrow> pow2 e = of_int (2 ^ nat e)"
  by (simp add: pow2_def)

lemma rat_exponent_bounds:
  assumes "0 < x"
  shows "pow2 (rat_exponent x) \<le> x" and "x < pow2 (rat_exponent x + 1)"
proof -
  obtain p q where pq: "quotient_of x = (p, q)" by fastforce
  have q: "0 < q" using quotient_of_denom_pos [OF pq] .
  have x: "x = of_int p / of_int q" using quotient_of_div [OF pq] .
  with assms q have p: "0 < p" by (simp add: zero_less_divide_iff)
  let ?k = "bitlen p - bitlen q"
  have bp: "2 ^ nat (bitlen p - 1) \<le> p" "p < 2 ^ nat (bitlen p)"
    using bitlen_bounds [OF p] by auto
  have bq: "2 ^ nat (bitlen q - 1) \<le> q" "q < 2 ^ nat (bitlen q)"
    using bitlen_bounds [OF q] by auto
  have pos: "1 \<le> bitlen p" "1 \<le> bitlen q"
    using p q bitlen_nonneg [of p] bitlen_nonneg [of q] bitlen_eq_zero_iff [of p]
      bitlen_eq_zero_iff [of q] by linarith+
  have P: "pow2 (bitlen p - 1) \<le> of_int p" "of_int p < pow2 (bitlen p)"
    using bp pos by (auto simp: pow2_int of_int_le_iff of_int_less_iff simp del: of_int_power of_int_numeral)
  have Q: "pow2 (bitlen q - 1) \<le> of_int q" "of_int q < pow2 (bitlen q)"
    using bq pos by (auto simp: pow2_int of_int_le_iff of_int_less_iff simp del: of_int_power of_int_numeral)
  have qpos: "(0::rat) < of_int q" using q by simp
  have up: "x < pow2 (?k + 1)"
  proof -
    have "x < pow2 (bitlen p) / of_int q" using P(2) qpos x by (simp add: divide_strict_right_mono)
    also have "\<dots> \<le> pow2 (bitlen p) / pow2 (bitlen q - 1)"
      using Q(1) by (intro divide_left_mono) (auto intro: mult_pos_pos qpos)
    also have "\<dots> = pow2 (?k + 1)" by (simp add: pow2_diff [symmetric] algebra_simps)
    finally show ?thesis .
  qed
  have low: "pow2 (?k - 1) < x"
  proof -
    have "pow2 (?k - 1) = pow2 (bitlen p - 1) / pow2 (bitlen q)"
      by (simp add: pow2_diff [symmetric] algebra_simps)
    also have "\<dots> < pow2 (bitlen p - 1) / of_int q"
      using Q(2) by (intro divide_strict_left_mono) (auto intro: mult_pos_pos qpos)
    also have "\<dots> \<le> x" using P(1) qpos x by (simp add: divide_right_mono)
    finally show ?thesis .
  qed
  have e: "rat_exponent x = (if pow2 ?k \<le> x then ?k else ?k - 1)"
    by (simp add: rat_exponent_def pq Let_def)
  show "pow2 (rat_exponent x) \<le> x" using low by (simp add: e)
  show "x < pow2 (rat_exponent x + 1)" using up by (simp add: e)
qed

section \<open>Rounding\<close>

lemma round_half_even_int [simp]: "round_half_even (of_int n) = n"
  by (simp add: round_half_even_def)

lemma round_half_even_near: "\<bar>of_int (round_half_even x) - x\<bar> \<le> 1 / 2"
proof -
  have "of_int \<lfloor>x\<rfloor> \<le> x" "x < of_int \<lfloor>x\<rfloor> + 1" by linarith+
  then show ?thesis by (simp add: round_half_even_def Let_def abs_le_iff)
qed

lemma round_double_zero [simp]: "round_double 0 = 0"
  by (simp add: round_double_def)

text \<open>Every rational with a 53-bit significand and an exponent in range is a double.\<close>

lemma round_double_exact:
  assumes "\<bar>m\<bar> \<le> 2 ^ 53" and "- 1074 \<le> k"
  shows "round_double (of_int m * pow2 k) = of_int m * pow2 k"
proof (cases "m = 0")
  case False
  let ?x = "of_int m * pow2 k" and ?a = "of_int \<bar>m\<bar> * pow2 k"
  define E where "E = rat_exponent ?a"
  define e where "e = max (- 1074) (E - 52)"
  have a: "\<bar>?x\<bar> = ?a" by (simp add: abs_mult)
  have apos: "0 < ?a" using False by simp
  have low: "pow2 E \<le> ?a" using rat_exponent_bounds(1) [OF apos] by (simp add: E_def)
  have "\<exists>n. ?a / pow2 e = of_int n"
  proof (cases "e \<le> k")
    case True
    then have "?a / pow2 e = of_int \<bar>m\<bar> * pow2 (k - e)" by (simp add: pow2_diff)
    also have "\<dots> = of_int (\<bar>m\<bar> * 2 ^ nat (k - e))" using True by (simp add: pow2_int)
    finally show ?thesis by blast
  next
    case False
    then have E: "k + 52 < E" and eE: "e = E - 52" using assms(2) by (auto simp: e_def)
    have "(of_int \<bar>m\<bar> :: rat) \<le> of_int (2 ^ 53)" using assms(1) by (simp only: of_int_le_iff)
    then have up: "?a \<le> pow2 (k + 53)"
      by (simp add: pow2_add pow2_nat [of 53, simplified])
    with low have "pow2 E \<le> pow2 (k + 53)" by (rule order_trans)
    then have "E = k + 53" using E by simp
    with up low have "?a = pow2 (k + 53)" by simp
    then have "?a / pow2 e = pow2 52" using eE \<open>E = k + 53\<close> by (simp add: pow2_diff [symmetric])
    also have "\<dots> = of_int (2 ^ 52)" by (simp add: pow2_int)
    finally show ?thesis by blast
  qed
  then obtain n where n: "?a / pow2 e = of_int n" by blast
  then have "round_half_even (\<bar>?x\<bar> / pow2 e) = n" by (simp add: a)
  moreover have "of_int n * pow2 e = ?a" using n by (simp add: field_simps)
  ultimately have "round_double ?x = sgn ?x * ?a"
    using False unfolding round_double_def Let_def e_def E_def a
    by (simp add: mult.assoc)
  also have "\<dots> = ?x" using a mult_sgn_abs [of ?x] by simp
  finally show ?thesis .
qed simp

lemma round_double_int: "\<bar>m\<bar> \<le> 2 ^ 53 \<Longrightarrow> round_double (of_int m) = of_int m"
  using round_double_exact [of m 0] by (simp add: pow2_def)

lemma js_add_int: "\<bar>a + b\<bar> \<le> 2 ^ 53 \<Longrightarrow> js_add (of_int a) (of_int b) = of_int (a + b)"
  unfolding js_add_def by (metis of_int_add round_double_int)

lemma js_mul_int: "\<bar>a * b\<bar> \<le> 2 ^ 53 \<Longrightarrow> js_mul (of_int a) (of_int b) = of_int (a * b)"
  unfolding js_mul_def by (metis of_int_mult round_double_int)

lemma round_double_nonneg: "0 \<le> x \<Longrightarrow> 0 \<le> round_double x"
proof (cases "x = 0")
  case False
  assume "0 \<le> x"
  let ?y = "\<bar>x\<bar> / pow2 (max (- 1074) (rat_exponent \<bar>x\<bar> - 52))"
  have "0 \<le> ?y" by (simp add: order_less_imp_le)
  then have "0 \<le> \<lfloor>?y\<rfloor>" by simp
  then have "0 \<le> round_half_even ?y" by (auto simp: round_half_even_def Let_def)
  then show ?thesis using \<open>0 \<le> x\<close> by (simp add: round_double_def Let_def)
qed simp

lemma js_mod_nonneg:
  assumes "0 \<le> x" and "0 < y"
  shows "js_mod x y = x - y * of_int \<lfloor>x / y\<rfloor>" "0 \<le> js_mod x y" "js_mod x y < y"
proof -
  show eq: "js_mod x y = x - y * of_int \<lfloor>x / y\<rfloor>"
    using assms by (cases "x = 0") (simp_all add: js_mod_def Let_def)
  have f: "of_int \<lfloor>x / y\<rfloor> \<le> x / y" "x / y < of_int \<lfloor>x / y\<rfloor> + 1" by linarith+
  have "y * of_int \<lfloor>x / y\<rfloor> \<le> x" and "x < y * (of_int \<lfloor>x / y\<rfloor> + 1)"
    using mult_left_mono [OF f(1), of y] mult_strict_left_mono [OF f(2) assms(2)] assms by simp_all
  then show "0 \<le> js_mod x y" "js_mod x y < y" by (simp_all add: eq algebra_simps)
qed

section \<open>Reading numerals\<close>

lemma is_space_digit [simp]: "is_digit c \<Longrightarrow> \<not> is_space c"
  by (auto simp: is_digit_def is_space_def)

lemma dropWhile_hd: "xs \<noteq> [] \<Longrightarrow> \<not> P (hd xs) \<Longrightarrow> dropWhile P xs = xs"
  by (cases xs) auto

lemma trim_id:
  assumes "s \<noteq> []" "\<not> is_space (hd s)" "\<not> is_space (last s)"
  shows "trim s = s"
  using assms by (simp add: trim_def dropWhile_hd hd_rev)

lemma decimal_literal_digits:
  assumes "d \<noteq> []" "list_all is_digit d"
  shows "decimal_literal d = Some (of_nat (read_nat d))"
proof -
  have eqs: "takeWhile is_digit d = d" "dropWhile is_digit d = []"
    using assms(2) by (auto simp: takeWhile_eq_all_conv list_all_iff)
  show ?thesis using assms(1) by (simp add: decimal_literal_def Let_def eqs exponent_part_def pow10_def)
qed

lemma to_upper_digit: "is_digit c \<Longrightarrow> to_upper c = c"
  by (auto simp: is_digit_def to_upper_def Let_def)

lemma to_jsnum_int: "\<bar>i\<bar> \<le> 2 ^ 53 \<Longrightarrow> to_jsnum (of_int i) = Fin (of_int i)"
proof -
  assume i: "\<bar>i\<bar> \<le> 2 ^ 53"
  then have "\<bar>of_int i :: rat\<bar> \<le> 2 ^ 53" by (metis (mono_tags) of_int_abs of_int_le_iff of_int_numeral of_int_power)
  then have le: "\<bar>of_int i :: rat\<bar> \<le> pow2 53" by (simp add: pow2_def)
  have "\<not> 1024 \<le> rat_exponent \<bar>of_int i\<bar>" if "i \<noteq> 0"
  proof -
    have "pow2 (rat_exponent \<bar>of_int i\<bar>) \<le> pow2 53"
      using rat_exponent_bounds(1) [of "\<bar>of_int i :: rat\<bar>"] that le by linarith
    then show ?thesis by simp
  qed
  with round_double_int [OF i] show ?thesis by (cases "i = 0") (simp_all add: to_jsnum_def Let_def abs_if split: if_splits)
qed

lemma int_numeral_cases:
  assumes "int_numeral s"
  obtains d where "d \<noteq> []" "list_all is_digit d" "s = d" "read_int s = int (read_nat d)"
  | d where "d \<noteq> []" "list_all is_digit d" "s = CHR ''-'' # d" "read_int s = - int (read_nat d)"
proof (cases s)
  case Nil
  then show ?thesis using assms by (simp add: int_numeral_def)
next
  case (Cons c r)
  show ?thesis
  proof (cases "c = CHR ''-''")
    case True
    then show ?thesis using assms Cons that(2) [of r] by (simp add: int_numeral_def read_int_def)
  next
    case False
    then show ?thesis using assms Cons that(1) [of s] by (simp add: int_numeral_def read_int_def)
  qed
qed

lemma prefix_not_radix:
  assumes "\<forall>c \<in> set (tl s). is_digit c"
  shows "map to_upper (take 2 s) \<noteq> [x, CHR ''X'']" "map to_upper (take 2 s) \<noteq> [x, CHR ''O'']"
    "map to_upper (take 2 s) \<noteq> [x, CHR ''B'']"
proof -
  have "\<not> is_digit CHR ''X''" "\<not> is_digit CHR ''O''" "\<not> is_digit CHR ''B''"
    by (simp_all add: is_digit_def)
  then show "map to_upper (take 2 s) \<noteq> [x, CHR ''X'']" "map to_upper (take 2 s) \<noteq> [x, CHR ''O'']"
    "map to_upper (take 2 s) \<noteq> [x, CHR ''B'']"
    using assms
    by (cases s; cases "tl s"; auto simp: to_upper_digit numeral_2_eq_2)+
qed

lemma hd_digit: "d \<noteq> [] \<Longrightarrow> list_all is_digit d \<Longrightarrow> is_digit (hd d)"
  by (cases d) auto

lemma last_digit: "d \<noteq> [] \<Longrightarrow> list_all is_digit d \<Longrightarrow> is_digit (last d)"
  by (simp add: list_all_iff)

lemma letters_not_digit [simp]:
  "\<not> is_digit CHR ''+''" "\<not> is_digit CHR ''I''" "\<not> is_space CHR ''-''"
  "to_upper CHR ''-'' = CHR ''-''"
  by (simp_all add: is_digit_def is_space_def to_upper_def)

lemma not_Infinity: "d \<noteq> [] \<Longrightarrow> list_all is_digit d \<Longrightarrow> d \<noteq> ''Infinity''"
  by auto

text \<open>On integer numerals \<open>Number\<close> gives the integer, rounded to a binary64 value.\<close>

lemma js_Number_numeral:
  assumes "int_numeral s"
  shows "js_Number s = to_jsnum (of_int (read_int s))"
  using assms
proof (cases rule: int_numeral_cases)
  case (1 d)
  have "trim s = s" using 1 hd_digit [OF 1(1,2)] last_digit [OF 1(1,2)] by (simp add: trim_id)
  moreover have "hd s \<noteq> CHR ''-''" "hd s \<noteq> CHR ''+''"
    using hd_digit [OF 1(1,2)] 1(3) by auto
  moreover have "\<forall>c \<in> set (tl s). is_digit c" using 1 by (auto simp: list_all_iff dest: list.set_sel(2))
  ultimately show ?thesis
    using 1 not_Infinity [OF 1(1,2)]
    by (simp add: js_Number_def Let_def prefix_not_radix signed_literal_def decimal_literal_digits)
next
  case (2 d)
  have "trim s = s" using 2 last_digit [OF 2(1,2)] by (simp add: trim_id)
  moreover have "\<forall>c \<in> set (tl s). is_digit c" using 2 by (auto simp: list_all_iff)
  ultimately show ?thesis
    using 2 not_Infinity [OF 2(1,2)]
    by (simp add: js_Number_def Let_def prefix_not_radix signed_literal_def decimal_literal_digits)
qed

lemma int_numeral_show [simp]: "int_numeral (show_int i)"
proof -
  have "list_all is_digit (show_nat n)" for n using show_nat_digits by (auto simp: list_all_iff)
  moreover have "hd (show_nat n) \<noteq> CHR ''-''" for n
    using show_nat_digits [of "hd (show_nat n)" n] show_nat_nonempty [of n] by (metis hd_in_set minus_not_digit)
  ultimately show ?thesis by (simp add: int_numeral_def show_int_def Let_def)
qed

lemma js_Number_show_int: "\<bar>i\<bar> \<le> 2 ^ 53 \<Longrightarrow> js_Number (show_int i) = Fin (of_int i)"
  by (simp add: js_Number_numeral to_jsnum_int)

section \<open>Rounding errors\<close>

lemma round_double_error:
  assumes "0 < x" and "pow2 (- 1000) \<le> x"
  shows "\<bar>round_double x - x\<bar> \<le> x * pow2 (- 53)"
proof -
  let ?k = "rat_exponent x" let ?e = "?k - 52"
  have "pow2 (- 1000) < pow2 (?k + 1)" using rat_exponent_bounds(2) [OF assms(1)] assms(2) by linarith
  then have "- 1074 \<le> ?e" by simp
  then have rd: "round_double x = of_int (round_half_even (x / pow2 ?e)) * pow2 ?e"
    using assms(1) by (simp add: round_double_def Let_def)
  have "\<bar>round_double x - x\<bar> = \<bar>of_int (round_half_even (x / pow2 ?e)) - x / pow2 ?e\<bar> * pow2 ?e"
    unfolding rd by (simp add: abs_mult [of _ "pow2 ?e", unfolded pow2_abs, symmetric] left_diff_distrib)
  also have "\<dots> \<le> 1 / 2 * pow2 ?e"
    by (intro mult_right_mono round_half_even_near) simp
  also have "\<dots> = pow2 ?k * pow2 (- 53)"
    using pow2_add [of ?k "- 52"] pow2_add [of "- 52" "- 1"] by (simp add: pow2_def)
  also have "\<dots> \<le> x * pow2 (- 53)"
    using rat_exponent_bounds(1) [OF assms(1)] by (intro mult_right_mono) simp_all
  finally show ?thesis .
qed

text \<open>\<open>Math.ceil(n / s)\<close> of integers below \<open>2^50\<close> is not disturbed by the rounding of the
  quotient: it is off by less than the distance of a proper fraction from an integer.\<close>

lemma ceiling_js_div:
  assumes "0 \<le> n" "n \<le> 2 ^ 50" "1 \<le> s" "s \<le> 2 ^ 50"
  shows "\<lceil>js_div (of_int n) (of_int s)\<rceil> = \<lceil>of_int n / of_int s :: rat\<rceil>"
proof (cases "s dvd n")
  case True
  then obtain k where k: "n = s * k" by (elim dvdE)
  have "\<bar>k\<bar> \<le> \<bar>n\<bar>" using assms(3) k by (simp add: abs_mult mult_le_cancel_right1)
  moreover have "(2::int) ^ 50 \<le> 2 ^ 53" by simp
  ultimately have "\<bar>k\<bar> \<le> 2 ^ 53" using assms(1,2) by linarith
  moreover have "of_int n / of_int s = (of_int k :: rat)" using assms(3) k by simp
  ultimately show ?thesis by (simp add: js_div_def round_double_int)
next
  case False
  let ?x = "of_int n / of_int s :: rat"
  let ?q = "n div s"
  have s: "(0 :: rat) < of_int s" using assms(3) by simp
  have n: "0 < n" using assms(1) False by (cases "n = 0") auto
  then have n1: "(1::rat) \<le> of_int n" by simp
  have x: "0 < ?x" using n s by simp
  have le: "(of_int s :: rat) \<le> 2 ^ 50" "(of_int n :: rat) \<le> 2 ^ 50"
    using assms(2,4) by (metis of_int_le_iff of_int_numeral of_int_power)+
  have "pow2 (- 1000) \<le> pow2 (- 50)" by simp
  also have "\<dots> = 1 / 2 ^ 50" by (simp add: pow2_def)
  also have "\<dots> \<le> 1 / of_int s" using s le(1) by (intro divide_left_mono) simp_all
  also have "\<dots> \<le> ?x" using n1 s by (intro divide_right_mono) simp_all
  finally have small: "pow2 (- 1000) \<le> ?x" .
  have "?x * pow2 (- 53) \<le> 2 ^ 50 / of_int s * pow2 (- 53)"
    using le(2) s by (intro mult_right_mono divide_right_mono) simp_all
  also have "\<dots> < 1 / of_int s" using s by (simp add: pow2_def field_simps)
  finally have err: "\<bar>round_double ?x - ?x\<bar> < 1 / of_int s"
    using round_double_error [OF x small] by linarith
  have "n mod s \<noteq> 0" using False by (simp add: dvd_eq_mod_eq_0)
  then have r: "1 \<le> n mod s" "n mod s \<le> s - 1"
    using assms(3) pos_mod_sign [of s n] pos_mod_bound [of s n] by linarith+
  have eq: "?x = of_int ?q + of_int (n mod s) / of_int s"
    using s by (simp add: field_simps flip: of_int_mult of_int_add)
  have r1: "1 / of_int s \<le> (of_int (n mod s) / of_int s :: rat)" using r(1) s by (intro divide_right_mono) simp_all
  have "(of_int (n mod s) / of_int s :: rat) \<le> of_int (s - 1) / of_int s"
    using s by (intro divide_right_mono of_int_le_iff [THEN iffD2] r(2)) simp
  then have r2: "(of_int (n mod s) / of_int s :: rat) \<le> 1 - 1 / of_int s" using s by (simp add: field_simps)
  have "of_int ?q < round_double ?x" "round_double ?x < of_int ?q + 1"
    using err eq r1 r2 by (auto simp: abs_less_iff)
  then have "\<lceil>round_double ?x\<rceil> = ?q + 1" by (simp add: ceiling_eq_iff)
  moreover have "\<lceil>?x\<rceil> = ?q + 1"
  proof -
    have "0 < 1 / (of_int s :: rat)" using s by simp
    then have "of_int ?q < ?x" "?x \<le> of_int ?q + 1" using eq r1 r2 by linarith+
    then show ?thesis by (simp add: ceiling_eq_iff)
  qed
  ultimately show ?thesis by (simp add: js_div_def)
qed

end
