(* ===== verification/Teams.thy ===== *)
theory Teams
  imports Users_Auth Js_Number
begin

text \<open>
  Teams and workspace items of the Nest backend: \<open>team/team.service.ts\<close>,
  \<open>team/team.controller.ts\<close>, their DTOs and \<open>common/guards/roles.guard.ts\<close>.

  Two checks protect a team.  The role guard lets only an OWNER or MANAGER of the team reach
  the membership handlers, and the service refuses to demote or remove the last OWNER.
  The step system at the end shows that every team keeps an OWNER over any sequence of
  service calls; the interleaving of two removals shows what the unserialised
  count-then-delete leaves open.

  The integer pipe of the routes is a parameter \<open>parse\<close> (locale \<open>int_pipe\<close>).
\<close>

section \<open>Definitions\<close>

subsection \<open>Requests and responses\<close>

record CreateTeamDto =
  ct_name :: string

record AddMemberDto =
  am_userId :: int
  am_role :: TeamRole

record UpdateMemberRoleDto =
  um_role :: TeamRole

record CreateWorkspaceItemDto =
  cw_title :: string
  cw_content :: "string field"

record UpdateWorkspaceItemDto =
  uw_title :: "string field"
  uw_content :: "string field"

record UserInfoDto =
  ui_id :: int
  ui_email :: string
  ui_nickname :: string

record TeamMemberDto =
  tm_id :: int
  tm_userId :: int
  tm_role :: TeamRole
  tm_joinedAt :: time
  tm_user :: "UserInfoDto option"

record TeamResponseDto =
  tr_id :: int
  tr_name :: string
  tr_createdAt :: time
  tr_members :: "TeamMemberDto list option"

record WorkspaceItemResponseDto =
  wr_id :: int
  wr_teamId :: int
  wr_title :: string
  wr_content :: "string option"
  wr_createdBy :: int
  wr_createdAt :: time
  wr_updatedAt :: time

definition valid_CreateTeamDto :: "CreateTeamDto \<Rightarrow> bool" where
  "valid_CreateTeamDto d = (ct_name d \<noteq> [])"

definition valid_CreateWorkspaceItemDto :: "CreateWorkspaceItemDto \<Rightarrow> bool" where
  "valid_CreateWorkspaceItemDto d = (cw_title d \<noteq> [])"

definition valid_UpdateWorkspaceItemDto :: "UpdateWorkspaceItemDto \<Rightarrow> bool" where
  "valid_UpdateWorkspaceItemDto d = field_all (\<lambda>t. t \<noteq> []) (uw_title d)"

definition user_info :: "user \<Rightarrow> UserInfoDto" where
  "user_info u = \<lparr>ui_id = user_id u, ui_email = user_email u, ui_nickname = user_nickname u\<rparr>"

definition member_dto :: "team_member \<times> UserInfoDto \<Rightarrow> TeamMemberDto" where
  "member_dto p = (case p of (m, u) \<Rightarrow>
     \<lparr>tm_id = member_id m, tm_userId = member_userId m, tm_role = member_role m,
      tm_joinedAt = member_joinedAt m, tm_user = Some u\<rparr>)"

definition team_dto :: "team \<Rightarrow> (team_member \<times> UserInfoDto) list option \<Rightarrow> TeamResponseDto" where
  "team_dto t ms = \<lparr>tr_id = team_id t, tr_name = team_name t, tr_createdAt = team_createdAt t,
     tr_members = map_option (map member_dto) ms\<rparr>"

definition item_dto :: "workspace_item \<Rightarrow> WorkspaceItemResponseDto" where
  "item_dto w = \<lparr>wr_id = item_id w, wr_teamId = item_teamId w, wr_title = item_title w,
     wr_content = item_content w, wr_createdBy = item_createdBy w,
     wr_createdAt = item_createdAt w, wr_updatedAt = item_updatedAt w\<rparr>"

subsection \<open>The role guard\<close>

text \<open>A value of a request property: a route parameter is a string, a body property may also
  be a number.\<close>

datatype raw_id = RawString string | RawNumber jsnum

record role_request =
  req_params_teamId :: "raw_id option"
  req_params_id :: "raw_id option"
  req_body_teamId :: "raw_id option"

definition truthy_raw :: "raw_id option \<Rightarrow> bool" where
  "truthy_raw v = (case v of None \<Rightarrow> False | Some (RawString s) \<Rightarrow> truthy s
     | Some (RawNumber n) \<Rightarrow> n \<noteq> Fin 0 \<and> n \<noteq> NaN)"

definition extractTeamId :: "role_request \<Rightarrow> raw_id option" where
  "extractTeamId r =
     (if truthy_raw (req_params_teamId r) then req_params_teamId r
      else if truthy_raw (req_params_id r) then req_params_id r
      else if truthy_raw (req_body_teamId r) then req_body_teamId r
      else None)"

definition raw_Number :: "raw_id \<Rightarrow> jsnum" where
  "raw_Number v = (case v of RawString s \<Rightarrow> js_Number s | RawNumber n \<Rightarrow> n)"

text \<open>The client accepts an integral number for an integer column and refuses any other.\<close>

definition prisma_int :: "jsnum \<Rightarrow> int option" where
  "prisma_int n = (case n of Fin q \<Rightarrow> if of_int \<lfloor>q\<rfloor> = q then Some \<lfloor>q\<rfloor> else None | _ \<Rightarrow> None)"

definition RolesGuard_canActivate ::
    "prisma \<Rightarrow> TeamRole list option \<Rightarrow> role_request \<Rightarrow> CurrentUserPayload
      \<Rightarrow> (exn, 'z db_scheme, team_member option) action" where
  "RolesGuard_canActivate P requiredRoles request user =
     (case requiredRoles of
        None \<Rightarrow> ret None
      | Some roles \<Rightarrow>
          (case extractTeamId request of
             None \<Rightarrow> throw (NestException NestForbidden ''Team ID required for this operation'')
           | Some raw \<Rightarrow>
               (if isNaN (raw_Number raw)
                then throw (NestException NestForbidden ''Team ID required for this operation'')
                else case prisma_int (raw_Number raw) of
                  None \<Rightarrow> throw (PrismaError InvalidArgument)
                | Some teamId \<Rightarrow>
                    bind_action (q_first (member_d P) members
                        (\<lambda>m. member_teamId m = teamId \<and> member_userId m = cur_userId user)) (\<lambda>membership.
                    case membership of
                      None \<Rightarrow> throw (NestException NestForbidden ''You are not a member of this team'')
                    | Some m \<Rightarrow>
                        (if member_role m \<notin> set roles
                         then throw (NestException NestForbidden
                                ''You do not have permission to perform this action'')
                         else ret (Some m))))))"

subsection \<open>The service\<close>

definition include_user :: "prisma \<Rightarrow> team_member \<Rightarrow> (exn, 'z db_scheme, team_member \<times> UserInfoDto) action" where
  "include_user P m =
     bind_action (q_related (user_d P) users (\<lambda>u. user_id u = member_userId m)) (\<lambda>u.
     ret (m, user_info u))"

definition TeamService_verifyTeamMember ::
    "prisma \<Rightarrow> int \<Rightarrow> int \<Rightarrow> (exn, 'z db_scheme, team_member) action" where
  "TeamService_verifyTeamMember P teamId userId =
     bind_action (q_first (member_d P) members
         (\<lambda>m. member_teamId m = teamId \<and> member_userId m = userId)) (\<lambda>member.
     case member of
       None \<Rightarrow> throw (NestException NestForbidden ''You are not a member of this team'')
     | Some m \<Rightarrow> ret m)"

definition createTeam_body ::
    "prisma \<Rightarrow> time \<Rightarrow> int \<Rightarrow> CreateTeamDto \<Rightarrow> (exn, 'z db_scheme, team) action" where
  "createTeam_body P now userId d =
     bind_action (q_create (team_d P) teams put_teams no_check
         (\<lambda>i. \<lparr>team_id = i, team_name = ct_name d, team_createdAt = now\<rparr>)) (\<lambda>team.
     bind_action (q_create (member_d P) members put_members member_check
         (\<lambda>i. \<lparr>member_id = i, member_teamId = team_id team, member_userId = userId,
               member_role = OWNER, member_joinedAt = now\<rparr>)) (\<lambda>_.
     ret team))"

definition TeamService_createTeam ::
    "((exn, 'z db_scheme, team) action \<Rightarrow> (exn, 'z db_scheme, team) action) \<Rightarrow> prisma \<Rightarrow> time \<Rightarrow> int
      \<Rightarrow> CreateTeamDto \<Rightarrow> (exn, 'z db_scheme, team) action" where
  "TeamService_createTeam tx P now userId d = tx (createTeam_body P now userId d)"

definition TeamService_getMyTeams :: "prisma \<Rightarrow> int \<Rightarrow> (exn, 'z db_scheme, team list) action" where
  "TeamService_getMyTeams P userId =
     bind_action (q_many (member_d P) members (\<lambda>m. member_userId m = userId) (order_desc member_joinedAt))
       (\<lambda>memberships.
     map_action (\<lambda>m. q_related (team_d P) teams (\<lambda>t. team_id t = member_teamId m)) memberships)"

definition TeamService_getTeamById ::
    "prisma \<Rightarrow> int \<Rightarrow> int \<Rightarrow> (exn, 'z db_scheme, team \<times> (team_member \<times> UserInfoDto) list) action" where
  "TeamService_getTeamById P teamId userId =
     bind_action (q_first (team_d P) teams (\<lambda>t. team_id t = teamId)) (\<lambda>team.
     case team of
       None \<Rightarrow> throw (NestException NestNotFound ''Team not found'')
     | Some t \<Rightarrow>
         bind_action (q_many (member_d P) members (\<lambda>m. member_teamId m = teamId) no_order) (\<lambda>ms.
         bind_action (map_action (include_user P) ms) (\<lambda>mus.
         if \<not> list_ex (\<lambda>(m, u). member_userId m = userId) mus
         then throw (NestException NestForbidden ''You are not a member of this team'')
         else ret (t, mus))))"

definition TeamService_getTeamMembers ::
    "prisma \<Rightarrow> int \<Rightarrow> int \<Rightarrow> (exn, 'z db_scheme, (team_member \<times> UserInfoDto) list) action" where
  "TeamService_getTeamMembers P teamId userId =
     bind_action (TeamService_verifyTeamMember P teamId userId) (\<lambda>_.
     bind_action (q_many (member_d P) members (\<lambda>m. member_teamId m = teamId) (order_asc member_joinedAt))
       (\<lambda>ms. map_action (include_user P) ms))"

definition TeamService_addMember ::
    "prisma \<Rightarrow> time \<Rightarrow> int \<Rightarrow> AddMemberDto \<Rightarrow> (exn, 'z db_scheme, team_member \<times> UserInfoDto) action" where
  "TeamService_addMember P now teamId d =
     bind_action (q_first (team_d P) teams (\<lambda>t. team_id t = teamId)) (\<lambda>team.
     if team = None then throw (NestException NestNotFound ''Team not found'') else
     bind_action (q_first (user_d P) users (\<lambda>u. user_id u = am_userId d)) (\<lambda>user.
     if user = None then throw (NestException NestNotFound ''User not found'') else
     bind_action (q_first (member_d P) members
         (\<lambda>m. member_teamId m = teamId \<and> member_userId m = am_userId d)) (\<lambda>existingMember.
     if existingMember \<noteq> None
     then throw (NestException NestBadRequest ''User is already a member of this team'') else
     bind_action (q_create (member_d P) members put_members member_check
         (\<lambda>i. \<lparr>member_id = i, member_teamId = teamId, member_userId = am_userId d,
               member_role = am_role d, member_joinedAt = now\<rparr>)) (include_user P))))"

text \<open>
  The guards of the two operations that can take an OWNER away, separated from the write
  that follows them: other requests may run between the two.
\<close>

definition updateMemberRole_check ::
    "prisma \<Rightarrow> int \<Rightarrow> int \<Rightarrow> UpdateMemberRoleDto \<Rightarrow> (exn, 'z db_scheme, unit) action" where
  "updateMemberRole_check P teamId memberId d =
     bind_action (q_first (member_d P) members (\<lambda>m. member_id m = memberId)) (\<lambda>member.
     case member of
       None \<Rightarrow> throw (NestException NestNotFound ''Team member not found'')
     | Some m \<Rightarrow>
         if member_teamId m \<noteq> teamId then throw (NestException NestNotFound ''Team member not found'')
         else if member_role m = OWNER \<and> um_role d \<noteq> OWNER
         then bind_action (q_count (member_d P) members
                 (\<lambda>n. member_teamId n = teamId \<and> member_role n = OWNER)) (\<lambda>ownerCount.
              if ownerCount \<le> 1
              then throw (NestException NestBadRequest ''Cannot change the role of the last owner'')
              else ret ())
         else ret ())"

definition TeamService_updateMemberRole ::
    "prisma \<Rightarrow> int \<Rightarrow> int \<Rightarrow> UpdateMemberRoleDto \<Rightarrow> (exn, 'z db_scheme, team_member \<times> UserInfoDto) action" where
  "TeamService_updateMemberRole P teamId memberId d =
     bind_action (updateMemberRole_check P teamId memberId d) (\<lambda>_.
     bind_action (q_update (member_d P) members put_members member_check memberId
         (\<lambda>m. m\<lparr>member_role := um_role d\<rparr>)) (include_user P))"

definition removeMember_check :: "prisma \<Rightarrow> int \<Rightarrow> int \<Rightarrow> (exn, 'z db_scheme, unit) action" where
  "removeMember_check P teamId memberId =
     bind_action (q_first (member_d P) members (\<lambda>m. member_id m = memberId)) (\<lambda>member.
     case member of
       None \<Rightarrow> throw (NestException NestNotFound ''Team member not found'')
     | Some m \<Rightarrow>
         if member_teamId m \<noteq> teamId then throw (NestException NestNotFound ''Team member not found'')
         else if member_role m = OWNER
         then bind_action (q_count (member_d P) members
                 (\<lambda>n. member_teamId n = teamId \<and> member_role n = OWNER)) (\<lambda>ownerCount.
              if ownerCount \<le> 1
              then throw (NestException NestBadRequest ''Cannot remove the last owner'')
              else ret ())
         else ret ())"

definition removeMember_commit :: "prisma \<Rightarrow> int \<Rightarrow> (exn, 'z db_scheme, string) action" where
  "removeMember_commit P memberId =
     bind_action (q_delete (member_d P) members put_members (\<lambda>_ s. s) memberId) (\<lambda>_.
     ret ''Member removed successfully'')"

definition TeamService_removeMember :: "prisma \<Rightarrow> int \<Rightarrow> int \<Rightarrow> (exn, 'z db_scheme, string) action" where
  "TeamService_removeMember P teamId memberId =
     bind_action (removeMember_check P teamId memberId) (\<lambda>_. removeMember_commit P memberId)"

definition TeamService_createWorkspaceItem ::
    "prisma \<Rightarrow> time \<Rightarrow> int \<Rightarrow> int \<Rightarrow> CreateWorkspaceItemDto \<Rightarrow> (exn, 'z db_scheme, workspace_item) action" where
  "TeamService_createWorkspaceItem P now teamId userId d =
     bind_action (TeamService_verifyTeamMember P teamId userId) (\<lambda>_.
     q_create (item_d P) items put_items item_check
       (\<lambda>i. \<lparr>item_id = i, item_teamId = teamId, item_title = cw_title d,
             item_content = field_opt (cw_content d), item_createdBy = userId,
             item_createdAt = now, item_updatedAt = now\<rparr>))"

definition TeamService_getWorkspaceItems ::
    "prisma \<Rightarrow> int \<Rightarrow> int \<Rightarrow> (exn, 'z db_scheme, workspace_item list) action" where
  "TeamService_getWorkspaceItems P teamId userId =
     bind_action (TeamService_verifyTeamMember P teamId userId) (\<lambda>_.
     q_many (item_d P) items (\<lambda>w. item_teamId w = teamId) (order_desc item_createdAt))"

definition TeamService_getWorkspaceItemById ::
    "prisma \<Rightarrow> int \<Rightarrow> int \<Rightarrow> (exn, 'z db_scheme, workspace_item) action" where
  "TeamService_getWorkspaceItemById P itemId userId =
     bind_action (q_first (item_d P) items (\<lambda>w. item_id w = itemId)) (\<lambda>item.
     case item of
       None \<Rightarrow> throw (NestException NestNotFound ''Workspace item not found'')
     | Some w \<Rightarrow>
         bind_action (TeamService_verifyTeamMember P (item_teamId w) userId) (\<lambda>_. ret w))"

definition TeamService_updateWorkspaceItem ::
    "prisma \<Rightarrow> time \<Rightarrow> int \<Rightarrow> int \<Rightarrow> UpdateWorkspaceItemDto \<Rightarrow> (exn, 'z db_scheme, workspace_item) action" where
  "TeamService_updateWorkspaceItem P now itemId userId d =
     bind_action (q_first (item_d P) items (\<lambda>w. item_id w = itemId)) (\<lambda>item.
     case item of
       None \<Rightarrow> throw (NestException NestNotFound ''Workspace item not found'')
     | Some w \<Rightarrow>
         bind_action (TeamService_verifyTeamMember P (item_teamId w) userId) (\<lambda>_.
         if uw_title d = Null then throw (PrismaError InvalidArgument)
         else q_update (item_d P) items put_items item_check itemId
                (\<lambda>w. w\<lparr>item_title := set_field (uw_title d) (item_title w),
                       item_content := set_nullable (uw_content d) (item_content w),
                       item_updatedAt := now\<rparr>)))"

definition TeamService_deleteWorkspaceItem :: "prisma \<Rightarrow> int \<Rightarrow> int \<Rightarrow> (exn, 'z db_scheme, string) action" where
  "TeamService_deleteWorkspaceItem P itemId userId =
     bind_action (q_first (item_d P) items (\<lambda>w. item_id w = itemId)) (\<lambda>item.
     case item of
       None \<Rightarrow> throw (NestException NestNotFound ''Workspace item not found'')
     | Some w \<Rightarrow>
         bind_action (TeamService_verifyTeamMember P (item_teamId w) userId) (\<lambda>_.
         bind_action (q_delete (item_d P) items put_items (\<lambda>_ s. s) itemId) (\<lambda>_.
         ret ''Workspace item deleted successfully'')))"

subsection \<open>The controllers\<close>

text \<open>
  \<open>with_id\<close> is an integer route parameter, \<open>with_body\<close> a validated body.  Guards run before
  both.  \<open>team_roles\<close> are the roles the membership handlers require.
\<close>

definition with_id :: "(string \<Rightarrow> int option) \<Rightarrow> string \<Rightarrow> (int \<Rightarrow> (exn, 's, 'a) action) \<Rightarrow> (exn, 's, 'a) action" where
  "with_id parse raw k =
     (case parse raw of
        None \<Rightarrow> throw (NestException NestBadRequest ''Validation failed (numeric string is expected)'')
      | Some i \<Rightarrow> k i)"

definition with_body :: "bool \<Rightarrow> (exn, 's, 'a) action \<Rightarrow> (exn, 's, 'a) action" where
  "with_body ok k = (if ok then k else throw ValidationError)"

definition team_roles :: "TeamRole list" where
  "team_roles = [OWNER, MANAGER]"

definition TeamController_createTeam ::
    "((exn, 'z db_scheme, team) action \<Rightarrow> (exn, 'z db_scheme, team) action) \<Rightarrow> prisma \<Rightarrow> jwt_lib \<Rightarrow> time
      \<Rightarrow> string option \<Rightarrow> CreateTeamDto \<Rightarrow> (exn, 'z db_scheme, TeamResponseDto) action" where
  "TeamController_createTeam tx P J now token d =
     with_user J now token (\<lambda>user. with_body (valid_CreateTeamDto d)
       (bind_action (TeamService_createTeam tx P now (cur_userId user) d) (\<lambda>t. ret (team_dto t None))))"

definition TeamController_getMyTeams ::
    "prisma \<Rightarrow> jwt_lib \<Rightarrow> time \<Rightarrow> string option \<Rightarrow> (exn, 'z db_scheme, TeamResponseDto list) action" where
  "TeamController_getMyTeams P J now token =
     with_user J now token (\<lambda>user.
       bind_action (TeamService_getMyTeams P (cur_userId user)) (\<lambda>ts. ret (map (\<lambda>t. team_dto t None) ts)))"

definition TeamController_getTeamById ::
    "(string \<Rightarrow> int option) \<Rightarrow> prisma \<Rightarrow> jwt_lib \<Rightarrow> time \<Rightarrow> string option \<Rightarrow> string
      \<Rightarrow> (exn, 'z db_scheme, TeamResponseDto) action" where
  "TeamController_getTeamById parse P J now token rawId =
     with_user J now token (\<lambda>user. with_id parse rawId (\<lambda>teamId.
       bind_action (TeamService_getTeamById P teamId (cur_userId user)) (\<lambda>(t, ms).
       ret (team_dto t (Some ms)))))"

definition TeamController_getTeamMembers ::
    "(string \<Rightarrow> int option) \<Rightarrow> prisma \<Rightarrow> jwt_lib \<Rightarrow> time \<Rightarrow> string option \<Rightarrow> string
      \<Rightarrow> (exn, 'z db_scheme, TeamMemberDto list) action" where
  "TeamController_getTeamMembers parse P J now token rawId =
     with_user J now token (\<lambda>user. with_id parse rawId (\<lambda>teamId.
       bind_action (TeamService_getTeamMembers P teamId (cur_userId user)) (\<lambda>ms.
       ret (map member_dto ms))))"

definition TeamController_addMember ::
    "(string \<Rightarrow> int option) \<Rightarrow> prisma \<Rightarrow> jwt_lib \<Rightarrow> time \<Rightarrow> string option \<Rightarrow> string \<Rightarrow> AddMemberDto
      \<Rightarrow> (exn, 'z db_scheme, TeamMemberDto) action" where
  "TeamController_addMember parse P J now token rawId d =
     with_user J now token (\<lambda>user.
       bind_action (RolesGuard_canActivate P (Some team_roles)
         \<lparr>req_params_teamId = None, req_params_id = Some (RawString rawId), req_body_teamId = None\<rparr> user) (\<lambda>_.
       with_id parse rawId (\<lambda>teamId.
       bind_action (TeamService_addMember P now teamId d) (\<lambda>m. ret (member_dto m)))))"

definition TeamController_updateMemberRole ::
    "(string \<Rightarrow> int option) \<Rightarrow> prisma \<Rightarrow> jwt_lib \<Rightarrow> time \<Rightarrow> string option \<Rightarrow> string \<Rightarrow> string
      \<Rightarrow> UpdateMemberRoleDto \<Rightarrow> (exn, 'z db_scheme, TeamMemberDto) action" where
  "TeamController_updateMemberRole parse P J now token rawTeam rawMember d =
     with_user J now token (\<lambda>user.
       bind_action (RolesGuard_canActivate P (Some team_roles)
         \<lparr>req_params_teamId = Some (RawString rawTeam), req_params_id = None, req_body_teamId = None\<rparr> user) (\<lambda>_.
       with_id parse rawTeam (\<lambda>teamId. with_id parse rawMember (\<lambda>memberId.
       bind_action (TeamService_updateMemberRole P teamId memberId d) (\<lambda>m. ret (member_dto m))))))"

definition TeamController_removeMember ::
    "(string \<Rightarrow> int option) \<Rightarrow> prisma \<Rightarrow> jwt_lib \<Rightarrow> time \<Rightarrow> string option \<Rightarrow> string \<Rightarrow> string
      \<Rightarrow> (exn, 'z db_scheme, string) action" where
  "TeamController_removeMember parse P J now token rawTeam rawMember =
     with_user J now token (\<lambda>user.
       bind_action (RolesGuard_canActivate P (Some team_roles)
         \<lparr>req_params_teamId = Some (RawString rawTeam), req_params_id = None, req_body_teamId = None\<rparr> user) (\<lambda>_.
       with_id parse rawTeam (\<lambda>teamId. with_id parse rawMember (\<lambda>memberId.
       TeamService_removeMember P teamId memberId))))"

definition TeamController_createWorkspaceItem ::
    "(string \<Rightarrow> int option) \<Rightarrow> prisma \<Rightarrow> jwt_lib \<Rightarrow> time \<Rightarrow> string option \<Rightarrow> string \<Rightarrow> CreateWorkspaceItemDto
      \<Rightarrow> (exn, 'z db_scheme, WorkspaceItemResponseDto) action" where
  "TeamController_createWorkspaceItem parse P J now token rawTeam d =
     with_user J now token (\<lambda>user. with_id parse rawTeam (\<lambda>teamId.
       with_body (valid_CreateWorkspaceItemDto d)
         (bind_action (TeamService_createWorkspaceItem P now teamId (cur_userId user) d) (\<lambda>w.
          ret (item_dto w)))))"

definition TeamController_getWorkspaceItems ::
    "(string \<Rightarrow> int option) \<Rightarrow> prisma \<Rightarrow> jwt_lib \<Rightarrow> time \<Rightarrow> string option \<Rightarrow> string
      \<Rightarrow> (exn, 'z db_scheme, WorkspaceItemResponseDto list) action" where
  "TeamController_getWorkspaceItems parse P J now token rawTeam =
     with_user J now token (\<lambda>user. with_id parse rawTeam (\<lambda>teamId.
       bind_action (TeamService_getWorkspaceItems P teamId (cur_userId user)) (\<lambda>ws.
       ret (map item_dto ws))))"

definition WorkspaceItemController_getWorkspaceItemById ::
    "(string \<Rightarrow> int option) \<Rightarrow> prisma \<Rightarrow> jwt_lib \<Rightarrow> time \<Rightarrow> string option \<Rightarrow> string
      \<Rightarrow> (exn, 'z db_scheme, WorkspaceItemResponseDto) action" where
  "WorkspaceItemController_getWorkspaceItemById parse P J now token rawId =
     with_user J now token (\<lambda>user. with_id parse rawId (\<lambda>itemId.
       bind_action (TeamService_getWorkspaceItemById P itemId (cur_userId user)) (\<lambda>w. ret (item_dto w))))"

definition WorkspaceItemController_updateWorkspaceItem ::
    "(string \<Rightarrow> int option) \<Rightarrow> prisma \<Rightarrow> jwt_lib \<Rightarrow> time \<Rightarrow> string option \<Rightarrow> string \<Rightarrow> UpdateWorkspaceItemDto
      \<Rightarrow> (exn, 'z db_scheme, WorkspaceItemResponseDto) action" where
  "WorkspaceItemController_updateWorkspaceItem parse P J now token rawId d =
     with_user J now token (\<lambda>user. with_id parse rawId (\<lambda>itemId.
       with_body (valid_UpdateWorkspaceItemDto d)
         (bind_action (TeamService_updateWorkspaceItem P now itemId (cur_userId user) d) (\<lambda>w.
          ret (item_dto w)))))"

definition WorkspaceItemController_deleteWorkspaceItem ::
    "(string \<Rightarrow> int option) \<Rightarrow> prisma \<Rightarrow> jwt_lib \<Rightarrow> time \<Rightarrow> string option \<Rightarrow> string
      \<Rightarrow> (exn, 'z db_scheme, string) action" where
  "WorkspaceItemController_deleteWorkspaceItem parse P J now token rawId =
     with_user J now token (\<lambda>user. with_id parse rawId (\<lambda>itemId.
       TeamService_deleteWorkspaceItem P itemId (cur_userId user)))"

subsection \<open>Requests as steps\<close>

definition owned :: "'z db_scheme \<Rightarrow> bool" where
  "owned s = list_all (\<lambda>t. list_ex (\<lambda>m. member_teamId m = team_id t \<and> member_role m = OWNER)
     (rows (members s))) (rows (teams s))"

definition team_inv :: "'z db_scheme \<Rightarrow> bool" where
  "team_inv s = (db_inv s \<and> owned s)"

datatype team_request =
    CreateTeam time "string option" CreateTeamDto
  | GetMyTeams time "string option"
  | GetTeamById time "string option" string
  | GetTeamMembers time "string option" string
  | AddMember time "string option" string AddMemberDto
  | UpdateMemberRole time "string option" string string UpdateMemberRoleDto
  | RemoveMember time "string option" string string
  | CreateItem time "string option" string CreateWorkspaceItemDto
  | GetItems time "string option" string
  | GetItem time "string option" string
  | UpdateItem time "string option" string UpdateWorkspaceItemDto
  | DeleteItem time "string option" string

fun team_step ::
    "((exn, 'z db_scheme, team) action \<Rightarrow> (exn, 'z db_scheme, team) action) \<Rightarrow> (string \<Rightarrow> int option)
      \<Rightarrow> prisma \<Rightarrow> jwt_lib \<Rightarrow> 'z db_scheme \<Rightarrow> team_request \<Rightarrow> 'z db_scheme" where
  "team_step tx parse P J s (CreateTeam now tok d) = snd (TeamController_createTeam tx P J now tok d s)"
| "team_step tx parse P J s (GetMyTeams now tok) = snd (TeamController_getMyTeams P J now tok s)"
| "team_step tx parse P J s (GetTeamById now tok i) = snd (TeamController_getTeamById parse P J now tok i s)"
| "team_step tx parse P J s (GetTeamMembers now tok i) =
     snd (TeamController_getTeamMembers parse P J now tok i s)"
| "team_step tx parse P J s (AddMember now tok i d) =
     snd (TeamController_addMember parse P J now tok i d s)"
| "team_step tx parse P J s (UpdateMemberRole now tok i m d) =
     snd (TeamController_updateMemberRole parse P J now tok i m d s)"
| "team_step tx parse P J s (RemoveMember now tok i m) =
     snd (TeamController_removeMember parse P J now tok i m s)"
| "team_step tx parse P J s (CreateItem now tok i d) =
     snd (TeamController_createWorkspaceItem parse P J now tok i d s)"
| "team_step tx parse P J s (GetItems now tok i) =
     snd (TeamController_getWorkspaceItems parse P J now tok i s)"
| "team_step tx parse P J s (GetItem now tok i) =
     snd (WorkspaceItemController_getWorkspaceItemById parse P J now tok i s)"
| "team_step tx parse P J s (UpdateItem now tok i d) =
     snd (WorkspaceItemController_updateWorkspaceItem parse P J now tok i d s)"
| "team_step tx parse P J s (DeleteItem now tok i) =
     snd (WorkspaceItemController_deleteWorkspaceItem parse P J now tok i s)"

section \<open>The integer pipe\<close>

locale int_pipe =
  fixes parse :: "string \<Rightarrow> int option"
  assumes parse_some: "parse s = Some i \<Longrightarrow> int_numeral s \<and> i = read_int s"
begin

text \<open>The guard, which uses \<open>Number\<close>, and the handler, which gets the pipe's value, mean the
  same team.\<close>

lemma guard_agrees:
  assumes "parse s = Some i" and "\<bar>i\<bar> \<le> 2 ^ 53"
  shows "prisma_int (js_Number s) = Some i" "\<not> isNaN (js_Number s)" "truthy s"
proof -
  have n: "int_numeral s" "i = read_int s" using parse_some [OF assms(1)] by auto
  then have "js_Number s = Fin (of_int i)"
    using assms(2) by (simp add: js_Number_numeral to_jsnum_int)
  then show "prisma_int (js_Number s) = Some i" "\<not> isNaN (js_Number s)"
    by (simp_all add: prisma_int_def isNaN_def)
  show "truthy s" using n(1) by (auto simp: int_numeral_def truthy_def)
qed

end

definition numeral_pipe :: "string \<Rightarrow> int option" where
  "numeral_pipe s = (if int_numeral s then Some (read_int s) else None)"

interpretation numeral_pipe: int_pipe numeral_pipe
  by unfold_locales (simp add: numeral_pipe_def split: if_splits)

section \<open>Every step keeps the invariant\<close>

lemma preserves_with_user [intro]:
  "(\<And>u. preserves I (h u)) \<Longrightarrow> preserves I (with_user J now tok h)"
  by (auto simp: with_user_def split: sum.splits)

lemma preserves_with_id [intro]: "(\<And>i. preserves I (k i)) \<Longrightarrow> preserves I (with_id parse raw k)"
  by (auto simp: with_id_def split: option.splits)

lemma preserves_with_body [intro]: "preserves I k \<Longrightarrow> preserves I (with_body ok k)"
  by (auto simp: with_body_def)

lemma preserves_prod [intro]:
  "(\<And>a b. preserves I (f a b)) \<Longrightarrow> preserves I (case p of (a, b) \<Rightarrow> f a b)"
  by (cases p) simp

lemma owned_iff:
  "owned s \<longleftrightarrow> (\<forall>t \<in> set (rows (teams s)). \<exists>m \<in> set (rows (members s)).
     member_teamId m = team_id t \<and> member_role m = OWNER)"
  by (simp add: owned_def list_all_iff list_ex_iff)

lemma read_only_guard [simp]: "read_only (RolesGuard_canActivate P roles req u)"
  unfolding RolesGuard_canActivate_def
  by (intro read_only_option read_only_if read_only_bind) simp_all

lemma read_only_verify [simp]: "read_only (TeamService_verifyTeamMember P teamId userId)"
  unfolding TeamService_verifyTeamMember_def by (intro read_only_option read_only_bind) simp_all

lemma read_only_include_user [simp]: "read_only (include_user P m)"
  unfolding include_user_def by (intro read_only_bind) simp_all

lemma preserves_team_reads [intro, simp]:
  "preserves I (RolesGuard_canActivate P roles req u)"
  "preserves I (TeamService_verifyTeamMember P teamId userId)"
  "preserves I (include_user P m)"
  by (simp_all add: read_only_preserves)

lemma read_only_checks [simp]:
  "read_only (removeMember_check P teamId memberId)"
  "read_only (updateMemberRole_check P teamId memberId d)"
  unfolding removeMember_check_def updateMemberRole_check_def
  by (intro read_only_option read_only_bind read_only_if; simp)+

lemma team_inv_eq: "team_inv = (\<lambda>s. db_inv s \<and> owned s)"
  by (simp add: team_inv_def fun_eq_iff)

lemma owned_put [simp]: "owned (put_items t s) = owned s" "owned (put_users t' s) = owned s"
  by (simp_all add: owned_def put_defs)

lemma team_inv_wf: "team_inv s \<Longrightarrow> table_wf member_id (members s)"
  by (simp add: team_inv_def wf_tables)

lemma owned_add_member:
  "owned s \<Longrightarrow> owned (put_members \<lparr>rows = rows (members s) @ [m], seq = i\<rparr> s)"
  by (auto simp: owned_iff put_defs)

text \<open>Another OWNER of the same team is enough to drop or demote a member.\<close>

lemma owned_filter_members:
  assumes "owned s"
    and "\<And>m. m \<in> set (rows (members s)) \<Longrightarrow> member_id m = k \<Longrightarrow> member_role m = OWNER \<Longrightarrow>
      \<exists>n \<in> set (rows (members s)). member_teamId n = member_teamId m \<and> member_role n = OWNER \<and> member_id n \<noteq> k"
  shows "owned (put_members ((members s)\<lparr>rows := filter (\<lambda>x. member_id x \<noteq> k) (rows (members s))\<rparr>) s)"
  using assms by (fastforce simp: owned_iff put_defs)

lemma owned_update_members:
  assumes "owned s"
    and "\<And>m. m \<in> set (rows (members s)) \<Longrightarrow> member_id m = k \<Longrightarrow> member_role m = OWNER \<Longrightarrow> r \<noteq> OWNER \<Longrightarrow>
      \<exists>n \<in> set (rows (members s)). member_teamId n = member_teamId m \<and> member_role n = OWNER \<and> member_id n \<noteq> k"
  shows "owned (put_members ((members s)\<lparr>rows :=
           map (\<lambda>x. if member_id x = k then x\<lparr>member_role := r\<rparr> else x) (rows (members s))\<rparr>) s)"
proof -
  let ?f = "\<lambda>x. if member_id x = k then x\<lparr>member_role := r\<rparr> else x"
  have "\<exists>m \<in> set (map ?f (rows (members s))). member_teamId m = team_id t \<and> member_role m = OWNER"
    if t: "t \<in> set (rows (teams s))" for t
  proof -
    from assms(1) t obtain m where m: "m \<in> set (rows (members s))" "member_teamId m = team_id t"
      "member_role m = OWNER" by (auto simp: owned_iff)
    then obtain n where "n \<in> set (rows (members s))" "member_teamId n = team_id t"
      "member_role (?f n) = OWNER"
      using assms(2) [OF m(1)] by (cases "member_id m = k"; cases "r = OWNER") fastforce+
    then show ?thesis by (intro bexI [of _ "?f n"]) auto
  qed
  then show ?thesis by (simp add: owned_iff put_defs)
qed

context prisma_client begin

lemma keep_items [intro]:
  "(\<And>i. item_id (mk i) = i) \<Longrightarrow> preserves team_inv (q_create (item_d P) items put_items item_check mk)"
  "(\<And>x. item_id (f x) = item_id x) \<Longrightarrow>
     preserves team_inv (q_update (item_d P) items put_items item_check k f)"
  "preserves team_inv (q_delete (item_d P) items put_items (\<lambda>_ s. s) k)"
  unfolding team_inv_eq
  by (rule preserves_conj, blast, rule preserves_q_put, simp, (assumption | simp only: owned_put)?)+

lemma another_owner:
  assumes "team_inv s"
    and "\<not> countRows (member_d P) (\<lambda>n. member_teamId n = teamId \<and> member_role n = OWNER) (members s) \<le> 1"
  shows "\<exists>n \<in> set (rows (members s)). member_teamId n = teamId \<and> member_role n = OWNER \<and> member_id n \<noteq> k"
  using filter_another [of member_id "rows (members s)"
      "\<lambda>n. member_teamId n = teamId \<and> member_role n = OWNER" k] assms
  by (auto simp: member.countRows_eq table_wf_def dest: team_inv_wf)

lemma remove_check_ok:
  assumes "team_inv s" and "fst (removeMember_check P teamId memberId s) = Inr ()"
    and "m \<in> set (rows (members s))" "member_id m = memberId"
  shows "member_teamId m = teamId"
    and "member_role m = OWNER \<Longrightarrow>
      \<exists>n \<in> set (rows (members s)). member_teamId n = teamId \<and> member_role n = OWNER \<and> member_id n \<noteq> memberId"
  using assms(2) member.find_key_some [OF team_inv_wf [OF assms(1)] assms(3)] assms(4)
    another_owner [OF assms(1)]
  by (auto simp: removeMember_check_def split: if_splits)

lemma update_check_ok:
  assumes "team_inv s" and "fst (updateMemberRole_check P teamId memberId d s) = Inr ()"
    and "m \<in> set (rows (members s))" "member_id m = memberId"
  shows "member_teamId m = teamId"
    and "member_role m = OWNER \<Longrightarrow> um_role d \<noteq> OWNER \<Longrightarrow>
      \<exists>n \<in> set (rows (members s)). member_teamId n = teamId \<and> member_role n = OWNER \<and> member_id n \<noteq> memberId"
  using assms(2) member.find_key_some [OF team_inv_wf [OF assms(1)] assms(3)] assms(4)
    another_owner [OF assms(1)]
  by (auto simp: updateMemberRole_check_def split: if_splits)

lemma keep_removeMember: "preserves team_inv (TeamService_removeMember P teamId memberId)"
proof (rule preservesI)
  fix s :: "'z db_scheme" assume inv: "team_inv s"
  show "team_inv (snd (TeamService_removeMember P teamId memberId s))"
  proof (cases "fst (removeMember_check P teamId memberId s)")
    case (Inl e)
    then show ?thesis using inv by (simp add: TeamService_removeMember_def bind_read_only)
  next
    case (Inr u)
    then have ok: "fst (removeMember_check P teamId memberId s) = Inr ()" by simp
    let ?q = "q_delete (member_d P) members put_members (\<lambda>_ s. s) memberId"
    have "owned (put_members ((members s)\<lparr>rows :=
        filter (\<lambda>x. member_id x \<noteq> memberId) (rows (members s))\<rparr>) s)"
      by (rule owned_filter_members) (use inv remove_check_ok [OF inv ok] in \<open>auto simp: team_inv_def\<close>)
    then have "team_inv (snd (?q s))"
      using inv by (cases "has_row member_id (members s) memberId")
        (auto simp: team_inv_def has_row_iff member.delete_eq member.delete_missing inv_delete_member wf_tables)
    then show ?thesis
      by (auto simp: TeamService_removeMember_def bind_read_only ok removeMember_commit_def
          bind_action_def [of ?q] split: prod.splits sum.splits)
  qed
qed

lemma keep_updateMemberRole: "preserves team_inv (TeamService_updateMemberRole P teamId memberId d)"
proof (rule preservesI)
  fix s :: "'z db_scheme" assume inv: "team_inv s"
  show "team_inv (snd (TeamService_updateMemberRole P teamId memberId d s))"
  proof (cases "fst (updateMemberRole_check P teamId memberId d s)")
    case (Inl e)
    then show ?thesis using inv by (simp add: TeamService_updateMemberRole_def bind_read_only)
  next
    case (Inr u)
    then have ok: "fst (updateMemberRole_check P teamId memberId d s) = Inr ()" by simp
    let ?q = "q_update (member_d P) members put_members member_check memberId
      (\<lambda>m. m\<lparr>member_role := um_role d\<rparr>)"
    have "owned (put_members ((members s)\<lparr>rows :=
        map (\<lambda>x. if member_id x = memberId then x\<lparr>member_role := um_role d\<rparr> else x) (rows (members s))\<rparr>) s)"
      by (rule owned_update_members) (use inv update_check_ok [OF inv ok] in \<open>auto simp: team_inv_def\<close>)
    then have "owned (snd (?q s))"
      using inv by (cases "has_row member_id (members s) memberId")
        (auto simp: team_inv_def has_row_iff member.update_eq member.update_missing wf_tables split: option.splits)
    moreover have "db_inv (snd (?q s))"
      by (rule preserves_snd [OF keep_member_update]) (use inv in \<open>simp_all add: team_inv_def\<close>)
    ultimately have "team_inv (snd (?q s))" by (simp add: team_inv_def)
    then show ?thesis
      by (auto simp: TeamService_updateMemberRole_def bind_read_only ok
          bind_action_def [of ?q] read_only_snd split: prod.splits sum.splits)
  qed
qed

lemma keep_addMember: "preserves team_inv (TeamService_addMember P now teamId d)"
  unfolding TeamService_addMember_def team_inv_eq
  by (intro preserves_bind preserves_if preserves_throw preserves_q preserves_team_reads
      preserves_conj keep_member_create member.preserves_create owned_add_member) simp_all

lemma createTeam_body_cases:
  obtains i j where "seq (teams s) < i" "seq (members s) < j"
    "createTeam_body P now userId d s =
      (let t = \<lparr>team_id = i, team_name = ct_name d, team_createdAt = now\<rparr>;
           m = \<lparr>member_id = j, member_teamId = i, member_userId = userId, member_role = OWNER, member_joinedAt = now\<rparr>;
           s1 = put_teams \<lparr>rows = rows (teams s) @ [t], seq = i\<rparr> s
       in case member_check s1 m of
            Some e \<Rightarrow> (Inl (PrismaError e), s1)
          | None \<Rightarrow> (Inr t, put_members \<lparr>rows = rows (members s) @ [m], seq = j\<rparr> s1))"
proof -
  let ?t = "\<lambda>i. \<lparr>team_id = i, team_name = ct_name d, team_createdAt = now\<rparr>"
  let ?m = "\<lambda>i j. \<lparr>member_id = j, member_teamId = i, member_userId = userId, member_role = OWNER, member_joinedAt = now\<rparr>"
  obtain i where i: "seq (teams s) < i" "q_create (team_d P) teams put_teams no_check ?t s =
      (case no_check s (?t i) of Some e \<Rightarrow> (Inl (PrismaError e), s)
       | None \<Rightarrow> (Inr (?t i), put_teams \<lparr>rows = rows (teams s) @ [?t i], seq = i\<rparr> s))"
    by (rule team.create_cases)
  let ?s = "put_teams \<lparr>rows = rows (teams s) @ [?t i], seq = i\<rparr> s"
  obtain j where j: "seq (members ?s) < j" "q_create (member_d P) members put_members member_check (?m i) ?s =
      (case member_check ?s (?m i j) of Some e \<Rightarrow> (Inl (PrismaError e), ?s)
       | None \<Rightarrow> (Inr (?m i j), put_members \<lparr>rows = rows (members ?s) @ [?m i j], seq = j\<rparr> ?s))"
    by (rule member.create_cases)
  show ?thesis
    by (rule that [OF i(1), of j]) (use i j in \<open>auto simp: createTeam_body_def no_check_def
        bind_apply_Inr Let_def put_teams_def bind_action_def split: option.splits\<close>)
qed

lemma keep_createTeam:
  fixes tx :: "(exn, 'z db_scheme, team) action \<Rightarrow> (exn, 'z db_scheme, team) action"
  assumes "atomic tx"
  shows "preserves team_inv (TeamService_createTeam tx P now userId d)"
proof (rule preservesI)
  fix s :: "'z db_scheme" assume inv: "team_inv s"
  obtain i j where ij: "seq (teams s) < i" "seq (members s) < j"
    "createTeam_body P now userId d s =
      (let t = \<lparr>team_id = i, team_name = ct_name d, team_createdAt = now\<rparr>;
           m = \<lparr>member_id = j, member_teamId = i, member_userId = userId, member_role = OWNER, member_joinedAt = now\<rparr>;
           s1 = put_teams \<lparr>rows = rows (teams s) @ [t], seq = i\<rparr> s
       in case member_check s1 m of
            Some e \<Rightarrow> (Inl (PrismaError e), s1)
          | None \<Rightarrow> (Inr t, put_members \<lparr>rows = rows (members s) @ [m], seq = j\<rparr> s1))"
    by (rule createTeam_body_cases)
  have "preserves db_inv (createTeam_body P now userId d :: (exn, 'z db_scheme, team) action)"
    unfolding createTeam_body_def
    by (intro preserves_bind keep_team_create keep_member_create preserves_ret) simp_all
  with inv have "db_inv (snd (createTeam_body P now userId d s))"
    by (simp add: preserves_def team_inv_def)
  then show "team_inv (snd (TeamService_createTeam tx P now userId d s))"
    using inv assms ij
    by (auto simp: TeamService_createTeam_def atomic_def team_inv_def owned_iff put_defs Let_def
        split: option.splits)
qed

lemma keep_service:
  "preserves team_inv (TeamService_getMyTeams P userId)"
  "preserves team_inv (TeamService_getTeamById P teamId userId)"
  "preserves team_inv (TeamService_getTeamMembers P teamId userId)"
  "preserves team_inv (TeamService_createWorkspaceItem P now teamId userId cd)"
  "preserves team_inv (TeamService_getWorkspaceItems P teamId userId)"
  "preserves team_inv (TeamService_getWorkspaceItemById P itemId userId)"
  "preserves team_inv (TeamService_updateWorkspaceItem P now itemId userId ud)"
  "preserves team_inv (TeamService_deleteWorkspaceItem P itemId userId)"
  unfolding TeamService_getMyTeams_def TeamService_getTeamById_def TeamService_getTeamMembers_def
    TeamService_createWorkspaceItem_def TeamService_getWorkspaceItems_def
    TeamService_getWorkspaceItemById_def TeamService_updateWorkspaceItem_def
    TeamService_deleteWorkspaceItem_def
  by (intro preserves_bind preserves_option preserves_if preserves_map_action preserves_throw
      preserves_ret preserves_q preserves_related preserves_team_reads keep_items; simp)+

lemma team_step_laws:
  fixes tx :: "(exn, 'z db_scheme, team) action \<Rightarrow> (exn, 'z db_scheme, team) action"
  assumes "atomic tx"
  shows "step_system (team_step tx parse P J) team_inv"
proof
  fix s :: "'z db_scheme" and c
  assume "team_inv s"
  then show "team_inv (team_step tx parse P J s c)"
    by (cases c) (simp_all, (rule preserves_snd, (unfold
        TeamController_createTeam_def TeamController_getMyTeams_def TeamController_getTeamById_def
        TeamController_getTeamMembers_def TeamController_addMember_def
        TeamController_updateMemberRole_def TeamController_removeMember_def
        TeamController_createWorkspaceItem_def TeamController_getWorkspaceItems_def
        WorkspaceItemController_getWorkspaceItemById_def
        WorkspaceItemController_updateWorkspaceItem_def WorkspaceItemController_deleteWorkspaceItem_def)[1],
      intro preserves_with_user preserves_with_id preserves_with_body preserves_bind preserves_prod
        preserves_ret preserves_team_reads keep_service keep_createTeam [OF assms] keep_addMember
        keep_updateMemberRole keep_removeMember, assumption)+)
qed

end

interpretation mem_teams: step_system "team_step rollback_tx numeral_pipe mem_prisma (plain_jwt 86400000)"
    "team_inv :: db \<Rightarrow> bool"
  by (rule mem.team_step_laws) simp

section \<open>Requests that pass the guard\<close>

lemma with_user_change:
  "snd (with_user J now tok h s) \<noteq> s \<Longrightarrow> \<exists>u. jwt_guard J now tok = Inr u \<and> snd (h u s) \<noteq> s"
  by (auto simp: with_user_def split: sum.splits)

lemma with_id_change: "snd (with_id parse raw k s) \<noteq> s \<Longrightarrow> \<exists>i. parse raw = Some i \<and> snd (k i s) \<noteq> s"
  by (auto simp: with_id_def split: option.splits)

lemma bind_read_only_change:
  "read_only m \<Longrightarrow> snd (bind_action m f s) \<noteq> s \<Longrightarrow> \<exists>a. fst (m s) = Inr a \<and> snd (f a s) \<noteq> s"
  by (auto simp: bind_read_only split: sum.splits)

lemma snd_bind_read_only: "(\<And>a. read_only (f a)) \<Longrightarrow> snd (bind_action m f s) = snd (m s)"
  by (auto simp: bind_action_def read_only_snd split: prod.splits sum.splits)

context prisma_client begin

lemma guard_membership:
  assumes "fst (RolesGuard_canActivate P (Some roles) req user s) = Inr x"
    and "extractTeamId req = Some (RawString raw)" and "prisma_int (js_Number raw) = Some teamId"
  shows "\<exists>m \<in> set (rows (members s)). member_teamId m = teamId \<and> member_userId m = cur_userId user \<and>
           member_role m \<in> set roles"
proof (cases "findFirst (member_d P)
    (\<lambda>m. member_teamId m = teamId \<and> member_userId m = cur_userId user) (members s)")
  case None
  then show ?thesis using assms by (simp add: RolesGuard_canActivate_def raw_Number_def split: if_splits)
next
  case (Some m)
  then show ?thesis using assms member.findFirst_some [OF Some]
    by (auto simp: RolesGuard_canActivate_def raw_Number_def split: if_splits)
qed

lemma check_found:
  assumes "fst (removeMember_check P teamId memberId s) = Inr u \<or>
    fst (updateMemberRole_check P teamId memberId d s) = Inr u"
  shows "\<exists>m \<in> set (rows (members s)). member_id m = memberId \<and> member_teamId m = teamId"
proof (cases "findFirst (member_d P) (\<lambda>m. member_id m = memberId) (members s)")
  case None
  then show ?thesis using assms by (simp add: removeMember_check_def updateMemberRole_check_def)
next
  case (Some m)
  then show ?thesis using assms member.findFirst_some [OF Some]
    by (auto simp: removeMember_check_def updateMemberRole_check_def split: if_splits)
qed

text \<open>What the three membership writes do to the rows of other teams.\<close>

lemma addMember_other_teams:
  "filter (\<lambda>m. member_teamId m \<noteq> teamId) (rows (members (snd (TeamService_addMember P now teamId d s)))) =
   filter (\<lambda>m. member_teamId m \<noteq> teamId) (rows (members s))"
proof -
  let ?mk = "\<lambda>i. \<lparr>member_id = i, member_teamId = teamId, member_userId = am_userId d,
               member_role = am_role d, member_joinedAt = now\<rparr>"
  obtain i where "q_create (member_d P) members put_members member_check ?mk s =
      (case member_check s (?mk i) of Some e \<Rightarrow> (Inl (PrismaError e), s)
       | None \<Rightarrow> (Inr (?mk i), put_members \<lparr>rows = rows (members s) @ [?mk i], seq = i\<rparr> s))"
    by (rule member.create_cases)
  then show ?thesis
    by (auto simp: TeamService_addMember_def snd_bind_read_only put_members_def split: option.splits)
qed

lemma removeMember_other_teams:
  assumes "db_inv s"
  shows "filter (\<lambda>m. member_teamId m \<noteq> teamId) (rows (members (snd (TeamService_removeMember P teamId memberId s)))) =
         filter (\<lambda>m. member_teamId m \<noteq> teamId) (rows (members s))"
proof (cases "fst (removeMember_check P teamId memberId s)")
  case (Inl e)
  then show ?thesis by (simp add: TeamService_removeMember_def bind_read_only)
next
  case (Inr u)
  then obtain m where m: "m \<in> set (rows (members s))" "member_id m = memberId" "member_teamId m = teamId"
    using check_found by blast
  have same: "member_teamId x = teamId" if "x \<in> set (rows (members s))" "member_id x = memberId" for x
    using table_wf_unique [OF wf_tables(6) [OF assms] that(1) m(1)] that(2) m(2,3) by metis
  have "filter (\<lambda>x. member_id x \<noteq> memberId \<and> member_teamId x \<noteq> teamId) (rows (members s)) =
        filter (\<lambda>x. member_teamId x \<noteq> teamId) (rows (members s))"
    using same by (intro filter_cong) auto
  then show ?thesis
    using Inr member.delete_eq [of members s m, OF wf_tables(6) [OF assms] m(1)] m
    by (simp add: TeamService_removeMember_def bind_read_only removeMember_commit_def
        snd_bind_read_only put_members_def)
qed

lemma updateMemberRole_other_teams:
  assumes "db_inv s"
  shows "filter (\<lambda>m. member_teamId m \<noteq> teamId) (rows (members (snd (TeamService_updateMemberRole P teamId memberId d s)))) =
         filter (\<lambda>m. member_teamId m \<noteq> teamId) (rows (members s))"
proof (cases "fst (updateMemberRole_check P teamId memberId d s)")
  case (Inl e)
  then show ?thesis by (simp add: TeamService_updateMemberRole_def bind_read_only)
next
  case (Inr u)
  then obtain m where m: "m \<in> set (rows (members s))" "member_id m = memberId" "member_teamId m = teamId"
    using check_found by blast
  have same: "member_teamId x = teamId" if "x \<in> set (rows (members s))" "member_id x = memberId" for x
    using table_wf_unique [OF wf_tables(6) [OF assms] that(1) m(1)] that(2) m(2,3) by metis
  have "filter (\<lambda>x. member_teamId x \<noteq> teamId)
          (map (\<lambda>x. if member_id x = memberId then x\<lparr>member_role := um_role d\<rparr> else x) xs) =
        filter (\<lambda>x. member_teamId x \<noteq> teamId) xs" if "set xs \<subseteq> set (rows (members s))" for xs
    using that same by (induction xs) auto
  then show ?thesis
    using Inr member.update_eq [of members s m, OF wf_tables(6) [OF assms] m(1)] m
    by (auto simp: TeamService_updateMemberRole_def bind_read_only
        snd_bind_read_only put_members_def split: option.splits)
qed

end

context prisma_client begin

lemma commit_eq:
  assumes "table_wf member_id (members s)" and "m \<in> set (rows (members s))"
  shows "removeMember_commit P (member_id m) s = (Inr ''Member removed successfully'',
    put_members ((members s)\<lparr>rows := filter (\<lambda>x. member_id x \<noteq> member_id m) (rows (members s))\<rparr>) s)"
  using member.delete_eq [of members s m, OF assms] by (simp add: removeMember_commit_def bind_apply_Inr)

lemma remove_race:
  assumes "team_inv s"
    and owners: "filter (\<lambda>n. member_teamId n = teamId \<and> member_role n = OWNER) (rows (members s)) = [a, b]"
  shows "removeMember_check P teamId (member_id a) s = (Inr (), s)"
    and "removeMember_check P teamId (member_id b) s = (Inr (), s)"
    and "\<not> owned (snd (removeMember_commit P (member_id b) (snd (removeMember_commit P (member_id a) s))))"
proof -
  have ab: "a \<in> set (rows (members s))" "b \<in> set (rows (members s))" "member_teamId a = teamId"
    "member_role a = OWNER" "member_teamId b = teamId" "member_role b = OWNER"
    using arg_cong [OF owners, of set] by auto
  note wf = team_inv_wf [OF assms(1)]
  have c: "countRows (member_d P) (\<lambda>n. member_teamId n = teamId \<and> member_role n = OWNER) (members s) = 2"
    by (simp add: member.countRows_eq owners)
  show "removeMember_check P teamId (member_id a) s = (Inr (), s)"
    "removeMember_check P teamId (member_id b) s = (Inr (), s)"
    using ab c by (simp_all add: removeMember_check_def member.find_key_some [OF wf])
  have "distinct (map member_id (filter (\<lambda>n. member_teamId n = teamId \<and> member_role n = OWNER) (rows (members s))))"
    using wf by (simp add: table_wf_def distinct_map_filter)
  then have ne: "member_id a \<noteq> member_id b" by (simp add: owners)
  let ?s = "put_members ((members s)\<lparr>rows := filter (\<lambda>x. member_id x \<noteq> member_id a) (rows (members s))\<rparr>) s"
  have "snd (removeMember_commit P (member_id b) ?s) =
      put_members ((members ?s)\<lparr>rows := filter (\<lambda>x. member_id x \<noteq> member_id b) (rows (members ?s))\<rparr>) ?s"
    using commit_eq [of ?s b] ab(2) ne wf by (simp add: put_members_def table_wf_filter)
  moreover have "\<exists>t \<in> set (rows (teams s)). team_id t = teamId"
    using assms(1) ab(1,3) by (auto simp: team_inv_def inv_defs passes_iff member_check_def has_row_iff split: if_splits)
  moreover have "n = a \<or> n = b" if "n \<in> set (rows (members s))" "member_teamId n = teamId" "member_role n = OWNER" for n
    using arg_cong [OF owners, of set] that by auto
  ultimately show "\<not> owned (snd (removeMember_commit P (member_id b) (snd (removeMember_commit P (member_id a) s))))"
    using commit_eq [OF wf ab(1)] by (fastforce simp: owned_iff put_members_def)
qed

end

lemma extract_param [simp]:
  "truthy raw \<Longrightarrow> extractTeamId \<lparr>req_params_teamId = None, req_params_id = Some (RawString raw),
      req_body_teamId = b\<rparr> = Some (RawString raw)"
  "truthy raw \<Longrightarrow> extractTeamId \<lparr>req_params_teamId = Some (RawString raw), req_params_id = p,
      req_body_teamId = b\<rparr> = Some (RawString raw)"
  by (simp_all add: extractTeamId_def truthy_raw_def)

text \<open>The shape the three membership handlers share: authenticate, check the role, read the
  team, act.\<close>

lemma guarded_change:
  assumes "prisma_client P" and "int_pipe parse" and "parse raw = Some teamId" and "\<bar>teamId\<bar> \<le> 2 ^ 53"
    and "extractTeamId req = Some (RawString raw)"
    and "t = snd (with_user J now tok (\<lambda>user.
           bind_action (RolesGuard_canActivate P (Some team_roles) req user) (\<lambda>_. with_id parse raw k)) s)"
    and "t \<noteq> s"
  shows "(\<exists>user m. jwt_guard J now tok = Inr user \<and> m \<in> set (rows (members s)) \<and>
            member_teamId m = teamId \<and> member_userId m = cur_userId user \<and> member_role m \<in> {OWNER, MANAGER}) \<and>
         t = snd (k teamId s)"
proof -
  obtain user where user: "jwt_guard J now tok = Inr user"
    "snd (bind_action (RolesGuard_canActivate P (Some team_roles) req user) (\<lambda>_. with_id parse raw k) s) \<noteq> s"
    using with_user_change [OF assms(7) [unfolded assms(6)]] by blast
  obtain x where x: "fst (RolesGuard_canActivate P (Some team_roles) req user s) = Inr x"
    using bind_read_only_change [OF read_only_guard user(2)] by blast
  note m = prisma_client.guard_membership [OF assms(1) x assms(5) int_pipe.guard_agrees(1) [OF assms(2-4)]]
  show ?thesis
    using m user(1) x assms(3,6) by (auto simp: with_user_def bind_read_only with_id_def team_roles_def)
qed

lemma snd_with_id_ret:
  "snd (with_id parse raw (\<lambda>i. bind_action (m i) (\<lambda>a. ret (f a))) s) = snd (with_id parse raw m s)"
  by (simp add: with_id_def snd_bind_read_only split: option.splits)

lemma snd_with_id:
  "snd (with_id parse raw m s) = (case parse raw of None \<Rightarrow> s | Some i \<Rightarrow> snd (m i s))"
  by (simp add: with_id_def split: option.splits)

section \<open>Properties\<close>

text \<open>Whatever requests reach the team and workspace-item controllers, in any order and
  with any tokens, every team keeps at least one OWNER and the store keeps its
  integrity.\<close>

theorem teams_keep_owner:
  assumes "prisma_client P" and "atomic tx" and "team_inv s"
  shows "owned (foldl (team_step tx parse P J) s reqs) \<and> db_inv (foldl (team_step tx parse P J) s reqs)"
  using step_system.run_inv [OF prisma_client.team_step_laws [OF assms(1,2)] assms(3)]
  by (simp add: team_inv_def)

definition alice_token :: string where
  "alice_token = plain_sign 10 \<lparr>jwt_sub = 1, jwt_email = ''alice@example.com''\<rparr>"

definition bob_row :: user where
  "bob_row = \<lparr>user_id = 2, user_email = ''bob@example.com'', user_passwordHash = ''$2a$10$secret2'',
     user_nickname = ''bob'', user_createdAt = 6\<rparr>"

definition member_row :: "int \<Rightarrow> int \<Rightarrow> TeamRole \<Rightarrow> team_member" where
  "member_row i u r = \<lparr>member_id = i, member_teamId = 1, member_userId = u, member_role = r, member_joinedAt = 8\<rparr>"

text \<open>A team with two members, for the witnesses.\<close>

definition team_db :: "TeamRole \<Rightarrow> db" where
  "team_db r = empty_db\<lparr>users := \<lparr>rows = [alice_row, bob_row], seq = 2\<rparr>,
     teams := \<lparr>rows = [\<lparr>team_id = 1, team_name = ''core'', team_createdAt = 8\<rparr>], seq = 1\<rparr>,
     members := \<lparr>rows = [member_row 1 1 OWNER, member_row 2 2 r], seq = 2\<rparr>\<rparr>"

lemma team_db_inv: "team_inv (team_db r)"
  by (cases r; code_simp)

theorem teams_keep_owner_witness:
  "owned (foldl (team_step rollback_tx numeral_pipe mem_prisma (plain_jwt 86400000)) (team_db MEMBER)
     [CreateTeam 20 (Some alice_token) \<lparr>ct_name = ''new''\<rparr>,
      RemoveMember 21 (Some alice_token) ''1'' ''1'',
      RemoveMember 22 (Some alice_token) ''1'' ''2''])"
  using teams_keep_owner [OF mem.prisma_client_axioms atomic_rollback team_db_inv] by blast

text \<open>C16: A membership handler (add, change role, remove) that changes anything was called with
  a valid token of an OWNER or MANAGER of the very team named in the route, although the
  guard reads the parameter with \<open>Number\<close> and the handler with the integer pipe; and it
  touches no membership of another team.\<close>

theorem membership_handlers_guarded:
  assumes "prisma_client P" and "int_pipe parse" and "parse rawTeam = Some teamId" and "\<bar>teamId\<bar> \<le> 2 ^ 53"
    and "db_inv s"
    and "c \<in> {AddMember now tok rawTeam ad, UpdateMemberRole now tok rawTeam rawMember ud,
              RemoveMember now tok rawTeam rawMember}"
    and "team_step tx parse P J s c \<noteq> s"
  shows "(\<exists>user m. jwt_guard J now tok = Inr user \<and> m \<in> set (rows (members s)) \<and>
            member_teamId m = teamId \<and> member_userId m = cur_userId user \<and> member_role m \<in> {OWNER, MANAGER}) \<and>
         filter (\<lambda>m. member_teamId m \<noteq> teamId) (rows (members (team_step tx parse P J s c))) =
         filter (\<lambda>m. member_teamId m \<noteq> teamId) (rows (members s))"
proof -
  have tr: "truthy rawTeam" by (rule int_pipe.guard_agrees(3) [OF assms(2-4)])
  note change = guarded_change [OF assms(1-4)]
  note other = prisma_client.addMember_other_teams [OF assms(1)]
    prisma_client.removeMember_other_teams [OF assms(1,5)]
    prisma_client.updateMemberRole_other_teams [OF assms(1,5)]
  from assms(6) consider "c = AddMember now tok rawTeam ad"
    | "c = UpdateMemberRole now tok rawTeam rawMember ud" | "c = RemoveMember now tok rawTeam rawMember"
    by blast
  then show ?thesis
  proof cases
    case 1
    show ?thesis
      using 1 change [OF extract_param(1) [OF tr] team_step.simps(5) [unfolded TeamController_addMember_def]
          assms(7) [unfolded 1]]
      by (simp add: snd_bind_read_only other del: team_step.simps)
  next
    case 2
    show ?thesis
      using 2 change [OF extract_param(2) [OF tr] team_step.simps(6) [unfolded TeamController_updateMemberRole_def]
          assms(7) [unfolded 2]]
      by (simp add: snd_with_id_ret snd_with_id other del: team_step.simps split: option.splits)
  next
    case 3
    show ?thesis
      using 3 change [OF extract_param(2) [OF tr] team_step.simps(7) [unfolded TeamController_removeMember_def]
          assms(7) [unfolded 3]]
      by (simp add: snd_with_id other del: team_step.simps split: option.splits)
  qed
qed

theorem membership_handlers_guarded_witness:
  "team_step rollback_tx numeral_pipe mem_prisma (plain_jwt 86400000) (team_db MEMBER)
     (RemoveMember 21 (Some alice_token) ''1'' ''2'') \<noteq> team_db MEMBER \<and>
   (\<exists>user m. jwt_guard (plain_jwt 86400000) 21 (Some alice_token) = Inr user \<and>
      m \<in> set (rows (members (team_db MEMBER))) \<and> member_teamId m = 1 \<and>
      member_userId m = cur_userId user \<and> member_role m \<in> {OWNER, MANAGER})"
proof -
  have ne: "team_step rollback_tx numeral_pipe mem_prisma (plain_jwt 86400000) (team_db MEMBER)
     (RemoveMember 21 (Some alice_token) ''1'' ''2'') \<noteq> team_db MEMBER"
    by code_simp
  have "numeral_pipe ''1'' = Some 1" by code_simp
  from membership_handlers_guarded [OF mem.prisma_client_axioms numeral_pipe.int_pipe_axioms this _ _ _ ne,
      of 21 "Some alice_token" undefined "''2''" undefined] ne team_db_inv
  show ?thesis by (simp add: team_inv_def)
qed

text \<open>The last OWNER of a team can be neither removed nor demoted: the request is refused
  with 400 and nothing changes.\<close>

theorem last_owner_protected:
  assumes "prisma_client P" and "db_inv s"
    and "filter (\<lambda>n. member_teamId n = teamId \<and> member_role n = OWNER) (rows (members s)) = [m]"
  shows "TeamService_removeMember P teamId (member_id m) s =
           (Inl (NestException NestBadRequest ''Cannot remove the last owner''), s) \<and>
         (um_role d \<noteq> OWNER \<longrightarrow>
          TeamService_updateMemberRole P teamId (member_id m) d s =
            (Inl (NestException NestBadRequest ''Cannot change the role of the last owner''), s))"
proof -
  have m: "m \<in> set (rows (members s))" "member_teamId m = teamId" "member_role m = OWNER"
    using arg_cong [OF assms(3), of set] by auto
  note tab = prisma_client.member_table [OF assms(1)]
  note find = prisma_table.find_key_some [OF tab wf_tables(6) [OF assms(2)] m(1)]
  have "countRows (member_d P) (\<lambda>n. member_teamId n = teamId \<and> member_role n = OWNER) (members s) = 1"
    using prisma_table.countRows_eq [OF tab] assms(3) by simp
  with find m show ?thesis
    by (simp add: TeamService_removeMember_def removeMember_check_def TeamService_updateMemberRole_def
        updateMemberRole_check_def bind_apply_Inl)
qed

theorem last_owner_protected_witness:
  "TeamService_removeMember mem_prisma 1 1 (team_db MANAGER) =
     (Inl (NestException NestBadRequest ''Cannot remove the last owner''), team_db MANAGER)"
proof -
  have "filter (\<lambda>n. member_teamId n = 1 \<and> member_role n = OWNER) (rows (members (team_db MANAGER))) =
      [member_row 1 1 OWNER]" by code_simp
  from last_owner_protected [OF mem.prisma_client_axioms _ this] team_db_inv
  show ?thesis by (simp add: team_inv_def member_row_def)
qed

text \<open>C34: Workspace items are visible and writable for members only: for anyone else every
  item operation of the team ends with 403 and changes nothing.\<close>

theorem workspace_items_members_only:
  assumes "prisma_client P" and "db_inv s"
    and "\<not> (\<exists>m \<in> set (rows (members s)). member_teamId m = teamId \<and> member_userId m = userId)"
    and "w \<in> set (rows (items s))" and "item_teamId w = teamId"
  shows "TeamService_createWorkspaceItem P now teamId userId cd s =
           (Inl (NestException NestForbidden ''You are not a member of this team''), s) \<and>
         TeamService_getWorkspaceItems P teamId userId s =
           (Inl (NestException NestForbidden ''You are not a member of this team''), s) \<and>
         TeamService_getWorkspaceItemById P (item_id w) userId s =
           (Inl (NestException NestForbidden ''You are not a member of this team''), s) \<and>
         TeamService_updateWorkspaceItem P now (item_id w) userId ud s =
           (Inl (NestException NestForbidden ''You are not a member of this team''), s) \<and>
         TeamService_deleteWorkspaceItem P (item_id w) userId s =
           (Inl (NestException NestForbidden ''You are not a member of this team''), s)"
proof -
  note tab = prisma_client.member_table [OF assms(1)] prisma_client.item_table [OF assms(1)]
  have "findFirst (member_d P) (\<lambda>m. member_teamId m = teamId \<and> member_userId m = userId) (members s) = None"
    using assms(3) by (simp add: prisma_table.findFirst_none [OF tab(1)])
  then have v: "TeamService_verifyTeamMember P teamId userId s =
      (Inl (NestException NestForbidden ''You are not a member of this team''), s)"
    by (simp add: TeamService_verifyTeamMember_def)
  note find = prisma_table.find_key_some [OF tab(2) wf_tables(7) [OF assms(2)] assms(4)]
  show ?thesis
    using v find assms(5)
    by (simp add: TeamService_createWorkspaceItem_def TeamService_getWorkspaceItems_def
        TeamService_getWorkspaceItemById_def TeamService_updateWorkspaceItem_def
        TeamService_deleteWorkspaceItem_def bind_apply_Inl)
qed

definition item_db :: db where
  "item_db = (team_db MEMBER)\<lparr>items := \<lparr>rows = [\<lparr>item_id = 1, item_teamId = 1, item_title = ''plan'',
     item_content = None, item_createdBy = 1, item_createdAt = 9, item_updatedAt = 9\<rparr>], seq = 1\<rparr>\<rparr>"

theorem workspace_items_members_only_witness:
  "TeamService_deleteWorkspaceItem mem_prisma 1 3 item_db =
     (Inl (NestException NestForbidden ''You are not a member of this team''), item_db)"
proof -
  have "db_inv item_db" by code_simp
  moreover have "\<not> (\<exists>m \<in> set (rows (members item_db)). member_teamId m = 1 \<and> member_userId m = 3)"
    by code_simp
  ultimately show ?thesis
    using workspace_items_members_only [OF mem.prisma_client_axioms, of item_db 1 3 "hd (rows (items item_db))"]
    by (simp add: item_db_def)
qed

text \<open>Creating a team is all or nothing: for an existing user it adds the team together
  with an OWNER membership of the creator; for a user that is gone it leaves no team
  behind.\<close>

theorem createTeam_atomic:
  assumes "prisma_client P" and "atomic tx" and "db_inv s"
  shows "if has_row user_id (users s) userId
         then \<exists>t m. TeamService_createTeam tx P now userId d s =
                (Inr t, s\<lparr>teams := \<lparr>rows = rows (teams s) @ [t], seq = team_id t\<rparr>,
                          members := \<lparr>rows = rows (members s) @ [m], seq = member_id m\<rparr>\<rparr>) \<and>
                \<not> has_row team_id (teams s) (team_id t) \<and> team_name t = ct_name d \<and>
                member_teamId m = team_id t \<and> member_userId m = userId \<and> member_role m = OWNER
         else TeamService_createTeam tx P now userId d s = (Inl (PrismaError P2003), s)"
proof -
  obtain i j where ij: "seq (teams s) < i" "seq (members s) < j"
    "createTeam_body P now userId d s =
      (let t = \<lparr>team_id = i, team_name = ct_name d, team_createdAt = now\<rparr>;
           m = \<lparr>member_id = j, member_teamId = i, member_userId = userId, member_role = OWNER, member_joinedAt = now\<rparr>;
           s1 = put_teams \<lparr>rows = rows (teams s) @ [t], seq = i\<rparr> s
       in case member_check s1 m of
            Some e \<Rightarrow> (Inl (PrismaError e), s1)
          | None \<Rightarrow> (Inr t, put_members \<lparr>rows = rows (members s) @ [m], seq = j\<rparr> s1))"
    by (rule prisma_client.createTeam_body_cases [OF assms(1)])
  have fresh: "\<not> has_row team_id (teams s) i"
    using ij(1) wf_tables(5) [OF assms(3)] by (auto simp: has_row_iff table_wf_def list_all_iff)
  have "member_teamId n \<noteq> i" if "n \<in> set (rows (members s))" for n
    using that assms(3) fresh by (auto simp: inv_defs passes_iff member_check_def)
  then have "member_check (put_teams \<lparr>rows = rows (teams s) @ [\<lparr>team_id = i, team_name = ct_name d, team_createdAt = now\<rparr>], seq = i\<rparr> s)
      \<lparr>member_id = j, member_teamId = i, member_userId = userId, member_role = OWNER, member_joinedAt = now\<rparr> =
      (if has_row user_id (users s) userId then None else Some P2003)"
    by (auto simp: member_check_def put_teams_def list_ex_iff)
  with ij(3) fresh assms(2) show ?thesis
    by (cases "has_row user_id (users s) userId")
      (auto simp: TeamService_createTeam_def atomic_def Let_def put_defs
        intro!: exI [of _ "\<lparr>member_id = j, member_teamId = i, member_userId = userId, member_role = OWNER, member_joinedAt = now\<rparr>"])
qed

theorem createTeam_atomic_witness:
  "TeamService_createTeam rollback_tx mem_prisma 9 7 \<lparr>ct_name = ''ghost''\<rparr> (team_db OWNER) =
     (Inl (PrismaError P2003), team_db OWNER)"
proof -
  have "\<not> has_row user_id (users (team_db OWNER)) 7" by code_simp
  with createTeam_atomic [OF mem.prisma_client_axioms atomic_rollback, of "team_db OWNER" 7 9 "\<lparr>ct_name = ''ghost''\<rparr>"]
    team_db_inv show ?thesis by (simp add: team_inv_def)
qed

text \<open>C38: The last-owner check and the deletion are separate statements outside a transaction.
  When a team has exactly two OWNERs and two requests remove them at the same time, both
  checks pass before either deletion, and the team is left without an OWNER.\<close>

theorem remove_owner_race:
  assumes "prisma_client P" and "team_inv s"
    and "filter (\<lambda>n. member_teamId n = teamId \<and> member_role n = OWNER) (rows (members s)) = [a, b]"
  shows "removeMember_check P teamId (member_id a) s = (Inr (), s) \<and>
         removeMember_check P teamId (member_id b) s = (Inr (), s) \<and>
         \<not> owned (snd (removeMember_commit P (member_id b) (snd (removeMember_commit P (member_id a) s))))"
  using prisma_client.remove_race [OF assms] by blast

theorem remove_owner_race_witness:
  "team_inv (team_db OWNER) \<and>
   removeMember_check mem_prisma 1 1 (team_db OWNER) = (Inr (), team_db OWNER) \<and>
   removeMember_check mem_prisma 1 2 (team_db OWNER) = (Inr (), team_db OWNER) \<and>
   \<not> owned (snd (removeMember_commit mem_prisma 2 (snd (removeMember_commit mem_prisma 1 (team_db OWNER)))))"
proof -
  have "filter (\<lambda>n. member_teamId n = 1 \<and> member_role n = OWNER) (rows (members (team_db OWNER))) =
      [member_row 1 1 OWNER, member_row 2 2 OWNER]" by code_simp
  from remove_owner_race [OF mem.prisma_client_axioms team_db_inv this] team_db_inv [of OWNER]
  show ?thesis by (simp add: member_row_def)
qed

end
