(* ===== verification/Client_Tracker.thy ===== *)
theory Client_Tracker
  imports Teams
begin

text \<open>
  The client side of the issue tracker (\<open>react/frontend/src\<close>): the interceptors of the HTTP client
  (\<open>shared/lib/apiClient.ts\<close>) and what they do when the application starts (\<open>features/auth\<close>), the
  parameters in the address (\<open>shared/hooks/useQueryParams.ts\<close>) with the product search page, the
  keys of all queries and what every mutation invalidates (\<open>features/*/hooks.ts\<close>), and the role of
  the user in a team (\<open>features/team/useTeamRole.ts\<close>) with the controls of the team page, which are
  compared with the guard and the handlers of the backend.

  axios, React Query and the router are third-party code.  The server is a parameter of the
  requests; the query client is a record of operations whose documented behaviour is the
  locale \<open>query_client_laws\<close>.
\<close>

section \<open>Definitions\<close>

subsection \<open>\<open>apiClient\<close>\<close>

record ApiError =
  ae_code :: string
  ae_message :: string

text \<open>\<open>br_loads\<close> counts the page loads that assignments to \<open>window.location.href\<close> have started.\<close>

record browser =
  br_accessToken :: "string option"
  br_location :: string
  br_loads :: nat

definition authorization :: "browser \<Rightarrow> string option" where
  "authorization b = (case br_accessToken b of
       None \<Rightarrow> None
     | Some token \<Rightarrow> if truthy token then Some (''Bearer '' @ token) else None)"

datatype axios_error = WithResponse nat ApiError | NoResponse string

definition set_href :: "string \<Rightarrow> browser \<Rightarrow> browser" where
  "set_href url b = b\<lparr>br_location := url, br_loads := Suc (br_loads b)\<rparr>"

definition on_rejected :: "axios_error \<Rightarrow> browser \<Rightarrow> ApiError \<times> browser" where
  "on_rejected err b = (case err of
       WithResponse status apiError \<Rightarrow>
         (apiError, if status = 401 then set_href ''/login'' (b\<lparr>br_accessToken := None\<rparr>) else b)
     | NoResponse msg \<Rightarrow>
         (\<lparr>ae_code = ''NETWORK_ERROR'', ae_message = (if truthy msg then msg else ''Network error occurred'')\<rparr>, b))"

text \<open>A request through the client: the server gets the header.\<close>

definition api_request ::
    "(string option \<Rightarrow> axios_error + 'a) \<Rightarrow> (ApiError, browser, 'a) action" where
  "api_request server b = (case server (authorization b) of
       Inr a \<Rightarrow> (Inr a, b)
     | Inl err \<Rightarrow> (case on_rejected err b of (e, b') \<Rightarrow> (Inl e, b')))"

subsection \<open>Signing in\<close>

record UserDto =
  ud_id :: int
  ud_email :: string
  ud_nickname :: string
  ud_createdAt :: string

datatype 'a shown = Loading | RedirectToLogin | Content 'a | ErrorShown string | EmptyShown

definition RequireAuth :: "bool \<Rightarrow> bool \<Rightarrow> 'a \<Rightarrow> 'a shown" where
  "RequireAuth isLoading isAuthenticated children =
     (if isLoading then Loading else if \<not> isAuthenticated then RedirectToLogin else Content children)"

text \<open>The application mounts \<open>AuthProvider\<close>, whose query asks \<open>GET /auth/me\<close> once; the answer is the user
  and whether there is one.\<close>

definition AuthProvider :: "(string option \<Rightarrow> axios_error + UserDto) \<Rightarrow> browser \<Rightarrow> UserDto option \<times> bool \<times> browser" where
  "AuthProvider server b = (case api_request server b of
       (Inr u, b') \<Rightarrow> (Some u, True, b')
     | (Inl e, b') \<Rightarrow> (None, False, b'))"

text \<open>\<open>page_loads\<close>: the loads that follow one another, as long as each starts the next.\<close>

fun page_loads :: "(string option \<Rightarrow> axios_error + UserDto) \<Rightarrow> nat \<Rightarrow> browser \<Rightarrow> browser" where
  "page_loads server 0 b = b"
| "page_loads server (Suc n) b =
     (case AuthProvider server b of (_, _, b') \<Rightarrow>
        if br_loads b' = br_loads b then b' else page_loads server n b')"

definition QueryStateHandler ::
    "bool \<Rightarrow> bool \<Rightarrow> string option \<Rightarrow> 'd option \<Rightarrow> ('d \<Rightarrow> bool) option \<Rightarrow> ('d \<Rightarrow> 'a) \<Rightarrow> 'a shown" where
  "QueryStateHandler isLoading isError err data isEmpty children =
     (if isLoading then Loading
      else if isError then ErrorShown (case err of
             None \<Rightarrow> ''An error occurred while fetching data''
           | Some m \<Rightarrow> if truthy m then m else ''An error occurred while fetching data'')
      else case data of
             None \<Rightarrow> EmptyShown
           | Some d \<Rightarrow> if (case isEmpty of None \<Rightarrow> False | Some f \<Rightarrow> f d) then EmptyShown else Content (children d))"

subsection \<open>\<open>useTeamRole\<close>\<close>

definition currentMember :: "int option \<Rightarrow> TeamMemberDto list option \<Rightarrow> TeamMemberDto option" where
  "currentMember user_id_opt members_opt = (case (user_id_opt, members_opt) of
       (Some uid, Some ms) \<Rightarrow> List.find (\<lambda>m. tm_userId m = uid) ms
     | _ \<Rightarrow> None)"

definition team_role :: "int option \<Rightarrow> TeamMemberDto list option \<Rightarrow> TeamRole option" where
  "team_role u ms = map_option tm_role (currentMember u ms)"

definition canManageMembers :: "int option \<Rightarrow> TeamMemberDto list option \<Rightarrow> bool" where
  "canManageMembers u ms = (team_role u ms = Some OWNER \<or> team_role u ms = Some MANAGER)"

definition isOwner :: "int option \<Rightarrow> TeamMemberDto list option \<Rightarrow> bool" where
  "isOwner u ms = (team_role u ms = Some OWNER)"

subsection \<open>\<open>TeamDetailPage\<close>\<close>

text \<open>\<open>canManageMembers && member.id !== currentMember?.id\<close> around the two controls, each shown for
  a member that is not an OWNER.\<close>

definition shows_controls :: "int option \<Rightarrow> TeamMemberDto list option \<Rightarrow> TeamMemberDto \<Rightarrow> bool" where
  "shows_controls u ms member =
     (canManageMembers u ms \<and> Some (tm_id member) \<noteq> map_option tm_id (currentMember u ms) \<and> tm_role member \<noteq> OWNER)"

text \<open>\<open>handleChangeRole\<close> and \<open>handleRemoveMember\<close> send a request to the backend; \<open>confirm\<close> is the
  answer of the dialogue.\<close>

definition handleChangeRole ::
    "(string \<Rightarrow> int option) \<Rightarrow> prisma \<Rightarrow> jwt_lib \<Rightarrow> time \<Rightarrow> string option \<Rightarrow> int \<Rightarrow> int \<Rightarrow> TeamRole
      \<Rightarrow> (exn, 'z db_scheme, TeamMemberDto) action" where
  "handleChangeRole parse P J now tok teamId memberId newRole =
     TeamController_updateMemberRole parse P J now tok (show_int teamId) (show_int memberId) \<lparr>um_role = newRole\<rparr>"

definition handleRemoveMember ::
    "(string \<Rightarrow> int option) \<Rightarrow> prisma \<Rightarrow> jwt_lib \<Rightarrow> time \<Rightarrow> string option \<Rightarrow> bool \<Rightarrow> int \<Rightarrow> int
      \<Rightarrow> (exn, 'z db_scheme, unit) action" where
  "handleRemoveMember parse P J now tok confirm teamId memberId =
     (if confirm
      then bind_action (TeamController_removeMember parse P J now tok (show_int teamId) (show_int memberId)) (\<lambda>_. ret ())
      else ret ())"

subsection \<open>\<open>useQueryParams\<close>\<close>

text \<open>\<open>URLSearchParams\<close>: the pairs in order.\<close>

type_synonym search_params = "(string \<times> string) list"

fun usp_set :: "string \<Rightarrow> string \<Rightarrow> search_params \<Rightarrow> search_params" where
  "usp_set k v [] = [(k, v)]"
| "usp_set k v ((k', v') # ps) = (if k' = k then (k, v) # filter (\<lambda>p. fst p \<noteq> k) ps else (k', v') # usp_set k v ps)"

definition usp_delete :: "string \<Rightarrow> search_params \<Rightarrow> search_params" where
  "usp_delete k ps = filter (\<lambda>p. fst p \<noteq> k) ps"

datatype param_value = PText string | PNumber jsnum

definition read_param :: "string \<Rightarrow> param_value" where
  "read_param v = (if \<not> isNaN (js_Number v) then PNumber (js_Number v) else PText v)"

text \<open>The object the hook returns: a later pair with the same key wins.\<close>

definition query_params :: "search_params \<Rightarrow> string \<rightharpoonup> param_value" where
  "query_params ps = foldl (\<lambda>m (k, v). m(k \<mapsto> read_param v)) Map.empty ps"

text \<open>An update: a value, or \<open>undefined\<close>.  \<open>show_num\<close> is \<open>String\<close> on numbers.\<close>

definition update_param :: "(jsnum \<Rightarrow> string) \<Rightarrow> search_params \<Rightarrow> string \<times> param_value option \<Rightarrow> search_params" where
  "update_param show_num ps u = (case u of
       (k, None) \<Rightarrow> usp_delete k ps
     | (k, Some (PText t)) \<Rightarrow> if t = [] then usp_delete k ps else usp_set k t ps
     | (k, Some (PNumber n)) \<Rightarrow> usp_set k (show_num n) ps)"

definition updateParams :: "(jsnum \<Rightarrow> string) \<Rightarrow> (string \<times> param_value option) list \<Rightarrow> search_params \<Rightarrow> search_params" where
  "updateParams show_num updates ps = foldl (update_param show_num) ps updates"

subsection \<open>\<open>ProductSearchPage\<close>\<close>

text \<open>\<open>queryParams.q || ''''\<close> and the like: zero and the empty text take the default.\<close>

definition or_default :: "param_value option \<Rightarrow> param_value \<Rightarrow> param_value" where
  "or_default v d = (case v of None \<Rightarrow> d | Some x \<Rightarrow> if x = PText [] \<or> x = PNumber (Fin 0) \<or> x = PNumber NaN then d else x)"

record ProductSearchParams =
  ps_q :: param_value
  ps_category :: param_value
  ps_brand :: param_value
  ps_minPrice :: "param_value option"
  ps_maxPrice :: "param_value option"
  ps_page :: param_value
  ps_size :: param_value

definition search_page_params :: "(string \<rightharpoonup> param_value) \<Rightarrow> ProductSearchParams" where
  "search_page_params m =
     \<lparr>ps_q = or_default (m ''q'') (PText []), ps_category = or_default (m ''category'') (PText []),
      ps_brand = or_default (m ''brand'') (PText []), ps_minPrice = m ''minPrice'', ps_maxPrice = m ''maxPrice'',
      ps_page = or_default (m ''page'') (PNumber (Fin 1)), ps_size = or_default (m ''size'') (PNumber (Fin 20))\<rparr>"

definition handleSearchChange :: "string \<Rightarrow> (string \<times> param_value option) list" where
  "handleSearchChange t = [(''q'', Some (PText t)), (''page'', Some (PNumber (Fin 1)))]"

definition handleCategoryChange :: "string \<Rightarrow> (string \<times> param_value option) list" where
  "handleCategoryChange t = [(''category'', Some (PText t)), (''page'', Some (PNumber (Fin 1)))]"

definition handleBrandChange :: "string \<Rightarrow> (string \<times> param_value option) list" where
  "handleBrandChange t = [(''brand'', Some (PText t)), (''page'', Some (PNumber (Fin 1)))]"

definition price_value :: "string \<Rightarrow> param_value option" where
  "price_value t = (if truthy t then Some (PNumber (js_Number t)) else None)"

definition handleMinPriceChange :: "string \<Rightarrow> (string \<times> param_value option) list" where
  "handleMinPriceChange t = [(''minPrice'', price_value t), (''page'', Some (PNumber (Fin 1)))]"

definition handleMaxPriceChange :: "string \<Rightarrow> (string \<times> param_value option) list" where
  "handleMaxPriceChange t = [(''maxPrice'', price_value t), (''page'', Some (PNumber (Fin 1)))]"

definition handleClearFilters :: "(string \<times> param_value option) list" where
  "handleClearFilters = [(''q'', Some (PText [])), (''category'', Some (PText [])), (''brand'', Some (PText [])),
     (''minPrice'', None), (''maxPrice'', None), (''page'', Some (PNumber (Fin 1)))]"

definition handlePageChange :: "jsnum \<Rightarrow> (string \<times> param_value option) list" where
  "handlePageChange newPage = [(''page'', Some (PNumber newPage))]"

subsection \<open>Queries and mutations\<close>

datatype key_part = KText string | KNum jsnum | KUndefined | KObject "(string \<times> key_part) list"

type_synonym query_key = "key_part list"

definition knum :: "int \<Rightarrow> key_part" where
  "knum i = KNum (Fin (of_int i))"

definition kopt :: "('a \<Rightarrow> key_part) \<Rightarrow> 'a option \<Rightarrow> key_part" where
  "kopt f v = (case v of None \<Rightarrow> KUndefined | Some x \<Rightarrow> f x)"

fun kparam :: "param_value \<Rightarrow> key_part" where
  "kparam (PText t) = KText t"
| "kparam (PNumber n) = KNum n"

text \<open>One constructor for every query hook, with the arguments of the hook, and its key.\<close>

datatype query =
    UseCurrentUser
  | UseProjects "int option" "int option"
  | UseProject int
  | UseProjectIssues int "string option" "int option" "int option"
  | UseIssue int
  | UseIssueComments int
  | UseTeams
  | UseTeam int
  | UseTeamMembers int
  | UseWorkspaceItems int "int option" "int option"
  | UseWorkspaceItem int
  | UseDailyStats string string
  | UsePopularIssues "(int option \<times> int option) option"
  | UseExternalData
  | UseProductSearch ProductSearchParams
  | UseProduct int

definition search_object :: "ProductSearchParams \<Rightarrow> key_part" where
  "search_object p = KObject [(''q'', kparam (ps_q p)), (''category'', kparam (ps_category p)),
     (''brand'', kparam (ps_brand p)), (''minPrice'', kopt kparam (ps_minPrice p)),
     (''maxPrice'', kopt kparam (ps_maxPrice p)), (''page'', kparam (ps_page p)), (''size'', kparam (ps_size p))]"

definition useCurrentUser :: "query_key" where
  "useCurrentUser = [KText ''auth'', KText ''me'']"

definition useProjects :: "int option \<Rightarrow> int option \<Rightarrow> query_key" where
  "useProjects page per = [KText ''projects'', kopt knum page, kopt knum per]"

definition useProject :: "int \<Rightarrow> query_key" where
  "useProject projectId = [KText ''project'', knum projectId]"

definition useProjectIssues :: "int \<Rightarrow> string option \<Rightarrow> int option \<Rightarrow> int option \<Rightarrow> query_key" where
  "useProjectIssues projectId status page per = [KText ''issues'', knum projectId, kopt KText status, kopt knum page, kopt knum per]"

definition useIssue :: "int \<Rightarrow> query_key" where
  "useIssue issueId = [KText ''issue'', knum issueId]"

definition useIssueComments :: "int \<Rightarrow> query_key" where
  "useIssueComments issueId = [KText ''comments'', knum issueId]"

definition useTeams :: "query_key" where
  "useTeams = [KText ''teams'', KText ''list'']"

definition useTeam :: "int \<Rightarrow> query_key" where
  "useTeam teamId = [KText ''teams'', KText ''detail'', knum teamId]"

definition useTeamMembers :: "int \<Rightarrow> query_key" where
  "useTeamMembers teamId = [KText ''teams'', knum teamId, KText ''members'']"

definition workspaceItems_key :: "int \<Rightarrow> query_key" where
  "workspaceItems_key teamId = [KText ''teams'', knum teamId, KText ''workspace-items'']"

definition useWorkspaceItems :: "int \<Rightarrow> int option \<Rightarrow> int option \<Rightarrow> query_key" where
  "useWorkspaceItems teamId page per = workspaceItems_key teamId @ [KObject [(''page'', kopt knum page), (''size'', kopt knum per)]]"

definition useWorkspaceItem :: "int \<Rightarrow> query_key" where
  "useWorkspaceItem itemId = [KText ''workspace-items'', knum itemId]"

definition useDailyStats :: "string \<Rightarrow> string \<Rightarrow> query_key" where
  "useDailyStats date_from date_to = [KText ''stats'', KText ''daily'', KObject [(''from'', KText date_from), (''to'', KText date_to)]]"

definition usePopularIssues :: "(int option \<times> int option) option \<Rightarrow> query_key" where
  "usePopularIssues params = [KText ''issues'', KText ''popular'',
      kopt (\<lambda>(days, limit). KObject [(''days'', kopt knum days), (''limit'', kopt knum limit)]) params]"

definition useExternalData :: "query_key" where
  "useExternalData = [KText ''external'', KText ''example'']"

definition useProductSearch :: "ProductSearchParams \<Rightarrow> query_key" where
  "useProductSearch params = [KText ''products'', KText ''search'', search_object params]"

definition useProduct :: "int \<Rightarrow> query_key" where
  "useProduct productId = [KText ''products'', knum productId]"

fun queryKey :: "query \<Rightarrow> query_key" where
  "queryKey UseCurrentUser = useCurrentUser"
| "queryKey (UseProjects page per) = useProjects page per"
| "queryKey (UseProject projectId) = useProject projectId"
| "queryKey (UseProjectIssues projectId status page per) = useProjectIssues projectId status page per"
| "queryKey (UseIssue issueId) = useIssue issueId"
| "queryKey (UseIssueComments issueId) = useIssueComments issueId"
| "queryKey UseTeams = useTeams"
| "queryKey (UseTeam teamId) = useTeam teamId"
| "queryKey (UseTeamMembers teamId) = useTeamMembers teamId"
| "queryKey (UseWorkspaceItems teamId page per) = useWorkspaceItems teamId page per"
| "queryKey (UseWorkspaceItem itemId) = useWorkspaceItem itemId"
| "queryKey (UseDailyStats date_from date_to) = useDailyStats date_from date_to"
| "queryKey (UsePopularIssues params) = usePopularIssues params"
| "queryKey UseExternalData = useExternalData"
| "queryKey (UseProductSearch params) = useProductSearch params"
| "queryKey (UseProduct productId) = useProduct productId"

text \<open>One constructor for every mutation hook that touches the cache of queries, with what its
  \<open>onSuccess\<close> reads; the keys it invalidates, in order.\<close>

datatype mutation =
    CreateIssue int
  | UpdateIssue int int
  | DeleteIssue
  | CreateComment int
  | CreateProject
  | UseCreateTeam
  | AddTeamMember int
  | UpdateTeamMemberRole int
  | RemoveTeamMember int
  | CreateWorkspaceItem int
  | UpdateWorkspaceItem int
  | DeleteWorkspaceItem

definition useCreateIssue :: "int \<Rightarrow> query_key list" where
  "useCreateIssue projectId = [[KText ''issues'', knum projectId]]"

definition useUpdateIssue :: "int \<Rightarrow> int \<Rightarrow> query_key list" where
  "useUpdateIssue issueId projectId = [[KText ''issue'', knum issueId], [KText ''issues'', knum projectId]]"

definition useDeleteIssue :: "query_key list" where
  "useDeleteIssue = [[KText ''issues'']]"

definition useCreateComment :: "int \<Rightarrow> query_key list" where
  "useCreateComment issueId = [[KText ''comments'', knum issueId]]"

definition useCreateProject :: "query_key list" where
  "useCreateProject = [[KText ''projects'']]"

definition useCreateTeam :: "query_key list" where
  "useCreateTeam = [useTeams]"

definition useAddTeamMember :: "int \<Rightarrow> query_key list" where
  "useAddTeamMember teamId = [useTeamMembers teamId, useTeam teamId]"

definition useUpdateTeamMemberRole :: "int \<Rightarrow> query_key list" where
  "useUpdateTeamMemberRole teamId = [useTeamMembers teamId, useTeam teamId]"

definition useRemoveTeamMember :: "int \<Rightarrow> query_key list" where
  "useRemoveTeamMember teamId = [useTeamMembers teamId, useTeam teamId]"

definition useCreateWorkspaceItem :: "int \<Rightarrow> query_key list" where
  "useCreateWorkspaceItem teamId = [workspaceItems_key teamId]"

definition useUpdateWorkspaceItem :: "int \<Rightarrow> query_key list" where
  "useUpdateWorkspaceItem itemId = [useWorkspaceItem itemId]"

definition useDeleteWorkspaceItem :: "query_key list" where
  "useDeleteWorkspaceItem = [[KText ''teams'']]"

fun onSuccess :: "mutation \<Rightarrow> query_key list" where
  "onSuccess (CreateIssue projectId) = useCreateIssue projectId"
| "onSuccess (UpdateIssue issueId projectId) = useUpdateIssue issueId projectId"
| "onSuccess DeleteIssue = useDeleteIssue"
| "onSuccess (CreateComment issueId) = useCreateComment issueId"
| "onSuccess CreateProject = useCreateProject"
| "onSuccess UseCreateTeam = useCreateTeam"
| "onSuccess (AddTeamMember teamId) = useAddTeamMember teamId"
| "onSuccess (UpdateTeamMemberRole teamId) = useUpdateTeamMemberRole teamId"
| "onSuccess (RemoveTeamMember teamId) = useRemoveTeamMember teamId"
| "onSuccess (CreateWorkspaceItem teamId) = useCreateWorkspaceItem teamId"
| "onSuccess (UpdateWorkspaceItem itemId) = useUpdateWorkspaceItem itemId"
| "onSuccess DeleteWorkspaceItem = useDeleteWorkspaceItem"

text \<open>The query client: a query is fresh when its data is shown without asking again; the only data
  the hooks write is the user.\<close>

record 'c query_client =
  invalidateQueries :: "query_key \<Rightarrow> 'c \<Rightarrow> 'c"
  isFresh :: "query_key \<Rightarrow> 'c \<Rightarrow> bool"
  setQueryData :: "query_key \<Rightarrow> UserDto \<Rightarrow> 'c \<Rightarrow> 'c"
  getQueryData :: "query_key \<Rightarrow> 'c \<Rightarrow> UserDto option"
  clearQueries :: "'c \<Rightarrow> 'c"

definition mutated :: "'c query_client \<Rightarrow> mutation \<Rightarrow> 'c \<Rightarrow> 'c" where
  "mutated Q m c = foldl (\<lambda>c k. invalidateQueries Q k c) c (onSuccess m)"

subsection \<open>Signing in and out\<close>

definition useLogin_onSuccess :: "'c query_client \<Rightarrow> string \<Rightarrow> UserDto \<Rightarrow> browser \<times> 'c \<Rightarrow> browser \<times> 'c" where
  "useLogin_onSuccess Q accessToken user st = (case st of (b, c) \<Rightarrow>
     (b\<lparr>br_accessToken := Some accessToken\<rparr>, setQueryData Q (queryKey UseCurrentUser) user c))"

definition useLogout :: "'c query_client \<Rightarrow> browser \<times> 'c \<Rightarrow> browser \<times> 'c" where
  "useLogout Q st = (case st of (b, c) \<Rightarrow> (b\<lparr>br_accessToken := None\<rparr>, clearQueries Q c))"

definition isAuthenticated :: "'c query_client \<Rightarrow> 'c \<Rightarrow> bool" where
  "isAuthenticated Q c = (getQueryData Q (queryKey UseCurrentUser) c \<noteq> None)"

section \<open>The query client\<close>

text \<open>React Query's documented matching: a filter key of texts and numbers matches the keys it
  is a prefix of.\<close>

definition plain_key :: "query_key \<Rightarrow> bool" where
  "plain_key k = list_all (\<lambda>p. case p of KObject _ \<Rightarrow> False | _ \<Rightarrow> True) k"

locale query_client_laws =
  fixes Q :: "'c query_client"
  assumes invalidate_prefix: "plain_key p \<Longrightarrow>
    isFresh Q k (invalidateQueries Q p c) \<longleftrightarrow> isFresh Q k c \<and> take (length p) k \<noteq> p"
    and set_fresh: "isFresh Q k (setQueryData Q k' u c) \<longleftrightarrow> k = k' \<or> isFresh Q k c"
    and get_set: "getQueryData Q k (setQueryData Q k' u c) = (if k = k' then Some u else getQueryData Q k c)"
    and clear_fresh: "\<not> isFresh Q k (clearQueries Q c)"
    and clear_get: "getQueryData Q k (clearQueries Q c) = None"
begin

lemma invalidate_all:
  "list_all plain_key ps \<Longrightarrow> isFresh Q k (foldl (\<lambda>c p. invalidateQueries Q p c) c ps) \<longleftrightarrow>
     isFresh Q k c \<and> (\<forall>p \<in> set ps. take (length p) k \<noteq> p)"
  by (induction ps arbitrary: c) (auto simp: invalidate_prefix)

end

text \<open>A cache in memory: the fresh keys and the data.\<close>

definition fresh_keys :: "(query_key list \<times> (query_key \<times> UserDto) list) query_client" where
  "fresh_keys = \<lparr>
     invalidateQueries = (\<lambda>p (ks, d). (filter (\<lambda>k. take (length p) k \<noteq> p) ks, d)),
     isFresh = (\<lambda>k (ks, d). k \<in> set ks),
     setQueryData = (\<lambda>k u (ks, d). (k # ks, (k, u) # d)),
     getQueryData = (\<lambda>k (ks, d). map_of d k),
     clearQueries = (\<lambda>_. ([], []))\<rparr>"

interpretation fresh_keys: query_client_laws fresh_keys
  by unfold_locales (auto simp: fresh_keys_def)

lemmas hook_defs = useCurrentUser_def useProjects_def useProject_def useProjectIssues_def
  useIssue_def useIssueComments_def useTeams_def useTeam_def
  useTeamMembers_def workspaceItems_key_def useWorkspaceItems_def useWorkspaceItem_def
  useDailyStats_def usePopularIssues_def useExternalData_def useProductSearch_def
  useProduct_def useCreateIssue_def useUpdateIssue_def useDeleteIssue_def
  useCreateComment_def useCreateProject_def useCreateTeam_def useAddTeamMember_def
  useUpdateTeamMemberRole_def useRemoveTeamMember_def useCreateWorkspaceItem_def useUpdateWorkspaceItem_def
  useDeleteWorkspaceItem_def

lemma onSuccess_plain: "list_all plain_key (onSuccess m)"
  by (cases m) (simp_all add: plain_key_def knum_def hook_defs)

lemma key_inject [simp]:
  "knum i = knum j \<longleftrightarrow> i = j" "knum i \<noteq> KText t" "KText t \<noteq> knum i" "knum i \<noteq> KUndefined"
  "kopt knum v = kopt knum w \<longleftrightarrow> v = w" "kopt KText a = kopt KText b \<longleftrightarrow> a = b"
  by (auto simp: knum_def kopt_def split: option.splits)

lemma kparam_inject [simp]:
  "kparam x = kparam y \<longleftrightarrow> x = y" "kparam x \<noteq> KUndefined" "KUndefined \<noteq> kparam x"
  "kopt kparam v = kopt kparam w \<longleftrightarrow> v = w"
proof -
  show "kparam x = kparam y \<longleftrightarrow> x = y" for x y by (cases x; cases y) simp_all
  moreover show "kparam x \<noteq> KUndefined" "KUndefined \<noteq> kparam x" for x by (cases x; simp)+
  ultimately show "kopt kparam v = kopt kparam w \<longleftrightarrow> v = w" by (auto simp: kopt_def split: option.splits)
qed

lemma search_object_inject [simp]: "search_object p = search_object p' \<longleftrightarrow> p = p'"
  by (auto simp: search_object_def)

lemma popular_inject [simp]:
  "kopt (\<lambda>(days, limit). KObject [(''days'', kopt knum days), (''limit'', kopt knum limit)]) v =
   kopt (\<lambda>(days, limit). KObject [(''days'', kopt knum days), (''limit'', kopt knum limit)]) w \<longleftrightarrow> v = w"
  by (cases v; cases w) (auto simp: kopt_def [of "\<lambda>(days, limit). KObject (f days limit)" for f])

lemma queryKey_inj: "inj queryKey"
proof (rule injI)
  fix q q' assume "queryKey q = queryKey q'"
  then show "q = q'" by (cases q; cases q'; simp add: hook_defs)
qed

section \<open>The parameters in the address\<close>

lemma query_params_last: "query_params ps k = map_option read_param (map_of (rev ps) k)"
  by (induction ps rule: rev_induct) (auto simp: query_params_def)

lemma map_of_filter_key: "map_of (filter (\<lambda>p. fst p \<noteq> k) ps) = (map_of ps)(k := None)"
  by (induction ps) auto

lemma map_of_usp_delete: "map_of (rev (usp_delete k ps)) = (map_of (rev ps))(k := None)"
  by (simp add: usp_delete_def rev_filter map_of_filter_key)

lemma map_of_usp_set: "map_of (rev (usp_set k v ps)) = (map_of (rev ps))(k \<mapsto> v)"
  by (induction k v ps rule: usp_set.induct)
    (auto simp: rev_filter map_of_filter_key map_add_def fun_eq_iff split: option.splits)

text \<open>What one update leaves to be read.\<close>

definition reread :: "(jsnum \<Rightarrow> string) \<Rightarrow> param_value option \<Rightarrow> param_value option" where
  "reread show_num v = (case v of
       None \<Rightarrow> None
     | Some (PText t) \<Rightarrow> if t = [] then None else Some (read_param t)
     | Some (PNumber n) \<Rightarrow> Some (read_param (show_num n)))"

lemma query_params_update:
  "query_params (update_param show_num ps (k, v)) = (query_params ps)(k := reread show_num v)"
  by (rule ext) (auto simp: query_params_last update_param_def map_of_usp_delete map_of_usp_set
      reread_def split: option.splits param_value.splits)

lemma query_params_updates:
  "distinct (map fst updates) \<Longrightarrow> query_params (updateParams show_num updates ps) key =
     (case map_of updates key of None \<Rightarrow> query_params ps key | Some v \<Rightarrow> reread show_num v)"
proof (induction updates arbitrary: ps)
  case (Cons u us)
  obtain k v where u: "u = (k, v)" by (cases u)
  have "map_of us k = None" using Cons.prems by (simp add: u map_of_eq_None_iff)
  then show ?case
    using Cons by (auto simp: u updateParams_def query_params_update split: option.splits)
qed (simp add: updateParams_def)

lemma read_param_number: "js_Number t = n \<Longrightarrow> n \<noteq> NaN \<Longrightarrow> read_param t = PNumber n"
  by (simp add: read_param_def isNaN_def)

section \<open>The team page and the backend\<close>

lemma include_user_fst: "fst (include_user P m s) = Inr p \<Longrightarrow> fst p = m"
  by (auto simp: include_user_def bind_read_only split: sum.splits)

lemma include_users_fst: "fst (map_action (include_user P) ms s) = Inr mus \<Longrightarrow> map fst mus = ms"
proof (induction ms arbitrary: mus)
  case (Cons m ms)
  then show ?case
    using include_user_fst [of P m s]
    by (auto simp: bind_read_only read_only_map_action split: sum.splits)
qed simp

lemma one_membership:
  assumes "db_inv s" and "m \<in> set (rows (members s))" and "n \<in> set (rows (members s))"
    and "member_teamId m = member_teamId n" and "member_userId m = member_userId n"
  shows "m = n"
proof -
  have "member_check s m = None" using assms(1,2) by (simp add: inv_defs passes_iff)
  then have "member_id n = member_id m" using assms(3-5) by (auto simp: member_check_def list_ex_iff split: if_splits)
  then show ?thesis using table_wf_unique [OF wf_tables(6) [OF assms(1)] assms(2,3)] by simp
qed

context prisma_client begin

lemma team_members_shown:
  assumes "fst (TeamService_getTeamById P teamId userId s) = Inr (t, mus)"
  shows "fst ` set mus = {m \<in> set (rows (members s)). member_teamId m = teamId}"
    and "\<exists>m \<in> set (rows (members s)). member_teamId m = teamId \<and> member_userId m = userId"
proof -
  let ?ms = "findMany (member_d P) (\<lambda>m. member_teamId m = teamId) no_order (members s)"
  have mus: "fst (map_action (include_user P) ?ms s) = Inr mus" "list_ex (\<lambda>(m, u). member_userId m = userId) mus"
    using assms by (auto simp: TeamService_getTeamById_def bind_read_only read_only_map_action
        split: option.splits sum.splits if_splits)
  have "map fst mus = ?ms" by (rule include_users_fst [OF mus(1)])
  then have "fst ` set mus = set ?ms" by (metis set_map)
  also have "\<dots> = {m \<in> set (rows (members s)). member_teamId m = teamId}"
    using arg_cong [OF member.findMany_mset, of set_mset] by simp
  finally show shown: "fst ` set mus = {m \<in> set (rows (members s)). member_teamId m = teamId}" .
  from mus(2) obtain m u where "(m, u) \<in> set mus" "member_userId m = userId" by (auto simp: list_ex_iff)
  then show "\<exists>m \<in> set (rows (members s)). member_teamId m = teamId \<and> member_userId m = userId"
    using shown by force
qed

lemma find_membership:
  assumes "db_inv s" and "m \<in> set (rows (members s))"
  shows "findFirst (member_d P) (\<lambda>n. member_teamId n = member_teamId m \<and> member_userId n = member_userId m) (members s) = Some m"
proof (cases "findFirst (member_d P) (\<lambda>n. member_teamId n = member_teamId m \<and> member_userId n = member_userId m) (members s)")
  case None
  then show ?thesis using assms(2) by (auto simp: member.findFirst_none)
next
  case (Some n)
  have "n = m" using member.findFirst_some [OF Some] one_membership [OF assms(1) _ assms(2), of n] by simp
  with Some show ?thesis by simp
qed

lemma guard_of_member:
  assumes "db_inv s" and "m \<in> set (rows (members s))" and "member_userId m = cur_userId u"
    and "extractTeamId req = Some (RawString raw)" and "prisma_int (js_Number raw) = Some (member_teamId m)"
  shows "RolesGuard_canActivate P (Some roles) req u s =
    (if member_role m \<in> set roles then (Inr (Some m), s)
     else (Inl (NestException NestForbidden ''You do not have permission to perform this action''), s))"
proof -
  have "\<not> isNaN (js_Number raw)" using assms(5) by (auto simp: prisma_int_def isNaN_def)
  then show ?thesis
    using find_membership [OF assms(1,2)] assms(3-5)
    by (simp add: RolesGuard_canActivate_def raw_Number_def ret_def throw_def)
qed

end

lemma member_dto_fields [simp]:
  "tm_id (member_dto p) = member_id (fst p)" "tm_userId (member_dto p) = member_userId (fst p)"
  "tm_role (member_dto p) = member_role (fst p)"
  by (simp_all add: member_dto_def split: prod.splits)

lemma team_param:
  "truthy raw \<Longrightarrow> extractTeamId \<lparr>req_params_teamId = Some (RawString raw), req_params_id = None, req_body_teamId = None\<rparr> =
     Some (RawString raw)"
  by simp

lemma team_role_member:
  assumes "\<And>m n. m \<in> fst ` set mus \<Longrightarrow> n \<in> fst ` set mus \<Longrightarrow> member_userId m = member_userId n \<Longrightarrow> m = n"
    and "m \<in> fst ` set mus"
  shows "map_option tm_id (currentMember (Some (member_userId m)) (Some (map member_dto mus))) = Some (member_id m)"
    and "team_role (Some (member_userId m)) (Some (map member_dto mus)) = Some (member_role m)"
proof -
  obtain p where p: "p \<in> set mus" "fst p = m" using assms(2) by auto
  have "currentMember (Some (member_userId m)) (Some (map member_dto mus)) \<noteq> None"
    using p by (auto simp: currentMember_def find_None_iff)
  then obtain x where x: "currentMember (Some (member_userId m)) (Some (map member_dto mus)) = Some x" by blast
  then have "x \<in> set (map member_dto mus)" "tm_userId x = member_userId m"
    by (auto simp: currentMember_def find_Some_iff)
  then obtain q where q: "q \<in> set mus" "x = member_dto q" "member_userId (fst q) = member_userId m" by auto
  then have "fst q = m" using assms(1) [of "fst q" m] assms(2) by simp
  then show "map_option tm_id (currentMember (Some (member_userId m)) (Some (map member_dto mus))) = Some (member_id m)"
    "team_role (Some (member_userId m)) (Some (map member_dto mus)) = Some (member_role m)"
    using x q by (simp_all add: team_role_def)
qed

context prisma_client begin

lemma remove_plain_member:
  assumes "db_inv s" and "m \<in> set (rows (members s))" and "member_role m \<noteq> OWNER"
  shows "TeamService_removeMember P (member_teamId m) (member_id m) s = (Inr ''Member removed successfully'',
    put_members ((members s)\<lparr>rows := filter (\<lambda>x. member_id x \<noteq> member_id m) (rows (members s))\<rparr>) s)"
proof -
  note wf = wf_tables(6) [OF assms(1)]
  have "removeMember_check P (member_teamId m) (member_id m) s = (Inr (), s)"
    using assms(3) by (simp add: removeMember_check_def member.find_key_some [OF wf assms(2)])
  then show ?thesis
    using commit_eq [OF wf assms(2)] by (simp add: TeamService_removeMember_def bind_apply_Inr)
qed

lemma change_plain_member:
  assumes "db_inv s" and "m \<in> set (rows (members s))" and "member_role m \<noteq> OWNER"
  obtains w where "TeamService_updateMemberRole P (member_teamId m) (member_id m) \<lparr>um_role = r\<rparr> s =
    (Inr (m\<lparr>member_role := r\<rparr>, user_info w), put_members ((members s)\<lparr>rows :=
       map (\<lambda>x. if member_id x = member_id m then x\<lparr>member_role := r\<rparr> else x) (rows (members s))\<rparr>) s)"
proof -
  note wf = wf_tables(6) [OF assms(1)]
  let ?s = "put_members ((members s)\<lparr>rows :=
       map (\<lambda>x. if member_id x = member_id m then x\<lparr>member_role := r\<rparr> else x) (rows (members s))\<rparr>) s"
  have chk: "member_check s m = None" using assms(1,2) by (simp add: inv_defs passes_iff)
  then have user: "has_row user_id (users s) (member_userId m)" by (auto simp: member_check_def split: if_splits)
  have c: "updateMemberRole_check P (member_teamId m) (member_id m) \<lparr>um_role = r\<rparr> s = (Inr (), s)"
    using assms(3) by (simp add: updateMemberRole_check_def member.find_key_some [OF wf assms(2)])
  have "member_check s (m\<lparr>member_role := r\<rparr>) = None" using chk by (simp add: member_check_def)
  then have q: "q_update (member_d P) members put_members member_check (member_id m) (\<lambda>m. m\<lparr>member_role := r\<rparr>) s =
      (Inr (m\<lparr>member_role := r\<rparr>), ?s)"
    using member.update_eq [of members s m put_members member_check "\<lambda>m. m\<lparr>member_role := r\<rparr>", OF wf assms(2)] by simp
  obtain w where "q_related (user_d P) users (\<lambda>x. user_id x = member_userId m) ?s = (Inr w, ?s)"
    by (rule user.related_has_row [of users ?s "member_userId m"])
      (use user wf_tables(1) [OF assms(1)] in \<open>simp_all add: put_members_def\<close>)
  then show ?thesis
    using c q by (intro that [of w]) (simp add: TeamService_updateMemberRole_def bind_apply_Inr include_user_def)
qed

text \<open>What the page got and who looks at it.\<close>

lemma team_page_view:
  assumes "db_inv s" and "jwt_guard J now tok = Inr u" and "parse raw = Some teamId"
    and "TeamController_getTeamById parse P J now tok raw s = (Inr dto, s')"
  obtains mus me where "tr_members dto = Some (map member_dto mus)"
    "fst ` set mus = {m \<in> set (rows (members s)). member_teamId m = teamId}"
    "me \<in> set (rows (members s))" "member_teamId me = teamId" "member_userId me = cur_userId u"
    "map_option tm_id (currentMember (Some (cur_userId u)) (tr_members dto)) = Some (member_id me)"
    "team_role (Some (cur_userId u)) (tr_members dto) = Some (member_role me)"
proof -
  obtain t mus where mus: "fst (TeamService_getTeamById P teamId (cur_userId u) s) = Inr (t, mus)"
    "tr_members dto = Some (map member_dto mus)"
    using assms(2-4) by (auto simp: TeamController_getTeamById_def with_user_def with_id_def team_dto_def
        bind_action_def split: sum.splits prod.splits)
  note shown = team_members_shown [OF mus(1)]
  obtain me where me: "me \<in> set (rows (members s))" "member_teamId me = teamId" "member_userId me = cur_userId u"
    using shown(2) by blast
  have uniq: "m = n" if "m \<in> fst ` set mus" "n \<in> fst ` set mus" "member_userId m = member_userId n" for m n
    using that one_membership [OF assms(1), of m n] by (simp add: shown(1))
  have me': "me \<in> fst ` set mus" using me by (simp add: shown(1))
  show ?thesis
    by (rule that [OF mus(2) shown(1) me])
      (simp_all only: mus(2) team_role_member [OF uniq me', unfolded me(3)])
qed

end

section \<open>Properties\<close>

text \<open>After an update of the address with an object of parameters, the hook reads every number
  back as it was written, drops every parameter set to \<open>undefined\<close> or the empty text, reads a
  text back as the number it spells if it spells one, and keeps every other parameter.\<close>

theorem query_params_roundtrip:
  assumes "distinct (map fst updates)"
    and "\<And>k n. (k, Some (PNumber n)) \<in> set updates \<Longrightarrow> n \<noteq> NaN \<and> js_Number (show_num n) = n"
  shows "query_params (updateParams show_num updates ps) key =
    (case map_of updates key of
       None \<Rightarrow> query_params ps key
     | Some None \<Rightarrow> None
     | Some (Some (PNumber n)) \<Rightarrow> Some (PNumber n)
     | Some (Some (PText t)) \<Rightarrow> if t = [] then None else Some (read_param t))"
  using assms(2) map_of_SomeD [of updates key]
  by (auto simp: query_params_updates [OF assms(1)] reread_def read_param_number
      split: option.splits param_value.splits)

text \<open>\<open>String\<close> on small whole numbers.\<close>

definition show_whole :: "jsnum \<Rightarrow> string" where
  "show_whole n = (case n of Fin q \<Rightarrow> show_int \<lfloor>q\<rfloor> | _ \<Rightarrow> [])"

lemma show_whole_reads: "js_Number (show_whole (Fin 1)) = Fin 1" "js_Number (show_whole (Fin 3)) = Fin 3"
  by code_simp+

theorem query_params_roundtrip_witness:
  "query_params (updateParams show_whole [(''page'', Some (PNumber (Fin 3))), (''q'', Some (PText ''pen'')), (''brand'', None)]
     [(''brand'', ''acme''), (''size'', ''50''), (''page'', ''1'')]) ''page'' = Some (PNumber (Fin 3))"
  using query_params_roundtrip [of "[(''page'', Some (PNumber (Fin 3))), (''q'', Some (PText ''pen'')), (''brand'', None)]"
      show_whole "[(''brand'', ''acme''), (''size'', ''50''), (''page'', ''1'')]" "''page''"] show_whole_reads(2)
  by simp

text \<open>On the product search page every change of a filter goes back to the first page and keeps
  the page size, clearing the filters gives the defaults, and the search box shows what was
  typed unless it spells a number, which is shown instead, or zero, which empties the box.\<close>

theorem search_filters:
  assumes "js_Number (show_num (Fin 1)) = Fin 1"
    and "shown = (\<lambda>h. search_page_params (query_params (updateParams show_num h ps)))"
  shows "(\<forall>h \<in> {handleSearchChange t, handleCategoryChange t, handleBrandChange t, handleMinPriceChange t,
            handleMaxPriceChange t, handleClearFilters}.
            ps_page (shown h) = PNumber (Fin 1) \<and> ps_size (shown h) = ps_size (search_page_params (query_params ps)))
       \<and> shown handleClearFilters =
           \<lparr>ps_q = PText [], ps_category = PText [], ps_brand = PText [], ps_minPrice = None, ps_maxPrice = None,
            ps_page = PNumber (Fin 1), ps_size = ps_size (search_page_params (query_params ps))\<rparr>
       \<and> ps_q (shown (handleSearchChange t)) =
           (if isNaN (js_Number t) then PText t
            else if t = [] \<or> js_Number t = Fin 0 then PText [] else PNumber (js_Number t))"
  using read_param_number [OF assms(1)]
  by (simp add: assms(2) search_page_params_def query_params_updates reread_def or_default_def
      handleSearchChange_def handleCategoryChange_def handleBrandChange_def handleMinPriceChange_def
      handleMaxPriceChange_def handleClearFilters_def, simp add: read_param_def isNaN_def)

theorem search_filters_witness:
  "ps_q (search_page_params (query_params (updateParams show_whole (handleSearchChange ''5.'') []))) = PNumber (Fin 5)"
proof -
  have "js_Number ''5.'' = Fin 5" by code_simp
  then show ?thesis
    using search_filters [where show_num = show_whole and t = "''5.''" and ps = "[]", OF show_whole_reads(1) refl] by (simp add: isNaN_def)
qed

text \<open>Going to another page keeps the filters; a page of results is drawn exactly when there is
  one.\<close>

lemma page_change_keeps_filters:
  assumes "js_Number (show_num n) = n" and "n \<noteq> NaN" and "n \<noteq> Fin 0"
  shows "search_page_params (query_params (updateParams show_num (handlePageChange n) ps)) =
    (search_page_params (query_params ps))\<lparr>ps_page := PNumber n\<rparr>"
  using read_param_number [OF assms(1,2)] assms(2,3)
  by (simp add: search_page_params_def query_params_updates handlePageChange_def reread_def or_default_def)

lemma results_drawn:
  "QueryStateHandler isLoading isError err data (Some isEmpty) children = Content a \<longleftrightarrow>
     \<not> isLoading \<and> \<not> isError \<and> (\<exists>d. data = Some d \<and> \<not> isEmpty d \<and> children d = a)"
  by (auto simp: QueryStateHandler_def split: option.splits)

lemma owner_can_manage: "isOwner u ms \<Longrightarrow> canManageMembers u ms"
  by (simp add: isOwner_def canManageMembers_def)

text \<open>What a successful mutation makes the client ask for again.\<close>

fun refreshes :: "mutation \<Rightarrow> query \<Rightarrow> bool" where
  "refreshes (CreateIssue p) q = (\<exists>st page per. q = UseProjectIssues p st page per)"
| "refreshes (UpdateIssue i p) q = (q = UseIssue i \<or> (\<exists>st page per. q = UseProjectIssues p st page per))"
| "refreshes DeleteIssue q =
     ((\<exists>p st page per. q = UseProjectIssues p st page per) \<or> (\<exists>params. q = UsePopularIssues params))"
| "refreshes (CreateComment i) q = (q = UseIssueComments i)"
| "refreshes CreateProject q = (\<exists>page per. q = UseProjects page per)"
| "refreshes UseCreateTeam q = (q = UseTeams)"
| "refreshes (AddTeamMember t) q = (q = UseTeam t \<or> q = UseTeamMembers t)"
| "refreshes (UpdateTeamMemberRole t) q = (q = UseTeam t \<or> q = UseTeamMembers t)"
| "refreshes (RemoveTeamMember t) q = (q = UseTeam t \<or> q = UseTeamMembers t)"
| "refreshes (CreateWorkspaceItem t) q = (\<exists>page per. q = UseWorkspaceItems t page per)"
| "refreshes (UpdateWorkspaceItem w) q = (q = UseWorkspaceItem w)"
| "refreshes DeleteWorkspaceItem q =
     (q = UseTeams \<or> (\<exists>t. q = UseTeam t \<or> q = UseTeamMembers t \<or> (\<exists>page per. q = UseWorkspaceItems t page per)))"

lemma refreshes_iff: "refreshes m q \<longleftrightarrow> (\<exists>p \<in> set (onSuccess m). take (length p) (queryKey q) = p)"
  by (cases m; cases q; simp add: hook_defs)



text \<open>A changed workspace item stays as it was in the list of its team, and a deleted issue stays
  on its own page, until the data is five minutes old.\<close>

lemma mutations_leave_stale:
  "\<not> refreshes (UpdateWorkspaceItem w) (UseWorkspaceItems t page per)"
  "\<not> refreshes DeleteWorkspaceItem (UseWorkspaceItem w)"
  "\<not> refreshes DeleteIssue (UseIssue i)"
  by simp_all

text \<open>Signing in makes every later request carry the token and lets the protected pages be
  shown; signing out removes the header, sends the protected pages to the login and leaves
  nothing of the previous user's data in the cache.\<close>

theorem sign_in_and_out:
  assumes "query_client_laws Q" and "token \<noteq> []"
    and "(b1, c1) = useLogin_onSuccess Q token u (b, c)" and "(b2, c2) = useLogout Q (b', c')"
  shows "authorization b1 = Some (''Bearer '' @ token) \<and> RequireAuth False (isAuthenticated Q c1) page = Content page
    \<and> authorization b2 = None \<and> RequireAuth False (isAuthenticated Q c2) page = RedirectToLogin
    \<and> (\<forall>q. \<not> isFresh Q (queryKey q) c2)"
  using assms(2-4) query_client_laws.get_set [OF assms(1)] query_client_laws.clear_get [OF assms(1)]
    query_client_laws.clear_fresh [OF assms(1)]
  by (simp add: useLogin_onSuccess_def useLogout_def isAuthenticated_def authorization_def RequireAuth_def truthy_def)

definition signed_out :: browser where
  "signed_out = \<lparr>br_accessToken = None, br_location = ''/login'', br_loads = 0\<rparr>"

definition alice_dto :: UserDto where
  "alice_dto = \<lparr>ud_id = 1, ud_email = ''alice@example.com'', ud_nickname = ''alice'', ud_createdAt = ''2025-01-30T10:15:30.123Z''\<rparr>"

theorem sign_in_and_out_witness:
  "authorization (fst (useLogin_onSuccess fresh_keys ''t'' alice_dto (signed_out, ([], [])))) = Some ''Bearer t''"
proof -
  let ?in = "useLogin_onSuccess fresh_keys ''t'' alice_dto (signed_out, ([], []))"
  let ?out = "useLogout fresh_keys ?in"
  show ?thesis
    using sign_in_and_out [OF fresh_keys.query_client_laws_axioms, of "''t''" "fst ?in" "snd ?in" alice_dto
        signed_out "([], [])" "fst ?out" "snd ?out" "fst ?in" "snd ?in" "()"] by simp
qed



text \<open>The team page shows the controls for members to exactly those users whom the backend's
  role guard lets through to the membership handlers of that team.\<close>

theorem member_controls_match_guard:
  assumes "prisma_client P" and "int_pipe parse" and "db_inv s" and "jwt_guard J now tok = Inr u"
    and "parse (show_int teamId) = Some teamId" and "\<bar>teamId\<bar> \<le> 2 ^ 53"
    and "TeamController_getTeamById parse P J now tok (show_int teamId) s = (Inr dto, s')"
  shows "canManageMembers (Some (cur_userId u)) (tr_members dto) \<longleftrightarrow>
    succeeds (RolesGuard_canActivate P (Some team_roles)
      \<lparr>req_params_teamId = Some (RawString (show_int teamId)), req_params_id = None, req_body_teamId = None\<rparr> u s)"
proof -
  note pipe = int_pipe.guard_agrees [OF assms(2,5,6)]
  show ?thesis
  proof (rule prisma_client.team_page_view [OF assms(1,3-5,7)])
    fix mus me assume me: "me \<in> set (rows (members s))" "member_teamId me = teamId" "member_userId me = cur_userId u"
      and role: "team_role (Some (cur_userId u)) (tr_members dto) = Some (member_role me)"
    show ?thesis
      using prisma_client.guard_of_member [OF assms(1,3) me(1,3) team_param [OF pipe(3)], of team_roles]
        pipe(1) me(2) role by (simp add: canManageMembers_def team_roles_def)
  qed
qed

definition alice_sees :: "TeamResponseDto" where
  "alice_sees = team_dto \<lparr>team_id = 1, team_name = ''core'', team_createdAt = 8\<rparr>
     (Some [(member_row 1 1 OWNER, user_info alice_row), (member_row 2 2 MEMBER, user_info bob_row)])"

lemma alice_gets:
  "jwt_guard (plain_jwt 86400000) 21 (Some alice_token) = Inr \<lparr>cur_userId = 1, cur_email = ''alice@example.com''\<rparr>"
  "TeamController_getTeamById numeral_pipe mem_prisma (plain_jwt 86400000) 21 (Some alice_token) (show_int 1) (team_db MEMBER) =
     (Inr alice_sees, team_db MEMBER)"
  "numeral_pipe (show_int 1) = Some 1" "numeral_pipe (show_int 2) = Some 2"
  by code_simp+

theorem member_controls_match_guard_witness:
  "canManageMembers (Some 1) (tr_members alice_sees) \<and>
   succeeds (RolesGuard_canActivate mem_prisma (Some team_roles)
      \<lparr>req_params_teamId = Some (RawString (show_int 1)), req_params_id = None, req_body_teamId = None\<rparr>
      \<lparr>cur_userId = 1, cur_email = ''alice@example.com''\<rparr> (team_db MEMBER))"
proof -
  have "canManageMembers (Some 1) (tr_members alice_sees)" by code_simp
  then show ?thesis
    using member_controls_match_guard [OF mem.prisma_client_axioms numeral_pipe.int_pipe_axioms _ alice_gets(1,3) _ alice_gets(2)]
      team_db_inv [of MEMBER] by (simp add: team_inv_def)
qed



end
