(* ===== verification/Js_Date.thy ===== *)
theory Js_Date
  imports Js_Text "HOL-Library.List_Lexorder" "HOL-Library.Char_ord"
begin

text \<open>
  The date operations of the language that the code uses.  A point of time is a number of
  milliseconds since the epoch.  The year, month and day of a day number are those of the
  language's proleptic Gregorian calendar; \<open>iso_date\<close> is the part of \<open>toISOString()\<close> before
  the \<open>T\<close>.  The local time zone is a parameter (\<open>zone\<close>): \<open>to_local\<close> gives the local clock of
  a point of time, \<open>to_utc\<close> the point of time of a local clock.

  Within the four-digit years the ISO strings are ordered like the dates they denote, which
  is what the string comparisons in the database rely on.
\<close>

section \<open>Definitions\<close>

definition ms_day :: int where
  "ms_day = 86400000"

definition day_of :: "int \<Rightarrow> int" where
  "day_of t = t div ms_day"

definition day_from_year :: "int \<Rightarrow> int" where
  "day_from_year y = 365 * (y - 1970) + (y - 1969) div 4 - (y - 1901) div 100 + (y - 1601) div 400"

definition leap_year :: "int \<Rightarrow> bool" where
  "leap_year y = (y mod 4 = 0 \<and> (y mod 100 \<noteq> 0 \<or> y mod 400 = 0))"

definition year_from_day :: "int \<Rightarrow> int" where
  "year_from_day d =
     (let y = 1970 + (400 * d) div 146097
      in if d < day_from_year y then y - 1 else if day_from_year (y + 1) \<le> d then y + 1 else y)"

text \<open>The day of the year on which each month starts.\<close>

definition month_starts :: "int \<Rightarrow> nat list" where
  "month_starts y =
     (let l = (if leap_year y then 1 else 0)
      in [0, 31, 59 + l, 90 + l, 120 + l, 151 + l, 181 + l, 212 + l, 243 + l, 273 + l, 304 + l, 334 + l])"

definition month_from_day :: "int \<Rightarrow> nat \<Rightarrow> nat" where
  "month_from_day y doy = length (filter (\<lambda>o'. o' \<le> doy) (month_starts y))"

definition two_digits :: "nat \<Rightarrow> string" where
  "two_digits n = padStart 2 CHR ''0'' (show_nat n)"

definition iso_year :: "int \<Rightarrow> string" where
  "iso_year y =
     (if 0 \<le> y \<and> y \<le> 9999 then padStart 4 CHR ''0'' (show_nat (nat y))
      else (if y < 0 then ''-'' else ''+'') @ padStart 6 CHR ''0'' (show_nat (nat \<bar>y\<bar>)))"

definition iso_date :: "int \<Rightarrow> string" where
  "iso_date d =
     (let y = year_from_day d; doy = nat (d - day_from_year y); m = month_from_day y doy
      in iso_year y @ ''-'' @ two_digits m @ ''-'' @ two_digits (doy - month_starts y ! (m - 1) + 1))"

text \<open>\<open>toISOString()\<close>\<close>

definition iso_timestamp :: "int \<Rightarrow> string" where
  "iso_timestamp t =
     (let r = t mod ms_day
      in iso_date (day_of t) @ ''T'' @ two_digits (nat (r div 3600000)) @ '':'' @ two_digits (nat (r div 60000 mod 60)) @ '':'' @
         two_digits (nat (r div 1000 mod 60)) @ ''.'' @ padStart 3 CHR ''0'' (show_nat (nat (r mod 1000))) @ ''Z'')"

text \<open>\<open>new Date(s)\<close> of a date-only string in ISO format is midnight UTC.\<close>

definition iso_parse :: "string \<Rightarrow> int option" where
  "iso_parse s =
     (let y = take 4 s; m = read_nat (take 2 (drop 5 s)); d = read_nat (drop 8 s)
      in if length s = 10 \<and> s ! 4 = CHR ''-'' \<and> s ! 7 = CHR ''-'' \<and> 1 \<le> m \<and> m \<le> 12
         then Some ((day_from_year (int (read_nat y)) +
                int (month_starts (int (read_nat y)) ! (m - 1)) + int d - 1) * ms_day)
         else None)"

record zone =
  to_local :: "int \<Rightarrow> int"
  to_utc :: "int \<Rightarrow> int"

text \<open>\<open>setDate(getDate() - n)\<close> and \<open>setHours(h, m, s, ms)\<close>, both on the local clock.\<close>

definition minus_days :: "zone \<Rightarrow> int \<Rightarrow> int \<Rightarrow> int" where
  "minus_days z n t = to_utc z (to_local z t - n * ms_day)"

definition set_hours :: "zone \<Rightarrow> int \<Rightarrow> int \<Rightarrow> int" where
  "set_hours z ms t = to_utc z (day_of (to_local z t) * ms_day + ms)"

definition fixed_zone :: "int \<Rightarrow> zone" where
  "fixed_zone off = \<lparr>to_local = (\<lambda>t. t + off), to_utc = (\<lambda>t. t - off)\<rparr>"

section \<open>The calendar\<close>

lemma div_bounds:
  fixes x n :: int
  assumes "0 < n"
  shows "n * (x div n) \<le> x" "x + 1 \<le> n * (x div n) + n"
proof -
  have "n * (x div n) + x mod n = x" by simp
  moreover have "0 \<le> x mod n" "x mod n < n" using assms by simp_all
  ultimately show "n * (x div n) \<le> x" "x + 1 \<le> n * (x div n) + n" by linarith+
qed

lemma div_step:
  fixes x n :: int
  assumes "0 < n"
  shows "(x + 1) div n = x div n + (if n dvd x + 1 then 1 else 0)"
proof (cases "n dvd x + 1")
  case True
  then obtain k where k: "x + 1 = n * k" by (elim dvdE)
  then have "x div n = k - 1"
    using assms by (intro int_div_pos_eq [of _ _ _ "n - 1"]) (simp_all add: algebra_simps)
  moreover have "(x + 1) div n = k" using assms k by simp
  ultimately show ?thesis using True by simp
next
  case False
  have "x mod n \<noteq> n - 1"
  proof
    assume "x mod n = n - 1"
    then have "x + 1 = n * (x div n) + n" using mult_div_mod_eq [of n x] by linarith
    with False show False by simp
  qed
  then have "x mod n + 1 < n" using pos_mod_bound [OF assms, of x] by linarith
  then have "(x + 1) div n = x div n"
    using mult_div_mod_eq [of n x] pos_mod_sign [OF assms, of x]
    by (intro int_div_pos_eq [of _ _ _ "x mod n + 1"]) simp_all
  with False show ?thesis by simp
qed

lemma day_from_year_Suc: "day_from_year (y + 1) = day_from_year y + (if leap_year y then 366 else 365)"
proof -
  have dvd: "4 dvd y - 1968 \<longleftrightarrow> 4 dvd y" "100 dvd y - 1900 \<longleftrightarrow> 100 dvd y" "400 dvd y - 1600 \<longleftrightarrow> 400 dvd y"
    by (rule dvd_diff_left_iff; simp)+
  have "day_from_year (y + 1) = day_from_year y + 365 + (if 4 dvd y then 1 else 0) -
      (if 100 dvd y then 1 else 0) + (if 400 dvd y then 1 else 0)"
  proof -
    have "y + 1 - 1969 = y - 1969 + 1" "y + 1 - 1901 = y - 1901 + 1" "y + 1 - 1601 = y - 1601 + 1"
      "y - 1969 + 1 = y - 1968" "y - 1901 + 1 = y - 1900" "y - 1601 + 1 = y - 1600" by linarith+
    note eqs = this(1-3) and sums = this(4-6)
    have "(y + 1 - 1969) div 4 = (y - 1969) div 4 + (if 4 dvd y then 1 else 0)"
      "(y + 1 - 1901) div 100 = (y - 1901) div 100 + (if 100 dvd y then 1 else 0)"
      "(y + 1 - 1601) div 400 = (y - 1601) div 400 + (if 400 dvd y then 1 else 0)"
      unfolding eqs by (subst div_step, simp, simp only: sums dvd)+
    moreover have "365 * (y + 1 - 1970) = 365 * (y - 1970) + 365" by (simp add: algebra_simps)
    moreover have "(x + 365) + (a + i) - (b + j) + (c + k) = x + a - b + c + 365 + i - j + k"
      for x a b c i j k :: int by simp
    ultimately show ?thesis unfolding day_from_year_def by (simp only:)
  qed
  moreover have "400 dvd y \<Longrightarrow> 100 dvd y" "100 dvd y \<Longrightarrow> 4 dvd y"
    by (erule dvd_trans [rotated], simp)+
  moreover have "leap_year y \<longleftrightarrow> 4 dvd y \<and> (\<not> 100 dvd y \<or> 400 dvd y)"
    by (simp add: leap_year_def dvd_eq_mod_eq_0)
  moreover have "x + 365 + (if A then 1 else 0) - (if B then 1 else 0) + (if C then 1 else 0) =
      x + (if A \<and> (\<not> B \<or> C) then 366 else 365)" if "C \<Longrightarrow> B" "B \<Longrightarrow> A" for A B C and x :: int
    using that by (cases A; cases B; cases C) simp_all
  ultimately show ?thesis by (simp only:)
qed

lemma day_from_year_bounds:
  "146097 * k - 506 \<le> 400 * day_from_year (1970 + k)" "400 * day_from_year (1970 + k) \<le> 146097 * k + 589"
proof -
  have "day_from_year (1970 + k) = 365 * k + (k + 1) div 4 - (k + 69) div 100 + (k + 369) div 400"
    by (simp add: day_from_year_def add.commute)
  then show "146097 * k - 506 \<le> 400 * day_from_year (1970 + k)"
    "400 * day_from_year (1970 + k) \<le> 146097 * k + 589"
    using div_bounds [of 4 "k + 1"] div_bounds [of 100 "k + 69"] div_bounds [of 400 "k + 369"] by linarith+
qed

lemma day_from_year_mono: "a < b \<Longrightarrow> day_from_year a < day_from_year b"
proof (induction b rule: int_gr_induct)
  case base
  then show ?case by (simp add: day_from_year_Suc)
next
  case (step i)
  then show ?case by (simp add: day_from_year_Suc)
qed

lemma year_from_day:
  "day_from_year (year_from_day d) \<le> d" "d < day_from_year (year_from_day d + 1)"
proof -
  let ?q = "(400 * d) div 146097" let ?y = "1970 + ?q"
  have q: "146097 * ?q \<le> 400 * d" "400 * d + 1 \<le> 146097 * ?q + 146097"
    by (rule div_bounds; simp)+
  have lo: "day_from_year (?y - 1) \<le> d"
    using day_from_year_bounds(2) [of "?q - 1"] q by (simp add: algebra_simps)
  have hi: "d < day_from_year (?y + 2)"
    using day_from_year_bounds(1) [of "?q + 2"] q by (simp add: algebra_simps)
  show "day_from_year (year_from_day d) \<le> d" "d < day_from_year (year_from_day d + 1)"
    using lo hi by (auto simp: year_from_day_def Let_def add.assoc)
qed

lemma day_from_year_less_iff: "day_from_year a < day_from_year b \<longleftrightarrow> a < b"
  using day_from_year_mono [of a b] day_from_year_mono [of b a] by (cases a b rule: linorder_cases) auto

lemma day_from_year_le_iff: "day_from_year a \<le> day_from_year b \<longleftrightarrow> a \<le> b"
  by (simp add: day_from_year_less_iff flip: not_less)

lemma year_mono: "d \<le> d' \<Longrightarrow> year_from_day d \<le> year_from_day d'"
proof -
  assume "d \<le> d'"
  then have "day_from_year (year_from_day d) < day_from_year (year_from_day d' + 1)"
    using year_from_day(1) [of d] year_from_day(2) [of d'] by linarith
  then show ?thesis by (simp add: day_from_year_less_iff)
qed

lemma year_less: "year_from_day d < year_from_day d' \<Longrightarrow> d < d'"
  using year_mono [of d' d] by (meson leD linorder_le_less_linear)

section \<open>Months\<close>

lemma length_filter_imp:
  "(\<And>x. P x \<Longrightarrow> Q x) \<Longrightarrow> length (filter P xs) \<le> length (filter Q xs)"
  by (induction xs) (auto intro: le_SucI)

lemma doy_bounds:
  "0 \<le> d - day_from_year (year_from_day d)"
  "d - day_from_year (year_from_day d) < (if leap_year (year_from_day d) then 366 else 365)"
  using year_from_day [of d] day_from_year_Suc [of "year_from_day d"] by linarith+

text \<open>In an ascending list, the last of the elements up to \<open>d\<close> is where their number says.\<close>

lemma count_up_to:
  fixes d :: nat
  assumes "sorted xs"
  shows "filter (\<lambda>x. x \<le> d) xs = take (length (filter (\<lambda>x. x \<le> d) xs)) xs"
    and "\<And>i. i < length (filter (\<lambda>x. x \<le> d) xs) \<Longrightarrow> xs ! i \<le> d"
    and "length (filter (\<lambda>x. x \<le> d) xs) < length xs \<Longrightarrow> d < xs ! length (filter (\<lambda>x. x \<le> d) xs)"
proof -
  have a: "filter (\<lambda>x. x \<le> d) xs = take (length (filter (\<lambda>x. x \<le> d) xs)) xs \<and>
    (\<forall>i < length (filter (\<lambda>x. x \<le> d) xs). xs ! i \<le> d) \<and>
    (length (filter (\<lambda>x. x \<le> d) xs) < length xs \<longrightarrow> d < xs ! length (filter (\<lambda>x. x \<le> d) xs))"
    using assms
  proof (induction xs)
    case Nil
    then show ?case by simp
  next
    case (Cons x xs)
    show ?case
    proof (cases "x \<le> d")
      case True
      with Cons show ?thesis by (auto simp: nth_Cons split: nat.splits)
    next
      case False
      with Cons.prems have "filter (\<lambda>x. x \<le> d) xs = []" by (fastforce simp: filter_empty_conv)
      with False show ?thesis by simp
    qed
  qed
  then show "filter (\<lambda>x. x \<le> d) xs = take (length (filter (\<lambda>x. x \<le> d) xs)) xs"
    "\<And>i. i < length (filter (\<lambda>x. x \<le> d) xs) \<Longrightarrow> xs ! i \<le> d"
    "length (filter (\<lambda>x. x \<le> d) xs) < length xs \<Longrightarrow> d < xs ! length (filter (\<lambda>x. x \<le> d) xs)"
    by blast+
qed

lemma month_starts_facts:
  "sorted (month_starts y)" "length (month_starts y) = 12" "month_starts y ! 0 = 0"
  by (auto simp: month_starts_def Let_def)

lemma month_gap:
  "i < 11 \<Longrightarrow> month_starts y ! Suc i \<le> month_starts y ! i + 31"
  by (auto simp: month_starts_def Let_def less_Suc_eq numeral_eq_Suc)

lemma month_bounds:
  assumes "doy < (if leap_year y then 366 else 365)"
  shows "1 \<le> month_from_day y doy" "month_from_day y doy \<le> 12"
    "month_starts y ! (month_from_day y doy - 1) \<le> doy"
    "doy - month_starts y ! (month_from_day y doy - 1) < 31"
proof -
  let ?m = "month_from_day y doy"
  have ne: "filter (\<lambda>x. x \<le> doy) (month_starts y) \<noteq> []"
    using month_starts_facts nth_mem [of 0 "month_starts y"] by (auto simp: filter_empty_conv intro!: bexI [of _ 0])
  then show m1: "1 \<le> ?m" by (simp add: month_from_day_def Suc_le_eq)
  show m12: "?m \<le> 12"
    unfolding month_from_day_def month_starts_facts(2) [of y, symmetric] by (rule length_filter_le)
  show le: "month_starts y ! (?m - 1) \<le> doy"
    using count_up_to(2) [OF month_starts_facts(1) [of y], of "?m - 1" doy] m1 by (simp add: month_from_day_def)
  show "doy - month_starts y ! (?m - 1) < 31"
  proof (cases "?m = 12")
    case True
    have "month_starts y ! 11 = (if leap_year y then 335 else 334)"
      by (simp add: month_starts_def Let_def numeral_eq_Suc)
    with True assms show ?thesis by (simp split: if_splits)
  next
    case False
    with m12 have "?m < 12" by simp
    then have "doy < month_starts y ! ?m"
      using count_up_to(3) [OF month_starts_facts(1) [of y], of doy]
      by (simp add: month_from_day_def month_starts_facts)
    moreover have "month_starts y ! ?m \<le> month_starts y ! (?m - 1) + 31"
      using month_gap [of "?m - 1" y] \<open>?m < 12\<close> m1 by simp
    ultimately show ?thesis by linarith
  qed
qed

lemma month_mono: "doy \<le> doy' \<Longrightarrow> month_from_day y doy \<le> month_from_day y doy'"
  unfolding month_from_day_def by (rule length_filter_imp) simp

section \<open>Fixed-width numerals\<close>

fun fixed_width :: "nat \<Rightarrow> nat \<Rightarrow> string" where
  "fixed_width 0 n = []"
| "fixed_width (Suc k) n = fixed_width k (n div 10) @ [digit_char (n mod 10)]"

lemma length_fixed_width [simp]: "length (fixed_width k n) = k"
  by (induction k arbitrary: n) auto

lemma digit_char_zero: "digit_char 0 = CHR ''0''"
  by code_simp

lemma fixed_width_zero: "fixed_width k 0 = replicate k CHR ''0''"
  by (induction k) (auto simp: digit_char_zero replicate_append_same [symmetric])

lemma padStart_fixed:
  assumes "n < 10 ^ k" and "0 < k"
  shows "padStart k CHR ''0'' (show_nat n) = fixed_width k n"
  using assms
proof (induction k arbitrary: n)
  case 0
  then show ?case by simp
next
  case (Suc k)
  show ?case
  proof (cases "n < 10")
    case True
    then show ?thesis
      by (subst show_nat.simps) (simp add: padStart_def fixed_width_zero)
  next
    case False
    with Suc.prems have k: "0 < k" "n div 10 < 10 ^ k" by (auto intro!: Suc_leI gr0I)
    have "length (show_nat n) = Suc (length (show_nat (n div 10)))"
      using False by (subst show_nat.simps) simp
    moreover have "show_nat n = show_nat (n div 10) @ [digit_char (n mod 10)]"
      using False by (subst show_nat.simps) simp
    ultimately show ?thesis using Suc.IH [OF k(2,1)] by (simp add: padStart_def)
  qed
qed

lemma less_append_same:
  fixes xs ys us vs :: "'a::linorder list"
  assumes "length xs = length ys"
  shows "xs @ us < ys @ vs \<longleftrightarrow> xs < ys \<or> xs = ys \<and> us < vs"
  using assms by (induction xs ys rule: list_induct2) auto

lemma digit_char_less: "m < 10 \<Longrightarrow> n < 10 \<Longrightarrow> digit_char m < digit_char n \<longleftrightarrow> m < n"
  by (simp add: less_char_def)

lemma fixed_width_less:
  assumes "m < 10 ^ k" and "n < 10 ^ k"
  shows "fixed_width k m < fixed_width k n \<longleftrightarrow> m < n"
  using assms
proof (induction k arbitrary: m n)
  case 0
  then show ?case by simp
next
  case (Suc k)
  have k: "m div 10 < 10 ^ k" "n div 10 < 10 ^ k" using Suc.prems by auto
  have eq: "fixed_width k (m div 10) = fixed_width k (n div 10) \<longleftrightarrow> m div 10 = n div 10"
    using Suc.IH [OF k] Suc.IH [OF k(2,1)] by (metis less_irrefl linorder_neqE_nat)
  have "m = 10 * (m div 10) + m mod 10" "n = 10 * (n div 10) + n mod 10" "m mod 10 < 10" "n mod 10 < 10"
    by simp_all
  then have "m < n \<longleftrightarrow> m div 10 < n div 10 \<or> m div 10 = n div 10 \<and> m mod 10 < n mod 10" by linarith
  then show ?case by (simp add: less_append_same Suc.IH [OF k] eq digit_char_less)
qed

lemma read_fixed_width: "n < 10 ^ k \<Longrightarrow> read_nat (fixed_width k n) = n"
  by (induction k arbitrary: n) (auto simp: read_nat_snoc read_nat_def [of "[]"])

section \<open>ISO dates\<close>

definition four_digit_year :: "int \<Rightarrow> bool" where
  "four_digit_year d = (0 \<le> year_from_day d \<and> year_from_day d \<le> 9999)"

definition doy_of :: "int \<Rightarrow> nat" where
  "doy_of d = nat (d - day_from_year (year_from_day d))"

definition month_of :: "int \<Rightarrow> nat" where
  "month_of d = month_from_day (year_from_day d) (doy_of d)"

definition dom_of :: "int \<Rightarrow> nat" where
  "dom_of d = doy_of d - month_starts (year_from_day d) ! (month_of d - 1) + 1"

lemma doy_of_less: "doy_of d < (if leap_year (year_from_day d) then 366 else 365)"
  using doy_bounds [of d] by (auto simp: doy_of_def split: if_splits)

lemma date_parts:
  "1 \<le> month_of d" "month_of d \<le> 12" "dom_of d \<le> 31"
  "doy_of d + 1 = month_starts (year_from_day d) ! (month_of d - 1) + dom_of d"
  "d = day_from_year (year_from_day d) + int (doy_of d)"
  using month_bounds [OF doy_of_less [of d]] doy_bounds [of d] by (auto simp: month_of_def dom_of_def doy_of_def)

lemma iso_date_fixed:
  assumes "four_digit_year d"
  shows "iso_date d = fixed_width 4 (nat (year_from_day d)) @ CHR ''-'' # fixed_width 2 (month_of d) @
           CHR ''-'' # fixed_width 2 (dom_of d)"
proof -
  have "nat (year_from_day d) < 10 ^ 4" using assms by (auto simp: four_digit_year_def)
  moreover have "month_of d < 10 ^ 2" "dom_of d < 10 ^ 2" using date_parts [of d] by simp_all
  moreover have "iso_date d = iso_year (year_from_day d) @ ''-'' @ two_digits (month_of d) @ ''-'' @ two_digits (dom_of d)"
    by (simp add: iso_date_def Let_def doy_of_def month_of_def dom_of_def)
  ultimately show ?thesis
    using assms by (simp add: iso_year_def two_digits_def four_digit_year_def padStart_fixed)
qed

lemma iso_parse_date:
  assumes "four_digit_year d"
  shows "iso_parse (iso_date d) = Some (d * ms_day)"
proof -
  have y: "nat (year_from_day d) < 10 ^ 4" "0 \<le> year_from_day d" using assms by (auto simp: four_digit_year_def)
  have m: "month_of d < 10 ^ 2" "dom_of d < 10 ^ 2" using date_parts [of d] by simp_all
  have "day_from_year (year_from_day d) + int (month_starts (year_from_day d) ! (month_of d - 1)) +
      int (dom_of d) - 1 = d"
    using date_parts(4,5) [of d] by linarith
  with y m date_parts(1,2) [of d] show ?thesis
    by (simp add: iso_date_fixed [OF assms] iso_parse_def Let_def read_fixed_width nth_append)
qed

text \<open>The comparison of ISO dates as strings is the comparison of the days.\<close>

lemma iso_date_less:
  assumes "four_digit_year d" and "four_digit_year e"
  shows "iso_date d < iso_date e \<longleftrightarrow> d < e"
proof -
  have less: "iso_date d < iso_date e" if "d < e" "four_digit_year d" "four_digit_year e" for d e
  proof -
    let ?y = "year_from_day"
    have y: "nat (?y d) < 10 ^ 4" "nat (?y e) < 10 ^ 4" using that by (auto simp: four_digit_year_def)
    have m: "month_of d < 10 ^ 2" "dom_of d < 10 ^ 2" "month_of e < 10 ^ 2" "dom_of e < 10 ^ 2"
      using date_parts [of d] date_parts [of e] by simp_all
    have "nat (?y d) < nat (?y e) \<or> ?y d = ?y e \<and>
        (month_of d < month_of e \<or> month_of d = month_of e \<and> dom_of d < dom_of e)"
    proof (cases "?y d = ?y e")
      case True
      then have "doy_of d < doy_of e" using date_parts(5) [of d] date_parts(5) [of e, folded True] that(1) by linarith
      moreover from this have "month_of d \<le> month_of e"
        unfolding month_of_def True by (intro month_mono) simp
      ultimately show ?thesis
        using True date_parts(4) [of d] date_parts(4) [of e] by (cases "month_of d = month_of e") auto
    next
      case False
      with year_mono [of d e] that show ?thesis by (auto simp: four_digit_year_def)
    qed
    then show ?thesis
      using y m by (auto simp: iso_date_fixed that(2,3) less_append_same fixed_width_less)
  qed
  show ?thesis using less [of d e] less [of e d] assms by (metis less_asym linorder_neqE less_irrefl)
qed

lemma iso_date_le:
  assumes "four_digit_year d" and "four_digit_year e"
  shows "iso_date d \<le> iso_date e \<longleftrightarrow> d \<le> e"
  using iso_date_less [OF assms(2,1)] by (simp add: not_less [symmetric])

lemma day_of_bounds: "day_of t * ms_day \<le> t" "t < (day_of t + 1) * ms_day"
  using div_bounds [of ms_day t] by (simp_all add: day_of_def ms_day_def mult.commute)

lemma day_of_add: "day_of (d * ms_day + r) = d + day_of r"
  by (simp add: day_of_def ms_day_def add.commute)

lemma day_of_unique: "d * ms_day \<le> t \<Longrightarrow> t < (d + 1) * ms_day \<Longrightarrow> day_of t = d"
  unfolding day_of_def by (rule int_div_pos_eq [of _ _ _ "t - d * ms_day"]) (auto simp: ms_day_def algebra_simps)

end
