(* ===== verification/Issues.thy ===== *)
theory Issues
  imports Teams Js_Date
begin

text \<open>
  Projects, issues and comments of the Nest backend: \<open>project/*.ts\<close>, \<open>issue/*.ts\<close> and
  \<open>comment/*.ts\<close>.

  A response object built by a service is a class instance that still carries every column
  of the rows it was built from (\<open>issue_view\<close>); the serializer interceptor reduces an
  \<^emph>\<open>instance\<close> to its exposed properties and sends a \<^emph>\<open>plain\<close> object as it is.  The cache
  behind \<open>findPopular\<close> is a parameter (\<open>cache_lib\<close>, laws in \<open>popular_cache\<close>); what it gives
  back is the value it stored after a serialisation of its own.
\<close>

section \<open>Definitions\<close>

subsection \<open>Projects\<close>

record CreateProjectDto =
  cp_name :: string
  cp_description :: "string field"

definition valid_CreateProjectDto :: "CreateProjectDto \<Rightarrow> bool" where
  "valid_CreateProjectDto d = (cp_name d \<noteq> [])"

text \<open>A \<open>ProjectResponseDto\<close> exposes every column of its row.\<close>

type_synonym ProjectResponseDto = project

definition ProjectService_create ::
    "prisma \<Rightarrow> time \<Rightarrow> CreateProjectDto \<Rightarrow> (exn, 'z db_scheme, ProjectResponseDto) action" where
  "ProjectService_create P now d =
     q_create (project_d P) projects put_projects no_check
       (\<lambda>i. \<lparr>project_id = i, project_name = cp_name d, project_description = field_opt (cp_description d),
             project_createdAt = now\<rparr>)"

definition ProjectService_findAll :: "prisma \<Rightarrow> (exn, 'z db_scheme, ProjectResponseDto list) action" where
  "ProjectService_findAll P = q_many (project_d P) projects (\<lambda>_. True) (order_desc project_createdAt)"

definition ProjectService_findById :: "prisma \<Rightarrow> int \<Rightarrow> (exn, 'z db_scheme, ProjectResponseDto) action" where
  "ProjectService_findById P pid =
     bind_action (q_first (project_d P) projects (\<lambda>p. project_id p = pid)) (\<lambda>project.
     case project of None \<Rightarrow> throw (NotFoundException ''Project'' (Some pid)) | Some p \<Rightarrow> ret p)"

definition ProjectController_create ::
    "prisma \<Rightarrow> jwt_lib \<Rightarrow> time \<Rightarrow> string option \<Rightarrow> CreateProjectDto \<Rightarrow> (exn, 'z db_scheme, ProjectResponseDto) action" where
  "ProjectController_create P J now token d =
     with_user J now token (\<lambda>_. with_body (valid_CreateProjectDto d) (ProjectService_create P now d))"

definition ProjectController_findAll ::
    "prisma \<Rightarrow> jwt_lib \<Rightarrow> time \<Rightarrow> string option \<Rightarrow> (exn, 'z db_scheme, ProjectResponseDto list) action" where
  "ProjectController_findAll P J now token = with_user J now token (\<lambda>_. ProjectService_findAll P)"

subsection \<open>Issues: requests and responses\<close>

record CreateIssueDto =
  ci_title :: string
  ci_description :: "string field"
  ci_assigneeId :: "int field"

record UpdateIssueDto =
  up_title :: "string field"
  up_description :: "string field"
  up_status :: "IssueStatus field"
  up_assigneeId :: "int field"

record QueryIssuesDto =
  qi_status :: "IssueStatus option"
  qi_page :: "int option"
  qi_size :: "int option"

definition valid_CreateIssueDto :: "CreateIssueDto \<Rightarrow> bool" where
  "valid_CreateIssueDto d = (ci_title d \<noteq> [])"

definition valid_QueryIssuesDto :: "QueryIssuesDto \<Rightarrow> bool" where
  "valid_QueryIssuesDto q = (pred_option (\<lambda>n. 1 \<le> n) (qi_page q) \<and> pred_option (\<lambda>n. 1 \<le> n) (qi_size q))"

record issue_view =
  iv_id :: int
  iv_projectId :: int
  iv_reporterId :: int
  iv_assigneeId :: "int option"
  iv_title :: string
  iv_description :: "string option"
  iv_status :: IssueStatus
  iv_createdAt :: time
  iv_updatedAt :: time
  iv_reporter :: "user option"
  iv_assignee :: "user option"

record 'i page =
  pg_items :: "'i list"
  pg_total :: int
  pg_page :: int
  pg_size :: int
  pg_totalPages :: int

text \<open>\<open>Math.ceil(total / size)\<close>\<close>

definition total_pages :: "int \<Rightarrow> int \<Rightarrow> int" where
  "total_pages n per = \<lceil>js_div (of_int n) (of_int per)\<rceil>"

definition new_PaginatedIssuesResponseDto :: "'i list \<Rightarrow> int \<Rightarrow> int \<Rightarrow> int \<Rightarrow> 'i page" where
  "new_PaginatedIssuesResponseDto xs n page per =
     \<lparr>pg_items = xs, pg_total = n, pg_page = page, pg_size = per,
      pg_totalPages = total_pages n per\<rparr>"

text \<open>What a client receives for a user inside a response.\<close>

record user_body =
  ub_public :: UserResponseDto
  ub_passwordHash :: "string option"

record issue_body =
  ib_id :: int
  ib_projectId :: int
  ib_reporterId :: int
  ib_assigneeId :: "int option"
  ib_title :: string
  ib_description :: "string option"
  ib_status :: IssueStatus
  ib_createdAt :: time
  ib_updatedAt :: time
  ib_reporter :: "user_body option"
  ib_assignee :: "user_body option"

datatype 'a stored = Instance 'a | Plain 'a

fun body_user :: "user stored \<Rightarrow> user_body" where
  "body_user (Instance u) = \<lparr>ub_public = serialize_user u, ub_passwordHash = None\<rparr>"
| "body_user (Plain u) = \<lparr>ub_public = serialize_user u, ub_passwordHash = Some (user_passwordHash u)\<rparr>"

definition issue_to_body :: "(user \<Rightarrow> user_body) \<Rightarrow> issue_view \<Rightarrow> issue_body" where
  "issue_to_body f v = \<lparr>ib_id = iv_id v, ib_projectId = iv_projectId v, ib_reporterId = iv_reporterId v,
     ib_assigneeId = iv_assigneeId v, ib_title = iv_title v, ib_description = iv_description v,
     ib_status = iv_status v, ib_createdAt = iv_createdAt v, ib_updatedAt = iv_updatedAt v,
     ib_reporter = map_option f (iv_reporter v), ib_assignee = map_option f (iv_assignee v)\<rparr>"

fun body_issue :: "issue_view stored \<Rightarrow> issue_body" where
  "body_issue (Instance v) = issue_to_body (\<lambda>u. body_user (Instance u)) v"
| "body_issue (Plain v) = issue_to_body (\<lambda>u. body_user (Plain u)) v"

subsection \<open>Issues: the service\<close>

definition IssueService_mapToResponse :: "issue \<Rightarrow> user option \<Rightarrow> user option \<Rightarrow> issue_view" where
  "IssueService_mapToResponse i reporter assignee =
     \<lparr>iv_id = issue_id i, iv_projectId = issue_projectId i, iv_reporterId = issue_reporterId i,
      iv_assigneeId = issue_assigneeId i, iv_title = issue_title i, iv_description = issue_description i,
      iv_status = issue_status i, iv_createdAt = issue_createdAt i, iv_updatedAt = issue_updatedAt i,
      iv_reporter = reporter, iv_assignee = assignee\<rparr>"

definition include_people :: "prisma \<Rightarrow> issue \<Rightarrow> (exn, 'z db_scheme, issue_view) action" where
  "include_people P i =
     bind_action (q_related (user_d P) users (\<lambda>u. user_id u = issue_reporterId i)) (\<lambda>reporter.
     bind_action (case issue_assigneeId i of None \<Rightarrow> ret None
        | Some a \<Rightarrow> q_first (user_d P) users (\<lambda>u. user_id u = a)) (\<lambda>assignee.
     ret (IssueService_mapToResponse i (Some reporter) assignee)))"

definition IssueService_create ::
    "prisma \<Rightarrow> time \<Rightarrow> int \<Rightarrow> int \<Rightarrow> CreateIssueDto \<Rightarrow> (exn, 'z db_scheme, issue_view) action" where
  "IssueService_create P now projectId reporterId d =
     bind_action (q_first (project_d P) projects (\<lambda>p. project_id p = projectId)) (\<lambda>project.
     if project = None then throw (NotFoundException ''Project'' (Some projectId)) else
     bind_action (case ci_assigneeId d of
         Value a \<Rightarrow>
           (if a = 0 then ret ()
            else bind_action (q_first (user_d P) users (\<lambda>u. user_id u = a)) (\<lambda>assignee.
                 if assignee = None then throw (NotFoundException ''User'' (Some a)) else ret ()))
       | _ \<Rightarrow> ret ()) (\<lambda>_.
     bind_action (q_create (issue_d P) issues put_issues issue_check
         (\<lambda>i. \<lparr>issue_id = i, issue_projectId = projectId, issue_reporterId = reporterId,
               issue_assigneeId = field_opt (ci_assigneeId d), issue_title = ci_title d,
               issue_description = field_opt (ci_description d), issue_status = OPEN,
               issue_viewCount = 0, issue_createdAt = now, issue_updatedAt = now\<rparr>)) (include_people P)))"

definition issue_where :: "int \<Rightarrow> IssueStatus option \<Rightarrow> issue \<Rightarrow> bool" where
  "issue_where projectId status i =
     (issue_projectId i = projectId \<and> pred_option (\<lambda>st. issue_status i = st) status)"

definition IssueService_findByProject ::
    "prisma \<Rightarrow> int \<Rightarrow> QueryIssuesDto \<Rightarrow> (exn, 'z db_scheme, issue_view page) action" where
  "IssueService_findByProject P projectId query =
     (let page = (case qi_page query of None \<Rightarrow> 1 | Some n \<Rightarrow> n);
          per = (case qi_size query of None \<Rightarrow> 10 | Some n \<Rightarrow> n);
          skip = (page - 1) * per;
          w = issue_where projectId (qi_status query)
      in bind_action (q_many (issue_d P) issues w (order_desc issue_createdAt)) (\<lambda>found.
         bind_action (map_action (include_people P) (take (nat per) (drop (nat skip) found))) (\<lambda>vs.
         bind_action (q_count (issue_d P) issues w) (\<lambda>count.
         ret (new_PaginatedIssuesResponseDto vs (int count) page per)))))"

definition IssueService_findById :: "prisma \<Rightarrow> int \<Rightarrow> (exn, 'z db_scheme, issue_view) action" where
  "IssueService_findById P iid =
     bind_action (q_first (issue_d P) issues (\<lambda>i. issue_id i = iid)) (\<lambda>issue.
     case issue of None \<Rightarrow> throw (NotFoundException ''Issue'' (Some iid)) | Some i \<Rightarrow> include_people P i)"

definition update_issue :: "time \<Rightarrow> UpdateIssueDto \<Rightarrow> issue \<Rightarrow> issue" where
  "update_issue now d i =
     i\<lparr>issue_title := set_field (up_title d) (issue_title i),
       issue_description := set_nullable (up_description d) (issue_description i),
       issue_status := set_field (up_status d) (issue_status i),
       issue_assigneeId := set_nullable (up_assigneeId d) (issue_assigneeId i),
       issue_updatedAt := now\<rparr>"

definition IssueService_update ::
    "prisma \<Rightarrow> time \<Rightarrow> int \<Rightarrow> UpdateIssueDto \<Rightarrow> (exn, 'z db_scheme, issue_view) action" where
  "IssueService_update P now iid d =
     bind_action (q_first (issue_d P) issues (\<lambda>i. issue_id i = iid)) (\<lambda>existingIssue.
     if existingIssue = None then throw (NotFoundException ''Issue'' (Some iid)) else
     bind_action (case up_assigneeId d of
         Value a \<Rightarrow> bind_action (q_first (user_d P) users (\<lambda>u. user_id u = a)) (\<lambda>assignee.
           if assignee = None then throw (NotFoundException ''User'' (Some a)) else ret ())
       | _ \<Rightarrow> ret ()) (\<lambda>_.
     if up_title d = Null \<or> up_status d = Null then throw (PrismaError InvalidArgument)
     else bind_action (q_update (issue_d P) issues put_issues issue_check iid (update_issue now d))
            (include_people P)))"

definition IssueService_delete :: "prisma \<Rightarrow> int \<Rightarrow> (exn, 'z db_scheme, unit) action" where
  "IssueService_delete P iid =
     bind_action (q_first (issue_d P) issues (\<lambda>i. issue_id i = iid)) (\<lambda>issue.
     if issue = None then throw (NotFoundException ''Issue'' (Some iid)) else
     bind_action (q_delete (issue_d P) issues put_issues cascade_issue iid) (\<lambda>_. ret ()))"

record ('s, 'v) cache_lib =
  cache_get :: "time \<Rightarrow> string \<Rightarrow> 's \<Rightarrow> 'v option"
  cache_set :: "time \<Rightarrow> string \<Rightarrow> 'v \<Rightarrow> int \<Rightarrow> 's \<Rightarrow> 's"

definition popular_key :: string where
  "popular_key = ''popular_issues:v1''"

definition with_score :: "prisma \<Rightarrow> issue \<Rightarrow> (exn, 'z db_scheme, issue \<times> issue_view \<times> int) action" where
  "with_score P i =
     bind_action (include_people P i) (\<lambda>v.
     bind_action (q_many (comment_d P) comments (\<lambda>c. comment_issueId c = issue_id i) no_order) (\<lambda>cs.
     ret (i, v, issue_viewCount i + int (length cs))))"

definition IssueService_findPopular ::
    "('z db_scheme, issue_view stored list) cache_lib \<Rightarrow> zone \<Rightarrow> prisma \<Rightarrow> time
      \<Rightarrow> (exn, 'z db_scheme, issue_view stored list) action" where
  "IssueService_findPopular C z P now =
     bind_action (reads (cache_get C now popular_key)) (\<lambda>cached.
     case cached of
       Some vs \<Rightarrow> ret vs
     | None \<Rightarrow>
         (let sevenDaysAgo = minus_days z 7 now
          in bind_action (q_many (issue_d P) issues (\<lambda>i. sevenDaysAgo \<le> issue_createdAt i) no_order) (\<lambda>recentIssues.
             bind_action (map_action (with_score P) recentIssues) (\<lambda>issuesWithScore.
             let popularIssues = map (\<lambda>(i, v, score). Instance v)
                   (take 10 (sort_by (order_desc (\<lambda>(i, v, score). score)) issuesWithScore))
             in (\<lambda>s. (Inr popularIssues, cache_set C now popular_key popularIssues 300 s))))))"

definition IssueService_incrementViewCount :: "prisma \<Rightarrow> time \<Rightarrow> int \<Rightarrow> (exn, 'z db_scheme, unit) action" where
  "IssueService_incrementViewCount P now iid =
     bind_action (q_update (issue_d P) issues put_issues issue_check iid
         (\<lambda>i. i\<lparr>issue_viewCount := issue_viewCount i + 1, issue_updatedAt := now\<rparr>)) (\<lambda>_. ret ())"

subsection \<open>Issues: the controller\<close>

definition IssueController_create ::
    "(string \<Rightarrow> int option) \<Rightarrow> prisma \<Rightarrow> jwt_lib \<Rightarrow> time \<Rightarrow> string option \<Rightarrow> string \<Rightarrow> CreateIssueDto
      \<Rightarrow> (exn, 'z db_scheme, issue_body) action" where
  "IssueController_create parse P J now token rawProject d =
     with_user J now token (\<lambda>user. with_id parse rawProject (\<lambda>projectId.
       with_body (valid_CreateIssueDto d)
         (bind_action (IssueService_create P now projectId (cur_userId user) d) (\<lambda>v.
          ret (body_issue (Instance v))))))"

definition IssueController_findByProject ::
    "(string \<Rightarrow> int option) \<Rightarrow> prisma \<Rightarrow> jwt_lib \<Rightarrow> time \<Rightarrow> string option \<Rightarrow> string \<Rightarrow> QueryIssuesDto
      \<Rightarrow> (exn, 'z db_scheme, issue_body page) action" where
  "IssueController_findByProject parse P J now token rawProject q =
     with_user J now token (\<lambda>_. with_id parse rawProject (\<lambda>projectId.
       with_body (valid_QueryIssuesDto q)
         (bind_action (IssueService_findByProject P projectId q) (\<lambda>p.
          ret \<lparr>pg_items = map (\<lambda>v. body_issue (Instance v)) (pg_items p), pg_total = pg_total p,
               pg_page = pg_page p, pg_size = pg_size p, pg_totalPages = pg_totalPages p\<rparr>))))"

definition IssueController_findPopular ::
    "('z db_scheme, issue_view stored list) cache_lib \<Rightarrow> zone \<Rightarrow> prisma \<Rightarrow> jwt_lib \<Rightarrow> time \<Rightarrow> string option
      \<Rightarrow> (exn, 'z db_scheme, issue_body list) action" where
  "IssueController_findPopular C z P J now token =
     with_user J now token (\<lambda>_.
       bind_action (IssueService_findPopular C z P now) (\<lambda>vs. ret (map body_issue vs)))"

definition IssueController_findOne ::
    "(string \<Rightarrow> int option) \<Rightarrow> prisma \<Rightarrow> jwt_lib \<Rightarrow> time \<Rightarrow> string option \<Rightarrow> string \<Rightarrow> (exn, 'z db_scheme, issue_body) action" where
  "IssueController_findOne parse P J now token rawId =
     with_user J now token (\<lambda>_. with_id parse rawId (\<lambda>iid.
       bind_action (IssueService_findById P iid) (\<lambda>v. ret (body_issue (Instance v)))))"

definition IssueController_update ::
    "(string \<Rightarrow> int option) \<Rightarrow> prisma \<Rightarrow> jwt_lib \<Rightarrow> time \<Rightarrow> string option \<Rightarrow> string \<Rightarrow> UpdateIssueDto
      \<Rightarrow> (exn, 'z db_scheme, issue_body) action" where
  "IssueController_update parse P J now token rawId d =
     with_user J now token (\<lambda>_. with_id parse rawId (\<lambda>iid.
       bind_action (IssueService_update P now iid d) (\<lambda>v. ret (body_issue (Instance v)))))"

definition IssueController_delete ::
    "(string \<Rightarrow> int option) \<Rightarrow> prisma \<Rightarrow> jwt_lib \<Rightarrow> time \<Rightarrow> string option \<Rightarrow> string \<Rightarrow> (exn, 'z db_scheme, string) action" where
  "IssueController_delete parse P J now token rawId =
     with_user J now token (\<lambda>_. with_id parse rawId (\<lambda>iid.
       bind_action (IssueService_delete P iid) (\<lambda>_. ret ''Issue deleted successfully'')))"

subsection \<open>Comments\<close>

record CreateCommentDto =
  cc_content :: string

record comment_view =
  cv_id :: int
  cv_issueId :: int
  cv_authorId :: int
  cv_content :: string
  cv_createdAt :: time
  cv_updatedAt :: time
  cv_author :: "user option"

record comment_body =
  cb_id :: int
  cb_issueId :: int
  cb_authorId :: int
  cb_content :: string
  cb_createdAt :: time
  cb_updatedAt :: time
  cb_author :: "user_body option"

definition body_comment :: "comment_view \<Rightarrow> comment_body" where
  "body_comment v = \<lparr>cb_id = cv_id v, cb_issueId = cv_issueId v, cb_authorId = cv_authorId v,
     cb_content = cv_content v, cb_createdAt = cv_createdAt v, cb_updatedAt = cv_updatedAt v,
     cb_author = map_option (\<lambda>u. body_user (Instance u)) (cv_author v)\<rparr>"

definition valid_CreateCommentDto :: "CreateCommentDto \<Rightarrow> bool" where
  "valid_CreateCommentDto d = (cc_content d \<noteq> [])"

definition CommentService_mapToResponse :: "comment \<Rightarrow> user option \<Rightarrow> comment_view" where
  "CommentService_mapToResponse c author =
     \<lparr>cv_id = comment_id c, cv_issueId = comment_issueId c, cv_authorId = comment_authorId c,
      cv_content = comment_content c, cv_createdAt = comment_createdAt c,
      cv_updatedAt = comment_updatedAt c, cv_author = author\<rparr>"

definition include_author :: "prisma \<Rightarrow> comment \<Rightarrow> (exn, 'z db_scheme, comment_view) action" where
  "include_author P c =
     bind_action (q_related (user_d P) users (\<lambda>u. user_id u = comment_authorId c)) (\<lambda>author.
     ret (CommentService_mapToResponse c (Some author)))"

definition CommentService_create ::
    "prisma \<Rightarrow> time \<Rightarrow> int \<Rightarrow> int \<Rightarrow> CreateCommentDto \<Rightarrow> (exn, 'z db_scheme, comment_view) action" where
  "CommentService_create P now issueId authorId d =
     bind_action (q_first (issue_d P) issues (\<lambda>i. issue_id i = issueId)) (\<lambda>issue.
     if issue = None then throw (NotFoundException ''Issue'' (Some issueId)) else
     bind_action (q_create (comment_d P) comments put_comments comment_check
         (\<lambda>i. \<lparr>comment_id = i, comment_issueId = issueId, comment_authorId = authorId,
               comment_content = cc_content d, comment_createdAt = now, comment_updatedAt = now\<rparr>))
       (include_author P))"

definition CommentService_findByIssue :: "prisma \<Rightarrow> int \<Rightarrow> (exn, 'z db_scheme, comment_view list) action" where
  "CommentService_findByIssue P issueId =
     bind_action (q_first (issue_d P) issues (\<lambda>i. issue_id i = issueId)) (\<lambda>issue.
     if issue = None then throw (NotFoundException ''Issue'' (Some issueId)) else
     bind_action (q_many (comment_d P) comments (\<lambda>c. comment_issueId c = issueId) (order_asc comment_createdAt))
       (\<lambda>cs. map_action (include_author P) cs))"

definition CommentController_create ::
    "(string \<Rightarrow> int option) \<Rightarrow> prisma \<Rightarrow> jwt_lib \<Rightarrow> time \<Rightarrow> string option \<Rightarrow> string \<Rightarrow> CreateCommentDto
      \<Rightarrow> (exn, 'z db_scheme, comment_body) action" where
  "CommentController_create parse P J now token rawIssue d =
     with_user J now token (\<lambda>user. with_id parse rawIssue (\<lambda>issueId.
       with_body (valid_CreateCommentDto d)
         (bind_action (CommentService_create P now issueId (cur_userId user) d) (\<lambda>v. ret (body_comment v)))))"

definition CommentController_findByIssue ::
    "(string \<Rightarrow> int option) \<Rightarrow> prisma \<Rightarrow> jwt_lib \<Rightarrow> time \<Rightarrow> string option \<Rightarrow> string
      \<Rightarrow> (exn, 'z db_scheme, comment_body list) action" where
  "CommentController_findByIssue parse P J now token rawIssue =
     with_user J now token (\<lambda>_. with_id parse rawIssue (\<lambda>issueId.
       bind_action (CommentService_findByIssue P issueId) (\<lambda>vs. ret (map body_comment vs))))"

section \<open>Lemmas\<close>

lemma ceiling_pages:
  assumes "1 \<le> per"
  shows "n \<le> nat \<lceil>of_nat n / of_int per :: rat\<rceil> * nat per"
proof -
  have "(of_nat n :: rat) / of_int per \<le> of_int \<lceil>of_nat n / of_int per :: rat\<rceil>" by (rule le_of_int_ceiling)
  moreover have "0 < (of_int per :: rat)" using assms by simp
  ultimately have "(of_nat n :: rat) \<le> of_int \<lceil>of_nat n / of_int per :: rat\<rceil> * of_int per"
    by (simp only: pos_divide_le_eq)
  then have "(of_nat n :: rat) \<le> of_int (\<lceil>of_nat n / of_int per :: rat\<rceil> * per)" by (simp only: of_int_mult)
  then have "(of_int (int n) :: rat) \<le> of_int (\<lceil>of_nat n / of_int per :: rat\<rceil> * per)" by simp
  then have "int n \<le> \<lceil>of_nat n / of_int per :: rat\<rceil> * per" by (simp only: of_int_le_iff)
  then have "n \<le> nat (\<lceil>of_nat n / of_int per :: rat\<rceil> * per)" by simp
  then show ?thesis using assms by (simp add: nat_mult_distrib mult.commute)
qed

definition view_of :: "prisma \<Rightarrow> 'z db_scheme \<Rightarrow> issue \<Rightarrow> issue_view" where
  "view_of P s i = IssueService_mapToResponse i
     (findFirst (user_d P) (\<lambda>u. user_id u = issue_reporterId i) (users s))
     (case issue_assigneeId i of None \<Rightarrow> None
      | Some a \<Rightarrow> findFirst (user_d P) (\<lambda>u. user_id u = a) (users s))"

lemma view_of_id [simp]: "iv_id (view_of P s i) = issue_id i"
  by (simp add: view_of_def IssueService_mapToResponse_def)

context prisma_client begin

lemma include_people_eq:
  assumes "db_inv s" and "i \<in> set (rows (issues s))"
  shows "include_people P i s = (Inr (view_of P s i), s)"
proof -
  have "has_row user_id (users s) (issue_reporterId i)"
    using assms by (auto simp: inv_defs passes_iff issue_check_def)
  then obtain u where u: "findFirst (user_d P) (\<lambda>u. user_id u = issue_reporterId i) (users s) = Some u"
    using user.find_key_has_row [of "issue_reporterId i" "users s"] by (cases "findFirst (user_d P) (\<lambda>u. user_id u = issue_reporterId i) (users s)") auto
  then show ?thesis
    by (auto simp: include_people_def view_of_def q_related_def bind_action_def q_first_def
        split: option.splits)
qed

lemma findByProject_eq:
  assumes "db_inv s" and "1 \<le> p" and "1 \<le> per" "per \<le> 2 ^ 50"
    and "length (rows (issues s)) \<le> 2 ^ 50"
  shows "IssueService_findByProject P projectId \<lparr>qi_status = st, qi_page = Some p, qi_size = Some per\<rparr> s =
    (let found = findMany (issue_d P) (issue_where projectId st) (order_desc issue_createdAt) (issues s)
     in (Inr \<lparr>pg_items = map (view_of P s) (take (nat per) (drop (nat ((p - 1) * per)) found)),
              pg_total = int (length found), pg_page = p, pg_size = per,
              pg_totalPages = \<lceil>of_nat (length found) / of_int per :: rat\<rceil>\<rparr>, s))"
proof -
  let ?f = "findMany (issue_d P) (issue_where projectId st) (order_desc issue_createdAt) (issues s)"
  have len: "length ?f \<le> 2 ^ 50"
    unfolding issue.findMany_length by (rule order_trans [OF length_filter_le assms(5)])
  then have "int (length ?f) \<le> 2 ^ 50" by simp
  then have tp: "total_pages (int (length ?f)) per = \<lceil>of_nat (length ?f) / of_int per :: rat\<rceil>"
    unfolding total_pages_def using assms(3,4) by (subst ceiling_js_div) simp_all
  have "map_action (include_people P) (take (nat per) (drop (nat ((p - 1) * per)) ?f)) s =
      (Inr (map (view_of P s) (take (nat per) (drop (nat ((p - 1) * per)) ?f))), s)"
    by (rule map_action_pure, rule include_people_eq [OF assms(1)])
      (auto dest!: in_set_takeD in_set_dropD simp: issue.findMany_set)
  then show ?thesis
    by (simp add: IssueService_findByProject_def Let_def bind_apply_Inr tp issue.countRows_eq
        new_PaginatedIssuesResponseDto_def flip: issue.findMany_length [where le = "order_desc issue_createdAt"])
qed

end

definition popularity :: "'z db_scheme \<Rightarrow> issue \<Rightarrow> int" where
  "popularity s i = issue_viewCount i +
     int (length (filter (\<lambda>c. comment_issueId c = issue_id i) (rows (comments s))))"

context prisma_client begin

lemma with_score_eq:
  assumes "db_inv s" and "i \<in> set (rows (issues s))"
  shows "with_score P i s = (Inr (i, view_of P s i, popularity s i), s)"
  using include_people_eq [OF assms]
  by (simp add: with_score_def bind_apply_Inr comment.findMany_length popularity_def)

lemma findPopular_miss:
  assumes "db_inv s" and "cache_get C now popular_key s = None"
  obtains top rest where
    "mset (top @ rest) = filter_mset (\<lambda>i. minus_days z 7 now \<le> issue_createdAt i) (mset (rows (issues s)))"
    "length top = min 10 (length (top @ rest))"
    "sorted_wrt (order_desc (popularity s)) top"
    "\<And>x y. x \<in> set top \<Longrightarrow> y \<in> set rest \<Longrightarrow> popularity s y \<le> popularity s x"
    "IssueService_findPopular C z P now s =
       (Inr (map (\<lambda>i. Instance (view_of P s i)) top),
        cache_set C now popular_key (map (\<lambda>i. Instance (view_of P s i)) top) 300 s)"
proof -
  let ?recent = "findMany (issue_d P) (\<lambda>i. minus_days z 7 now \<le> issue_createdAt i) no_order (issues s)"
  let ?sorted = "sort_by (order_desc (popularity s)) ?recent"
  have m: "map_action (with_score P) ?recent s =
      (Inr (map (\<lambda>i. (i, view_of P s i, popularity s i)) ?recent), s)"
    by (rule map_action_pure, rule with_score_eq [OF assms(1)]) (simp add: issue.findMany_set)
  have s: "sort_by (order_desc (\<lambda>(i, v, score). score)) (map (\<lambda>i. (i, view_of P s i, popularity s i)) ?recent) =
      map (\<lambda>i. (i, view_of P s i, popularity s i)) ?sorted"
    by (simp add: sort_by_map order_desc_def [abs_def])
  show ?thesis
  proof (rule that [of "take 10 ?sorted" "drop 10 ?sorted"])
    show "sorted_wrt (order_desc (popularity s)) (take 10 ?sorted)"
      by (intro sorted_wrt_take sorted_sort_by) simp
    show "popularity s y \<le> popularity s x" if "x \<in> set (take 10 ?sorted)" "y \<in> set (drop 10 ?sorted)" for x y
      using sorted_take_drop [OF sorted_sort_by that] by (simp add: order_desc_def)
    show "IssueService_findPopular C z P now s =
       (Inr (map (\<lambda>i. Instance (view_of P s i)) (take 10 ?sorted)),
        cache_set C now popular_key (map (\<lambda>i. Instance (view_of P s i)) (take 10 ?sorted)) 300 s)"
      by (simp add: IssueService_findPopular_def assms(2) Let_def bind_apply_Inr m s take_map o_def case_prod_beta)
  qed (simp_all add: issue.findMany_mset)
qed

lemma keep_issues:
  "preserves db_inv (ProjectService_create P now cp)"
  "preserves db_inv (IssueService_create P now projectId reporterId ci)"
  "preserves db_inv (IssueService_update P now iid up)"
  "preserves db_inv (IssueService_delete P iid)"
  "preserves db_inv (IssueService_incrementViewCount P now iid)"
  "preserves db_inv (CommentService_create P now iid authorId cc)"
  unfolding ProjectService_create_def IssueService_create_def IssueService_update_def IssueService_delete_def
    IssueService_incrementViewCount_def CommentService_create_def include_people_def include_author_def
  by (auto intro!: preserves_bind preserves_if preserves_option keep_project_create keep_issue_create
      keep_issue_update keep_issue_delete keep_comment_create simp: update_issue_def split: field.splits)

lemma delete_issue_eq:
  assumes "db_inv s" and "i \<in> set (rows (issues s))"
  shows "IssueService_delete P (issue_id i) s =
    (Inr (), s\<lparr>issues := (issues s)\<lparr>rows := filter (\<lambda>x. issue_id x \<noteq> issue_id i) (rows (issues s))\<rparr>,
      comments := (comments s)\<lparr>rows := filter (\<lambda>c. comment_issueId c \<noteq> issue_id i) (rows (comments s))\<rparr>\<rparr>)"
  using issue.find_key_some [OF wf_tables(3) [OF assms(1)] assms(2)]
    issue.delete_eq [of issues s i put_issues cascade_issue, OF wf_tables(3) [OF assms(1)] assms(2)]
  by (simp add: IssueService_delete_def bind_apply_Inr put_issues_def cascade_issue_def)

lemma delete_issue_missing:
  "\<not> has_row issue_id (issues s) k \<Longrightarrow>
     IssueService_delete P k s = (Inl (NotFoundException ''Issue'' (Some k)), s)"
  by (simp add: IssueService_delete_def issue.find_key_has_row)

lemma findById_missing:
  "\<not> has_row issue_id (issues s) k \<Longrightarrow>
     IssueService_findById P k s = (Inl (NotFoundException ''Issue'' (Some k)), s)"
  using issue.find_key_has_row [of k "issues s"] by (simp add: IssueService_findById_def)

end

section \<open>The cache\<close>

locale popular_cache =
  fixes C :: "('z db_scheme, issue_view stored list) cache_lib"
    and reload :: "issue_view stored list \<Rightarrow> issue_view stored list"
  assumes set_tables: "db.truncate (cache_set C t k v ttl s) = db.truncate s"
    and get_set: "t' < t + ttl \<Longrightarrow> cache_get C t' k (cache_set C t k v ttl s) = Some (reload v)"
    and get_expired: "t + ttl \<le> t' \<Longrightarrow> cache_get C t' k (cache_set C t k v ttl s) = None"

text \<open>A store that keeps JSON: what comes back is a plain object.\<close>

fun to_plain :: "'a stored \<Rightarrow> 'a stored" where
  "to_plain (Instance v) = Plain v"
| "to_plain (Plain v) = Plain v"

record cache_db = db +
  entries :: "(string \<times> time \<times> issue_view stored list) list"

definition json_cache :: "(cache_db, issue_view stored list) cache_lib" where
  "json_cache = \<lparr>cache_get = (\<lambda>now k s. case map_of (entries s) k of None \<Rightarrow> None
       | Some (expires, v) \<Rightarrow> if now < expires then Some v else None),
     cache_set = (\<lambda>now k v ttl s. s\<lparr>entries := (k, now + ttl, map to_plain v) # entries s\<rparr>)\<rparr>"

interpretation json_cache: popular_cache json_cache "map to_plain"
  by unfold_locales (simp_all add: json_cache_def db.defs)

lemma truncate_tables:
  assumes "db.truncate s' = db.truncate s"
  shows "users s' = users s" "projects s' = projects s" "issues s' = issues s" "comments s' = comments s"
    "teams s' = teams s" "members s' = members s" "items s' = items s" "stats s' = stats s"
    "products s' = products s" "orders s' = orders s" "oitems s' = oitems s" "notifs s' = notifs s"
  using assms by (simp_all add: db.defs)

lemma body_issue_reporter:
  "ib_reporter (body_issue (Instance v)) = map_option (\<lambda>u. \<lparr>ub_public = serialize_user u, ub_passwordHash = None\<rparr>) (iv_reporter v)"
  "ib_reporter (body_issue (Plain v)) =
     map_option (\<lambda>u. \<lparr>ub_public = serialize_user u, ub_passwordHash = Some (user_passwordHash u)\<rparr>) (iv_reporter v)"
  by (simp_all add: issue_to_body_def)

section \<open>Properties\<close>


definition issue_row :: "int \<Rightarrow> time \<Rightarrow> int \<Rightarrow> issue" where
  "issue_row i t v = \<lparr>issue_id = i, issue_projectId = 1, issue_reporterId = 1, issue_assigneeId = None,
     issue_title = ''bug'', issue_description = None, issue_status = OPEN, issue_viewCount = v,
     issue_createdAt = t, issue_updatedAt = t\<rparr>"

definition issue_db :: db where
  "issue_db = empty_db\<lparr>users := \<lparr>rows = [alice_row], seq = 1\<rparr>,
     projects := \<lparr>rows = [\<lparr>project_id = 1, project_name = ''p'', project_description = None, project_createdAt = 6\<rparr>], seq = 1\<rparr>,
     issues := \<lparr>rows = [issue_row 1 10 0, issue_row 2 20 5, issue_row 3 30 1], seq = 3\<rparr>,
     comments := \<lparr>rows = [\<lparr>comment_id = 1, comment_issueId = 3, comment_authorId = 1, comment_content = ''x'',
        comment_createdAt = 31, comment_updatedAt = 31\<rparr>], seq = 1\<rparr>\<rparr>"

lemma issue_db_inv: "db_inv issue_db"
  by code_simp


text \<open>On a cache miss the popular list holds the ten (or fewer) issues of the last seven days
  with the highest score (views plus comments), best first; no recent issue left out beats
  one that is listed; and the list is what the cache is given.\<close>

theorem popular_issues_top10:
  assumes "prisma_client P" and "db_inv s" and "cache_get C now popular_key s = None"
  shows "\<exists>top rest.
      mset (top @ rest) = filter_mset (\<lambda>i. minus_days z 7 now \<le> issue_createdAt i) (mset (rows (issues s))) \<and>
      length top = min 10 (length (top @ rest)) \<and>
      sorted_wrt (order_desc (popularity s)) top \<and>
      (\<forall>x \<in> set top. \<forall>y \<in> set rest. popularity s y \<le> popularity s x) \<and>
      IssueService_findPopular C z P now s =
        (Inr (map (\<lambda>i. Instance (view_of P s i)) top),
         cache_set C now popular_key (map (\<lambda>i. Instance (view_of P s i)) top) 300 s)"
  by (rule prisma_client.findPopular_miss [OF assms]) blast

definition cached_issue_db :: cache_db where
  "cached_issue_db = db.extend issue_db \<lparr>entries = []\<rparr>"

lemma cached_issue_db_inv: "db_inv cached_issue_db"
  by code_simp

theorem popular_issues_top10_witness:
  "\<exists>top. IssueService_findPopular json_cache (fixed_zone 0) mem_prisma 40 cached_issue_db =
     (Inr (map (\<lambda>i. Instance (view_of mem_prisma cached_issue_db i)) top),
      cache_set json_cache 40 popular_key (map (\<lambda>i. Instance (view_of mem_prisma cached_issue_db i)) top) 300
        cached_issue_db)"
proof -
  have "cache_get json_cache 40 popular_key cached_issue_db = None"
    by (simp add: json_cache_def cached_issue_db_def db.defs)
  from popular_issues_top10 [OF mem.prisma_client_axioms cached_issue_db_inv this, of "fixed_zone 0"]
  show ?thesis by blast
qed

text \<open>A freshly computed popular list never discloses a password hash, but the response
  served from a cache that stores JSON does: the cached objects are no instances any more,
  nothing strips them, and they carry every column of the reporter.\<close>

theorem popular_cached_exposes_hash:
  assumes "prisma_client P" and "db_inv s" and "cache_get C now popular_key s = None"
    and "popular_cache C (map to_plain)" and "now \<le> t'" and "t' < now + 300"
  shows "\<exists>top vs s' vs'. IssueService_findPopular C z P now s = (Inr vs, s') \<and>
      IssueService_findPopular C z P t' s' = (Inr vs', s') \<and>
      map (iv_id \<circ> view_of P s) top = map (ib_id \<circ> body_issue) vs' \<and>
      (\<forall>v \<in> set vs. pred_option (\<lambda>b. ub_passwordHash b = None) (ib_reporter (body_issue v))) \<and>
      (\<forall>v \<in> set vs'. \<exists>u \<in> set (rows (users s)).
         map_option ub_passwordHash (ib_reporter (body_issue v)) = Some (Some (user_passwordHash u)))"
proof (rule prisma_client.findPopular_miss [OF assms(1-3), of z])
  fix top rest
  assume recent: "mset (top @ rest) = filter_mset (\<lambda>i. minus_days z 7 now \<le> issue_createdAt i) (mset (rows (issues s)))"
  let ?vs = "map (\<lambda>i. Instance (view_of P s i)) top"
  let ?s' = "cache_set C now popular_key ?vs 300 s"
  assume first: "IssueService_findPopular C z P now s = (Inr ?vs, ?s')"
  have second: "IssueService_findPopular C z P t' ?s' = (Inr (map to_plain ?vs), ?s')"
    using popular_cache.get_set [OF assms(4,6), of popular_key ?vs s] by (simp add: IssueService_findPopular_def)
  have reporter: "\<exists>u \<in> set (rows (users s)). iv_reporter (view_of P s i) = Some u" if "i \<in> set top" for i
  proof -
    have "i \<in># filter_mset (\<lambda>i. minus_days z 7 now \<le> issue_createdAt i) (mset (rows (issues s)))"
      using that by (simp flip: recent)
    then have "has_row user_id (users s) (issue_reporterId i)"
      using assms(2) by (auto simp: inv_defs passes_iff issue_check_def)
    then have "findFirst (user_d P) (\<lambda>u. user_id u = issue_reporterId i) (users s) \<noteq> None"
      by (simp add: prisma_table.find_key_has_row [OF prisma_client.user_table [OF assms(1)]])
    then show ?thesis
      using prisma_table.findFirst_some [OF prisma_client.user_table [OF assms(1)]]
      by (fastforce simp: view_of_def IssueService_mapToResponse_def)
  qed
  show ?thesis
  proof (intro exI conjI)
    show "\<forall>v \<in> set ?vs. pred_option (\<lambda>b. ub_passwordHash b = None) (ib_reporter (body_issue v))"
      by (auto simp: body_issue_reporter option.pred_set simp del: body_issue.simps)
    show "\<forall>v \<in> set (map to_plain ?vs). \<exists>u \<in> set (rows (users s)).
        map_option ub_passwordHash (ib_reporter (body_issue v)) = Some (Some (user_passwordHash u))"
      using reporter by (fastforce simp: body_issue_reporter simp del: body_issue.simps)
    show "map (iv_id \<circ> view_of P s) top = map (ib_id \<circ> body_issue) (map to_plain ?vs)"
      by (simp add: issue_to_body_def)
  qed (rule first, rule second)
qed

theorem popular_cached_exposes_hash_witness:
  "\<exists>vs' s'. IssueService_findPopular json_cache (fixed_zone 0) mem_prisma 41 s' = (Inr vs', s') \<and>
     (\<forall>v \<in> set vs'. map_option ub_passwordHash (ib_reporter (body_issue v)) = Some (Some ''$2a$10$secret1''))"
proof -
  have none: "cache_get json_cache 40 popular_key cached_issue_db = None"
    by (simp add: json_cache_def cached_issue_db_def db.defs)
  have u: "set (rows (users cached_issue_db)) = {alice_row}"
    by (simp add: cached_issue_db_def db.defs issue_db_def)
  show ?thesis
    using popular_cached_exposes_hash [OF mem.prisma_client_axioms cached_issue_db_inv none
        json_cache.popular_cache_axioms, of 41 "fixed_zone 0"]
    unfolding u by (auto simp: alice_row_def)
qed

text \<open>Deleting an issue removes it and exactly its own comments, after which it and its
  comment list are not found; deleting an unknown issue is a 404 that changes nothing.\<close>

theorem delete_issue_cascades:
  assumes "prisma_client P" and "db_inv s"
  shows "if has_row issue_id (issues s) k
         then \<exists>s'. IssueService_delete P k s = (Inr (), s') \<and> db_inv s' \<and>
           rows (issues s') = filter (\<lambda>x. issue_id x \<noteq> k) (rows (issues s)) \<and>
           rows (comments s') = filter (\<lambda>c. comment_issueId c \<noteq> k) (rows (comments s)) \<and>
           IssueService_findById P k s' = (Inl (NotFoundException ''Issue'' (Some k)), s') \<and>
           CommentService_findByIssue P k s' = (Inl (NotFoundException ''Issue'' (Some k)), s')
         else IssueService_delete P k s = (Inl (NotFoundException ''Issue'' (Some k)), s)"
proof (cases "has_row issue_id (issues s) k")
  case True
  then obtain i where i: "i \<in> set (rows (issues s))" "issue_id i = k" by (auto simp: has_row_iff)
  let ?s = "s\<lparr>issues := (issues s)\<lparr>rows := filter (\<lambda>x. issue_id x \<noteq> k) (rows (issues s))\<rparr>,
      comments := (comments s)\<lparr>rows := filter (\<lambda>c. comment_issueId c \<noteq> k) (rows (comments s))\<rparr>\<rparr>"
  have del: "IssueService_delete P k s = (Inr (), ?s)"
    using prisma_client.delete_issue_eq [OF assms i(1)] i(2) by simp
  have gone: "\<not> has_row issue_id (issues ?s) k" by simp
  have "db_inv ?s" using preservesD [OF prisma_client.keep_issues(4) [OF assms(1)] assms(2) del] .
  moreover have "CommentService_findByIssue P k ?s = (Inl (NotFoundException ''Issue'' (Some k)), ?s)"
    using prisma_table.find_key_has_row [OF prisma_client.issue_table [OF assms(1)], of k "issues ?s"] gone
    by (simp add: CommentService_findByIssue_def)
  ultimately show ?thesis
    unfolding if_P [OF True]
    using del prisma_client.findById_missing [OF assms(1) gone] by (intro exI [of _ ?s]) simp
next
  case False
  then show ?thesis using prisma_client.delete_issue_missing [OF assms(1) False] by simp
qed

theorem delete_issue_cascades_witness:
  "\<exists>s'. IssueService_delete mem_prisma 3 issue_db = (Inr (), s') \<and> rows (comments s') = [] \<and>
     IssueService_findById mem_prisma 3 s' = (Inl (NotFoundException ''Issue'' (Some 3)), s')"
proof -
  have "has_row issue_id (issues issue_db) 3" by code_simp
  with delete_issue_cascades [OF mem.prisma_client_axioms issue_db_inv, of 3]
  show ?thesis by (auto simp: issue_db_def)
qed

end
