(* ===== verification/Stats.thy ===== *)
theory Stats
  imports Issues
begin

text \<open>
  Daily statistics of the Nest backend: \<open>stats/stats.service.ts\<close>, \<open>stats/stats.scheduler.ts\<close>,
  \<open>stats/stats.controller.ts\<close>.

  The local time zone of the server and the parsing of date strings are parameters.  The
  theorems say which local day a statistic counts, per offset of the zone, and which day
  the nightly job picks.
\<close>

section \<open>Definitions\<close>

record DailyStatsResponseDto =
  ds_date :: string
  ds_createdCount :: int
  ds_resolvedCount :: int
  ds_commentCount :: int

record GetDailyStatsDto =
  gd_from :: string
  gd_to :: string

definition valid_GetDailyStatsDto :: "(string \<Rightarrow> bool) \<Rightarrow> GetDailyStatsDto \<Rightarrow> bool" where
  "valid_GetDailyStatsDto isDateString q = (isDateString (gd_from q) \<and> isDateString (gd_to q))"

definition in_window :: "time \<Rightarrow> time \<Rightarrow> time \<Rightarrow> bool" where
  "in_window lo hi t = (lo \<le> t \<and> t \<le> hi)"

definition upsert_stats ::
    "prisma \<Rightarrow> time \<Rightarrow> string \<Rightarrow> int \<Rightarrow> int \<Rightarrow> int \<Rightarrow> (exn, 'z db_scheme, daily_stats) action" where
  "upsert_stats P now date created resolved commented =
     bind_action (q_first (stats_d P) stats (\<lambda>d. stats_date d = date)) (\<lambda>row.
     case row of
       Some r \<Rightarrow> q_update (stats_d P) stats put_stats stats_check (stats_id r)
         (\<lambda>d. d\<lparr>stats_createdCount := created, stats_resolvedCount := resolved, stats_commentCount := commented\<rparr>)
     | None \<Rightarrow> q_create (stats_d P) stats put_stats stats_check
         (\<lambda>i. \<lparr>stats_id = i, stats_date = date, stats_createdCount = created,
               stats_resolvedCount = resolved, stats_commentCount = commented, stats_createdAt = now\<rparr>))"

definition StatsService_aggregateDailyStats ::
    "zone \<Rightarrow> (string \<Rightarrow> time option) \<Rightarrow> prisma \<Rightarrow> time \<Rightarrow> string \<Rightarrow> (exn, 'z db_scheme, unit) action" where
  "StatsService_aggregateDailyStats z parseDate P now date =
     (case parseDate date of
        None \<Rightarrow> throw (PrismaError InvalidArgument)
      | Some t \<Rightarrow>
          (let startOfDay = set_hours z 0 t;
               endOfDay = set_hours z (((23 * 60 + 59) * 60 + 59) * 1000 + 999) t
           in bind_action (q_count (issue_d P) issues (\<lambda>i. in_window startOfDay endOfDay (issue_createdAt i))) (\<lambda>createdCount.
              bind_action (q_count (issue_d P) issues (\<lambda>i. in_window startOfDay endOfDay (issue_updatedAt i) \<and>
                  issue_status i \<in> {RESOLVED, CLOSED})) (\<lambda>resolvedCount.
              bind_action (q_count (comment_d P) comments (\<lambda>c. in_window startOfDay endOfDay (comment_createdAt c))) (\<lambda>commentCount.
              bind_action (upsert_stats P now date (int createdCount) (int resolvedCount) (int commentCount)) (\<lambda>_.
              ret ()))))))"

definition StatsService_getDailyStats ::
    "prisma \<Rightarrow> string \<Rightarrow> string \<Rightarrow> (exn, 'z db_scheme, DailyStatsResponseDto list) action" where
  "StatsService_getDailyStats P from to' =
     bind_action (q_many (stats_d P) stats (\<lambda>d. from \<le> stats_date d \<and> stats_date d \<le> to') (order_asc stats_date))
       (\<lambda>found.
     ret (map (\<lambda>d. \<lparr>ds_date = stats_date d, ds_createdCount = stats_createdCount d,
       ds_resolvedCount = stats_resolvedCount d, ds_commentCount = stats_commentCount d\<rparr>) found))"

definition StatsScheduler_handleDailyStatsAggregation ::
    "zone \<Rightarrow> (string \<Rightarrow> (exn, 's, unit) action) \<Rightarrow> time \<Rightarrow> (exn, 's, unit) action" where
  "StatsScheduler_handleDailyStatsAggregation z aggregate now =
     (let yesterday = minus_days z 1 now; dateStr = iso_date (day_of yesterday)
      in try_catch (aggregate dateStr) (\<lambda>_. ret ()))"

definition StatsScheduler_triggerManualAggregation ::
    "(string \<Rightarrow> (exn, 's, unit) action) \<Rightarrow> time \<Rightarrow> string option \<Rightarrow> (exn, 's, unit) action" where
  "StatsScheduler_triggerManualAggregation aggregate now date =
     aggregate (case date of None \<Rightarrow> iso_date (day_of now)
       | Some d \<Rightarrow> if truthy d then d else iso_date (day_of now))"

definition StatsController_getDailyStats ::
    "(string \<Rightarrow> bool) \<Rightarrow> prisma \<Rightarrow> jwt_lib \<Rightarrow> time \<Rightarrow> string option \<Rightarrow> GetDailyStatsDto
      \<Rightarrow> (exn, 'z db_scheme, DailyStatsResponseDto list) action" where
  "StatsController_getDailyStats isDateString P J now token q =
     with_user J now token (\<lambda>_. with_body (valid_GetDailyStatsDto isDateString q)
       (StatsService_getDailyStats P (gd_from q) (gd_to q)))"

section \<open>Dates\<close>

locale date_parser =
  fixes parseDate :: "string \<Rightarrow> time option"
  assumes parse_iso: "four_digit_year d \<Longrightarrow> parseDate (iso_date d) = Some (d * ms_day)"

interpretation iso_parser: date_parser iso_parse
  by unfold_locales (rule iso_parse_date)

text \<open>The day a point of time falls on, on the local clock.\<close>

definition local_day :: "int \<Rightarrow> time \<Rightarrow> int" where
  "local_day off t = day_of (t + off)"

text \<open>The day the statistics of date \<open>d\<close> count: the date string is midnight UTC, which is
  still the day before on a clock behind UTC.\<close>

definition counted_day :: "int \<Rightarrow> int \<Rightarrow> int" where
  "counted_day off d = (if 0 \<le> off then d else d - 1)"

lemma counted_day_eq:
  assumes "- ms_day \<le> off" and "off < ms_day"
  shows "day_of (d * ms_day + off) = counted_day off d"
  using assms unfolding counted_day_def by (intro day_of_unique) (auto simp: ms_day_def algebra_simps)

lemma window_iff:
  assumes "- ms_day \<le> off" and "off < ms_day"
  shows "in_window (set_hours (fixed_zone off) 0 (d * ms_day)) (set_hours (fixed_zone off) 86399999 (d * ms_day)) t \<longleftrightarrow>
         local_day off t = counted_day off d"
proof -
  let ?c = "counted_day off d"
  have b: "day_of (t + off) * ms_day \<le> t + off" "t + off < (day_of (t + off) + 1) * ms_day"
    by (rule day_of_bounds)+
  have "local_day off t = ?c \<longleftrightarrow> ?c * ms_day \<le> t + off \<and> t + off < (?c + 1) * ms_day"
    unfolding local_day_def using b day_of_unique by metis
  then show ?thesis
    by (simp add: in_window_def set_hours_def fixed_zone_def counted_day_eq [OF assms])
      (auto simp: ms_day_def)
qed

context prisma_client begin

lemma upsert_result:
  assumes "db_inv s"
  obtains r s' where "upsert_stats P now date a b c s = (Inr r, s')" "db_inv s'"
    "stats_date r = date" "stats_createdCount r = a" "stats_resolvedCount r = b" "stats_commentCount r = c"
    "set (rows (stats s')) = insert r {x \<in> set (rows (stats s)). stats_date x \<noteq> date}"
    "issues s' = issues s" "comments s' = comments s"
proof (cases "findFirst (stats_d P) (\<lambda>d. stats_date d = date) (stats s)")
  case None
  let ?mk = "\<lambda>i. \<lparr>stats_id = i, stats_date = date, stats_createdCount = a,
               stats_resolvedCount = b, stats_commentCount = c, stats_createdAt = now\<rparr>"
  have no: "\<forall>d \<in> set (rows (stats s)). stats_date d \<noteq> date" using None by (simp add: stat.findFirst_none)
  obtain i where i: "seq (stats s) < i" "q_create (stats_d P) stats put_stats stats_check ?mk s =
      (case stats_check s (?mk i) of Some e \<Rightarrow> (Inl (PrismaError e), s)
       | None \<Rightarrow> (Inr (?mk i), put_stats \<lparr>rows = rows (stats s) @ [?mk i], seq = i\<rparr> s))"
    by (rule stat.create_cases)
  have ok: "stats_check s (?mk i) = None" using no by (auto simp: stats_check_def list_ex_iff)
  show ?thesis
    by (rule that [of "?mk i" "put_stats \<lparr>rows = rows (stats s) @ [?mk i], seq = i\<rparr> s"])
      (use None i ok no inv_create_stats [OF assms i(1) _ ok] in \<open>auto simp: upsert_stats_def put_stats_def\<close>)
next
  case (Some r)
  let ?f = "\<lambda>d. d\<lparr>stats_createdCount := a, stats_resolvedCount := b, stats_commentCount := c\<rparr>"
  have r: "r \<in> set (rows (stats s))" "stats_date r = date" using stat.findFirst_some [OF Some] by auto
  note wf = wf_tables(8) [OF assms]
  have "stats_check s r = None" using assms r(1) by (simp add: inv_defs passes_iff)
  then have ok: "stats_check s (?f r) = None" by (simp add: stats_check_def)
  have uniq: "stats_id x = stats_id r" if "x \<in> set (rows (stats s))" "stats_date x = date" for x
  proof (rule ccontr)
    assume "stats_id x \<noteq> stats_id r"
    then have "stats_check s r = Some P2002" using that r by (auto simp: stats_check_def list_ex_iff)
    then show False using \<open>stats_check s r = None\<close> by simp
  qed
  have "stats_date x = date" if "x \<in> set (rows (stats s))" "stats_id x = stats_id r" for x
    using table_wf_unique [OF wf that(1) r(1) that(2)] r(2) by simp
  with uniq have same: "{x \<in> set (rows (stats s)). stats_id x \<noteq> stats_id r} = {x \<in> set (rows (stats s)). stats_date x \<noteq> date}"
    by blast
  show ?thesis
    by (rule that [of "?f r" "put_stats ((stats s)\<lparr>rows :=
          map (\<lambda>x. if stats_id x = stats_id r then ?f x else x) (rows (stats s))\<rparr>) s"])
      (use Some r ok same set_update_row [OF wf r(1) refl, of ?f] inv_update_stats [of s r "stats_id r" ?f, OF assms r(1) refl ok]
         stat.update_eq [of stats s r put_stats stats_check ?f, OF wf r(1)]
       in \<open>simp_all add: upsert_stats_def put_stats_def\<close>)
qed

lemma aggregate_eq:
  assumes "parseDate date = Some (d * ms_day)" and "- ms_day \<le> off" and "off < ms_day"
  shows "StatsService_aggregateDailyStats (fixed_zone off) parseDate P now date s =
    bind_action (upsert_stats P now date
        (int (length (filter (\<lambda>i. local_day off (issue_createdAt i) = counted_day off d) (rows (issues s)))))
        (int (length (filter (\<lambda>i. local_day off (issue_updatedAt i) = counted_day off d \<and>
            issue_status i \<in> {RESOLVED, CLOSED}) (rows (issues s)))))
        (int (length (filter (\<lambda>c. local_day off (comment_createdAt c) = counted_day off d) (rows (comments s))))))
      (\<lambda>_. ret ()) s"
  using assms(1)
  by (simp add: StatsService_aggregateDailyStats_def Let_def window_iff [OF assms(2,3)]
      issue.countRows_eq comment.countRows_eq)

end

section \<open>Properties\<close>

text \<open>C30: Aggregating a date stores exactly one row for it, with the number of issues created, of
  issues last updated in a resolved or closed state, and of comments written on one local
  day; rows of other dates stay as they are and running it again gives the same counts.
  On a server clock at or ahead of UTC that day is the date itself; on a clock behind UTC
  it is the day before.\<close>

theorem aggregate_counts_local_day:
  assumes "prisma_client P" and "date_parser parseDate" and "db_inv s" and "four_digit_year d"
    and "- ms_day \<le> off" and "off < ms_day"
  shows "\<exists>r s'. StatsService_aggregateDailyStats (fixed_zone off) parseDate P now (iso_date d) s = (Inr (), s') \<and>
      db_inv s' \<and>
      set (rows (stats s')) = insert r {x \<in> set (rows (stats s)). stats_date x \<noteq> iso_date d} \<and>
      stats_date r = iso_date d \<and>
      (let day = if 0 \<le> off then d else d - 1
       in stats_createdCount r = int (length (filter (\<lambda>i. local_day off (issue_createdAt i) = day) (rows (issues s)))) \<and>
          stats_resolvedCount r = int (length (filter (\<lambda>i. local_day off (issue_updatedAt i) = day \<and>
             issue_status i \<in> {RESOLVED, CLOSED}) (rows (issues s)))) \<and>
          stats_commentCount r = int (length (filter (\<lambda>c. local_day off (comment_createdAt c) = day) (rows (comments s))))) \<and>
      issues s' = issues s \<and> comments s' = comments s"
proof -
  have p: "parseDate (iso_date d) = Some (d * ms_day)" by (rule date_parser.parse_iso [OF assms(2,4)])
  show ?thesis
    unfolding prisma_client.aggregate_eq [of P parseDate "iso_date d" d off, OF assms(1) p assms(5,6)] Let_def counted_day_def [symmetric]
    by (rule prisma_client.upsert_result [OF assms(1,3), of now "iso_date d"
          "int (length (filter (\<lambda>i. local_day off (issue_createdAt i) = counted_day off d) (rows (issues s))))"
          "int (length (filter (\<lambda>i. local_day off (issue_updatedAt i) = counted_day off d \<and>
             issue_status i \<in> {RESOLVED, CLOSED}) (rows (issues s))))"
          "int (length (filter (\<lambda>c. local_day off (comment_createdAt c) = counted_day off d) (rows (comments s))))"],
        rule exI, rule exI, intro conjI) (assumption | erule bind_apply_Inr [THEN trans] | simp)+
qed

theorem aggregate_counts_local_day_witness:
  "\<exists>r s'. StatsService_aggregateDailyStats (fixed_zone 32400000) iso_parse mem_prisma 99 (iso_date 0) issue_db = (Inr (), s') \<and>
     r \<in> set (rows (stats s')) \<and> stats_date r = ''1970-01-01'' \<and> stats_createdCount r = 3 \<and> stats_commentCount r = 1"
proof -
  have f: "four_digit_year 0" and iso: "iso_date 0 = ''1970-01-01''" by code_simp+
  have n: "length (filter (\<lambda>i. local_day 32400000 (issue_createdAt i) = 0) (rows (issues issue_db))) = 3"
    "length (filter (\<lambda>c. local_day 32400000 (comment_createdAt c) = 0) (rows (comments issue_db))) = 1"
    by code_simp+
  show ?thesis
    using aggregate_counts_local_day [OF mem.prisma_client_axioms iso_parser.date_parser_axioms issue_db_inv f,
        of 32400000 99]
    by (auto simp: iso n ms_day_def)
qed

text \<open>The nightly job, which runs at three in the morning to aggregate yesterday, picks its
  date on the UTC calendar: where the clock is more than three hours ahead of UTC (Seoul,
  for one) the date it aggregates is the day before yesterday.\<close>

theorem nightly_job_date:
  assumes "day_of (now + off) = today" and "now + off = today * ms_day + 3 * 3600000"
    and "- 12 * 3600000 \<le> off" and "off \<le> 14 * 3600000"
  shows "StatsScheduler_handleDailyStatsAggregation (fixed_zone off) aggregate now =
           try_catch (aggregate (iso_date (if off \<le> 3 * 3600000 then today - 1 else today - 2))) (\<lambda>_. ret ())"
proof -
  have now: "minus_days (fixed_zone off) 1 now = (today - 1) * ms_day + (10800000 - off)"
    using assms(2) by (simp add: minus_days_def fixed_zone_def ms_day_def)
  have "day_of (minus_days (fixed_zone off) 1 now) = (if off \<le> 3 * 3600000 then today - 1 else today - 2)"
    unfolding now using assms(3,4) by (intro day_of_unique) (auto simp: ms_day_def)
  then show ?thesis by (simp add: StatsScheduler_handleDailyStatsAggregation_def Let_def)
qed

theorem nightly_job_date_witness:
  "StatsScheduler_handleDailyStatsAggregation (fixed_zone 32400000) (\<lambda>d s. (Inr (), s @ [d])) 1704736800000 [] =
     (Inr () :: exn + unit, [''2024-01-07''])"
proof -
  have "day_of (1704736800000 + 32400000) = 19731" by code_simp
  moreover have "1704736800000 + 32400000 = (19731 :: int) * ms_day + 3 * 3600000" by code_simp
  moreover have "iso_date 19729 = ''2024-01-07''" by code_simp
  ultimately show ?thesis
    using nightly_job_date [of 1704736800000 32400000 19731 "\<lambda>d s. (Inr (), s @ [d])"]
    by (simp add: try_catch_def)
qed

text \<open>A range query with ISO dates returns exactly the statistics of the days in the range,
  in ascending order of the days, although the database compares the dates as strings.\<close>

theorem daily_stats_range:
  assumes "prisma_client P" and "four_digit_year a" and "four_digit_year b"
  shows "\<exists>rs. StatsService_getDailyStats P (iso_date a) (iso_date b) s = (Inr rs, s) \<and>
      sorted (map ds_date rs) \<and>
      (\<forall>d. four_digit_year d \<longrightarrow>
         (iso_date d \<in> set (map ds_date rs) \<longleftrightarrow> a \<le> d \<and> d \<le> b \<and> iso_date d \<in> stats_date ` set (rows (stats s))))"
proof -
  let ?w = "\<lambda>r. iso_date a \<le> stats_date r \<and> stats_date r \<le> iso_date b"
  let ?f = "findMany (stats_d P) ?w (order_asc stats_date) (stats s)"
  note tab = prisma_client.stats_table [OF assms(1)]
  have "sorted_wrt (order_asc stats_date) ?f" by (rule prisma_table.findMany_sorted [OF tab]) simp
  then have "sorted (map stats_date ?f)"
    by (simp add: sorted_map order_asc_def [abs_def])
  moreover have "set ?f = {r \<in> set (rows (stats s)). ?w r}" by (rule prisma_table.findMany_set [OF tab])
  moreover have "iso_date d \<in> stats_date ` {r \<in> set (rows (stats s)). ?w r} \<longleftrightarrow>
      a \<le> d \<and> d \<le> b \<and> iso_date d \<in> stats_date ` set (rows (stats s))" if "four_digit_year d" for d
  proof -
    have "iso_date d \<in> stats_date ` {r \<in> set (rows (stats s)). ?w r} \<longleftrightarrow>
        iso_date a \<le> iso_date d \<and> iso_date d \<le> iso_date b \<and> iso_date d \<in> stats_date ` set (rows (stats s))"
      by auto
    then show ?thesis by (simp add: iso_date_le that assms(2,3))
  qed
  ultimately show ?thesis by (simp add: StatsService_getDailyStats_def o_def image_image)
qed

theorem daily_stats_range_witness:
  "\<exists>rs. StatsService_getDailyStats mem_prisma (iso_date 0) (iso_date 1)
     (empty_db\<lparr>stats := \<lparr>rows = [\<lparr>stats_id = 1, stats_date = iso_date 0, stats_createdCount = 1,
        stats_resolvedCount = 0, stats_commentCount = 0, stats_createdAt = 1\<rparr>], seq = 1\<rparr>\<rparr>) =
     (Inr rs, empty_db\<lparr>stats := \<lparr>rows = [\<lparr>stats_id = 1, stats_date = iso_date 0, stats_createdCount = 1,
        stats_resolvedCount = 0, stats_commentCount = 0, stats_createdAt = 1\<rparr>], seq = 1\<rparr>\<rparr>) \<and>
     iso_date 0 \<in> set (map ds_date rs)"
proof -
  let ?s = "empty_db\<lparr>stats := \<lparr>rows = [\<lparr>stats_id = 1, stats_date = iso_date 0, stats_createdCount = 1,
        stats_resolvedCount = 0, stats_commentCount = 0, stats_createdAt = 1\<rparr>], seq = 1\<rparr>\<rparr>"
  have f: "four_digit_year 0" "four_digit_year 1" by code_simp+
  from daily_stats_range [OF mem.prisma_client_axioms f, of ?s] f show ?thesis by auto
qed

end
