(* ===== verification/Catalog.thy ===== *)
theory Catalog
  imports Stats "HOL-Library.AList"
begin

text \<open>
  Products, their search index and its administration in the Nest backend:
  \<open>product/*.ts\<close>, \<open>elasticsearch/elasticsearch.service.ts\<close>, \<open>search/*.ts\<close>, \<open>admin/*.ts\<close>.

  The Elasticsearch client is a parameter: a record of calls that may fail (\<open>es_client\<close>).
  \<open>es_safe\<close> says only that the calls do not touch the tables; \<open>es_healthy\<close> adds the
  documented effect of each call on the documents of the index.  The services keep the
  index in step with the products table when the cluster is healthy, and the tables do
  not depend on the index when it is not.
\<close>

section \<open>Definitions\<close>

subsection \<open>The index\<close>

record ProductDocument =
  pd_id :: int
  pd_name :: string
  pd_description :: "string option"
  pd_category :: string
  pd_brand :: string
  pd_price :: rat
  pd_status :: ProductStatus
  pd_created_at :: time

record SearchProductsParams =
  sp_q :: "string option"
  sp_category :: "string option"
  sp_brand :: "string option"
  sp_minPrice :: "rat option"
  sp_maxPrice :: "rat option"
  sp_page :: "rat option"
  sp_size :: "rat option"

record 'd SearchResult =
  sr_data :: "'d list"
  sr_total :: int
  sr_page :: rat
  sr_size :: rat

datatype es_must = MultiMatch string "string list" | MatchAll

datatype es_filter =
    TermCategory string
  | TermBrand string
  | RangePrice "rat option" "rat option"
  | TermStatus ProductStatus

record es_query =
  q_must :: "es_must list"
  q_filter :: "es_filter list"
  q_from :: rat
  q_size :: rat

datatype es_total = TotalNumber int | TotalObject "int option"

record 's es_client =
  es_exists :: "(exn, 's, bool) action"
  es_create :: "(exn, 's, unit) action"
  es_drop :: "(exn, 's, unit) action"
  es_index :: "string \<Rightarrow> ProductDocument \<Rightarrow> (exn, 's, unit) action"
  es_update :: "string \<Rightarrow> ProductDocument \<Rightarrow> (exn, 's, unit) action"
  es_delete :: "string \<Rightarrow> (exn, 's, unit) action"
  es_bulk :: "(string \<times> ProductDocument) list \<Rightarrow> (exn, 's, unit) action"
  es_search :: "es_query \<Rightarrow> (exn, 's, ProductDocument list \<times> es_total) action"

definition ElasticsearchService_createIndexIfNotExists :: "bool \<Rightarrow> 's es_client \<Rightarrow> (exn, 's, unit) action" where
  "ElasticsearchService_createIndexIfNotExists enabled E =
     (if \<not> enabled then ret ()
      else bind_action (es_exists E) (\<lambda>exists. if \<not> exists then es_create E else ret ()))"

definition ElasticsearchService_onModuleInit :: "bool \<Rightarrow> 's es_client \<Rightarrow> (exn, 's, unit) action" where
  "ElasticsearchService_onModuleInit enabled E =
     (if \<not> enabled then ret ()
      else try_catch (ElasticsearchService_createIndexIfNotExists enabled E) (\<lambda>_. ret ()))"

definition ElasticsearchService_indexProduct ::
    "bool \<Rightarrow> 's es_client \<Rightarrow> ProductDocument \<Rightarrow> (exn, 's, unit) action" where
  "ElasticsearchService_indexProduct enabled E d =
     (if \<not> enabled then ret () else try_catch (es_index E (show_int (pd_id d)) d) (\<lambda>_. ret ()))"

definition ElasticsearchService_updateProduct ::
    "bool \<Rightarrow> 's es_client \<Rightarrow> ProductDocument \<Rightarrow> (exn, 's, unit) action" where
  "ElasticsearchService_updateProduct enabled E d =
     (if \<not> enabled then ret () else try_catch (es_update E (show_int (pd_id d)) d) (\<lambda>_. ret ()))"

definition ElasticsearchService_deleteProduct :: "bool \<Rightarrow> 's es_client \<Rightarrow> int \<Rightarrow> (exn, 's, unit) action" where
  "ElasticsearchService_deleteProduct enabled E i =
     (if \<not> enabled then ret () else try_catch (es_delete E (show_int i)) (\<lambda>_. ret ()))"

definition default_num :: "rat \<Rightarrow> rat option \<Rightarrow> rat" where
  "default_num d n = (case n of None \<Rightarrow> d | Some x \<Rightarrow> if x = 0 then d else x)"

definition search_must :: "SearchProductsParams \<Rightarrow> es_must list" where
  "search_must p = (case sp_q p of
     Some q \<Rightarrow> if truthy q then [MultiMatch q [''name^2'', ''description'']] else [MatchAll]
   | None \<Rightarrow> [MatchAll])"

definition search_filter :: "SearchProductsParams \<Rightarrow> es_filter list" where
  "search_filter p =
     (case sp_category p of Some c \<Rightarrow> if truthy c then [TermCategory c] else [] | None \<Rightarrow> []) @
     (case sp_brand p of Some b \<Rightarrow> if truthy b then [TermBrand b] else [] | None \<Rightarrow> []) @
     (if sp_minPrice p \<noteq> None \<or> sp_maxPrice p \<noteq> None then [RangePrice (sp_minPrice p) (sp_maxPrice p)] else []) @
     [TermStatus ACTIVE]"

definition total_value :: "es_total \<Rightarrow> int" where
  "total_value t = (case t of TotalNumber n \<Rightarrow> n | TotalObject v \<Rightarrow> (case v of None \<Rightarrow> 0 | Some n \<Rightarrow> n))"

definition ElasticsearchService_searchProducts ::
    "bool \<Rightarrow> 's es_client \<Rightarrow> SearchProductsParams \<Rightarrow> (exn, 's, ProductDocument SearchResult) action" where
  "ElasticsearchService_searchProducts enabled E p =
     (if \<not> enabled
      then ret \<lparr>sr_data = [], sr_total = 0, sr_page = default_num 1 (sp_page p), sr_size = default_num 10 (sp_size p)\<rparr>
      else
        let page = (case sp_page p of None \<Rightarrow> 1 | Some n \<Rightarrow> n);
            per = (case sp_size p of None \<Rightarrow> 10 | Some n \<Rightarrow> n);
            from = js_mul (js_sub page 1) per
        in bind_action (es_search E \<lparr>q_must = search_must p, q_filter = search_filter p, q_from = from, q_size = per\<rparr>)
             (\<lambda>(hits, n). ret \<lparr>sr_data = hits, sr_total = total_value n, sr_page = page, sr_size = per\<rparr>))"

definition ElasticsearchService_reindexAll ::
    "bool \<Rightarrow> 's es_client \<Rightarrow> ProductDocument list \<Rightarrow> (exn, 's, unit) action" where
  "ElasticsearchService_reindexAll enabled E docs =
     (if \<not> enabled then ret ()
      else bind_action (es_exists E) (\<lambda>exists.
           bind_action (if exists then es_drop E else ret ()) (\<lambda>_.
           bind_action (ElasticsearchService_createIndexIfNotExists enabled E) (\<lambda>_.
           if docs = [] then ret ()
           else es_bulk E (map (\<lambda>d. (show_int (pd_id d), d)) docs)))))"

subsection \<open>Products\<close>

record CreateProductDto =
  pr_name :: string
  pr_description :: "string field"
  pr_category :: string
  pr_brand :: string
  pr_price :: rat
  pr_status :: "ProductStatus field"

record UpdateProductDto =
  pu_name :: "string field"
  pu_description :: "string field"
  pu_category :: "string field"
  pu_brand :: "string field"
  pu_price :: "rat field"
  pu_status :: "ProductStatus field"

definition valid_CreateProductDto :: "CreateProductDto \<Rightarrow> bool" where
  "valid_CreateProductDto d = (0 \<le> pr_price d)"

definition valid_UpdateProductDto :: "UpdateProductDto \<Rightarrow> bool" where
  "valid_UpdateProductDto d = field_all (\<lambda>p. 0 \<le> p) (pu_price d)"

text \<open>A \<open>ProductResponseDto\<close> exposes every column of its row.\<close>

type_synonym ProductResponseDto = product

definition product_document :: "product \<Rightarrow> ProductDocument" where
  "product_document p = \<lparr>pd_id = product_id p, pd_name = product_name p, pd_description = product_description p,
     pd_category = product_category p, pd_brand = product_brand p, pd_price = product_price p,
     pd_status = product_status p, pd_created_at = product_createdAt p\<rparr>"

definition ProductService_indexProduct :: "bool \<Rightarrow> 's es_client \<Rightarrow> product \<Rightarrow> (exn, 's, unit) action" where
  "ProductService_indexProduct enabled E p = ElasticsearchService_indexProduct enabled E (product_document p)"

definition ProductService_create ::
    "bool \<Rightarrow> ('z db_scheme) es_client \<Rightarrow> prisma \<Rightarrow> time \<Rightarrow> CreateProductDto \<Rightarrow> (exn, 'z db_scheme, ProductResponseDto) action" where
  "ProductService_create enabled E P now d =
     bind_action (q_create (product_d P) products put_products no_check
         (\<lambda>i. \<lparr>product_id = i, product_name = pr_name d, product_description = field_opt (pr_description d),
               product_category = pr_category d, product_brand = pr_brand d, product_price = pr_price d,
               product_status = set_field (pr_status d) ACTIVE, product_createdAt = now, product_updatedAt = now\<rparr>)) (\<lambda>p.
     bind_action (ProductService_indexProduct enabled E p) (\<lambda>_. ret p))"

definition ProductService_findAll :: "prisma \<Rightarrow> (exn, 'z db_scheme, ProductResponseDto list) action" where
  "ProductService_findAll P = q_many (product_d P) products (\<lambda>_. True) (order_desc product_createdAt)"

definition product_not_found :: "int \<Rightarrow> exn" where
  "product_not_found i = NestException NestNotFound (''Product with ID '' @ show_int i @ '' not found'')"

definition ProductService_findOne :: "prisma \<Rightarrow> int \<Rightarrow> (exn, 'z db_scheme, ProductResponseDto) action" where
  "ProductService_findOne P pid =
     bind_action (q_first (product_d P) products (\<lambda>p. product_id p = pid)) (\<lambda>product.
     case product of None \<Rightarrow> throw (product_not_found pid) | Some p \<Rightarrow> ret p)"

definition update_product :: "time \<Rightarrow> UpdateProductDto \<Rightarrow> product \<Rightarrow> product" where
  "update_product now d p =
     p\<lparr>product_name := set_field (pu_name d) (product_name p),
       product_description := set_nullable (pu_description d) (product_description p),
       product_category := set_field (pu_category d) (product_category p),
       product_brand := set_field (pu_brand d) (product_brand p),
       product_price := set_field (pu_price d) (product_price p),
       product_status := set_field (pu_status d) (product_status p),
       product_updatedAt := now\<rparr>"

definition null_required :: "UpdateProductDto \<Rightarrow> bool" where
  "null_required d = (pu_name d = Null \<or> pu_category d = Null \<or> pu_brand d = Null \<or> pu_price d = Null \<or> pu_status d = Null)"

definition ProductService_update ::
    "bool \<Rightarrow> ('z db_scheme) es_client \<Rightarrow> prisma \<Rightarrow> time \<Rightarrow> int \<Rightarrow> UpdateProductDto
      \<Rightarrow> (exn, 'z db_scheme, ProductResponseDto) action" where
  "ProductService_update enabled E P now pid d =
     bind_action (ProductService_findOne P pid) (\<lambda>_.
     if null_required d then throw (PrismaError InvalidArgument) else
     bind_action (q_update (product_d P) products put_products no_check pid (update_product now d)) (\<lambda>p.
     bind_action (ProductService_indexProduct enabled E p) (\<lambda>_. ret p)))"

definition ProductService_remove ::
    "bool \<Rightarrow> ('z db_scheme) es_client \<Rightarrow> prisma \<Rightarrow> int \<Rightarrow> (exn, 'z db_scheme, unit) action" where
  "ProductService_remove enabled E P pid =
     bind_action (ProductService_findOne P pid) (\<lambda>_.
     bind_action (q_delete (product_d P) products put_products cascade_product pid) (\<lambda>_.
     ElasticsearchService_deleteProduct enabled E pid))"

definition ProductService_getAllProducts :: "prisma \<Rightarrow> (exn, 'z db_scheme, product list) action" where
  "ProductService_getAllProducts P = q_many (product_d P) products (\<lambda>_. True) no_order"

subsection \<open>Search and administration\<close>

definition SearchService_searchProducts ::
    "bool \<Rightarrow> 's es_client \<Rightarrow> SearchProductsParams \<Rightarrow> (exn, 's, ProductDocument SearchResult) action" where
  "SearchService_searchProducts enabled E d =
     bind_action (ElasticsearchService_searchProducts enabled E
       (d\<lparr>sp_page := Some (default_num 1 (sp_page d)), sp_size := Some (default_num 10 (sp_size d))\<rparr>)) (\<lambda>r.
     ret \<lparr>sr_data = sr_data r, sr_total = sr_total r, sr_page = sr_page r, sr_size = sr_size r\<rparr>)"

definition valid_SearchProductsDto :: "SearchProductsParams \<Rightarrow> bool" where
  "valid_SearchProductsDto d =
     (pred_option (\<lambda>n. 0 \<le> n) (sp_minPrice d) \<and> pred_option (\<lambda>n. 0 \<le> n) (sp_maxPrice d) \<and>
      pred_option (\<lambda>n. 1 \<le> n) (sp_page d) \<and> pred_option (\<lambda>n. 1 \<le> n \<and> n \<le> 100) (sp_size d))"

definition SearchController_searchProducts ::
    "bool \<Rightarrow> 's es_client \<Rightarrow> SearchProductsParams \<Rightarrow> (exn, 's, ProductDocument SearchResult) action" where
  "SearchController_searchProducts enabled E d =
     with_body (valid_SearchProductsDto d) (SearchService_searchProducts enabled E d)"

definition AdminService_reindexProducts ::
    "bool \<Rightarrow> ('z db_scheme) es_client \<Rightarrow> prisma \<Rightarrow> (exn, 'z db_scheme, string \<times> int) action" where
  "AdminService_reindexProducts enabled E P =
     bind_action (ProductService_getAllProducts P) (\<lambda>ps.
     bind_action (ElasticsearchService_reindexAll enabled E (map product_document ps)) (\<lambda>_.
     ret (''Products reindexed successfully'', int (length ps))))"

definition AdminController_reindexProducts ::
    "bool \<Rightarrow> ('z db_scheme) es_client \<Rightarrow> prisma \<Rightarrow> jwt_lib \<Rightarrow> time \<Rightarrow> string option
      \<Rightarrow> (exn, 'z db_scheme, string \<times> int) action" where
  "AdminController_reindexProducts enabled E P J now token =
     with_user J now token (\<lambda>_. AdminService_reindexProducts enabled E P)"

definition ProductController_create ::
    "bool \<Rightarrow> ('z db_scheme) es_client \<Rightarrow> prisma \<Rightarrow> jwt_lib \<Rightarrow> time \<Rightarrow> string option \<Rightarrow> CreateProductDto
      \<Rightarrow> (exn, 'z db_scheme, ProductResponseDto) action" where
  "ProductController_create enabled E P J now token d =
     with_user J now token (\<lambda>_. with_body (valid_CreateProductDto d) (ProductService_create enabled E P now d))"

definition ProductController_findAll ::
    "prisma \<Rightarrow> jwt_lib \<Rightarrow> time \<Rightarrow> string option \<Rightarrow> (exn, 'z db_scheme, ProductResponseDto list) action" where
  "ProductController_findAll P J now token = with_user J now token (\<lambda>_. ProductService_findAll P)"

definition ProductController_findOne ::
    "(string \<Rightarrow> int option) \<Rightarrow> prisma \<Rightarrow> jwt_lib \<Rightarrow> time \<Rightarrow> string option \<Rightarrow> string \<Rightarrow> (exn, 'z db_scheme, ProductResponseDto) action" where
  "ProductController_findOne parse P J now token rawId =
     with_user J now token (\<lambda>_. with_id parse rawId (\<lambda>pid. ProductService_findOne P pid))"

definition ProductController_update ::
    "bool \<Rightarrow> ('z db_scheme) es_client \<Rightarrow> (string \<Rightarrow> int option) \<Rightarrow> prisma \<Rightarrow> jwt_lib \<Rightarrow> time \<Rightarrow> string option \<Rightarrow> string
      \<Rightarrow> UpdateProductDto \<Rightarrow> (exn, 'z db_scheme, ProductResponseDto) action" where
  "ProductController_update enabled E parse P J now token rawId d =
     with_user J now token (\<lambda>_. with_id parse rawId (\<lambda>pid.
       with_body (valid_UpdateProductDto d) (ProductService_update enabled E P now pid d)))"

definition ProductController_remove ::
    "bool \<Rightarrow> ('z db_scheme) es_client \<Rightarrow> (string \<Rightarrow> int option) \<Rightarrow> prisma \<Rightarrow> jwt_lib \<Rightarrow> time \<Rightarrow> string option \<Rightarrow> string
      \<Rightarrow> (exn, 'z db_scheme, unit) action" where
  "ProductController_remove enabled E parse P J now token rawId =
     with_user J now token (\<lambda>_. with_id parse rawId (\<lambda>pid. ProductService_remove enabled E P pid))"

subsection \<open>Product requests as steps\<close>

datatype product_request =
    CreateProduct time CreateProductDto
  | UpdateProduct time int UpdateProductDto
  | RemoveProduct int
  | Reindex

fun product_step ::
    "bool \<Rightarrow> ('z db_scheme) es_client \<Rightarrow> prisma \<Rightarrow> 'z db_scheme \<Rightarrow> product_request \<Rightarrow> 'z db_scheme" where
  "product_step en E P s (CreateProduct now d) = snd (ProductService_create en E P now d s)"
| "product_step en E P s (UpdateProduct now i d) = snd (ProductService_update en E P now i d s)"
| "product_step en E P s (RemoveProduct i) = snd (ProductService_remove en E P i s)"
| "product_step en E P s Reindex = snd (AdminService_reindexProducts en E P s)"

section \<open>Keyed tables as maps\<close>

definition index_by :: "('a \<Rightarrow> 'k) \<Rightarrow> ('a \<Rightarrow> 'v) \<Rightarrow> 'a list \<Rightarrow> 'k \<rightharpoonup> 'v" where
  "index_by key val xs = map_of (map (\<lambda>x. (key x, val x)) xs)"

lemma index_by_Some:
  assumes "distinct (map key xs)"
  shows "index_by key val xs k = Some v \<longleftrightarrow> (\<exists>x \<in> set xs. key x = k \<and> val x = v)"
proof -
  have "distinct (map fst (map (\<lambda>x. (key x, val x)) xs))" using assms by (simp add: o_def)
  then show ?thesis by (auto simp: index_by_def map_of_eq_Some_iff)
qed

lemma index_by_eqI:
  assumes "distinct (map key xs)" and "distinct (map key ys)" and "set xs = set ys"
  shows "index_by key val xs = index_by key val ys"
proof
  fix k
  have "index_by key val xs k = Some v \<longleftrightarrow> index_by key val ys k = Some v" for v
    by (simp add: index_by_Some assms)
  then show "index_by key val xs k = index_by key val ys k"
    by (metis option.exhaust)
qed

lemma index_by_append:
  "key x \<notin> key ` set xs \<Longrightarrow> index_by key val (xs @ [x]) = (index_by key val xs)(key x \<mapsto> val x)"
  by (induction xs) (auto simp: index_by_def fun_upd_twist)

lemma index_by_update:
  assumes "distinct (map key xs)" and "r \<in> set xs" and "\<And>x. key (f x) = key x"
  shows "index_by key val (map (\<lambda>x. if key x = key r then f x else x) xs) =
         (index_by key val xs)(key r \<mapsto> val (f r))"
  using assms(1,2)
proof (induction xs)
  case Nil
  then show ?case by simp
next
  case (Cons y ys)
  show ?case
  proof (cases "y = r")
    case True
    with Cons.prems have "map (\<lambda>x. if key x = key r then f x else x) ys = ys"
      by (intro map_idI) (auto simp: image_iff)
    with True assms(3) show ?thesis by (auto simp: index_by_def fun_eq_iff)
  next
    case False
    with Cons.prems have "key y \<noteq> key r" by (auto simp: image_iff)
    with False Cons show ?thesis by (auto simp: index_by_def fun_upd_twist)
  qed
qed

lemma index_by_filter: "index_by key val (filter (\<lambda>x. key x \<noteq> k) xs) = (index_by key val xs)(k := None)"
  by (induction xs) (auto simp: index_by_def fun_upd_twist)

lemma foldl_upd_index:
  "distinct (map key xs) \<Longrightarrow>
     foldl (\<lambda>m (i, d). m(i \<mapsto> d)) m0 (map (\<lambda>x. (key x, val x)) xs) = m0 ++ index_by key val xs"
proof (induction xs arbitrary: m0)
  case Nil
  then show ?case by (simp add: index_by_def)
next
  case (Cons x xs)
  then have "index_by key val xs (key x) = None"
    by (auto simp: index_by_def map_of_eq_None_iff)
  with Cons show ?case by (auto simp: index_by_def map_add_def fun_eq_iff split: option.splits)
qed

section \<open>The client\<close>

locale es_safe =
  fixes E :: "('z db_scheme) es_client"
  assumes keeps_tables:
    "db.truncate (snd (es_exists E s)) = db.truncate s" "db.truncate (snd (es_create E s)) = db.truncate s"
    "db.truncate (snd (es_drop E s)) = db.truncate s" "db.truncate (snd (es_index E i d s)) = db.truncate s"
    "db.truncate (snd (es_update E i d s)) = db.truncate s" "db.truncate (snd (es_delete E i s)) = db.truncate s"
    "db.truncate (snd (es_bulk E ops s)) = db.truncate s" "db.truncate (snd (es_search E q s)) = db.truncate s"

text \<open>Which documents a query asks for; how a text query is analysed is the engine's business.\<close>

fun filter_ok :: "es_filter \<Rightarrow> ProductDocument \<Rightarrow> bool" where
  "filter_ok (TermCategory c) d = (pd_category d = c)"
| "filter_ok (TermBrand b) d = (pd_brand d = b)"
| "filter_ok (RangePrice lo hi) d = (pred_option (\<lambda>l. l \<le> pd_price d) lo \<and> pred_option (\<lambda>h. pd_price d \<le> h) hi)"
| "filter_ok (TermStatus st) d = (pd_status d = st)"

definition query_ok :: "(es_must \<Rightarrow> ProductDocument \<Rightarrow> bool) \<Rightarrow> es_query \<Rightarrow> ProductDocument \<Rightarrow> bool" where
  "query_ok matches q d = (list_all (\<lambda>m. m = MatchAll \<or> matches m d) (q_must q) \<and> list_all (\<lambda>f. filter_ok f d) (q_filter q))"

locale es_healthy = es_safe E for E :: "('z db_scheme) es_client" +
  fixes docs :: "'z db_scheme \<Rightarrow> string \<rightharpoonup> ProductDocument"
    and matches :: "es_must \<Rightarrow> ProductDocument \<Rightarrow> bool"
  assumes docs_more: "db.more s' = db.more s \<Longrightarrow> docs s' = docs s"
    and exists_ok: "\<exists>b. fst (es_exists E s) = Inr b \<and> docs (snd (es_exists E s)) = docs s \<and> (\<not> b \<longrightarrow> docs s = Map.empty)"
    and create_ok: "docs s = Map.empty \<Longrightarrow> fst (es_create E s) = Inr () \<and> docs (snd (es_create E s)) = Map.empty"
    and drop_ok: "fst (es_drop E s) = Inr () \<and> docs (snd (es_drop E s)) = Map.empty"
    and index_ok: "fst (es_index E i d s) = Inr () \<and> docs (snd (es_index E i d s)) = (docs s)(i \<mapsto> d)"
    and delete_ok: "docs (snd (es_delete E i s)) = (docs s)(i := None)"
    and bulk_ok: "fst (es_bulk E ops s) = Inr () \<and> docs (snd (es_bulk E ops s)) = foldl (\<lambda>m (i, d). m(i \<mapsto> d)) (docs s) ops"
    and search_ok: "\<exists>hits n. fst (es_search E q s) = Inr (hits, n) \<and> docs (snd (es_search E q s)) = docs s \<and>
        set hits \<subseteq> {d \<in> ran (docs s). query_ok matches q d} \<and>
        total_value n = int (card {k. \<exists>d. docs s k = Some d \<and> query_ok matches q d}) \<and>
        sorted_wrt (order_desc pd_created_at) hits \<and> of_nat (length hits) \<le> max 0 (q_size q)"

definition index_of :: "'z db_scheme \<Rightarrow> string \<rightharpoonup> ProductDocument" where
  "index_of s = index_by (\<lambda>p. show_int (product_id p)) product_document (rows (products s))"

definition in_sync :: "('z db_scheme \<Rightarrow> string \<rightharpoonup> ProductDocument) \<Rightarrow> 'z db_scheme \<Rightarrow> bool" where
  "in_sync docs s = (db_inv s \<and> docs s = index_of s)"

lemma truncate_sel [simp]:
  "users (db.truncate s) = users s" "projects (db.truncate s) = projects s" "issues (db.truncate s) = issues s"
  "comments (db.truncate s) = comments s" "teams (db.truncate s) = teams s" "members (db.truncate s) = members s"
  "items (db.truncate s) = items s" "stats (db.truncate s) = stats s" "products (db.truncate s) = products s"
  "orders (db.truncate s) = orders s" "oitems (db.truncate s) = oitems s" "notifs (db.truncate s) = notifs s"
  by (simp_all add: db.defs)

lemma check_truncate:
  "user_check (db.truncate s) = user_check s" "issue_check (db.truncate s) = issue_check s"
  "comment_check (db.truncate s) = comment_check s" "member_check (db.truncate s) = member_check s"
  "item_check (db.truncate s) = item_check s" "stats_check (db.truncate s) = stats_check s"
  "order_check (db.truncate s) = order_check s" "oitem_check (db.truncate s) = oitem_check s"
  "notif_check (db.truncate s) = notif_check s"
  by (intro ext, simp only: check_defs truncate_sel)+

lemma db_inv_truncate: "db_inv (db.truncate s) = db_inv s"
  by (simp only: inv_defs passes_def truncate_sel check_truncate)

lemma same_tables_inv: "db.truncate s' = db.truncate s \<Longrightarrow> db_inv s' = db_inv s"
  by (metis db_inv_truncate)

lemma more_put [simp]: "db.more (put_products t s) = db.more s" "db.more (cascade_product k s) = db.more s"
  by (simp_all add: put_products_def cascade_product_def)

lemma index_of_truncate: "db.truncate s' = db.truncate s \<Longrightarrow> index_of s' = index_of s"
  unfolding index_of_def by (subst truncate_tables(9)) simp_all

lemma distinct_show_ids: "db_inv s \<Longrightarrow> distinct (map (\<lambda>p. show_int (product_id p)) (rows (products s)))"
  using wf_tables(9) [of s] by (auto simp: table_wf_def distinct_map inj_on_def)

text \<open>A guarded call to the index never fails and keeps the tables.\<close>

lemma fst_try_unit [simp]: "fst (try_catch m (\<lambda>_. ret ()) s) = Inr ()"
  by (cases "m s") (auto simp: try_catch_def split: sum.splits)

lemma snd_try_ret [simp]: "snd (try_catch m (\<lambda>_. ret u) s) = snd (m s)"
  by (cases "m s") (auto simp: try_catch_def split: sum.splits)

lemma bind_fst_Inr: "fst (m s) = Inr a \<Longrightarrow> bind_action m f s = f a (snd (m s))"
  by (cases "m s") (auto simp: bind_action_def)

lemma guarded_index [simp]:
  "fst (ElasticsearchService_indexProduct en E d s) = Inr ()"
  "fst (ElasticsearchService_deleteProduct en E i s) = Inr ()"
  "fst (ProductService_indexProduct en E p s) = Inr ()"
  by (simp_all add: ElasticsearchService_indexProduct_def ElasticsearchService_deleteProduct_def
      ProductService_indexProduct_def)

context es_safe begin

lemma index_tables [simp]:
  "db.truncate (snd (ProductService_indexProduct en E p s)) = db.truncate s"
  "db.truncate (snd (ElasticsearchService_deleteProduct en E i s)) = db.truncate s"
  by (simp_all add: ProductService_indexProduct_def ElasticsearchService_indexProduct_def
      ElasticsearchService_deleteProduct_def keeps_tables)

text \<open>What a product operation returns and leaves in the tables does not depend on the index.\<close>

lemma bind_isolated:
  assumes "\<And>a s. fst (f a s) = fst (g a s) \<and> db.truncate (snd (f a s)) = db.truncate (snd (g a s))"
  shows "fst (bind_action m f s) = fst (bind_action m g s) \<and>
         db.truncate (snd (bind_action m f s)) = db.truncate (snd (bind_action m g s))"
  using assms by (auto simp: bind_action_def split: prod.splits sum.splits)

lemma index_then_ret:
  "fst (bind_action (ProductService_indexProduct en E p) (\<lambda>_. ret x) s) = Inr x"
  "db.truncate (snd (bind_action (ProductService_indexProduct en E p) (\<lambda>_. ret x) s)) = db.truncate s"
  by (simp_all add: bind_fst_Inr)

lemma create_isolated:
  "fst (ProductService_create en E P now d s) = fst (ProductService_create False E P now d s) \<and>
   db.truncate (snd (ProductService_create en E P now d s)) = db.truncate (snd (ProductService_create False E P now d s))"
  unfolding ProductService_create_def by (rule bind_isolated) (simp add: index_then_ret)

lemma update_isolated:
  "fst (ProductService_update en E P now pid d s) = fst (ProductService_update False E P now pid d s) \<and>
   db.truncate (snd (ProductService_update en E P now pid d s)) = db.truncate (snd (ProductService_update False E P now pid d s))"
  unfolding ProductService_update_def
  by (rule bind_isolated) (auto intro!: bind_isolated [THEN conjunct1] bind_isolated [THEN conjunct2] simp: index_then_ret)

lemma remove_isolated:
  "fst (ProductService_remove en E P pid s) = fst (ProductService_remove False E P pid s) \<and>
   db.truncate (snd (ProductService_remove en E P pid s)) = db.truncate (snd (ProductService_remove False E P pid s))"
  unfolding ProductService_remove_def
  by (rule bind_isolated, rule bind_isolated) simp

end

section \<open>The index follows the table\<close>

locale synced_catalog = prisma_client P + es_healthy E docs matches
  for P :: prisma and E :: "('z db_scheme) es_client" and docs matches
begin

lemma index_effect:
  "docs (snd (ProductService_indexProduct True E p s)) = (docs s)(show_int (product_id p) \<mapsto> product_document p)"
  using index_ok by (simp add: ProductService_indexProduct_def ElasticsearchService_indexProduct_def
      product_document_def)

lemma delete_effect: "docs (snd (ElasticsearchService_deleteProduct True E i s)) = (docs s)(show_int i := None)"
  using delete_ok by (simp add: ElasticsearchService_deleteProduct_def)

lemma sync_tables:
  assumes "db.truncate s' = db.truncate s" and "db_inv s" and "docs s' = index_of s"
  shows "in_sync docs s'"
  using assms(2,3) same_tables_inv [OF assms(1)] index_of_truncate [OF assms(1)] by (simp add: in_sync_def)

lemma sync_create: "in_sync docs s \<Longrightarrow> in_sync docs (snd (ProductService_create True E P now d s))"
proof -
  assume s: "in_sync docs s"
  let ?mk = "\<lambda>i. \<lparr>product_id = i, product_name = pr_name d, product_description = field_opt (pr_description d),
               product_category = pr_category d, product_brand = pr_brand d, product_price = pr_price d,
               product_status = set_field (pr_status d) ACTIVE, product_createdAt = now, product_updatedAt = now\<rparr>"
  obtain i where i: "seq (products s) < i" "q_create (product_d P) products put_products no_check ?mk s =
      (case no_check s (?mk i) of Some e \<Rightarrow> (Inl (PrismaError e), s)
       | None \<Rightarrow> (Inr (?mk i), put_products \<lparr>rows = rows (products s) @ [?mk i], seq = i\<rparr> s))"
    by (rule product.create_cases)
  let ?s = "put_products \<lparr>rows = rows (products s) @ [?mk i], seq = i\<rparr> s"
  have inv: "db_inv s" using s by (simp add: in_sync_def)
  have "show_int i \<notin> (\<lambda>p. show_int (product_id p)) ` set (rows (products s))"
    using wf_tables(9) [OF inv] i(1) by (auto simp: table_wf_def list_all_iff)
  then have "index_of ?s = (index_of s)(show_int i \<mapsto> product_document (?mk i))"
    using index_by_append [of "\<lambda>p. show_int (product_id p)" "?mk i" "rows (products s)" product_document]
    by (simp add: index_of_def put_products_def)
  moreover have "docs ?s = index_of s" using s docs_more [of ?s s] by (simp add: in_sync_def)
  ultimately have d: "docs (snd (ProductService_indexProduct True E (?mk i) ?s)) = index_of ?s"
    by (simp add: index_effect)
  have inv': "db_inv ?s" by (rule inv_create_product [OF inv i(1)]) simp
  have "snd (ProductService_create True E P now d s) = snd (ProductService_indexProduct True E (?mk i) ?s)"
    using i(2) by (simp add: ProductService_create_def bind_apply_Inr no_check_def bind_fst_Inr)
  then show ?thesis using sync_tables [OF index_tables(1) inv' d] by simp
qed

lemma findOne_cases:
  obtains r where "r \<in> set (rows (products s))" "product_id r = k" "fst (ProductService_findOne P k s) = Inr r"
  | "\<not> has_row product_id (products s) k" "fst (ProductService_findOne P k s) = Inl (product_not_found k)"
proof (cases "findFirst (product_d P) (\<lambda>p. product_id p = k) (products s)")
  case None
  then show ?thesis using that(2) product.find_key_has_row [of k "products s"]
    by (simp add: ProductService_findOne_def)
next
  case (Some r)
  then show ?thesis using that(1) [of r] product.findFirst_some [OF Some] by (simp add: ProductService_findOne_def)
qed

lemma read_only_findOne [simp]: "read_only (ProductService_findOne P k)"
  unfolding ProductService_findOne_def by (intro read_only_bind read_only_option) simp_all

lemma sync_update: "in_sync docs s \<Longrightarrow> in_sync docs (snd (ProductService_update True E P now k d s))"
proof (cases rule: findOne_cases [of s k])
  case (1 r)
  assume s: "in_sync docs s"
  then have inv: "db_inv s" by (simp add: in_sync_def)
  let ?f = "update_product now d"
  have key: "product_id (?f x) = product_id x" for x by (simp add: update_product_def)
  let ?s = "put_products ((products s)\<lparr>rows := map (\<lambda>x. if product_id x = product_id r then ?f x else x) (rows (products s))\<rparr>) s"
  have up: "q_update (product_d P) products put_products no_check k ?f s = (Inr (?f r), ?s)"
    using product.update_eq [of products s r put_products no_check ?f, OF wf_tables(9) [OF inv] 1(1)] 1(2)
    by (simp add: no_check_def)
  have "index_of ?s = (index_of s)(show_int k \<mapsto> product_document (?f r))"
    using index_by_update [of "\<lambda>p. show_int (product_id p)" "rows (products s)" r ?f product_document]
      distinct_show_ids [OF inv] 1 by (simp add: index_of_def put_products_def key)
  moreover have "docs ?s = index_of s" using s docs_more [of ?s s] by (simp add: in_sync_def)
  ultimately have d: "docs (snd (ProductService_indexProduct True E (?f r) ?s)) = index_of ?s"
    using 1 by (simp add: index_effect key)
  have inv': "db_inv ?s" by (rule inv_update_product [OF inv key])
  show ?thesis
    using s sync_tables [OF index_tables(1) inv' d]
    by (simp add: ProductService_update_def bind_read_only 1 up bind_apply_Inr bind_fst_Inr)
next
  case 2
  assume "in_sync docs s"
  with 2 show ?thesis by (simp add: ProductService_update_def bind_read_only)
qed

lemma sync_remove: "in_sync docs s \<Longrightarrow> in_sync docs (snd (ProductService_remove True E P k s))"
proof (cases rule: findOne_cases [of s k])
  case (1 r)
  assume s: "in_sync docs s"
  then have inv: "db_inv s" by (simp add: in_sync_def)
  let ?s = "cascade_product k (put_products ((products s)\<lparr>rows := filter (\<lambda>x. product_id x \<noteq> k) (rows (products s))\<rparr>) s)"
  have del: "q_delete (product_d P) products put_products cascade_product k s = (Inr r, ?s)"
    using product.delete_eq [of products s r put_products cascade_product, OF wf_tables(9) [OF inv] 1(1)] 1(2) by simp
  have "index_of ?s = (index_of s)(show_int k := None)"
    using index_by_filter [of "\<lambda>p. show_int (product_id p)" product_document "show_int k" "rows (products s)"]
    by (simp add: index_of_def put_products_def cascade_product_def)
  moreover have "docs ?s = index_of s" using s docs_more [of ?s s] by (simp add: in_sync_def)
  ultimately have d: "docs (snd (ElasticsearchService_deleteProduct True E k ?s)) = index_of ?s"
    by (simp add: delete_effect)
  have inv': "db_inv ?s" by (rule inv_delete_product [OF inv])
  show ?thesis
    using sync_tables [OF index_tables(2) inv' d]
    by (simp add: ProductService_remove_def bind_read_only 1 del bind_apply_Inr)
next
  case 2
  assume "in_sync docs s"
  with 2 show ?thesis by (simp add: ProductService_remove_def bind_read_only)
qed

lemma recreate:
  assumes "docs s = Map.empty"
  obtains s' where "ElasticsearchService_createIndexIfNotExists True E s = (Inr (), s')"
    "docs s' = Map.empty" "db.truncate s' = db.truncate s"
proof -
  obtain b where b: "fst (es_exists E s) = Inr b" "docs (snd (es_exists E s)) = docs s"
    using exists_ok [of s] by blast
  let ?s = "snd (es_exists E s)"
  have ok: "fst (es_create E ?s) = Inr ()" "docs (snd (es_create E ?s)) = Map.empty"
    using create_ok [of ?s] b assms by simp_all
  have "es_create E ?s = (Inr (), snd (es_create E ?s))" using ok(1) by (cases "es_create E ?s") simp
  then show ?thesis
    using that b ok assms keeps_tables(1,2)
    by (cases b) (auto simp: ElasticsearchService_createIndexIfNotExists_def bind_fst_Inr)
qed

lemma cleared:
  obtains b s' where "fst (es_exists E s) = Inr b"
    "(if b then es_drop E else ret ()) (snd (es_exists E s)) = (Inr (), s')"
    "docs s' = Map.empty" "db.truncate s' = db.truncate s"
proof -
  obtain b where b: "fst (es_exists E s) = Inr b" "docs (snd (es_exists E s)) = docs s" "\<not> b \<longrightarrow> docs s = Map.empty"
    using exists_ok [of s] by blast
  let ?s = "snd (es_exists E s)"
  have "es_drop E ?s = (Inr (), snd (es_drop E ?s))" using drop_ok [of ?s] by (cases "es_drop E ?s") simp
  with drop_ok [of ?s] b keeps_tables(1,3) show ?thesis by (cases b) (auto intro: that)
qed

lemma reindex_docs:
  assumes "distinct (map pd_id ds)"
  obtains s' where "ElasticsearchService_reindexAll True E ds s = (Inr (), s')"
    "docs s' = index_by (\<lambda>d. show_int (pd_id d)) (\<lambda>d. d) ds" "db.truncate s' = db.truncate s"
proof -
  obtain b s1 where 1: "fst (es_exists E s) = Inr b"
    "(if b then es_drop E else ret ()) (snd (es_exists E s)) = (Inr (), s1)"
    "docs s1 = Map.empty" "db.truncate s1 = db.truncate s" by (rule cleared)
  obtain s2 where 2: "ElasticsearchService_createIndexIfNotExists True E s1 = (Inr (), s2)"
    "docs s2 = Map.empty" "db.truncate s2 = db.truncate s1" by (rule recreate [OF 1(3)])
  let ?ops = "map (\<lambda>d. (show_int (pd_id d), d)) ds"
  have run: "ElasticsearchService_reindexAll True E ds s = (if ds = [] then ret () else es_bulk E ?ops) s2"
    by (simp add: ElasticsearchService_reindexAll_def bind_fst_Inr [of "es_exists E" s, OF 1(1)]
        bind_apply_Inr [of "if b then es_drop E else ret ()" "snd (es_exists E s)", OF 1(2)]
        bind_apply_Inr [of "ElasticsearchService_createIndexIfNotExists True E" s1, OF 2(1)])
  have dist: "distinct (map (\<lambda>d. show_int (pd_id d)) ds)"
    using assms by (auto simp: distinct_map inj_on_def)
  show ?thesis
  proof (cases "ds = []")
    case True
    then show ?thesis using run 1 2 by (intro that [of s2]) (simp_all add: index_by_def)
  next
    case False
    have "es_bulk E ?ops s2 = (Inr (), snd (es_bulk E ?ops s2))"
      using bulk_ok [of ?ops s2] by (cases "es_bulk E ?ops s2") simp
    then show ?thesis
      using False run bulk_ok [of ?ops s2] 1(4) 2 keeps_tables(7) foldl_upd_index [OF dist, of Map.empty "\<lambda>d. d"]
      by (intro that [of "snd (es_bulk E ?ops s2)"]) simp_all
  qed
qed

text \<open>Reindexing repairs the index whatever it held.\<close>

lemma reindex_repairs:
  assumes "db_inv s"
  obtains s' where "AdminService_reindexProducts True E P s =
      (Inr (''Products reindexed successfully'', int (length (rows (products s)))), s')" "in_sync docs s'"
    "db.truncate s' = db.truncate s"
proof -
  let ?ps = "findMany (product_d P) (\<lambda>_. True) no_order (products s)"
  have d: "distinct (map product_id ?ps)" by (rule product.findMany_distinct [OF wf_tables(9) [OF assms]])
  then have "distinct (map pd_id (map product_document ?ps))" by (simp add: o_def product_document_def)
  then obtain s' where s': "ElasticsearchService_reindexAll True E (map product_document ?ps) s = (Inr (), s')"
    "docs s' = index_by (\<lambda>d. show_int (pd_id d)) (\<lambda>d. d) (map product_document ?ps)" "db.truncate s' = db.truncate s"
    by (rule reindex_docs)
  have "index_by (\<lambda>d. show_int (pd_id d)) (\<lambda>d. d) (map product_document ?ps) =
      index_by (\<lambda>p. show_int (product_id p)) product_document ?ps"
    by (simp add: index_by_def o_def product_document_def)
  also have "\<dots> = index_of s"
    unfolding index_of_def
    by (rule index_by_eqI) (use d distinct_show_ids [OF assms] in \<open>auto simp: product.findMany_set distinct_map inj_on_def\<close>)
  finally have "in_sync docs s'" using s' sync_tables [OF s'(3) assms] by simp
  moreover have "AdminService_reindexProducts True E P s =
      (Inr (''Products reindexed successfully'', int (length (rows (products s)))), s')"
    using s'(1) by (simp add: AdminService_reindexProducts_def ProductService_getAllProducts_def bind_apply_Inr
        product.findMany_length)
  ultimately show ?thesis using that s'(3) by blast
qed

lemma product_step_laws: "step_system (product_step True E P) (in_sync docs)"
proof
  fix s :: "'z db_scheme" and c assume s: "in_sync docs s"
  show "in_sync docs (product_step True E P s c)"
  proof (cases c)
    case Reindex
    obtain s' where "AdminService_reindexProducts True E P s =
      (Inr (''Products reindexed successfully'', int (length (rows (products s)))), s')" "in_sync docs s'"
      using s reindex_repairs [of s] unfolding in_sync_def by blast
    then show ?thesis using Reindex by simp
  qed (use s sync_create sync_update sync_remove in simp_all)
qed

end

section \<open>An index in memory\<close>

record es_db = db +
  es_docs :: "(string \<times> ProductDocument) list option"

definition es_map :: "es_db \<Rightarrow> string \<rightharpoonup> ProductDocument" where
  "es_map s = (case es_docs s of None \<Rightarrow> Map.empty | Some ds \<Rightarrow> map_of ds)"

definition es_put :: "string \<Rightarrow> ProductDocument \<Rightarrow> es_db \<Rightarrow> es_db" where
  "es_put i d s = s\<lparr>es_docs := Some (AList.update i d (case es_docs s of None \<Rightarrow> [] | Some ds \<Rightarrow> ds))\<rparr>"

definition es_hits :: "es_query \<Rightarrow> es_db \<Rightarrow> ProductDocument list" where
  "es_hits q s = sort_by (order_desc pd_created_at) (filter (query_ok (\<lambda>_ _. True) q)
     (case es_docs s of None \<Rightarrow> [] | Some ds \<Rightarrow> map snd (AList.clearjunk ds)))"

definition mem_es :: "es_db es_client" where
  "mem_es = \<lparr>es_exists = (\<lambda>s. (Inr (es_docs s \<noteq> None), s)),
     es_create = (\<lambda>s. (Inr (), s\<lparr>es_docs := Some []\<rparr>)),
     es_drop = (\<lambda>s. (Inr (), s\<lparr>es_docs := None\<rparr>)),
     es_index = (\<lambda>i d s. (Inr (), es_put i d s)),
     es_update = (\<lambda>i d s. (Inr (), es_put i d s)),
     es_delete = (\<lambda>i s. (Inr (), s\<lparr>es_docs := map_option (AList.delete i) (es_docs s)\<rparr>)),
     es_bulk = (\<lambda>ops s. (Inr (), foldl (\<lambda>s (i, d). es_put i d s) s ops)),
     es_search = (\<lambda>q s. (Inr (take (nat \<lfloor>q_size q\<rfloor>) (drop (nat \<lfloor>q_from q\<rfloor>) (es_hits q s)),
        TotalNumber (int (length (es_hits q s)))), s))\<rparr>"

lemma truncate_es: "db.truncate (s\<lparr>es_docs := x\<rparr>) = db.truncate s"
  by (simp add: db.defs)

lemma es_put_simps [simp]:
  "db.truncate (es_put i d s) = db.truncate s" "es_map (es_put i d s) = (es_map s)(i \<mapsto> d)"
  by (auto simp: es_put_def es_map_def db.defs update_conv split: option.splits)

lemma es_put_all:
  "db.truncate (foldl (\<lambda>s (i, d). es_put i d s) s ops) = db.truncate s"
  "es_map (foldl (\<lambda>s (i, d). es_put i d s) s ops) = foldl (\<lambda>m (i, d). m(i \<mapsto> d)) (es_map s) ops"
  by (induction ops arbitrary: s) (auto split: prod.splits)

lemma es_hits_props:
  "set (es_hits q s) = {d \<in> ran (es_map s). query_ok (\<lambda>_ _. True) q d}"
  "length (es_hits q s) = card {k. \<exists>d. es_map s k = Some d \<and> query_ok (\<lambda>_ _. True) q d}"
  "sorted_wrt (order_desc pd_created_at) (es_hits q s)"
proof -
  define ds where "ds = (case es_docs s of None \<Rightarrow> [] | Some ds \<Rightarrow> AList.clearjunk ds)"
  have dist: "distinct (map fst ds)" by (auto simp: ds_def split: option.splits)
  have m: "es_map s = map_of ds"
    by (auto simp: es_map_def ds_def map_of_clearjunk fun_eq_iff split: option.splits)
  have hits: "es_hits q s = sort_by (order_desc pd_created_at) (filter (query_ok (\<lambda>_ _. True) q) (map snd ds))"
    by (auto simp: es_hits_def ds_def split: option.splits)
  show "set (es_hits q s) = {d \<in> ran (es_map s). query_ok (\<lambda>_ _. True) q d}"
    by (auto simp: hits m ran_distinct [OF dist] image_iff)
  have "{k. \<exists>d. es_map s k = Some d \<and> query_ok (\<lambda>_ _. True) q d} =
      set (map fst (filter (\<lambda>p. query_ok (\<lambda>_ _. True) q (snd p)) ds))"
    by (force simp: m map_of_eq_Some_iff [OF dist])
  moreover have "distinct (map fst (filter (\<lambda>p. query_ok (\<lambda>_ _. True) q (snd p)) ds))"
    using dist by (rule distinct_map_filter)
  ultimately have "card {k. \<exists>d. es_map s k = Some d \<and> query_ok (\<lambda>_ _. True) q d} =
      length (map fst (filter (\<lambda>p. query_ok (\<lambda>_ _. True) q (snd p)) ds))"
    by (simp only: distinct_card)
  then show "length (es_hits q s) = card {k. \<exists>d. es_map s k = Some d \<and> query_ok (\<lambda>_ _. True) q d}"
    by (simp add: hits filter_map o_def)
  show "sorted_wrt (order_desc pd_created_at) (es_hits q s)" by (simp add: hits sorted_sort_by)
qed

lemma mem_es_search:
  "\<exists>hits n. fst (es_search mem_es q s) = Inr (hits, n) \<and> es_map (snd (es_search mem_es q s)) = es_map s \<and>
     set hits \<subseteq> {d \<in> ran (es_map s). query_ok (\<lambda>_ _. True) q d} \<and>
     total_value n = int (card {k. \<exists>d. es_map s k = Some d \<and> query_ok (\<lambda>_ _. True) q d}) \<and>
     sorted_wrt (order_desc pd_created_at) hits \<and> of_nat (length hits) \<le> max 0 (q_size q)"
proof -
  let ?h = "take (nat \<lfloor>q_size q\<rfloor>) (drop (nat \<lfloor>q_from q\<rfloor>) (es_hits q s))"
  have "length ?h \<le> nat \<lfloor>q_size q\<rfloor>" by simp
  then have "(of_nat (length ?h) :: rat) \<le> of_nat (nat \<lfloor>q_size q\<rfloor>)" by (simp only: of_nat_le_iff)
  also have "\<dots> \<le> max 0 (q_size q)" by (cases "0 \<le> \<lfloor>q_size q\<rfloor>") (simp_all add: le_max_iff_disj)
  finally have "of_nat (length ?h) \<le> max 0 (q_size q)" .
  moreover have "set ?h \<subseteq> set (es_hits q s)" by (meson order_trans set_drop_subset set_take_subset)
  moreover have "sorted_wrt (order_desc pd_created_at) ?h"
    by (intro sorted_wrt_take sorted_wrt_drop es_hits_props)
  ultimately show ?thesis
    by (simp add: mem_es_def total_value_def es_hits_props)
qed

lemma mem_es_safe: "es_safe mem_es"
  by unfold_locales (simp_all add: mem_es_def es_put_all truncate_es)

lemma es_map_more: "db.more s' = db.more s \<Longrightarrow> es_map s' = es_map s"
  by (cases s; cases s') (simp add: es_map_def)

lemma mem_es_healthy: "es_healthy mem_es es_map (\<lambda>_ _. True)"
proof (rule es_healthy.intro [OF mem_es_safe], rule es_healthy_axioms.intro)
  fix s s' :: es_db and i d ops q
  show "db.more s' = db.more s \<Longrightarrow> es_map s' = es_map s" by (rule es_map_more)
  show "\<exists>b. fst (es_exists mem_es s) = Inr b \<and> es_map (snd (es_exists mem_es s)) = es_map s \<and>
      (\<not> b \<longrightarrow> es_map s = Map.empty)" by (simp add: mem_es_def es_map_def)
  show "fst (es_create mem_es s) = Inr () \<and> es_map (snd (es_create mem_es s)) = Map.empty"
    by (simp add: mem_es_def es_map_def)
  show "fst (es_drop mem_es s) = Inr () \<and> es_map (snd (es_drop mem_es s)) = Map.empty"
    by (simp add: mem_es_def es_map_def)
  show "fst (es_index mem_es i d s) = Inr () \<and> es_map (snd (es_index mem_es i d s)) = (es_map s)(i \<mapsto> d)"
    by (simp add: mem_es_def)
  show "es_map (snd (es_delete mem_es i s)) = (es_map s)(i := None)"
    by (cases "es_docs s") (simp_all add: mem_es_def es_map_def delete_conv')
  show "fst (es_bulk mem_es ops s) = Inr () \<and>
      es_map (snd (es_bulk mem_es ops s)) = foldl (\<lambda>m (i, d). m(i \<mapsto> d)) (es_map s) ops"
    by (simp add: mem_es_def es_put_all)
  show "\<exists>hits n. fst (es_search mem_es q s) = Inr (hits, n) \<and> es_map (snd (es_search mem_es q s)) = es_map s \<and>
      set hits \<subseteq> {d \<in> ran (es_map s). query_ok (\<lambda>_ _. True) q d} \<and>
      total_value n = int (card {k. \<exists>d. es_map s k = Some d \<and> query_ok (\<lambda>_ _. True) q d}) \<and>
      sorted_wrt (order_desc pd_created_at) hits \<and> of_nat (length hits) \<le> max 0 (q_size q)"
    by (rule mem_es_search)
qed

interpretation mem_catalog: synced_catalog mem_prisma mem_es es_map "\<lambda>_ _. True"
  by (rule synced_catalog.intro [OF mem.prisma_client_axioms mem_es_healthy])

interpretation mem_products: step_system "product_step True mem_es mem_prisma" "in_sync es_map"
  by (rule mem_catalog.product_step_laws)

context synced_catalog begin

lemma search_result:
  assumes "in_sync docs s"
    and "SearchService_searchProducts True E d s = (Inr r, s')"
  shows "\<forall>x \<in> set (sr_data r). \<exists>p \<in> set (rows (products s)). x = product_document p \<and>
      list_all (\<lambda>f. filter_ok f x) (search_filter d)"
    "sorted_wrt (order_desc pd_created_at) (sr_data r)"
    "of_nat (length (sr_data r)) \<le> max 0 (default_num 10 (sp_size d))"
proof -
  let ?q = "\<lparr>q_must = search_must d, q_filter = search_filter d,
    q_from = js_mul (js_sub (default_num 1 (sp_page d)) 1) (default_num 10 (sp_size d)),
    q_size = default_num 10 (sp_size d)\<rparr>"
  obtain hits n where h: "fst (es_search E ?q s) = Inr (hits, n)"
    "set hits \<subseteq> {x \<in> ran (docs s). query_ok matches ?q x}" "sorted_wrt (order_desc pd_created_at) hits"
    "of_nat (length hits) \<le> max 0 (q_size ?q)"
    using search_ok [of ?q s] by blast
  have m: "search_must (d\<lparr>sp_page := a, sp_size := b\<rparr>) = search_must d"
    "search_filter (d\<lparr>sp_page := a, sp_size := b\<rparr>) = search_filter d" for a b
    by (simp_all add: search_must_def search_filter_def)
  have data: "sr_data r = hits"
    using assms(2) h(1)
    by (auto simp: SearchService_searchProducts_def ElasticsearchService_searchProducts_def Let_def m
        bind_fst_Inr)
  have "docs s = index_of s" using assms(1) by (simp add: in_sync_def)
  moreover have "x \<in> ran (index_of s) \<Longrightarrow> \<exists>p \<in> set (rows (products s)). x = product_document p" for x
    using distinct_show_ids [of s] assms(1) by (fastforce simp: ran_def index_of_def index_by_Some in_sync_def)
  ultimately show "\<forall>x \<in> set (sr_data r). \<exists>p \<in> set (rows (products s)). x = product_document p \<and>
      list_all (\<lambda>f. filter_ok f x) (search_filter d)"
    using h(2) unfolding data by (auto simp: query_ok_def)
  show "sorted_wrt (order_desc pd_created_at) (sr_data r)"
    "of_nat (length (sr_data r)) \<le> max 0 (default_num 10 (sp_size d))"
    using h(3,4) by (simp_all add: data)
qed

end

section \<open>Properties\<close>

text \<open>C3: With the index enabled and the cluster healthy, after any sequence of product
  creations, updates, removals and reindexings the index holds exactly one document per
  product, under the product's identifier, with the product's current data.\<close>

theorem search_index_in_sync:
  assumes "synced_catalog P E docs matches" and "in_sync docs s"
  shows "docs (foldl (product_step True E P) s reqs) k = Some d \<longleftrightarrow>
    (\<exists>p \<in> set (rows (products (foldl (product_step True E P) s reqs))).
       show_int (product_id p) = k \<and> product_document p = d)"
proof -
  have "in_sync docs (foldl (product_step True E P) s reqs)"
    by (rule step_system.run_inv [OF synced_catalog.product_step_laws [OF assms(1)] assms(2)])
  then show ?thesis
    using index_by_Some [OF distinct_show_ids, of "foldl (product_step True E P) s reqs" product_document k d]
    by (simp add: in_sync_def index_of_def)
qed

definition empty_es_db :: es_db where
  "empty_es_db = db.extend empty_db \<lparr>es_docs = Some []\<rparr>"

lemma empty_es_sync: "in_sync es_map empty_es_db"
proof -
  have "db_inv empty_es_db" by code_simp
  then show ?thesis
    by (simp add: in_sync_def es_map_def empty_es_db_def db.defs index_of_def index_by_def empty_db_def empty_table_def)
qed

definition lamp :: CreateProductDto where
  "lamp = \<lparr>pr_name = ''lamp'', pr_description = Undefined, pr_category = ''home'', pr_brand = ''acme'',
     pr_price = 20, pr_status = Undefined\<rparr>"

definition lamp_row :: product where
  "lamp_row = \<lparr>product_id = 1, product_name = ''lamp'', product_description = None, product_category = ''home'',
     product_brand = ''acme'', product_price = 20, product_status = ACTIVE, product_createdAt = 5, product_updatedAt = 5\<rparr>"

theorem search_index_in_sync_witness:
  "es_map (foldl (product_step True mem_es mem_prisma) empty_es_db [CreateProduct 5 lamp, Reindex]) ''1'' =
     Some (product_document lamp_row)"
proof -
  have "list_ex (\<lambda>p. show_int (product_id p) = ''1'' \<and> product_document p = product_document lamp_row)
      (rows (products (foldl (product_step True mem_es mem_prisma) empty_es_db [CreateProduct 5 lamp, Reindex])))"
    by code_simp
  then show ?thesis
    by (subst search_index_in_sync [OF mem_catalog.synced_catalog_axioms empty_es_sync]) (simp only: list_ex_iff)
qed

text \<open>Whatever the search cluster does, as long as it leaves the tables alone, creating,
  updating and removing a product returns the same result and leaves the same tables as
  with the index switched off: a failing cluster never breaks a product operation.\<close>

theorem index_failure_isolated:
  assumes "es_safe E"
  shows "fst (ProductService_create en E P now cd s) = fst (ProductService_create False E P now cd s) \<and>
    db.truncate (snd (ProductService_create en E P now cd s)) = db.truncate (snd (ProductService_create False E P now cd s)) \<and>
    fst (ProductService_update en E P now k ud s) = fst (ProductService_update False E P now k ud s) \<and>
    db.truncate (snd (ProductService_update en E P now k ud s)) = db.truncate (snd (ProductService_update False E P now k ud s)) \<and>
    fst (ProductService_remove en E P k s) = fst (ProductService_remove False E P k s) \<and>
    db.truncate (snd (ProductService_remove en E P k s)) = db.truncate (snd (ProductService_remove False E P k s))"
  using es_safe.create_isolated [OF assms] es_safe.update_isolated [OF assms] es_safe.remove_isolated [OF assms]
  by blast

text \<open>A cluster that is down.\<close>

definition down_es :: "es_db es_client" where
  "down_es = \<lparr>es_exists = throw (JsError ''ECONNREFUSED''), es_create = throw (JsError ''ECONNREFUSED''),
     es_drop = throw (JsError ''ECONNREFUSED''), es_index = (\<lambda>_ _. throw (JsError ''ECONNREFUSED'')),
     es_update = (\<lambda>_ _. throw (JsError ''ECONNREFUSED'')), es_delete = (\<lambda>_. throw (JsError ''ECONNREFUSED'')),
     es_bulk = (\<lambda>_. throw (JsError ''ECONNREFUSED'')), es_search = (\<lambda>_. throw (JsError ''ECONNREFUSED''))\<rparr>"

interpretation down_es: es_safe down_es
  by unfold_locales (simp_all add: down_es_def)

theorem index_failure_isolated_witness:
  "fst (ProductService_create True down_es mem_prisma 5 lamp empty_es_db) =
   fst (ProductService_create False down_es mem_prisma 5 lamp empty_es_db)"
  using index_failure_isolated [OF down_es.es_safe_axioms] by blast

text \<open>A search returns only documents of products that exist, are ACTIVE and satisfy the
  requested category, brand and price range, newest first and at most a page of them.\<close>

theorem search_respects_filters:
  assumes "synced_catalog P E docs matches" and "in_sync docs s"
    and "SearchService_searchProducts True E d s = (Inr r, s')"
  shows "(\<forall>x \<in> set (sr_data r). \<exists>p \<in> set (rows (products s)). x = product_document p \<and>
      product_status p = ACTIVE \<and>
      pred_option (\<lambda>c. c = [] \<or> product_category p = c) (sp_category d) \<and>
      pred_option (\<lambda>b. b = [] \<or> product_brand p = b) (sp_brand d) \<and>
      pred_option (\<lambda>l. l \<le> product_price p) (sp_minPrice d) \<and>
      pred_option (\<lambda>h. product_price p \<le> h) (sp_maxPrice d)) \<and>
    sorted_wrt (order_desc pd_created_at) (sr_data r) \<and>
    of_nat (length (sr_data r)) \<le> max 0 (default_num 10 (sp_size d))"
proof -
  note r = synced_catalog.search_result [OF assms]
  have filters: "product_status p = ACTIVE \<and>
      pred_option (\<lambda>c. c = [] \<or> product_category p = c) (sp_category d) \<and>
      pred_option (\<lambda>b. b = [] \<or> product_brand p = b) (sp_brand d) \<and>
      pred_option (\<lambda>l. l \<le> product_price p) (sp_minPrice d) \<and>
      pred_option (\<lambda>h. product_price p \<le> h) (sp_maxPrice d)"
    if "list_all (\<lambda>f. filter_ok f (product_document p)) (search_filter d)" for p
    using that by (auto simp: search_filter_def product_document_def truthy_def split: if_splits option.splits)
  show ?thesis
  proof (intro conjI r(2,3) ballI)
    fix x assume "x \<in> set (sr_data r)"
    from bspec [OF r(1) this] obtain p where p: "p \<in> set (rows (products s))" "x = product_document p"
      "list_all (\<lambda>f. filter_ok f x) (search_filter d)" by (elim bexE conjE)
    then show "\<exists>p \<in> set (rows (products s)). x = product_document p \<and>
      product_status p = ACTIVE \<and>
      pred_option (\<lambda>c. c = [] \<or> product_category p = c) (sp_category d) \<and>
      pred_option (\<lambda>b. b = [] \<or> product_brand p = b) (sp_brand d) \<and>
      pred_option (\<lambda>l. l \<le> product_price p) (sp_minPrice d) \<and>
      pred_option (\<lambda>h. product_price p \<le> h) (sp_maxPrice d)"
      by (intro bexI [OF _ p(1)] conjI [OF p(2)]) (rule filters [OF p(3) [unfolded p(2)]])
  qed
qed

theorem search_respects_filters_witness:
  "\<exists>r. SearchService_searchProducts True mem_es \<lparr>sp_q = None, sp_category = Some ''home'', sp_brand = None,
     sp_minPrice = None, sp_maxPrice = Some 30, sp_page = None, sp_size = None\<rparr> empty_es_db = (Inr r, empty_es_db) \<and>
     of_nat (length (sr_data r)) \<le> (10 :: rat)"
proof -
  let ?d = "\<lparr>sp_q = None, sp_category = Some ''home'', sp_brand = None,
     sp_minPrice = None, sp_maxPrice = Some 30, sp_page = None, sp_size = None\<rparr>"
  obtain r where "SearchService_searchProducts True mem_es ?d empty_es_db = (Inr r, empty_es_db)"
    by (simp add: SearchService_searchProducts_def ElasticsearchService_searchProducts_def Let_def mem_es_def
        bind_action_def)
  with search_respects_filters [OF mem_catalog.synced_catalog_axioms empty_es_sync this]
  show ?thesis by (auto simp: default_num_def)
qed

text \<open>Reindexing repairs the index: whatever documents it held before, stale or missing, it
  ends up with exactly the products of the table, and the tables are untouched.\<close>

theorem reindex_repairs_index:
  assumes "synced_catalog P E docs matches" and "db_inv s"
  shows "\<exists>s'. AdminService_reindexProducts True E P s =
      (Inr (''Products reindexed successfully'', int (length (rows (products s)))), s') \<and>
    in_sync docs s' \<and> db.truncate s' = db.truncate s"
  by (rule synced_catalog.reindex_repairs [OF assms]) blast

theorem reindex_repairs_index_witness:
  "\<exists>s'. AdminService_reindexProducts True mem_es mem_prisma (es_put ''9'' (product_document lamp_row) empty_es_db) =
     (Inr (''Products reindexed successfully'', 0), s') \<and> in_sync es_map s'"
proof -
  have t: "db.truncate (es_put ''9'' (product_document lamp_row) empty_es_db) = db.truncate empty_es_db" by simp
  have "db_inv (es_put ''9'' (product_document lamp_row) empty_es_db)"
    using same_tables_inv [OF t] empty_es_sync by (simp add: in_sync_def)
  moreover have "rows (products (es_put ''9'' (product_document lamp_row) empty_es_db)) = []"
    using truncate_tables(9) [OF t] by (simp add: empty_es_db_def db.defs empty_db_def empty_table_def)
  ultimately show ?thesis
    using reindex_repairs_index [OF mem_catalog.synced_catalog_axioms,
        of "es_put ''9'' (product_document lamp_row) empty_es_db"] by auto
qed

end
