(* ===== verification/Orders.thy ===== *)
theory Orders
  imports Catalog
begin

text \<open>
  Orders, their events and the notifications made from them in the Nest backend:
  \<open>order/*.ts\<close>, \<open>kafka/*.ts\<close>, \<open>notification/*.ts\<close>.

  The Kafka client is a parameter (\<open>kafka_client\<close>); \<open>kafka_safe\<close> says that it leaves the
  tables alone.  \<open>JSON.stringify\<close> and \<open>JSON.parse\<close> of an event are the pair \<open>codec\<close>.
\<close>

section \<open>Definitions\<close>

subsection \<open>Events\<close>

record OrderEvent =
  ev_eventId :: string
  ev_eventType :: OrderEventType
  ev_timestamp :: string
  ev_orderId :: int
  ev_userId :: int
  ev_totalAmount :: rat

definition ORDER_EVENTS :: string where
  "ORDER_EVENTS = ''order-events''"

record 'j kafka_message =
  km_key :: string
  km_value :: "'j option"
  km_eventType :: "OrderEventType option"

record ('s, 'j) kafka_client =
  k_connect :: "(exn, 's, unit) action"
  k_disconnect :: "(exn, 's, unit) action"
  k_send :: "string \<Rightarrow> 'j kafka_message \<Rightarrow> (exn, 's, unit) action"
  k_subscribe :: "string \<Rightarrow> bool \<Rightarrow> (exn, 's, unit) action"
  k_run :: "(exn, 's, unit) action"

record 'j codec =
  stringify :: "OrderEvent \<Rightarrow> 'j"
  parse_event :: "'j \<Rightarrow> OrderEvent option"

definition KafkaProducerService_onModuleInit :: "bool \<Rightarrow> ('s, 'j) kafka_client \<Rightarrow> (exn, 's, unit) action" where
  "KafkaProducerService_onModuleInit isEnabled K =
     (if \<not> isEnabled then ret () else try_catch (k_connect K) (\<lambda>_. ret ()))"

definition KafkaProducerService_onModuleDestroy :: "bool \<Rightarrow> ('s, 'j) kafka_client \<Rightarrow> (exn, 's, unit) action" where
  "KafkaProducerService_onModuleDestroy isEnabled K =
     (if isEnabled then try_catch (k_disconnect K) (\<lambda>_. ret ()) else ret ())"

definition KafkaProducerService_publishOrderEvent ::
    "bool \<Rightarrow> 'j codec \<Rightarrow> ('s, 'j) kafka_client \<Rightarrow> OrderEvent \<Rightarrow> (exn, 's, unit) action" where
  "KafkaProducerService_publishOrderEvent isEnabled C K event =
     (if \<not> isEnabled then ret ()
      else k_send K ORDER_EVENTS
             \<lparr>km_key = show_int (ev_orderId event), km_value = Some (stringify C event),
              km_eventType = Some (ev_eventType event)\<rparr>)"

subsection \<open>Orders\<close>

record CreateOrderItemDto =
  oi_productId :: int
  oi_quantity :: int

record CreateOrderDto =
  co_items :: "CreateOrderItemDto list"

definition valid_CreateOrderDto :: "CreateOrderDto \<Rightarrow> bool" where
  "valid_CreateOrderDto d =
     (1 \<le> length (co_items d) \<and> list_all (\<lambda>i. 0 < oi_productId i \<and> 0 < oi_quantity i) (co_items d))"

record OrderItemResponseDto =
  or_item_id :: int
  or_productId :: int
  or_quantity :: int
  or_price :: rat

record OrderResponseDto =
  or_id :: int
  or_userId :: int
  or_totalAmount :: rat
  or_status :: OrderStatus
  or_createdAt :: time
  or_items :: "OrderItemResponseDto list"

definition order_response :: "order \<times> order_item list \<Rightarrow> OrderResponseDto" where
  "order_response p = (case p of (r, xs) \<Rightarrow>
     \<lparr>or_id = order_id r, or_userId = order_userId r, or_totalAmount = order_totalAmount r,
      or_status = order_status r, or_createdAt = order_createdAt r,
      or_items = map (\<lambda>x. \<lparr>or_item_id = oitem_id x, or_productId = oitem_productId x,
        or_quantity = oitem_quantity x, or_price = oitem_price x\<rparr>) xs\<rparr>)"

text \<open>The loop over the requested items: the price of each, and the running total.\<close>

fun price_items ::
    "(int \<rightharpoonup> rat) \<Rightarrow> CreateOrderItemDto list \<Rightarrow> rat \<Rightarrow> exn + (CreateOrderItemDto \<times> rat) list \<times> rat" where
  "price_items m [] acc = Inr ([], acc)"
| "price_items m (i # is) acc =
     (case m (oi_productId i) of
        None \<Rightarrow> Inl (NestException NestNotFound (''Product '' @ show_int (oi_productId i) @ '' price not found''))
      | Some price \<Rightarrow>
          (case price_items m is (js_add acc (js_mul price (of_int (oi_quantity i)))) of
             Inl e \<Rightarrow> Inl e
           | Inr (xs, t) \<Rightarrow> Inr ((i, price) # xs, t)))"

definition createOrder_body ::
    "prisma \<Rightarrow> time \<Rightarrow> int \<Rightarrow> rat \<Rightarrow> (CreateOrderItemDto \<times> rat) list
      \<Rightarrow> (exn, 'z db_scheme, order \<times> order_item list) action" where
  "createOrder_body P now userId amount priced =
     bind_action (q_create (order_d P) orders put_orders order_check
         (\<lambda>i. \<lparr>order_id = i, order_userId = userId, order_totalAmount = amount, order_status = PENDING,
               order_createdAt = now\<rparr>)) (\<lambda>r.
     bind_action (map_action (\<lambda>(d, price). q_create (oitem_d P) oitems put_oitems oitem_check
         (\<lambda>i. \<lparr>oitem_id = i, oitem_orderId = order_id r, oitem_productId = oi_productId d,
               oitem_quantity = oi_quantity d, oitem_price = price\<rparr>)) priced) (\<lambda>xs.
     ret (r, xs)))"

definition order_event :: "string \<Rightarrow> time \<Rightarrow> OrderEventType \<Rightarrow> order \<Rightarrow> OrderEvent" where
  "order_event uuid now ty r =
     \<lparr>ev_eventId = uuid, ev_eventType = ty, ev_timestamp = iso_timestamp now, ev_orderId = order_id r,
      ev_userId = order_userId r, ev_totalAmount = order_totalAmount r\<rparr>"

definition OrderService_createOrder ::
    "((exn, 'z db_scheme, order \<times> order_item list) action \<Rightarrow> (exn, 'z db_scheme, order \<times> order_item list) action)
      \<Rightarrow> (OrderEvent \<Rightarrow> (exn, 'z db_scheme, unit) action) \<Rightarrow> prisma \<Rightarrow> time \<Rightarrow> string \<Rightarrow> int \<Rightarrow> CreateOrderDto
      \<Rightarrow> (exn, 'z db_scheme, order \<times> order_item list) action" where
  "OrderService_createOrder tx publish P now uuid userId d =
     (let productIds = map oi_productId (co_items d)
      in bind_action (q_many (product_d P) products
             (\<lambda>p. product_id p \<in> set productIds \<and> product_status p = ACTIVE) no_order) (\<lambda>found.
         if length found \<noteq> length productIds
         then throw (NestException NestNotFound ''One or more products not found or inactive'')
         else case price_items (map_of (rev (map (\<lambda>p. (product_id p, product_price p)) found))) (co_items d) 0 of
           Inl e \<Rightarrow> throw e
         | Inr (orderItems, totalAmount) \<Rightarrow>
             bind_action (tx (createOrder_body P now userId totalAmount orderItems)) (\<lambda>(r, xs).
             bind_action (try_catch (publish (order_event uuid now ORDER_CREATED r)) (\<lambda>_. ret ())) (\<lambda>_.
             ret (r, xs)))))"

definition include_items :: "prisma \<Rightarrow> order \<Rightarrow> (exn, 'z db_scheme, order \<times> order_item list) action" where
  "include_items P r =
     bind_action (q_many (oitem_d P) oitems (\<lambda>x. oitem_orderId x = order_id r) no_order) (\<lambda>xs. ret (r, xs))"

definition order_not_found :: "int \<Rightarrow> exn" where
  "order_not_found i = NestException NestNotFound (''Order with ID '' @ show_int i @ '' not found'')"

definition OrderService_findOne :: "prisma \<Rightarrow> int \<Rightarrow> int \<Rightarrow> (exn, 'z db_scheme, order \<times> order_item list) action" where
  "OrderService_findOne P oid userId =
     bind_action (q_first (order_d P) orders (\<lambda>r. order_id r = oid \<and> order_userId r = userId)) (\<lambda>order.
     case order of None \<Rightarrow> throw (order_not_found oid) | Some r \<Rightarrow> include_items P r)"

definition OrderService_findAllByUser :: "prisma \<Rightarrow> int \<Rightarrow> (exn, 'z db_scheme, (order \<times> order_item list) list) action" where
  "OrderService_findAllByUser P userId =
     bind_action (q_many (order_d P) orders (\<lambda>r. order_userId r = userId) (order_desc order_createdAt)) (\<lambda>rs.
     map_action (include_items P) rs)"

definition OrderService_updateOrderStatus ::
    "(OrderEvent \<Rightarrow> (exn, 'z db_scheme, unit) action) \<Rightarrow> prisma \<Rightarrow> time \<Rightarrow> string \<Rightarrow> int \<Rightarrow> int \<Rightarrow> OrderStatus
      \<Rightarrow> (exn, 'z db_scheme, order \<times> order_item list) action" where
  "OrderService_updateOrderStatus publish P now uuid oid userId newStatus =
     bind_action (OrderService_findOne P oid userId) (\<lambda>_.
     bind_action (q_update (order_d P) orders put_orders order_check oid (\<lambda>r. r\<lparr>order_status := newStatus\<rparr>)) (\<lambda>r.
     bind_action (include_items P r) (\<lambda>result.
     bind_action (try_catch (publish (order_event uuid now
         (if newStatus = PAID then ORDER_PAID else ORDER_CANCELLED) r)) (\<lambda>_. ret ())) (\<lambda>_.
     ret result))))"

definition OrderController_create ::
    "((exn, 'z db_scheme, order \<times> order_item list) action \<Rightarrow> (exn, 'z db_scheme, order \<times> order_item list) action)
      \<Rightarrow> (OrderEvent \<Rightarrow> (exn, 'z db_scheme, unit) action) \<Rightarrow> prisma \<Rightarrow> jwt_lib \<Rightarrow> time \<Rightarrow> string option \<Rightarrow> string
      \<Rightarrow> CreateOrderDto \<Rightarrow> (exn, 'z db_scheme, OrderResponseDto) action" where
  "OrderController_create tx publish P J now token uuid d =
     with_user J now token (\<lambda>user. with_body (valid_CreateOrderDto d)
       (bind_action (OrderService_createOrder tx publish P now uuid (cur_userId user) d) (\<lambda>r. ret (order_response r))))"

definition OrderController_findAll ::
    "prisma \<Rightarrow> jwt_lib \<Rightarrow> time \<Rightarrow> string option \<Rightarrow> (exn, 'z db_scheme, OrderResponseDto list) action" where
  "OrderController_findAll P J now token =
     with_user J now token (\<lambda>user.
       bind_action (OrderService_findAllByUser P (cur_userId user)) (\<lambda>rs. ret (map order_response rs)))"

definition OrderController_findOne ::
    "(string \<Rightarrow> int option) \<Rightarrow> prisma \<Rightarrow> jwt_lib \<Rightarrow> time \<Rightarrow> string option \<Rightarrow> string \<Rightarrow> (exn, 'z db_scheme, OrderResponseDto) action" where
  "OrderController_findOne parse P J now token rawId =
     with_user J now token (\<lambda>user. with_id parse rawId (\<lambda>oid.
       bind_action (OrderService_findOne P oid (cur_userId user)) (\<lambda>r. ret (order_response r))))"

definition OrderController_setStatus ::
    "(string \<Rightarrow> int option) \<Rightarrow> (OrderEvent \<Rightarrow> (exn, 'z db_scheme, unit) action) \<Rightarrow> prisma \<Rightarrow> jwt_lib \<Rightarrow> time \<Rightarrow> string option
      \<Rightarrow> string \<Rightarrow> string \<Rightarrow> OrderStatus \<Rightarrow> (exn, 'z db_scheme, OrderResponseDto) action" where
  "OrderController_setStatus parse publish P J now token uuid rawId st =
     with_user J now token (\<lambda>user. with_id parse rawId (\<lambda>oid.
       bind_action (OrderService_updateOrderStatus publish P now uuid oid (cur_userId user) st) (\<lambda>r.
       ret (order_response r))))"

definition OrderController_markAsPaid ::
    "(string \<Rightarrow> int option) \<Rightarrow> (OrderEvent \<Rightarrow> (exn, 'z db_scheme, unit) action) \<Rightarrow> prisma \<Rightarrow> jwt_lib \<Rightarrow> time \<Rightarrow> string option
      \<Rightarrow> string \<Rightarrow> string \<Rightarrow> (exn, 'z db_scheme, OrderResponseDto) action" where
  "OrderController_markAsPaid parse publish P J now token uuid rawId =
     OrderController_setStatus parse publish P J now token uuid rawId PAID"

definition OrderController_cancel ::
    "(string \<Rightarrow> int option) \<Rightarrow> (OrderEvent \<Rightarrow> (exn, 'z db_scheme, unit) action) \<Rightarrow> prisma \<Rightarrow> jwt_lib \<Rightarrow> time \<Rightarrow> string option
      \<Rightarrow> string \<Rightarrow> string \<Rightarrow> (exn, 'z db_scheme, OrderResponseDto) action" where
  "OrderController_cancel parse publish P J now token uuid rawId =
     OrderController_setStatus parse publish P J now token uuid rawId CANCELLED"

subsection \<open>Notifications\<close>

definition NotificationService_generateNotificationMessage :: "OrderEvent \<Rightarrow> string" where
  "NotificationService_generateNotificationMessage event =
     (case ev_eventType event of
        ORDER_CREATED \<Rightarrow> ''Your order #'' @ show_int (ev_orderId event) @ '' has been created. Total amount: $'' @
          toFixed2 (ev_totalAmount event)
      | ORDER_PAID \<Rightarrow> ''Payment confirmed for order #'' @ show_int (ev_orderId event) @ ''. Thank you for your purchase!''
      | ORDER_CANCELLED \<Rightarrow> ''Your order #'' @ show_int (ev_orderId event) @ '' has been cancelled.'')"

definition NotificationService_createNotificationFromOrderEvent ::
    "prisma \<Rightarrow> time \<Rightarrow> OrderEvent \<Rightarrow> (exn, 'z db_scheme, unit) action" where
  "NotificationService_createNotificationFromOrderEvent P now event =
     bind_action (q_create (notif_d P) notifs put_notifs notif_check
         (\<lambda>i. \<lparr>notif_id = i, notif_userId = ev_userId event, notif_type = ev_eventType event,
               notif_message = NotificationService_generateNotificationMessage event, notif_createdAt = now\<rparr>)) (\<lambda>_.
     ret ())"

definition NotificationService_findAllByUser :: "prisma \<Rightarrow> int \<Rightarrow> (exn, 'z db_scheme, notification list) action" where
  "NotificationService_findAllByUser P userId =
     q_many (notif_d P) notifs (\<lambda>n. notif_userId n = userId) (order_desc notif_createdAt)"

definition NotificationController_findAll ::
    "prisma \<Rightarrow> jwt_lib \<Rightarrow> time \<Rightarrow> string option \<Rightarrow> (exn, 'z db_scheme, notification list) action" where
  "NotificationController_findAll P J now token =
     with_user J now token (\<lambda>user. NotificationService_findAllByUser P (cur_userId user))"

definition NotificationConsumer_onModuleInit :: "bool \<Rightarrow> ('s, 'j) kafka_client \<Rightarrow> (exn, 's, unit) action" where
  "NotificationConsumer_onModuleInit isEnabled K =
     (if \<not> isEnabled then ret ()
      else try_catch (bind_action (k_connect K) (\<lambda>_.
             bind_action (k_subscribe K ORDER_EVENTS True) (\<lambda>_. k_run K))) (\<lambda>_. ret ()))"

definition NotificationConsumer_onModuleDestroy :: "bool \<Rightarrow> ('s, 'j) kafka_client \<Rightarrow> (exn, 's, unit) action" where
  "NotificationConsumer_onModuleDestroy isEnabled K =
     (if isEnabled then try_catch (k_disconnect K) (\<lambda>_. ret ()) else ret ())"

definition NotificationConsumer_handleMessage ::
    "'j codec \<Rightarrow> (OrderEvent \<Rightarrow> (exn, 's, unit) action) \<Rightarrow> 'j kafka_message \<Rightarrow> (exn, 's, unit) action" where
  "NotificationConsumer_handleMessage C createNotification message =
     try_catch
       (case km_value message of
          None \<Rightarrow> throw (JsError ''Cannot read properties of null'')
        | Some v \<Rightarrow>
            (case parse_event C v of
               None \<Rightarrow> throw (JsError ''SyntaxError'')
             | Some event \<Rightarrow> createNotification event))
       (\<lambda>_. ret ())"

section \<open>Placing an order\<close>

definition active_product :: "'z db_scheme \<Rightarrow> int \<Rightarrow> bool" where
  "active_product s k = list_ex (\<lambda>p. product_id p = k \<and> product_status p = ACTIVE) (rows (products s))"

definition price_of :: "'z db_scheme \<Rightarrow> int \<Rightarrow> rat" where
  "price_of s k = (case List.find (\<lambda>p. product_id p = k) (rows (products s)) of None \<Rightarrow> 0 | Some p \<Rightarrow> product_price p)"

definition orderable :: "'z db_scheme \<Rightarrow> CreateOrderDto \<Rightarrow> bool" where
  "orderable s d = (distinct (map oi_productId (co_items d)) \<and> list_all (active_product s) (map oi_productId (co_items d)))"

definition order_total :: "'z db_scheme \<Rightarrow> CreateOrderItemDto list \<Rightarrow> rat" where
  "order_total s xs = foldl (\<lambda>acc i. js_add acc (js_mul (price_of s (oi_productId i)) (of_int (oi_quantity i)))) 0 xs"

lemma price_of_row:
  assumes "table_wf product_id (products s)" and "p \<in> set (rows (products s))"
  shows "price_of s (product_id p) = product_price p"
proof (cases "List.find (\<lambda>q. product_id q = product_id p) (rows (products s))")
  case None
  then show ?thesis using assms(2) by (auto simp: find_None_iff)
next
  case (Some q)
  then have "q \<in> set (rows (products s))" "product_id q = product_id p" by (auto simp: find_Some_iff)
  then have "q = p" by (rule table_wf_unique [OF assms(1) _ assms(2)])
  with Some show ?thesis by (simp add: price_of_def)
qed

lemma price_items_ok:
  assumes "\<And>i. i \<in> set is \<Longrightarrow> m (oi_productId i) = Some (f (oi_productId i))"
  shows "price_items m is acc = Inr (map (\<lambda>i. (i, f (oi_productId i))) is,
    foldl (\<lambda>acc i. js_add acc (js_mul (f (oi_productId i)) (of_int (oi_quantity i)))) acc is)"
  using assms by (induction "is" arbitrary: acc) auto

context prisma_client begin

lemma found_products:
  fixes s :: "'z db_scheme"
  assumes "db_inv s"
  defines "found \<equiv> \<lambda>ids. findMany (product_d P) (\<lambda>p. product_id p \<in> set ids \<and> product_status p = ACTIVE) no_order (products s)"
  shows "length (found ids) = length ids \<longleftrightarrow> distinct ids \<and> list_all (active_product s) ids"
    and "list_all (active_product s) ids \<Longrightarrow> k \<in> set ids \<Longrightarrow>
      map_of (rev (map (\<lambda>p. (product_id p, product_price p)) (found ids))) k = Some (price_of s k)"
proof -
  note wf = wf_tables(9) [OF assms(1)]
  have dist: "distinct (map product_id (found ids))" for ids
    unfolding found_def by (rule product.findMany_distinct [OF wf])
  have keys: "set (map product_id (found ids)) = {k \<in> set ids. active_product s k}" for ids
    by (auto simp: found_def product.findMany_set active_product_def list_ex_iff)
  have len: "length (found ids) = card {k \<in> set ids. active_product s k}" for ids
    using distinct_card [OF dist [of ids]] keys [of ids] by simp
  show "length (found ids) = length ids \<longleftrightarrow> distinct ids \<and> list_all (active_product s) ids"
  proof
    assume eq: "length (found ids) = length ids"
    have "card {k \<in> set ids. active_product s k} \<le> card (set ids)" by (intro card_mono) auto
    with eq len [of ids] card_length [of ids] have c: "card (set ids) = length ids"
      "card {k \<in> set ids. active_product s k} = card (set ids)" by linarith+
    then have "{k \<in> set ids. active_product s k} = set ids" by (intro card_subset_eq) auto
    with c show "distinct ids \<and> list_all (active_product s) ids" by (auto simp: card_distinct list_all_iff)
  next
    assume d: "distinct ids \<and> list_all (active_product s) ids"
    then have "{k \<in> set ids. active_product s k} = set ids" by (auto simp: list_all_iff)
    with d len [of ids] show "length (found ids) = length ids" by (simp add: distinct_card)
  qed
  assume "list_all (active_product s) ids" "k \<in> set ids"
  then have "k \<in> set (map product_id (found ids))" using keys [of ids] by (auto simp: list_all_iff)
  then obtain p where p: "p \<in> set (found ids)" "product_id p = k" by auto
  then have "p \<in> set (rows (products s))" by (simp add: found_def product.findMany_set)
  then have "product_price p = price_of s k" using price_of_row [OF wf] p(2) by auto
  moreover have "distinct (map fst (rev (map (\<lambda>p. (product_id p, product_price p)) (found ids))))"
    using dist [of ids] by (simp add: rev_map o_def flip: rev_map)
  ultimately show "map_of (rev (map (\<lambda>p. (product_id p, product_price p)) (found ids))) k = Some (price_of s k)"
    using p by (auto simp: map_of_eq_Some_iff)
qed

text \<open>The nested creation of the items of an order.\<close>

lemma create_items:
  assumes "has_row order_id (orders s) oid"
    and "\<forall>(d, price) \<in> set priced. has_row product_id (products s) (oi_productId d)"
  shows "\<exists>xs n. map_action (\<lambda>(d, price). q_create (oitem_d P) oitems put_oitems oitem_check
         (\<lambda>i. \<lparr>oitem_id = i, oitem_orderId = oid, oitem_productId = oi_productId d,
               oitem_quantity = oi_quantity d, oitem_price = price\<rparr>)) priced s =
       (Inr xs, s\<lparr>oitems := \<lparr>rows = rows (oitems s) @ xs, seq = n\<rparr>\<rparr>) \<and>
    map (\<lambda>x. (oitem_orderId x, oitem_productId x, oitem_quantity x, oitem_price x)) xs =
    map (\<lambda>(d, price). (oid, oi_productId d, oi_quantity d, price)) priced"
  using assms
proof (induction priced arbitrary: s)
  case Nil
  show ?case by (intro exI [of _ "[]"] exI [of _ "seq (oitems s)"]) simp
next
  case (Cons a priced)
  obtain d price where a: "a = (d, price)" by (cases a)
  let ?mk = "\<lambda>i. \<lparr>oitem_id = i, oitem_orderId = oid, oitem_productId = oi_productId d,
               oitem_quantity = oi_quantity d, oitem_price = price\<rparr>"
  obtain i where i: "q_create (oitem_d P) oitems put_oitems oitem_check ?mk s =
      (case oitem_check s (?mk i) of Some e \<Rightarrow> (Inl (PrismaError e), s)
       | None \<Rightarrow> (Inr (?mk i), put_oitems \<lparr>rows = rows (oitems s) @ [?mk i], seq = i\<rparr> s))"
    by (rule oitem.create_cases)
  have ok: "oitem_check s (?mk i) = None" using Cons.prems a by (auto simp: oitem_check_def)
  let ?s = "s\<lparr>oitems := \<lparr>rows = rows (oitems s) @ [?mk i], seq = i\<rparr>\<rparr>"
  obtain xs n where xs:
    "map_action (\<lambda>(d, price). q_create (oitem_d P) oitems put_oitems oitem_check
         (\<lambda>i. \<lparr>oitem_id = i, oitem_orderId = oid, oitem_productId = oi_productId d,
               oitem_quantity = oi_quantity d, oitem_price = price\<rparr>)) priced ?s =
       (Inr xs, ?s\<lparr>oitems := \<lparr>rows = rows (oitems ?s) @ xs, seq = n\<rparr>\<rparr>)"
    "map (\<lambda>x. (oitem_orderId x, oitem_productId x, oitem_quantity x, oitem_price x)) xs =
     map (\<lambda>(d, price). (oid, oi_productId d, oi_quantity d, price)) priced"
    using Cons.IH [of ?s] Cons.prems by auto
  have c: "q_create (oitem_d P) oitems put_oitems oitem_check ?mk s = (Inr (?mk i), ?s)"
    unfolding i by (simp add: ok put_oitems_def)
  show ?case
    by (intro exI [of _ "?mk i # xs"] exI [of _ n]) (use c xs a in \<open>simp add: bind_apply_Inr\<close>)
qed

lemma createOrder_body_eq:
  assumes "has_row user_id (users s) userId"
    and "\<forall>(d, price) \<in> set priced. has_row product_id (products s) (oi_productId d)"
  shows "\<exists>r xs n. createOrder_body P now userId amount priced s =
      (Inr (r, xs), s\<lparr>orders := \<lparr>rows = rows (orders s) @ [r], seq = order_id r\<rparr>,
                       oitems := \<lparr>rows = rows (oitems s) @ xs, seq = n\<rparr>\<rparr>) \<and>
    seq (orders s) < order_id r \<and> order_userId r = userId \<and> order_totalAmount r = amount \<and> order_status r = PENDING \<and>
    map (\<lambda>x. (oitem_orderId x, oitem_productId x, oitem_quantity x, oitem_price x)) xs =
    map (\<lambda>(d, price). (order_id r, oi_productId d, oi_quantity d, price)) priced"
proof -
  let ?mk = "\<lambda>i. \<lparr>order_id = i, order_userId = userId, order_totalAmount = amount, order_status = PENDING,
               order_createdAt = now\<rparr>"
  obtain i where i: "seq (orders s) < i" "q_create (order_d P) orders put_orders order_check ?mk s =
      (case order_check s (?mk i) of Some e \<Rightarrow> (Inl (PrismaError e), s)
       | None \<Rightarrow> (Inr (?mk i), put_orders \<lparr>rows = rows (orders s) @ [?mk i], seq = i\<rparr> s))"
    by (rule order.create_cases)
  have ok: "order_check s (?mk i) = None" using assms(1) by (simp add: order_check_def)
  let ?s = "s\<lparr>orders := \<lparr>rows = rows (orders s) @ [?mk i], seq = i\<rparr>\<rparr>"
  obtain xs n where xs: "map_action (\<lambda>(d, price). q_create (oitem_d P) oitems put_oitems oitem_check
         (\<lambda>k. \<lparr>oitem_id = k, oitem_orderId = i, oitem_productId = oi_productId d,
               oitem_quantity = oi_quantity d, oitem_price = price\<rparr>)) priced ?s =
       (Inr xs, ?s\<lparr>oitems := \<lparr>rows = rows (oitems ?s) @ xs, seq = n\<rparr>\<rparr>)"
    "map (\<lambda>x. (oitem_orderId x, oitem_productId x, oitem_quantity x, oitem_price x)) xs =
     map (\<lambda>(d, price). (i, oi_productId d, oi_quantity d, price)) priced"
    using create_items [of ?s i priced] assms(2) by auto
  have c: "q_create (order_d P) orders put_orders order_check ?mk s = (Inr (?mk i), ?s)"
    unfolding i(2) by (simp add: ok put_orders_def)
  show ?thesis
    by (intro exI [of _ "?mk i"] exI [of _ xs] exI [of _ n])
      (use i(1) c xs in \<open>simp add: createOrder_body_def bind_apply_Inr\<close>)
qed

lemma createOrder_result:
  fixes s :: "'z db_scheme"
  assumes "atomic tx" and "db_inv s" and "has_row user_id (users s) userId" and "orderable s d"
  shows "\<exists>r xs n. OrderService_createOrder tx publish P now uuid userId d s =
      (Inr (r, xs), snd (publish (order_event uuid now ORDER_CREATED r)
        (s\<lparr>orders := \<lparr>rows = rows (orders s) @ [r], seq = order_id r\<rparr>,
           oitems := \<lparr>rows = rows (oitems s) @ xs, seq = n\<rparr>\<rparr>))) \<and>
    seq (orders s) < order_id r \<and> order_userId r = userId \<and> order_status r = PENDING \<and>
    order_totalAmount r = order_total s (co_items d) \<and>
    map (\<lambda>x. (oitem_orderId x, oitem_productId x, oitem_quantity x, oitem_price x)) xs =
    map (\<lambda>i. (order_id r, oi_productId i, oi_quantity i, price_of s (oi_productId i))) (co_items d)"
proof -
  let ?ids = "map oi_productId (co_items d)"
  let ?found = "findMany (product_d P) (\<lambda>p. product_id p \<in> set ?ids \<and> product_status p = ACTIVE) no_order (products s)"
  let ?priced = "map (\<lambda>i. (i, price_of s (oi_productId i))) (co_items d)"
  have act: "list_all (active_product s) ?ids" and dist: "distinct ?ids" using assms(4) by (simp_all add: orderable_def)
  have len: "length ?found = length ?ids" using found_products(1) [OF assms(2), of ?ids] act dist by simp
  have prices: "price_items (map_of (rev (map (\<lambda>p. (product_id p, product_price p)) ?found))) (co_items d) 0 =
      Inr (?priced, order_total s (co_items d))"
    unfolding order_total_def
    by (rule price_items_ok, rule found_products(2) [OF assms(2) act]) simp
  have "\<forall>(i, price) \<in> set ?priced. has_row product_id (products s) (oi_productId i)"
    using act by (auto simp: list_all_iff active_product_def list_ex_iff has_row_iff)
  from createOrder_body_eq [OF assms(3) this, of now "order_total s (co_items d)"]
  obtain r xs n where b: "createOrder_body P now userId (order_total s (co_items d)) ?priced s =
      (Inr (r, xs), s\<lparr>orders := \<lparr>rows = rows (orders s) @ [r], seq = order_id r\<rparr>,
                       oitems := \<lparr>rows = rows (oitems s) @ xs, seq = n\<rparr>\<rparr>)"
    "seq (orders s) < order_id r" "order_userId r = userId" "order_totalAmount r = order_total s (co_items d)"
    "order_status r = PENDING"
    "map (\<lambda>x. (oitem_orderId x, oitem_productId x, oitem_quantity x, oitem_price x)) xs =
     map (\<lambda>(d, price). (order_id r, oi_productId d, oi_quantity d, price)) ?priced" by blast
  have "tx (createOrder_body P now userId (order_total s (co_items d)) ?priced) s =
      createOrder_body P now userId (order_total s (co_items d)) ?priced s"
    using assms(1) b(1) by (simp add: atomic_def)
  then show ?thesis
    using b len prices
    by (intro exI [of _ r] exI [of _ xs] exI [of _ n])
      (simp add: OrderService_createOrder_def Let_def bind_apply_Inr bind_fst_Inr o_def)
qed

lemma createOrder_refused:
  assumes "db_inv s" and "\<not> orderable s d"
  shows "OrderService_createOrder tx publish P now uuid userId d s =
    (Inl (NestException NestNotFound ''One or more products not found or inactive''), s)"
  using found_products(1) [OF assms(1), of "map oi_productId (co_items d)"] assms(2)
  by (auto simp: OrderService_createOrder_def Let_def orderable_def)

end

section \<open>Event sinks\<close>

text \<open>What the order service relies on of its producer: publishing may fail, but it does not
  touch the tables.\<close>

locale event_sink =
  fixes publish :: "OrderEvent \<Rightarrow> (exn, 'z db_scheme, unit) action"
  assumes publish_tables: "db.truncate (snd (publish e s)) = db.truncate s"

locale event_codec =
  fixes C :: "'j codec"
  assumes parse_stringify: "parse_event C (stringify C e) = Some e"

record topic_db = db +
  topic :: "OrderEvent kafka_message list"

definition plain_codec :: "OrderEvent codec" where
  "plain_codec = \<lparr>stringify = (\<lambda>e. e), parse_event = Some\<rparr>"

definition mem_kafka :: "(topic_db, OrderEvent) kafka_client" where
  "mem_kafka = \<lparr>k_connect = ret (), k_disconnect = ret (),
     k_send = (\<lambda>tp m s. (Inr (), s\<lparr>topic := topic s @ [m]\<rparr>)),
     k_subscribe = (\<lambda>tp b. ret ()), k_run = ret ()\<rparr>"

lemma plain_stringify: "stringify plain_codec e = e"
  by (simp add: plain_codec_def)

interpretation plain_codec: event_codec plain_codec
  by unfold_locales (simp add: plain_codec_def)

interpretation mem_sink: event_sink "KafkaProducerService_publishOrderEvent enabled plain_codec mem_kafka"
  for enabled
  by unfold_locales (simp add: KafkaProducerService_publishOrderEvent_def mem_kafka_def db.defs)

context prisma_client begin

lemma keep_createOrder_body: "preserves db_inv (createOrder_body P now userId amount priced)"
  unfolding createOrder_body_def
  by (intro preserves_bind preserves_map_action preserves_prod keep_order_create keep_oitem_create preserves_ret) simp_all

lemma read_only_include_items [simp]: "read_only (include_items P r)"
  unfolding include_items_def by (intro read_only_bind) simp_all

lemma findOne_foreign:
  assumes "db_inv s" and "\<not> (\<exists>r \<in> set (rows (orders s)). order_id r = oid \<and> order_userId r = userId)"
  shows "OrderService_findOne P oid userId s = (Inl (order_not_found oid), s)"
proof -
  have "findFirst (order_d P) (\<lambda>r. order_id r = oid \<and> order_userId r = userId) (orders s) = None"
    using assms(2) by (auto simp: order.findFirst_none)
  then show ?thesis by (simp add: OrderService_findOne_def)
qed

lemma findOne_own:
  assumes "db_inv s" and "r \<in> set (rows (orders s))"
  shows "fst (OrderService_findOne P (order_id r) (order_userId r) s) \<in> range Inr"
proof (cases "findFirst (order_d P) (\<lambda>x. order_id x = order_id r \<and> order_userId x = order_userId r) (orders s)")
  case None
  then show ?thesis using assms(2) by (auto simp: order.findFirst_none)
next
  case (Some x)
  then show ?thesis by (simp add: OrderService_findOne_def include_items_def)
qed

lemma read_only_order_findOne [simp]: "read_only (OrderService_findOne P oid userId)"
  unfolding OrderService_findOne_def by (intro read_only_bind read_only_option) simp_all

lemma setStatus_eq:
  assumes "db_inv s" and "r \<in> set (rows (orders s))"
  shows "OrderService_updateOrderStatus publish P now uuid (order_id r) (order_userId r) st s =
    (Inr (r\<lparr>order_status := st\<rparr>, findMany (oitem_d P) (\<lambda>x. oitem_orderId x = order_id r) no_order (oitems s)),
     snd (publish (order_event uuid now (if st = PAID then ORDER_PAID else ORDER_CANCELLED) (r\<lparr>order_status := st\<rparr>))
       (s\<lparr>orders := (orders s)\<lparr>rows :=
          map (\<lambda>x. if order_id x = order_id r then x\<lparr>order_status := st\<rparr> else x) (rows (orders s))\<rparr>\<rparr>)))"
proof -
  have "order_check s r = None" using assms by (simp add: inv_defs passes_iff)
  then have ok: "order_check s (r\<lparr>order_status := st\<rparr>) = None" by (simp add: order_check_def)
  obtain x where "fst (OrderService_findOne P (order_id r) (order_userId r) s) = Inr x"
    using findOne_own [OF assms] by blast
  moreover have "q_update (order_d P) orders put_orders order_check (order_id r) (\<lambda>r. r\<lparr>order_status := st\<rparr>) s =
      (Inr (r\<lparr>order_status := st\<rparr>), s\<lparr>orders := (orders s)\<lparr>rows :=
          map (\<lambda>x. if order_id x = order_id r then x\<lparr>order_status := st\<rparr> else x) (rows (orders s))\<rparr>\<rparr>)"
    using order.update_eq [of orders s r put_orders order_check "\<lambda>r. r\<lparr>order_status := st\<rparr>", OF wf_tables(10) [OF assms(1)] assms(2)]
    by (simp add: ok put_orders_def)
  ultimately show ?thesis
    by (simp add: OrderService_updateOrderStatus_def bind_read_only bind_apply_Inr include_items_def bind_fst_Inr)
qed

end

section \<open>Properties\<close>


definition shop_db :: topic_db where
  "shop_db = db.extend (empty_db\<lparr>users := \<lparr>rows = [alice_row], seq = 1\<rparr>,
     products := \<lparr>rows = [lamp_row], seq = 1\<rparr>\<rparr>) \<lparr>topic = []\<rparr>"

lemma shop_db_inv: "db_inv shop_db" "has_row user_id (users shop_db) 1"
  by code_simp+


text \<open>With whole-number prices and a sum of at most \<open>2^53\<close>, the floating-point total of an
  order is the exact sum of price times quantity.\<close>

theorem order_total_exact:
  assumes "\<forall>i \<in> set xs. price_of s (oi_productId i) = of_int (c (oi_productId i)) \<and> 0 \<le> c (oi_productId i) \<and> 0 \<le> oi_quantity i"
    and "sum_list (map (\<lambda>i. c (oi_productId i) * oi_quantity i) xs) \<le> 2 ^ 53"
  shows "order_total s xs = of_int (sum_list (map (\<lambda>i. c (oi_productId i) * oi_quantity i) xs))"
proof -
  have "foldl (\<lambda>acc i. js_add acc (js_mul (price_of s (oi_productId i)) (of_int (oi_quantity i)))) (of_int a) ys =
      of_int (a + sum_list (map (\<lambda>i. c (oi_productId i) * oi_quantity i) ys))"
    if "set ys \<subseteq> set xs" "0 \<le> a" "a + sum_list (map (\<lambda>i. c (oi_productId i) * oi_quantity i) ys) \<le> 2 ^ 53" for a ys
    using that
  proof (induction ys arbitrary: a)
    case Nil
    then show ?case by simp
  next
    case (Cons y ys)
    let ?t = "c (oi_productId y) * oi_quantity y"
    let ?r = "sum_list (map (\<lambda>i. c (oi_productId i) * oi_quantity i) ys)"
    have y: "price_of s (oi_productId y) = of_int (c (oi_productId y))" "0 \<le> ?t"
      using assms(1) Cons.prems(1) by auto
    have "0 \<le> ?r" using assms(1) Cons.prems(1) by (intro sum_list_nonneg) auto
    then have le: "\<bar>?t\<bar> \<le> 2 ^ 53" "\<bar>a + ?t\<bar> \<le> 2 ^ 53" "a + ?t + ?r \<le> 2 ^ 53" "0 \<le> a + ?t"
      using y(2) Cons.prems(2,3) by (simp_all add: add.assoc)
    have m: "js_mul (price_of s (oi_productId y)) (of_int (oi_quantity y)) = of_int ?t"
      unfolding y(1) by (rule js_mul_int [OF le(1)])
    have "foldl (\<lambda>acc i. js_add acc (js_mul (price_of s (oi_productId i)) (of_int (oi_quantity i)))) (of_int a) (y # ys) =
        foldl (\<lambda>acc i. js_add acc (js_mul (price_of s (oi_productId i)) (of_int (oi_quantity i)))) (of_int (a + ?t)) ys"
      by (simp only: foldl.simps m js_add_int [OF le(2)])
    also have "\<dots> = of_int (a + ?t + ?r)"
      using Cons.prems(1) le(3,4) by (intro Cons.IH) simp_all
    finally show ?case by (simp only: list.map sum_list.Cons add.assoc)
  qed
  from this [of xs 0] show ?thesis using assms(2) by (simp add: order_total_def)
qed

theorem order_total_exact_witness:
  "order_total shop_db [\<lparr>oi_productId = 1, oi_quantity = 3\<rparr>] = 60"
proof -
  have "price_of shop_db 1 = 20" by code_simp
  then show ?thesis
    using order_total_exact [of "[\<lparr>oi_productId = 1, oi_quantity = 3\<rparr>]" shop_db "\<lambda>_. 20"] by simp
qed

text \<open>A user can change the status of an own order and of no other order: a foreign or unknown
  order is a 404 that changes nothing.  The current status is not consulted: also a
  cancelled order becomes PAID and its owner is told so.\<close>

theorem updateOrderStatus_spec:
  assumes "prisma_client P" and "db_inv s" and "event_sink publish"
  shows "if \<exists>r \<in> set (rows (orders s)). order_id r = oid \<and> order_userId r = userId
    then \<exists>r xs s'. OrderService_updateOrderStatus publish P now uuid oid userId st s = (Inr (r, xs), s') \<and>
      order_id r = oid \<and> order_userId r = userId \<and> order_status r = st \<and>
      orders s' = (orders s)\<lparr>rows := map (\<lambda>x. if order_id x = oid then x\<lparr>order_status := st\<rparr> else x) (rows (orders s))\<rparr> \<and>
      oitems s' = oitems s
    else OrderService_updateOrderStatus publish P now uuid oid userId st s = (Inl (order_not_found oid), s)"
proof (cases "\<exists>r \<in> set (rows (orders s)). order_id r = oid \<and> order_userId r = userId")
  case True
  then obtain r where r: "r \<in> set (rows (orders s))" "order_id r = oid" "order_userId r = userId" by blast
  note eq = prisma_client.setStatus_eq [OF assms(1,2) r(1), of publish now uuid st, unfolded r(2,3)]
  show ?thesis
    unfolding if_P [OF True] eq
    using r truncate_tables [OF event_sink.publish_tables [OF assms(3)]] by simp
next
  case False
  then show ?thesis
    using prisma_client.findOne_foreign [OF assms(1,2) False]
    by (auto simp: OrderService_updateOrderStatus_def bind_apply_Inl)
qed

definition order_row :: "OrderStatus \<Rightarrow> order" where
  "order_row st = \<lparr>order_id = 1, order_userId = 1, order_totalAmount = 40, order_status = st, order_createdAt = 9\<rparr>"

definition sold_db :: "OrderStatus \<Rightarrow> topic_db" where
  "sold_db st = shop_db\<lparr>orders := \<lparr>rows = [order_row st], seq = 1\<rparr>,
     oitems := \<lparr>rows = [\<lparr>oitem_id = 1, oitem_orderId = 1, oitem_productId = 1, oitem_quantity = 2, oitem_price = 20\<rparr>], seq = 1\<rparr>\<rparr>"

lemma sold_db_inv: "db_inv (sold_db st)"
  by (cases st; code_simp)

theorem updateOrderStatus_spec_witness:
  "\<exists>r xs s'. OrderService_updateOrderStatus (KafkaProducerService_publishOrderEvent True plain_codec mem_kafka) mem_prisma
      50 ''u'' 1 1 PAID (sold_db CANCELLED) = (Inr (r, xs), s') \<and> order_status r = PAID"
proof -
  have "\<exists>r \<in> set (rows (orders (sold_db CANCELLED))). order_id r = 1 \<and> order_userId r = 1"
    by (simp add: sold_db_def order_row_def)
  with updateOrderStatus_spec [OF mem.prisma_client_axioms sold_db_inv mem_sink.event_sink_axioms, of CANCELLED 1 1 True 50 "''u''" PAID]
  show ?thesis by auto
qed

text \<open>Removing a product deletes the order items that refer to it and leaves the orders as
  they are: the total of a past order stays, its items are gone.\<close>

theorem remove_product_drops_items:
  assumes "prisma_client P" and "db_inv s" and "has_row product_id (products s) k"
  shows "\<exists>s'. ProductService_remove False E P k s = (Inr (), s') \<and> orders s' = orders s \<and>
    rows (oitems s') = filter (\<lambda>x. oitem_productId x \<noteq> k) (rows (oitems s)) \<and>
    \<not> has_row product_id (products s') k"
proof -
  from assms(3) obtain r where r: "r \<in> set (rows (products s))" "product_id r = k" by (auto simp: has_row_iff)
  note tab = prisma_client.product_table [OF assms(1)]
  have "ProductService_findOne P k s = (Inr r, s)"
    using prisma_table.find_key_some [OF tab wf_tables(9) [OF assms(2)] r(1)] r(2) by (simp add: ProductService_findOne_def)
  moreover have "q_delete (product_d P) products put_products cascade_product k s =
      (Inr r, cascade_product k (put_products ((products s)\<lparr>rows := filter (\<lambda>x. product_id x \<noteq> k) (rows (products s))\<rparr>) s))"
    using prisma_table.delete_eq [OF tab, of products s r put_products cascade_product, OF wf_tables(9) [OF assms(2)] r(1)] r(2) by simp
  ultimately show ?thesis
    by (simp add: ProductService_remove_def bind_apply_Inr ElasticsearchService_deleteProduct_def
        cascade_product_def put_products_def)
qed

definition no_es :: "topic_db es_client" where
  "no_es = \<lparr>es_exists = throw Thrown, es_create = throw Thrown, es_drop = throw Thrown,
     es_index = (\<lambda>_ _. throw Thrown), es_update = (\<lambda>_ _. throw Thrown), es_delete = (\<lambda>_. throw Thrown),
     es_bulk = (\<lambda>_. throw Thrown), es_search = (\<lambda>_. throw Thrown)\<rparr>"

theorem remove_product_drops_items_witness:
  "\<exists>s'. ProductService_remove False no_es mem_prisma 1 (sold_db PAID) = (Inr (), s') \<and>
     map order_totalAmount (rows (orders s')) = [40] \<and> rows (oitems s') = []"
proof -
  have "has_row product_id (products (sold_db PAID)) 1" by code_simp
  from remove_product_drops_items [OF mem.prisma_client_axioms sold_db_inv this, of no_es]
  show ?thesis by (auto simp: sold_db_def order_row_def)
qed

text \<open>The consumer never fails.  A delivered event of an existing user adds exactly one
  notification of that user, with the event's type and a text that names the order; a
  message without a value, that cannot be parsed or of an unknown user adds none.\<close>

theorem consumer_notifies:
  assumes "prisma_client P" and "event_codec C"
  shows "(has_row user_id (users s) (ev_userId e) \<longrightarrow>
      (\<exists>i n. NotificationConsumer_handleMessage C (NotificationService_createNotificationFromOrderEvent P now)
           \<lparr>km_key = key, km_value = Some (stringify C e), km_eventType = ty\<rparr> s =
         (Inr (), s\<lparr>notifs := \<lparr>rows = rows (notifs s) @ [n], seq = i\<rparr>\<rparr>) \<and>
         notif_userId n = ev_userId e \<and> notif_type n = ev_eventType e \<and>
         notif_message n = NotificationService_generateNotificationMessage e)) \<and>
    (\<not> has_row user_id (users s) (ev_userId e) \<longrightarrow>
      NotificationConsumer_handleMessage C (NotificationService_createNotificationFromOrderEvent P now)
         \<lparr>km_key = key, km_value = Some (stringify C e), km_eventType = ty\<rparr> s = (Inr (), s)) \<and>
    (pred_option (\<lambda>v. parse_event C v = None) bad \<longrightarrow>
      NotificationConsumer_handleMessage C (NotificationService_createNotificationFromOrderEvent P now)
         \<lparr>km_key = key, km_value = bad, km_eventType = ty\<rparr> s = (Inr (), s))"
proof -
  let ?mk = "\<lambda>i. \<lparr>notif_id = i, notif_userId = ev_userId e, notif_type = ev_eventType e,
               notif_message = NotificationService_generateNotificationMessage e, notif_createdAt = now\<rparr>"
  obtain i where i: "q_create (notif_d P) notifs put_notifs notif_check ?mk s =
      (case notif_check s (?mk i) of Some er \<Rightarrow> (Inl (PrismaError er), s)
       | None \<Rightarrow> (Inr (?mk i), put_notifs \<lparr>rows = rows (notifs s) @ [?mk i], seq = i\<rparr> s))"
    by (rule prisma_table.create_cases [OF prisma_client.notif_table [OF assms(1)]])
  have run: "NotificationConsumer_handleMessage C (NotificationService_createNotificationFromOrderEvent P now)
         \<lparr>km_key = key, km_value = Some (stringify C e), km_eventType = ty\<rparr> s =
      (if has_row user_id (users s) (ev_userId e)
       then (Inr (), put_notifs \<lparr>rows = rows (notifs s) @ [?mk i], seq = i\<rparr> s) else (Inr (), s))"
    using i by (simp add: NotificationConsumer_handleMessage_def event_codec.parse_stringify [OF assms(2)]
        NotificationService_createNotificationFromOrderEvent_def try_catch_def bind_action_def notif_check_def)
  have bad: "NotificationConsumer_handleMessage C (NotificationService_createNotificationFromOrderEvent P now)
         \<lparr>km_key = key, km_value = bad, km_eventType = ty\<rparr> s = (Inr (), s)"
    if "pred_option (\<lambda>v. parse_event C v = None) bad"
    using that by (cases bad) (simp_all add: NotificationConsumer_handleMessage_def try_catch_def)
  show ?thesis
    unfolding run
    by (intro conjI impI bad, rule exI [of _ i], rule exI [of _ "?mk i"]) (simp_all add: put_notifs_def)
qed

theorem consumer_notifies_witness:
  "\<exists>i n. NotificationConsumer_handleMessage plain_codec (NotificationService_createNotificationFromOrderEvent mem_prisma 60)
      \<lparr>km_key = ''1'', km_value = Some (order_event ''u'' 50 ORDER_CREATED (order_row PENDING)), km_eventType = None\<rparr> (sold_db PENDING) =
    (Inr (), sold_db PENDING\<lparr>notifs := \<lparr>rows = rows (notifs (sold_db PENDING)) @ [n], seq = i\<rparr>\<rparr>) \<and>
    notif_message n = ''Your order #1 has been created. Total amount: $40.00''"
proof -
  let ?e = "order_event ''u'' 50 ORDER_CREATED (order_row PENDING)"
  have "has_row user_id (users (sold_db PENDING)) (ev_userId ?e)"
    by (simp add: order_event_def order_row_def sold_db_def shop_db_def has_row_def db.defs alice_row_def)
  moreover have "NotificationService_generateNotificationMessage ?e = ''Your order #1 has been created. Total amount: $40.00''"
  proof -
    have "\<lfloor>40 * 100 + 1 / 2 :: rat\<rfloor> = 4000" by (simp add: floor_eq_iff)
    moreover have "show_nat 40 = ''40''" "padStart 2 CHR ''0'' (show_nat 0) = ''00''" "show_int 1 = ''1''" by code_simp+
    ultimately show ?thesis
      by (simp add: NotificationService_generateNotificationMessage_def order_event_def order_row_def toFixed2_def Let_def)
  qed
  ultimately show ?thesis
    using consumer_notifies [OF mem.prisma_client_axioms plain_codec.event_codec_axioms, of "sold_db PENDING" ?e 60 "''1''" None None]
    by (auto simp: plain_stringify)
qed

end
