(* ===== verification/External.thy ===== *)
theory External
  imports Issues
begin

text \<open>
  The proxy to an external API in the Nest backend, \<open>external/*.ts\<close>, and the health endpoint
  \<open>common/health/health.controller.ts\<close>.

  The request goes through the operators \<open>timeout\<close> and \<open>retry\<close> of \<open>rxjs\<close>, which are outside
  the repository: \<open>rx_run\<close> stands for the subscription to that pipeline, given the time limit,
  the retry count, the delay function and the source, and returns the outcome with the
  delays that were waited.  \<open>rx_pipeline\<close> states its documented behaviour.
\<close>

section \<open>Definitions\<close>

record ExternalDataResponse =
  ex_id :: int
  ex_title :: string
  ex_body :: string
  ex_userId :: int

text \<open>One attempt of the source: an answer or an error after some milliseconds.\<close>

datatype 'd attempt = Answer nat 'd | Failure nat exn

type_synonym 'd rx_run = "nat \<Rightarrow> nat \<Rightarrow> (nat \<Rightarrow> nat) \<Rightarrow> (nat \<Rightarrow> 'd attempt) \<Rightarrow> (exn + 'd) \<times> nat list"

definition TIMEOUT_MS :: nat where
  "TIMEOUT_MS = 5000"

definition MAX_RETRIES :: nat where
  "MAX_RETRIES = 3"

definition EXTERNAL_API_URL :: string where
  "EXTERNAL_API_URL = ''https://jsonplaceholder.typicode.com''"

definition backoff :: "nat \<Rightarrow> nat" where
  "backoff retryCount = 2 ^ (retryCount - 1) * 1000"

definition posts_key :: string where
  "posts_key = ''external:posts:v1''"

definition post_key :: "int \<Rightarrow> string" where
  "post_key i = ''external:post:v1:'' @ show_int i"

definition fallback_data :: "ExternalDataResponse list" where
  "fallback_data = [\<lparr>ex_id = - 1, ex_title = ''Fallback Data'',
     ex_body = ''The external API is currently unavailable. This is a fallback response.'', ex_userId = 0\<rparr>]"

definition ExternalService_fetchExampleData ::
    "('s, ExternalDataResponse list) cache_lib \<Rightarrow> ExternalDataResponse list rx_run
      \<Rightarrow> (string \<Rightarrow> nat \<Rightarrow> ExternalDataResponse list attempt) \<Rightarrow> time \<Rightarrow> (exn, 's, ExternalDataResponse list) action" where
  "ExternalService_fetchExampleData C rx http now =
     bind_action (reads (cache_get C now posts_key)) (\<lambda>cached.
     case cached of
       Some xs \<Rightarrow> ret xs
     | None \<Rightarrow>
         (let url = EXTERNAL_API_URL @ ''/posts''
          in case fst (rx TIMEOUT_MS MAX_RETRIES backoff (http url)) of
               Inl e \<Rightarrow> ret fallback_data
             | Inr xs \<Rightarrow> (let items = take 10 xs in (\<lambda>s. (Inr items, cache_set C now posts_key items 300 s)))))"

definition ExternalService_fetchPostById ::
    "('s, ExternalDataResponse) cache_lib \<Rightarrow> ExternalDataResponse rx_run
      \<Rightarrow> (string \<Rightarrow> nat \<Rightarrow> ExternalDataResponse attempt) \<Rightarrow> time \<Rightarrow> int \<Rightarrow> (exn, 's, ExternalDataResponse option) action" where
  "ExternalService_fetchPostById C rx http now pid =
     bind_action (reads (cache_get C now (post_key pid))) (\<lambda>cached.
     case cached of
       Some x \<Rightarrow> ret (Some x)
     | None \<Rightarrow>
         (let url = EXTERNAL_API_URL @ ''/posts/'' @ show_int pid
          in case fst (rx TIMEOUT_MS MAX_RETRIES backoff (http url)) of
               Inl e \<Rightarrow> ret None
             | Inr x \<Rightarrow> (\<lambda>s. (Inr (Some x), cache_set C now (post_key pid) x 300 s))))"

definition ExternalController_getExampleData ::
    "('s, ExternalDataResponse list) cache_lib \<Rightarrow> ExternalDataResponse list rx_run
      \<Rightarrow> (string \<Rightarrow> nat \<Rightarrow> ExternalDataResponse list attempt) \<Rightarrow> jwt_lib \<Rightarrow> time \<Rightarrow> string option
      \<Rightarrow> (exn, 's, ExternalDataResponse list) action" where
  "ExternalController_getExampleData C rx http J now token =
     with_user J now token (\<lambda>_. ExternalService_fetchExampleData C rx http now)"

definition ExternalController_getPostById ::
    "(string \<Rightarrow> int option) \<Rightarrow> ('s, ExternalDataResponse) cache_lib \<Rightarrow> ExternalDataResponse rx_run
      \<Rightarrow> (string \<Rightarrow> nat \<Rightarrow> ExternalDataResponse attempt) \<Rightarrow> jwt_lib \<Rightarrow> time \<Rightarrow> string option \<Rightarrow> string
      \<Rightarrow> (exn, 's, nat \<times> ExternalDataResponse option) action" where
  "ExternalController_getPostById parse C rx http J now token rawId =
     with_user J now token (\<lambda>_. with_id parse rawId (\<lambda>pid.
       bind_action (ExternalService_fetchPostById C rx http now pid) (\<lambda>post. ret (200, post))))"

record health =
  h_status :: string
  h_timestamp :: string

definition HealthController_check :: "time \<Rightarrow> health" where
  "HealthController_check now = \<lparr>h_status = ''OK'', h_timestamp = iso_timestamp now\<rparr>"

section \<open>The pipeline\<close>

text \<open>An attempt succeeds when its answer comes within the time limit.\<close>

definition in_time :: "nat \<Rightarrow> 'd attempt \<Rightarrow> 'd option" where
  "in_time limit a = (case a of Answer t d \<Rightarrow> if t \<le> limit then Some d else None | Failure t e \<Rightarrow> None)"

locale rx_pipeline =
  fixes rx :: "'d rx_run"
  assumes first_success:
      "k \<le> n \<Longrightarrow> (\<And>j. j < k \<Longrightarrow> in_time limit (src j) = None) \<Longrightarrow> in_time limit (src k) = Some d \<Longrightarrow>
       rx limit n delay src = (Inr d, map delay [1..<Suc k])"
    and all_fail:
      "(\<And>j. j \<le> n \<Longrightarrow> in_time limit (src j) = None) \<Longrightarrow> \<exists>e. rx limit n delay src = (Inl e, map delay [1..<Suc n])"

fun rx_loop :: "nat \<Rightarrow> nat \<Rightarrow> nat \<Rightarrow> (nat \<Rightarrow> nat) \<Rightarrow> (nat \<Rightarrow> 'd attempt) \<Rightarrow> (exn + 'd) \<times> nat list" where
  "rx_loop i limit n delay src =
     (case in_time limit (src i) of
        Some d \<Rightarrow> (Inr d, [])
      | None \<Rightarrow>
          (case n of
             0 \<Rightarrow> (Inl Thrown, [])
           | Suc m \<Rightarrow> (case rx_loop (Suc i) limit m delay src of (r, ds) \<Rightarrow> (r, delay (Suc i) # ds))))"

declare rx_loop.simps [simp del]

lemma rx_loop_success:
  "k \<le> n \<Longrightarrow> (\<And>j. j < k \<Longrightarrow> in_time limit (src (i + j)) = None) \<Longrightarrow> in_time limit (src (i + k)) = Some d \<Longrightarrow>
   rx_loop i limit n delay src = (Inr d, map delay [Suc i..<Suc (i + k)])"
proof (induction k arbitrary: i n)
  case 0
  then show ?case by (subst rx_loop.simps) simp
next
  case (Suc k)
  then obtain m where m: "n = Suc m" "k \<le> m" by (cases n) auto
  have "in_time limit (src i) = None" using Suc.prems(2) [of 0] by simp
  moreover have "rx_loop (Suc i) limit m delay src = (Inr d, map delay [Suc (Suc i)..<Suc (Suc i + k)])"
    using Suc.prems(2) [of "Suc j" for j] Suc.prems(3) by (intro Suc.IH [OF m(2)]) simp_all
  ultimately show ?case by (subst rx_loop.simps) (simp add: m upt_conv_Cons del: upt_Suc)
qed

lemma rx_loop_fail:
  "(\<And>j. j \<le> n \<Longrightarrow> in_time limit (src (i + j)) = None) \<Longrightarrow>
   rx_loop i limit n delay src = (Inl Thrown, map delay [Suc i..<Suc (i + n)])"
proof (induction n arbitrary: i)
  case 0
  from 0 [of 0] show ?case by (subst rx_loop.simps) simp
next
  case (Suc n)
  have "in_time limit (src i) = None" using Suc.prems [of 0] by simp
  moreover have "rx_loop (Suc i) limit n delay src = (Inl Thrown, map delay [Suc (Suc i)..<Suc (Suc i + n)])"
    using Suc.prems [of "Suc j" for j] by (intro Suc.IH) simp
  ultimately show ?case by (subst rx_loop.simps) (simp add: upt_conv_Cons del: upt_Suc)
qed

interpretation rx_loop: rx_pipeline "rx_loop 0"
proof (unfold_locales, goal_cases)
  case (1 k n limit src d delay)
  then show ?case using rx_loop_success [of k n limit src 0 d delay] by (simp del: upt_Suc)
next
  case (2 n limit src delay)
  then show ?case using rx_loop_fail [of n limit src 0 delay] by (simp del: upt_Suc)
qed

section \<open>Properties\<close>

text \<open>C33: Without a cached value the proxy tries at most four times, waiting one, two and four
  seconds in between: the first answer within five seconds is truncated to ten items,
  returned and cached; when all four attempts fail the fallback is returned, and nothing is
  cached.  It never throws.\<close>

theorem external_fetch_retries:
  assumes "rx_pipeline rx" and "cache_get C now posts_key s = None"
  shows "(\<forall>k \<le> 3. \<forall>xs. (\<forall>j < k. in_time 5000 (http (EXTERNAL_API_URL @ ''/posts'') j) = None) \<longrightarrow>
      in_time 5000 (http (EXTERNAL_API_URL @ ''/posts'') k) = Some xs \<longrightarrow>
      ExternalService_fetchExampleData C rx http now s = (Inr (take 10 xs), cache_set C now posts_key (take 10 xs) 300 s) \<and>
      snd (rx TIMEOUT_MS MAX_RETRIES backoff (http (EXTERNAL_API_URL @ ''/posts''))) = take k [1000, 2000, 4000]) \<and>
    ((\<forall>j \<le> 3. in_time 5000 (http (EXTERNAL_API_URL @ ''/posts'') j) = None) \<longrightarrow>
      ExternalService_fetchExampleData C rx http now s = (Inr fallback_data, s) \<and>
      snd (rx TIMEOUT_MS MAX_RETRIES backoff (http (EXTERNAL_API_URL @ ''/posts''))) = [1000, 2000, 4000])"
proof -
  let ?src = "http (EXTERNAL_API_URL @ ''/posts'')"
  have delays: "map backoff [1..<Suc k] = take k [1000, 2000, 4000]" if "k \<le> 3" for k
  proof -
    from that consider "k = 0" | "k = 1" | "k = 2" | "k = 3" by linarith
    then show ?thesis by cases (simp_all add: backoff_def upt_rec)
  qed
  have ok: "ExternalService_fetchExampleData C rx http now s = (Inr (take 10 xs), cache_set C now posts_key (take 10 xs) 300 s) \<and>
      snd (rx TIMEOUT_MS MAX_RETRIES backoff ?src) = take k [1000, 2000, 4000]"
    if "k \<le> 3" "\<forall>j < k. in_time 5000 (?src j) = None" "in_time 5000 (?src k) = Some xs" for k xs
    using rx_pipeline.first_success [OF assms(1), of k MAX_RETRIES TIMEOUT_MS ?src xs backoff] that delays [OF that(1)]
    by (simp add: ExternalService_fetchExampleData_def assms(2) Let_def TIMEOUT_MS_def MAX_RETRIES_def)
  have "ExternalService_fetchExampleData C rx http now s = (Inr fallback_data, s) \<and>
      snd (rx TIMEOUT_MS MAX_RETRIES backoff ?src) = [1000, 2000, 4000]"
    if "\<forall>j \<le> 3. in_time 5000 (?src j) = None"
    using rx_pipeline.all_fail [OF assms(1), of MAX_RETRIES TIMEOUT_MS ?src backoff] that delays [of 3]
    by (auto simp: ExternalService_fetchExampleData_def assms(2) Let_def TIMEOUT_MS_def MAX_RETRIES_def)
  with ok show ?thesis by blast
qed

definition no_cache :: "(unit, 'v) cache_lib" where
  "no_cache = \<lparr>cache_get = (\<lambda>_ _ _. None), cache_set = (\<lambda>_ _ _ _ s. s)\<rparr>"

theorem external_fetch_retries_witness:
  "ExternalService_fetchExampleData no_cache (rx_loop 0) (\<lambda>url j. Failure 10 Thrown) 0 () = (Inr fallback_data, ())"
  using external_fetch_retries [OF rx_loop.rx_pipeline_axioms, of no_cache 0 "()" "\<lambda>url j. Failure 10 Thrown"]
  by (simp add: no_cache_def in_time_def)

end
