(* ===== verification/Routing.thy ===== *)
theory Routing
  imports Js_Text
begin

text \<open>
  Routes as the two backends declare them and their routers read them.  A pattern is a list of
  literals and parameters; how a router matches a pattern with a path is third-party code, a
  parameter with the documented law \<open>path_matcher\<close>, and a router takes the first route that matches.
\<close>

section \<open>Definitions\<close>

datatype http_method = GET | POST | PUT | PATCH | DELETE

datatype segment = Lit string | Par string

text \<open>The values of the parameters of a route, in the order of the path.\<close>

definition param_values :: "segment list \<Rightarrow> string list \<Rightarrow> string list" where
  "param_values pat path = [s. (g, s) \<leftarrow> zip pat path, case g of Lit _ \<Rightarrow> False | Par _ \<Rightarrow> True]"

text \<open>The first route of a table that matches.\<close>

definition first_route ::
    "(segment list \<Rightarrow> string list \<Rightarrow> bool) \<Rightarrow> http_method \<Rightarrow> string list \<Rightarrow> (http_method \<times> segment list \<times> 'e) list
      \<Rightarrow> (http_method \<times> segment list \<times> 'e) option" where
  "first_route matches m path table = List.find (\<lambda>(m', pat, _). m' = m \<and> matches pat path) table"

section \<open>The router\<close>

text \<open>Path segments as the clients write them: literals of the API, numbers and names of files.  For such a path the
  router's patterns have their documented meaning: a literal matches itself, a parameter any
  segment; encoded characters, upper case and empty segments are not covered.\<close>

definition plain_char :: "char \<Rightarrow> bool" where
  "plain_char c = (is_digit c \<or> (97 \<le> (of_char c :: nat) \<and> (of_char c :: nat) \<le> 122) \<or>
     c \<in> {CHR ''-'', CHR ''.'', CHR ''_''})"

definition plain_segment :: "string \<Rightarrow> bool" where
  "plain_segment s = (s \<noteq> [] \<and> list_all plain_char s)"

fun seg_matches :: "segment \<Rightarrow> string \<Rightarrow> bool" where
  "seg_matches (Lit l) s = (s = l)"
| "seg_matches (Par _) s = True"

text \<open>A literal that no number can be taken for.\<close>

definition worded :: "segment \<Rightarrow> bool" where
  "worded g = (case g of Lit l \<Rightarrow> plain_segment l \<and> list_ex (\<lambda>c. \<not> is_digit c \<and> c \<noteq> CHR ''-'') l | Par _ \<Rightarrow> True)"

locale path_matcher =
  fixes matches :: "segment list \<Rightarrow> string list \<Rightarrow> bool"
  assumes matches_plain:
    "list_all worded pat \<Longrightarrow> list_all plain_segment path \<Longrightarrow> matches pat path = list_all2 seg_matches pat path"

text \<open>A matcher that ignores the case of literals, as the router does, and wants a parameter not to
  be empty.\<close>

definition lower :: "char \<Rightarrow> char" where
  "lower c = (if 65 \<le> (of_char c :: nat) \<and> (of_char c :: nat) \<le> 90 then char_of ((of_char c :: nat) + 32) else c)"

fun seg_nocase :: "segment \<Rightarrow> string \<Rightarrow> bool" where
  "seg_nocase (Lit l) s = (map lower s = map lower l)"
| "seg_nocase (Par _) s = (s \<noteq> [])"

definition express_match :: "segment list \<Rightarrow> string list \<Rightarrow> bool" where
  "express_match pat path = list_all2 seg_nocase pat path"

section \<open>Filled patterns\<close>

lemma plain_show_int [simp]: "plain_segment (show_int i)"
  using show_int_chars [of _ i] by (auto simp: plain_segment_def plain_char_def list_all_iff)

definition fill :: "(string \<Rightarrow> int) \<Rightarrow> segment \<Rightarrow> string" where
  "fill ids g = (case g of Lit l \<Rightarrow> l | Par p \<Rightarrow> show_int (ids p))"

lemma fill_simps [simp]: "fill ids (Lit l) = l" "fill ids (Par p) = show_int (ids p)"
  by (simp_all add: fill_def)

fun seg_hits :: "segment \<Rightarrow> segment \<Rightarrow> bool" where
  "seg_hits (Lit a) (Lit b) = (b = a)"
| "seg_hits (Lit _) (Par _) = False"
| "seg_hits (Par _) _ = True"

lemma seg_matches_fill: "worded p \<Longrightarrow> seg_matches p (fill ids g) = seg_hits p g"
  using show_int_chars by (cases p; cases g) (fastforce simp: worded_def list_ex_iff)+

lemma matches_fill:
  "list_all worded pat \<Longrightarrow> list_all2 seg_matches pat (map (fill ids) pat') = list_all2 seg_hits pat pat'"
  by (induction pat arbitrary: pat') (auto simp: seg_matches_fill list_all2_Cons1 Cons_eq_map_conv map_eq_Cons_conv)

lemma plain_fill: "list_all worded pat \<Longrightarrow> list_all plain_segment (map (fill ids) pat)"
  by (induction pat) (auto simp: worded_def split: segment.splits)

lemma find_agree: "(\<And>x. x \<in> set xs \<Longrightarrow> P x = Q x) \<Longrightarrow> List.find P xs = List.find Q xs"
  by (induction xs) auto

text \<open>A table whose literals are words.\<close>

definition table_worded :: "(http_method \<times> segment list \<times> 'e) list \<Rightarrow> bool" where
  "table_worded table = list_all (\<lambda>(_, pat, _). list_all worded pat) table"

context path_matcher begin

lemma first_fill:
  assumes "table_worded table" and "list_all worded pat"
  shows "first_route matches m (map (fill ids) pat) table =
    List.find (\<lambda>(m', pat', _). m' = m \<and> list_all2 seg_hits pat' pat) table"
proof -
  have "matches pat' (map (fill ids) pat) = list_all2 seg_hits pat' pat" if "(m', pat', e) \<in> set table" for m' pat' e
  proof -
    have "list_all worded pat'" using assms(1) that by (auto simp: table_worded_def list_all_iff)
    then show ?thesis by (simp add: matches_plain plain_fill [OF assms(2)] matches_fill)
  qed
  then show ?thesis
    unfolding first_route_def by (intro find_agree) auto
qed

end

text \<open>The case-insensitive matcher obeys the law.\<close>

lemma lower_plain: "plain_char c \<Longrightarrow> lower c = c"
  by (auto simp: plain_char_def lower_def is_digit_def)

lemma map_lower_plain: "plain_segment s \<Longrightarrow> map lower s = s"
  by (rule map_idI) (auto simp: plain_segment_def list_all_iff lower_plain)

lemma seg_nocase_plain: "worded g \<Longrightarrow> plain_segment s \<Longrightarrow> seg_nocase g s = seg_matches g s"
  by (cases g) (auto simp: worded_def map_lower_plain, simp_all add: plain_segment_def)

interpretation express: path_matcher express_match
proof
  fix pat path assume "list_all worded pat" and "list_all plain_segment path"
  then show "express_match pat path = list_all2 seg_matches pat path"
    unfolding express_match_def
    by (induction pat arbitrary: path) (auto simp: list_all2_Cons1 seg_nocase_plain)
qed

end
