(* ===== verification/Nest_Routes.thy ===== *)
theory Nest_Routes
  imports Routing
begin

text \<open>
  The routes of the Nest backend, as the decorators of its controllers declare them, in the order
  in which \<open>app.module.ts\<close> registers the modules, under the prefix that \<open>main.ts\<close> sets.  The
  framework's router is third-party code: it takes the first route that matches, and how a
  pattern matches a path is a parameter with the documented law \<open>path_matcher\<close>.  No two
  controllers have overlapping routes, so only the order inside a controller matters.
\<close>

section \<open>Definitions\<close>

text \<open>One name for every handler of the controllers.\<close>

datatype endpoint =
    Ep_register | Ep_login
  | Ep_createProject | Ep_findProjects
  | Ep_createIssue | Ep_findIssues | Ep_popularIssues | Ep_findIssue | Ep_updateIssue | Ep_deleteIssue
  | Ep_createComment | Ep_findComments
  | Ep_createTeam | Ep_myTeams | Ep_findTeam | Ep_teamMembers | Ep_addMember | Ep_updateMember | Ep_removeMember
  | Ep_createItem | Ep_findItems | Ep_findItem | Ep_updateItem | Ep_deleteItem
  | Ep_dailyStats | Ep_externalExample | Ep_externalPost
  | Ep_createProduct | Ep_findProducts | Ep_findProduct | Ep_updateProduct | Ep_removeProduct
  | Ep_search | Ep_reindex
  | Ep_createOrder | Ep_findOrders | Ep_findOrder | Ep_payOrder | Ep_cancelOrder
  | Ep_notifications | Ep_health

type_synonym route = "http_method \<times> segment list \<times> endpoint"

definition user_routes :: "route list" where
  "user_routes = [(POST, [Lit ''users''], Ep_register)]"

definition auth_routes :: "route list" where
  "auth_routes = [(POST, [Lit ''auth'', Lit ''login''], Ep_login)]"

definition project_routes :: "route list" where
  "project_routes = [(POST, [Lit ''projects''], Ep_createProject), (GET, [Lit ''projects''], Ep_findProjects)]"

definition issue_routes :: "route list" where
  "issue_routes =
     [(POST, [Lit ''projects'', Par ''projectId'', Lit ''issues''], Ep_createIssue),
      (GET, [Lit ''projects'', Par ''projectId'', Lit ''issues''], Ep_findIssues),
      (GET, [Lit ''issues'', Lit ''popular''], Ep_popularIssues),
      (GET, [Lit ''issues'', Par ''id''], Ep_findIssue),
      (PUT, [Lit ''issues'', Par ''id''], Ep_updateIssue),
      (DELETE, [Lit ''issues'', Par ''id''], Ep_deleteIssue)]"

definition comment_routes :: "route list" where
  "comment_routes =
     [(POST, [Lit ''issues'', Par ''issueId'', Lit ''comments''], Ep_createComment),
      (GET, [Lit ''issues'', Par ''issueId'', Lit ''comments''], Ep_findComments)]"

definition team_routes :: "route list" where
  "team_routes =
     [(POST, [Lit ''teams''], Ep_createTeam), (GET, [Lit ''teams''], Ep_myTeams),
      (GET, [Lit ''teams'', Par ''id''], Ep_findTeam),
      (GET, [Lit ''teams'', Par ''id'', Lit ''members''], Ep_teamMembers),
      (POST, [Lit ''teams'', Par ''id'', Lit ''members''], Ep_addMember),
      (PATCH, [Lit ''teams'', Par ''teamId'', Lit ''members'', Par ''memberId''], Ep_updateMember),
      (DELETE, [Lit ''teams'', Par ''teamId'', Lit ''members'', Par ''memberId''], Ep_removeMember),
      (POST, [Lit ''teams'', Par ''teamId'', Lit ''items''], Ep_createItem),
      (GET, [Lit ''teams'', Par ''teamId'', Lit ''items''], Ep_findItems)]"

definition item_routes :: "route list" where
  "item_routes =
     [(GET, [Lit ''items'', Par ''id''], Ep_findItem), (PUT, [Lit ''items'', Par ''id''], Ep_updateItem),
      (DELETE, [Lit ''items'', Par ''id''], Ep_deleteItem)]"

definition stats_routes :: "route list" where
  "stats_routes = [(GET, [Lit ''stats'', Lit ''daily''], Ep_dailyStats)]"

definition external_routes :: "route list" where
  "external_routes =
     [(GET, [Lit ''external'', Lit ''example''], Ep_externalExample),
      (GET, [Lit ''external'', Lit ''posts'', Par ''id''], Ep_externalPost)]"

definition product_routes :: "route list" where
  "product_routes =
     [(POST, [Lit ''products''], Ep_createProduct), (GET, [Lit ''products''], Ep_findProducts),
      (GET, [Lit ''products'', Par ''id''], Ep_findProduct), (PATCH, [Lit ''products'', Par ''id''], Ep_updateProduct),
      (DELETE, [Lit ''products'', Par ''id''], Ep_removeProduct)]"

definition search_routes :: "route list" where
  "search_routes = [(GET, [Lit ''search'', Lit ''products''], Ep_search)]"

definition admin_routes :: "route list" where
  "admin_routes = [(POST, [Lit ''admin'', Lit ''reindex'', Lit ''products''], Ep_reindex)]"

definition order_routes :: "route list" where
  "order_routes =
     [(POST, [Lit ''orders''], Ep_createOrder), (GET, [Lit ''orders''], Ep_findOrders),
      (GET, [Lit ''orders'', Par ''id''], Ep_findOrder), (PATCH, [Lit ''orders'', Par ''id'', Lit ''pay''], Ep_payOrder),
      (PATCH, [Lit ''orders'', Par ''id'', Lit ''cancel''], Ep_cancelOrder)]"

definition notification_routes :: "route list" where
  "notification_routes = [(GET, [Lit ''notifications''], Ep_notifications)]"

definition health_routes :: "route list" where
  "health_routes = [(GET, [Lit ''health''], Ep_health)]"

text \<open>The modules in the order of \<open>app.module.ts\<close>, under the global prefix.\<close>

definition nest_routes :: "route list" where
  "nest_routes = map (\<lambda>(m, pat, e). (m, Lit ''api'' # pat, e))
     (user_routes @ auth_routes @ project_routes @ issue_routes @ comment_routes @ team_routes @ item_routes @
      stats_routes @ external_routes @ product_routes @ search_routes @ admin_routes @ order_routes @
      notification_routes @ health_routes)"

text \<open>The router takes the first route that matches; how it matches a path is a parameter.\<close>

definition match_route :: "(segment list \<Rightarrow> string list \<Rightarrow> bool) \<Rightarrow> http_method \<Rightarrow> string list \<Rightarrow> route option" where
  "match_route matches m path = first_route matches m path nest_routes"

definition dispatch ::
    "(segment list \<Rightarrow> string list \<Rightarrow> bool) \<Rightarrow> http_method \<Rightarrow> string list \<Rightarrow> endpoint option" where
  "dispatch matches m path = map_option (\<lambda>(_, _, e). e) (match_route matches m path)"

section \<open>Reaching the handlers\<close>

lemmas route_defs = user_routes_def auth_routes_def project_routes_def issue_routes_def comment_routes_def team_routes_def
  item_routes_def stats_routes_def external_routes_def product_routes_def search_routes_def admin_routes_def
  order_routes_def notification_routes_def health_routes_def

lemma routes_worded: "table_worded nest_routes"
  by code_simp

lemma routes_first:
  "\<forall>r \<in> set nest_routes.
     List.find (\<lambda>(m', pat, _). m' = fst r \<and> list_all2 seg_hits pat (fst (snd r))) nest_routes = Some r"
  by code_simp

context path_matcher begin

lemmas match_fill = first_fill [OF routes_worded, folded match_route_def]

lemma route_matched:
  assumes "(m, pat, e) \<in> set nest_routes"
  shows "match_route matches m (map (fill ids) pat) = Some (m, pat, e)"
  using match_fill [of pat m ids] bspec [OF routes_first assms] routes_worded assms
  by (auto simp: table_worded_def list_all_iff)

end

text \<open>No route hides another one: whatever numbers are put for the parameters of a route, a
  request to the path is given to the handler that declares it, although \<open>issues/popular\<close> and
  \<open>issues/:id\<close> overlap.\<close>

theorem routes_reached:
  assumes "path_matcher matches" and "(m, pat, e) \<in> set nest_routes"
  shows "dispatch matches m (map (fill ids) pat) = Some e"
  using path_matcher.route_matched [OF assms] by (simp add: dispatch_def)

theorem routes_reached_witness:
  "dispatch express_match GET [''api'', ''teams'', show_int 7, ''items''] = Some Ep_findItems"
  using routes_reached [OF express.path_matcher_axioms,
      of GET "[Lit ''api'', Lit ''teams'', Par ''teamId'', Lit ''items'']" Ep_findItems "\<lambda>_. 7"]
  by (simp add: nest_routes_def route_defs)

end
