(* ===== verification/Nest_Backend.thy ===== *)
theory Nest_Backend
  imports Orders External Nest_Routes
begin

text \<open>
  The Nest backend as a whole: one request for every handler of its controllers (\<open>Nest_Routes\<close>)
  and the events that reach it without a request (the nightly job, a message of the topic, the
  start of the modules).  The libraries of all components are gathered in one environment
  (\<open>nest_env\<close>); what they promise is the locale \<open>nest_libraries\<close>.

  The properties are those that no component has alone: the store keeps its integrity and every
  team its OWNER whatever happens in whatever order, a request without a valid token has no
  effect, and a GET request never writes to a table.
\<close>

section \<open>Definitions\<close>

subsection \<open>The environment\<close>

record ('z, 'j) nest_env =
  env_team_tx :: "(exn, 'z db_scheme, team) action \<Rightarrow> (exn, 'z db_scheme, team) action"
  env_order_tx :: "(exn, 'z db_scheme, order \<times> order_item list) action \<Rightarrow> (exn, 'z db_scheme, order \<times> order_item list) action"
  env_parse :: "string \<Rightarrow> int option"
  env_prisma :: prisma
  env_bcrypt :: bcrypt_lib
  env_jwt :: jwt_lib
  env_isEmail :: "string \<Rightarrow> bool"
  env_isDateString :: "string \<Rightarrow> bool"
  env_parseDate :: "string \<Rightarrow> time option"
  env_zone :: zone
  env_es_enabled :: bool
  env_es :: "('z db_scheme) es_client"
  env_publish :: "OrderEvent \<Rightarrow> (exn, 'z db_scheme, unit) action"
  env_codec :: "'j codec"
  env_popular :: "('z db_scheme, issue_view stored list) cache_lib"
  env_posts :: "('z db_scheme, ExternalDataResponse list) cache_lib"
  env_post :: "('z db_scheme, ExternalDataResponse) cache_lib"
  env_rx_posts :: "ExternalDataResponse list rx_run"
  env_http_posts :: "string \<Rightarrow> nat \<Rightarrow> ExternalDataResponse list attempt"
  env_rx_post :: "ExternalDataResponse rx_run"
  env_http_post :: "string \<Rightarrow> nat \<Rightarrow> ExternalDataResponse attempt"

subsection \<open>Requests\<close>

text \<open>The handler with its route parameters as texts and its decoded body; the salt of a hash and
  the identifier of an event are drawn anew for every request.\<close>

datatype nest_request =
    Register string CreateUserDto
  | Login LoginDto
  | CreateProject_r CreateProjectDto
  | FindProjects
  | CreateIssue_r string CreateIssueDto
  | FindIssues string QueryIssuesDto
  | PopularIssues
  | FindIssue string
  | UpdateIssue_r string UpdateIssueDto
  | DeleteIssue_r string
  | CreateComment_r string CreateCommentDto
  | FindComments string
  | CreateTeam_r CreateTeamDto
  | MyTeams
  | FindTeam string
  | TeamMembers string
  | AddMember_r string AddMemberDto
  | UpdateMember_r string string UpdateMemberRoleDto
  | RemoveMember_r string string
  | CreateItem_r string CreateWorkspaceItemDto
  | FindItems string
  | FindItem string
  | UpdateItem_r string UpdateWorkspaceItemDto
  | DeleteItem_r string
  | DailyStats GetDailyStatsDto
  | ExternalExample
  | ExternalPost string
  | CreateProduct_r CreateProductDto
  | FindProducts
  | FindProduct string
  | UpdateProduct_r string UpdateProductDto
  | RemoveProduct_r string
  | SearchProducts SearchProductsParams
  | ReindexProducts
  | CreateOrder_r string CreateOrderDto
  | FindOrders
  | FindOrder string
  | PayOrder string string
  | CancelOrder string string
  | Notifications
  | Health

fun endpoint_of :: "nest_request \<Rightarrow> endpoint" where
  "endpoint_of (Register _ _) = Ep_register"
| "endpoint_of (Login _) = Ep_login"
| "endpoint_of (CreateProject_r _) = Ep_createProject"
| "endpoint_of FindProjects = Ep_findProjects"
| "endpoint_of (CreateIssue_r _ _) = Ep_createIssue"
| "endpoint_of (FindIssues _ _) = Ep_findIssues"
| "endpoint_of PopularIssues = Ep_popularIssues"
| "endpoint_of (FindIssue _) = Ep_findIssue"
| "endpoint_of (UpdateIssue_r _ _) = Ep_updateIssue"
| "endpoint_of (DeleteIssue_r _) = Ep_deleteIssue"
| "endpoint_of (CreateComment_r _ _) = Ep_createComment"
| "endpoint_of (FindComments _) = Ep_findComments"
| "endpoint_of (CreateTeam_r _) = Ep_createTeam"
| "endpoint_of MyTeams = Ep_myTeams"
| "endpoint_of (FindTeam _) = Ep_findTeam"
| "endpoint_of (TeamMembers _) = Ep_teamMembers"
| "endpoint_of (AddMember_r _ _) = Ep_addMember"
| "endpoint_of (UpdateMember_r _ _ _) = Ep_updateMember"
| "endpoint_of (RemoveMember_r _ _) = Ep_removeMember"
| "endpoint_of (CreateItem_r _ _) = Ep_createItem"
| "endpoint_of (FindItems _) = Ep_findItems"
| "endpoint_of (FindItem _) = Ep_findItem"
| "endpoint_of (UpdateItem_r _ _) = Ep_updateItem"
| "endpoint_of (DeleteItem_r _) = Ep_deleteItem"
| "endpoint_of (DailyStats _) = Ep_dailyStats"
| "endpoint_of ExternalExample = Ep_externalExample"
| "endpoint_of (ExternalPost _) = Ep_externalPost"
| "endpoint_of (CreateProduct_r _) = Ep_createProduct"
| "endpoint_of FindProducts = Ep_findProducts"
| "endpoint_of (FindProduct _) = Ep_findProduct"
| "endpoint_of (UpdateProduct_r _ _) = Ep_updateProduct"
| "endpoint_of (RemoveProduct_r _) = Ep_removeProduct"
| "endpoint_of (SearchProducts _) = Ep_search"
| "endpoint_of ReindexProducts = Ep_reindex"
| "endpoint_of (CreateOrder_r _ _) = Ep_createOrder"
| "endpoint_of FindOrders = Ep_findOrders"
| "endpoint_of (FindOrder _) = Ep_findOrder"
| "endpoint_of (PayOrder _ _) = Ep_payOrder"
| "endpoint_of (CancelOrder _ _) = Ep_cancelOrder"
| "endpoint_of Notifications = Ep_notifications"
| "endpoint_of Health = Ep_health"

text \<open>An answer is sent by the framework; here only whether there was an error is kept.\<close>

definition void :: "(exn, 's, 'a) action \<Rightarrow> (exn, 's, unit) action" where
  "void m = bind_action m (\<lambda>_. ret ())"

fun nest_run :: "('z, 'j) nest_env \<Rightarrow> time \<Rightarrow> string option \<Rightarrow> nest_request \<Rightarrow> (exn, 'z db_scheme, unit) action" where
  "nest_run v now tok (Register salt d) = void (UserController_create (env_isEmail v) (env_prisma v) (env_bcrypt v) now salt d)"
| "nest_run v now tok (Login d) = void (AuthController_login (env_isEmail v) (env_prisma v) (env_bcrypt v) (env_jwt v) now d)"
| "nest_run v now tok (CreateProject_r d) = void (ProjectController_create (env_prisma v) (env_jwt v) now tok d)"
| "nest_run v now tok FindProjects = void (ProjectController_findAll (env_prisma v) (env_jwt v) now tok)"
| "nest_run v now tok (CreateIssue_r p d) = void (IssueController_create (env_parse v) (env_prisma v) (env_jwt v) now tok p d)"
| "nest_run v now tok (FindIssues p q) = void (IssueController_findByProject (env_parse v) (env_prisma v) (env_jwt v) now tok p q)"
| "nest_run v now tok PopularIssues = void (IssueController_findPopular (env_popular v) (env_zone v) (env_prisma v) (env_jwt v) now tok)"
| "nest_run v now tok (FindIssue i) = void (IssueController_findOne (env_parse v) (env_prisma v) (env_jwt v) now tok i)"
| "nest_run v now tok (UpdateIssue_r i d) = void (IssueController_update (env_parse v) (env_prisma v) (env_jwt v) now tok i d)"
| "nest_run v now tok (DeleteIssue_r i) = void (IssueController_delete (env_parse v) (env_prisma v) (env_jwt v) now tok i)"
| "nest_run v now tok (CreateComment_r i d) = void (CommentController_create (env_parse v) (env_prisma v) (env_jwt v) now tok i d)"
| "nest_run v now tok (FindComments i) = void (CommentController_findByIssue (env_parse v) (env_prisma v) (env_jwt v) now tok i)"
| "nest_run v now tok (CreateTeam_r d) = void (TeamController_createTeam (env_team_tx v) (env_prisma v) (env_jwt v) now tok d)"
| "nest_run v now tok MyTeams = void (TeamController_getMyTeams (env_prisma v) (env_jwt v) now tok)"
| "nest_run v now tok (FindTeam t) = void (TeamController_getTeamById (env_parse v) (env_prisma v) (env_jwt v) now tok t)"
| "nest_run v now tok (TeamMembers t) = void (TeamController_getTeamMembers (env_parse v) (env_prisma v) (env_jwt v) now tok t)"
| "nest_run v now tok (AddMember_r t d) = void (TeamController_addMember (env_parse v) (env_prisma v) (env_jwt v) now tok t d)"
| "nest_run v now tok (UpdateMember_r t m d) = void (TeamController_updateMemberRole (env_parse v) (env_prisma v) (env_jwt v) now tok t m d)"
| "nest_run v now tok (RemoveMember_r t m) = void (TeamController_removeMember (env_parse v) (env_prisma v) (env_jwt v) now tok t m)"
| "nest_run v now tok (CreateItem_r t d) = void (TeamController_createWorkspaceItem (env_parse v) (env_prisma v) (env_jwt v) now tok t d)"
| "nest_run v now tok (FindItems t) = void (TeamController_getWorkspaceItems (env_parse v) (env_prisma v) (env_jwt v) now tok t)"
| "nest_run v now tok (FindItem i) = void (WorkspaceItemController_getWorkspaceItemById (env_parse v) (env_prisma v) (env_jwt v) now tok i)"
| "nest_run v now tok (UpdateItem_r i d) = void (WorkspaceItemController_updateWorkspaceItem (env_parse v) (env_prisma v) (env_jwt v) now tok i d)"
| "nest_run v now tok (DeleteItem_r i) = void (WorkspaceItemController_deleteWorkspaceItem (env_parse v) (env_prisma v) (env_jwt v) now tok i)"
| "nest_run v now tok (DailyStats q) = void (StatsController_getDailyStats (env_isDateString v) (env_prisma v) (env_jwt v) now tok q)"
| "nest_run v now tok ExternalExample =
     void (ExternalController_getExampleData (env_posts v) (env_rx_posts v) (env_http_posts v) (env_jwt v) now tok)"
| "nest_run v now tok (ExternalPost i) =
     void (ExternalController_getPostById (env_parse v) (env_post v) (env_rx_post v) (env_http_post v) (env_jwt v) now tok i)"
| "nest_run v now tok (CreateProduct_r d) = void (ProductController_create (env_es_enabled v) (env_es v) (env_prisma v) (env_jwt v) now tok d)"
| "nest_run v now tok FindProducts = void (ProductController_findAll (env_prisma v) (env_jwt v) now tok)"
| "nest_run v now tok (FindProduct i) = void (ProductController_findOne (env_parse v) (env_prisma v) (env_jwt v) now tok i)"
| "nest_run v now tok (UpdateProduct_r i d) =
     void (ProductController_update (env_es_enabled v) (env_es v) (env_parse v) (env_prisma v) (env_jwt v) now tok i d)"
| "nest_run v now tok (RemoveProduct_r i) =
     void (ProductController_remove (env_es_enabled v) (env_es v) (env_parse v) (env_prisma v) (env_jwt v) now tok i)"
| "nest_run v now tok (SearchProducts q) = void (SearchController_searchProducts (env_es_enabled v) (env_es v) q)"
| "nest_run v now tok ReindexProducts =
     void (AdminController_reindexProducts (env_es_enabled v) (env_es v) (env_prisma v) (env_jwt v) now tok)"
| "nest_run v now tok (CreateOrder_r uuid d) =
     void (OrderController_create (env_order_tx v) (env_publish v) (env_prisma v) (env_jwt v) now tok uuid d)"
| "nest_run v now tok FindOrders = void (OrderController_findAll (env_prisma v) (env_jwt v) now tok)"
| "nest_run v now tok (FindOrder i) = void (OrderController_findOne (env_parse v) (env_prisma v) (env_jwt v) now tok i)"
| "nest_run v now tok (PayOrder uuid i) =
     void (OrderController_markAsPaid (env_parse v) (env_publish v) (env_prisma v) (env_jwt v) now tok uuid i)"
| "nest_run v now tok (CancelOrder uuid i) =
     void (OrderController_cancel (env_parse v) (env_publish v) (env_prisma v) (env_jwt v) now tok uuid i)"
| "nest_run v now tok Notifications = void (NotificationController_findAll (env_prisma v) (env_jwt v) now tok)"
| "nest_run v now tok Health = void (ret (HealthController_check now))"

text \<open>What happens to the backend: a request with its token, the nightly job, a message, and the
  start of the search module.\<close>

datatype 'j nest_event =
    Request time "string option" nest_request
  | NightlyJob time
  | KafkaMessage time "'j kafka_message"
  | SearchModuleInit

fun nest_step :: "('z, 'j) nest_env \<Rightarrow> 'z db_scheme \<Rightarrow> 'j nest_event \<Rightarrow> 'z db_scheme" where
  "nest_step v s (Request now tok r) = snd (nest_run v now tok r s)"
| "nest_step v s (NightlyJob now) =
     snd (StatsScheduler_handleDailyStatsAggregation (env_zone v)
       (StatsService_aggregateDailyStats (env_zone v) (env_parseDate v) (env_prisma v) now) now s)"
| "nest_step v s (KafkaMessage now m) =
     snd (NotificationConsumer_handleMessage (env_codec v)
       (NotificationService_createNotificationFromOrderEvent (env_prisma v) now) m s)"
| "nest_step v s SearchModuleInit = snd (ElasticsearchService_onModuleInit (env_es_enabled v) (env_es v) s)"

section \<open>What every request keeps\<close>

lemma void_preserves [intro]: "preserves I m \<Longrightarrow> preserves I (void m)"
  by (auto simp: void_def)

lemma preserves_sum [intro]:
  "(\<And>x. preserves I (f x)) \<Longrightarrow> (\<And>y. preserves I (g y)) \<Longrightarrow>
     preserves I (case r of Inl x \<Rightarrow> f x | Inr y \<Rightarrow> g y)"
  by (cases r) simp_all

lemma preserves_field [intro]:
  "preserves I a \<Longrightarrow> preserves I b \<Longrightarrow> (\<And>y. preserves I (g y)) \<Longrightarrow>
     preserves I (case r of Undefined \<Rightarrow> a | Null \<Rightarrow> b | Value y \<Rightarrow> g y)"
  by (cases r) simp_all

lemmas preserves_rules = preserves_with_user preserves_with_id preserves_with_body preserves_bind preserves_prod
  preserves_option preserves_if preserves_map_action preserves_try preserves_throw preserves_ret preserves_q
  preserves_related preserves_reads void_preserves

text \<open>An invariant of the tables, whatever else the state holds.\<close>

definition tables_only :: "('z db_scheme \<Rightarrow> bool) \<Rightarrow> bool" where
  "tables_only I = (\<forall>s s'. db.truncate s' = db.truncate s \<longrightarrow> I s' = I s)"

lemma tables_only_inv: "tables_only db_inv"
  unfolding tables_only_def by (intro allI impI, rule same_tables_inv)

definition same_teams :: "team table \<Rightarrow> team_member table \<Rightarrow> 'z db_scheme \<Rightarrow> bool" where
  "same_teams t ms s = (teams s = t \<and> members s = ms)"

lemma tables_only_teams: "tables_only (same_teams t ms)"
  unfolding tables_only_def same_teams_def by (intro allI impI) (metis truncate_tables(5,6))

lemma tables_only_team: "tables_only team_inv"
  unfolding tables_only_def
proof (intro allI impI)
  fix s s' :: "'a db_scheme" assume same: "db.truncate s' = db.truncate s"
  show "team_inv s' = team_inv s"
    unfolding team_inv_def owned_def truncate_tables(5,6) [OF same] same_tables_inv [OF same] ..
qed

lemma keeps_tables_preserves:
  "tables_only I \<Longrightarrow> (\<And>s. db.truncate (snd (m s)) = db.truncate s) \<Longrightarrow> preserves I m"
  unfolding tables_only_def preserves_def by blast

lemmas controller_defs = ProjectController_create_def ProjectController_findAll_def IssueController_create_def
  IssueController_findByProject_def IssueController_findPopular_def IssueController_findOne_def
  IssueController_update_def IssueController_delete_def CommentController_create_def CommentController_findByIssue_def
  TeamController_createTeam_def TeamController_getMyTeams_def TeamController_getTeamById_def
  TeamController_getTeamMembers_def TeamController_addMember_def TeamController_updateMemberRole_def
  TeamController_removeMember_def TeamController_createWorkspaceItem_def TeamController_getWorkspaceItems_def
  WorkspaceItemController_getWorkspaceItemById_def WorkspaceItemController_updateWorkspaceItem_def
  WorkspaceItemController_deleteWorkspaceItem_def StatsController_getDailyStats_def
  ExternalController_getExampleData_def ExternalController_getPostById_def ProductController_create_def
  ProductController_findAll_def ProductController_findOne_def ProductController_update_def
  ProductController_remove_def AdminController_reindexProducts_def OrderController_create_def
  OrderController_findAll_def OrderController_findOne_def OrderController_markAsPaid_def OrderController_cancel_def
  OrderController_setStatus_def NotificationController_findAll_def

lemmas write_defs = UserController_create_def ProjectController_create_def IssueController_create_def
    IssueController_update_def IssueController_delete_def CommentController_create_def ProductController_create_def
    ProductController_update_def ProductController_remove_def OrderController_create_def OrderController_markAsPaid_def
    OrderController_cancel_def OrderController_setStatus_def ProductService_create_def ProductService_update_def
    ProductService_remove_def ProductService_findOne_def ProductService_indexProduct_def OrderService_createOrder_def
    OrderService_updateOrderStatus_def OrderService_findOne_def include_items_def
    NotificationConsumer_handleMessage_def NotificationService_createNotificationFromOrderEvent_def
    StatsScheduler_handleDailyStatsAggregation_def StatsService_aggregateDailyStats_def upsert_stats_def Let_def

locale nest_libraries =
  fixes v :: "('z, 'j) nest_env"
  assumes prisma: "prisma_client (env_prisma v)"
    and team_tx: "atomic (env_team_tx v)" and order_tx: "atomic (env_order_tx v)"
    and search_engine: "es_safe (env_es v)"
    and producer: "event_sink (env_publish v)"
    and cache_tables:
      "db.truncate (cache_set (env_popular v) t k vs ttl s) = db.truncate s"
      "db.truncate (cache_set (env_posts v) t k posts ttl s) = db.truncate s"
      "db.truncate (cache_set (env_post v) t k post ttl s) = db.truncate s"
begin

lemma side_effects:
  assumes "tables_only I"
  shows "preserves I (es_exists (env_es v))" "preserves I (es_create (env_es v))" "preserves I (es_drop (env_es v))"
    "preserves I (es_index (env_es v) i d)" "preserves I (es_delete (env_es v) i)" "preserves I (es_bulk (env_es v) ops)"
    "preserves I (es_search (env_es v) q)" "preserves I (env_publish v e)"
    "preserves I (\<lambda>s. (r, cache_set (env_popular v) t k xs ttl s))"
    "preserves I (\<lambda>s. (r', cache_set (env_posts v) t k ys ttl s))"
    "preserves I (\<lambda>s. (r'', cache_set (env_post v) t k y ttl s))"
  by (rule keeps_tables_preserves [OF assms];
      simp add: es_safe.keeps_tables [OF search_engine] event_sink.publish_tables [OF producer] cache_tables)+

lemma search_module:
  assumes "tables_only I"
  shows "preserves I (ElasticsearchService_onModuleInit en (env_es v))"
    "preserves I (ElasticsearchService_indexProduct en (env_es v) d)"
    "preserves I (ElasticsearchService_deleteProduct en (env_es v) i)"
    "preserves I (SearchController_searchProducts en (env_es v) p)"
    "preserves I (AdminService_reindexProducts en (env_es v) (env_prisma v))"
  unfolding ElasticsearchService_onModuleInit_def ElasticsearchService_createIndexIfNotExists_def
    ElasticsearchService_indexProduct_def ElasticsearchService_deleteProduct_def SearchController_searchProducts_def
    SearchService_searchProducts_def ElasticsearchService_searchProducts_def AdminService_reindexProducts_def
    ProductService_getAllProducts_def ElasticsearchService_reindexAll_def Let_def
  by (intro preserves_rules side_effects [OF assms])+

lemma read_requests:
  assumes "tables_only I"
  shows "preserves I (nest_run v now tok (Login ld))" "preserves I (nest_run v now tok FindProjects)"
    "preserves I (nest_run v now tok (FindIssues p q))" "preserves I (nest_run v now tok PopularIssues)"
    "preserves I (nest_run v now tok (FindIssue i))" "preserves I (nest_run v now tok (FindComments i))"
    "preserves I (nest_run v now tok MyTeams)" "preserves I (nest_run v now tok (FindTeam i))"
    "preserves I (nest_run v now tok (TeamMembers i))" "preserves I (nest_run v now tok (FindItems i))"
    "preserves I (nest_run v now tok (FindItem i))" "preserves I (nest_run v now tok (DailyStats g))"
    "preserves I (nest_run v now tok ExternalExample)" "preserves I (nest_run v now tok (ExternalPost i))"
    "preserves I (nest_run v now tok FindProducts)" "preserves I (nest_run v now tok (FindProduct i))"
    "preserves I (nest_run v now tok (SearchProducts sq))" "preserves I (nest_run v now tok ReindexProducts)"
    "preserves I (nest_run v now tok FindOrders)" "preserves I (nest_run v now tok (FindOrder i))"
    "preserves I (nest_run v now tok Notifications)" "preserves I (nest_run v now tok Health)"
  unfolding nest_run.simps AuthController_login_def AuthService_login_def UserService_findByEmail_def
    ProjectController_findAll_def ProjectService_findAll_def IssueController_findByProject_def
    IssueService_findByProject_def IssueController_findPopular_def IssueService_findPopular_def with_score_def
    IssueController_findOne_def IssueService_findById_def include_people_def CommentController_findByIssue_def
    CommentService_findByIssue_def include_author_def TeamController_getMyTeams_def TeamService_getMyTeams_def
    TeamController_getTeamById_def TeamService_getTeamById_def TeamController_getTeamMembers_def
    TeamService_getTeamMembers_def include_user_def TeamService_verifyTeamMember_def
    TeamController_getWorkspaceItems_def TeamService_getWorkspaceItems_def
    WorkspaceItemController_getWorkspaceItemById_def TeamService_getWorkspaceItemById_def
    StatsController_getDailyStats_def StatsService_getDailyStats_def ExternalController_getExampleData_def
    ExternalService_fetchExampleData_def ExternalController_getPostById_def ExternalService_fetchPostById_def
    ProductController_findAll_def ProductService_findAll_def ProductController_findOne_def ProductService_findOne_def
    AdminController_reindexProducts_def OrderController_findAll_def OrderService_findAllByUser_def include_items_def
    OrderController_findOne_def OrderService_findOne_def NotificationController_findAll_def
    NotificationService_findAllByUser_def Let_def
  by (intro preserves_rules preserves_sum side_effects [OF assms] search_module [OF assms])+

end

sublocale nest_libraries \<subseteq> prisma_client "env_prisma v"
  by (rule prisma)

context nest_libraries begin

text \<open>Writes outside the team tables keep them; writes through the client keep the integrity.\<close>

lemma other_writes_inv:
  "preserves db_inv (nest_run v now tok (Register salt ud))" "preserves db_inv (nest_run v now tok (CreateProject_r pd))"
  "preserves db_inv (nest_run v now tok (CreateIssue_r i cd))" "preserves db_inv (nest_run v now tok (UpdateIssue_r i upd))"
  "preserves db_inv (nest_run v now tok (DeleteIssue_r i))" "preserves db_inv (nest_run v now tok (CreateComment_r i ccd))"
  "preserves db_inv (nest_run v now tok (CreateProduct_r prd))" "preserves db_inv (nest_run v now tok (UpdateProduct_r i pud))"
  "preserves db_inv (nest_run v now tok (RemoveProduct_r i))" "preserves db_inv (nest_run v now tok (CreateOrder_r uuid od))"
  "preserves db_inv (nest_run v now tok (PayOrder uuid i))" "preserves db_inv (nest_run v now tok (CancelOrder uuid i))"
  "preserves db_inv (NotificationConsumer_handleMessage (env_codec v)
     (NotificationService_createNotificationFromOrderEvent (env_prisma v) now) msg)"
  "preserves db_inv (StatsScheduler_handleDailyStatsAggregation z
     (StatsService_aggregateDailyStats z (env_parseDate v) (env_prisma v) now) now)"
  unfolding nest_run.simps write_defs
  by (intro preserves_rules preserves_sum side_effects [OF tables_only_inv] search_module [OF tables_only_inv]
      user_create_inv keep_issues keep_product_create keep_product_update keep_product_delete keep_order_update
      keep_createOrder_body preserves_atomic [OF order_tx] keep_notif_create keep_stats_create keep_stats_update;
      simp add: update_product_def)+

lemma other_writes_teams:
  "preserves (same_teams t ms) (nest_run v now tok (Register salt ud))"
  "preserves (same_teams t ms) (nest_run v now tok (CreateProject_r pd))"
  "preserves (same_teams t ms) (nest_run v now tok (CreateIssue_r i cd))"
  "preserves (same_teams t ms) (nest_run v now tok (UpdateIssue_r i upd))"
  "preserves (same_teams t ms) (nest_run v now tok (DeleteIssue_r i))"
  "preserves (same_teams t ms) (nest_run v now tok (CreateComment_r i ccd))"
  "preserves (same_teams t ms) (nest_run v now tok (CreateProduct_r prd))"
  "preserves (same_teams t ms) (nest_run v now tok (UpdateProduct_r i pud))"
  "preserves (same_teams t ms) (nest_run v now tok (RemoveProduct_r i))"
  "preserves (same_teams t ms) (nest_run v now tok (CreateOrder_r uuid od))"
  "preserves (same_teams t ms) (nest_run v now tok (PayOrder uuid i))"
  "preserves (same_teams t ms) (nest_run v now tok (CancelOrder uuid i))"
  "preserves (same_teams t ms) (NotificationConsumer_handleMessage (env_codec v)
     (NotificationService_createNotificationFromOrderEvent (env_prisma v) now) msg)"
  "preserves (same_teams t ms) (StatsScheduler_handleDailyStatsAggregation z
     (StatsService_aggregateDailyStats z (env_parseDate v) (env_prisma v) now) now)"
  unfolding nest_run.simps write_defs UserService_create_def ProjectService_create_def IssueService_create_def
    IssueService_update_def IssueService_delete_def CommentService_create_def include_people_def include_author_def
    createOrder_body_def
  by (intro preserves_rules preserves_sum preserves_field side_effects [OF tables_only_teams]
      search_module [OF tables_only_teams] preserves_q_put preserves_atomic [OF order_tx];
      simp add: same_teams_def put_defs cascade_issue_def cascade_product_def)+

lemma keep_team_inv:
  fixes m :: "(exn, 'z db_scheme, 'a) action"
  assumes "preserves db_inv m" and "\<And>t ms. preserves (same_teams t ms) m"
  shows "preserves team_inv m"
proof (rule preservesI)
  fix s :: "'z db_scheme" assume s: "team_inv s"
  have "teams (snd (m s)) = teams s \<and> members (snd (m s)) = members s"
    using assms(2) [of "teams s" "members s"] by (simp add: preserves_def same_teams_def)
  then show "team_inv (snd (m s))"
    using s preserves_snd [OF assms(1)] by (simp add: team_inv_def owned_def)
qed

lemma team_writes:
  "preserves team_inv (nest_run v now tok (CreateTeam_r ctd))" "preserves team_inv (nest_run v now tok (AddMember_r i amd))"
  "preserves team_inv (nest_run v now tok (UpdateMember_r i k umd))" "preserves team_inv (nest_run v now tok (RemoveMember_r i k))"
  "preserves team_inv (nest_run v now tok (CreateItem_r i cwd))" "preserves team_inv (nest_run v now tok (UpdateItem_r i uwd))"
  "preserves team_inv (nest_run v now tok (DeleteItem_r i))"
  unfolding nest_run.simps TeamController_createTeam_def TeamController_addMember_def TeamController_updateMemberRole_def
    TeamController_removeMember_def TeamController_createWorkspaceItem_def
    WorkspaceItemController_updateWorkspaceItem_def WorkspaceItemController_deleteWorkspaceItem_def
  by (intro preserves_rules preserves_team_reads keep_service keep_createTeam [OF team_tx] keep_addMember
      keep_updateMemberRole keep_removeMember)+

lemma run_keeps: "preserves team_inv (nest_run v now tok r)"
  by (cases r; simp only:) (intro read_requests [OF tables_only_team] team_writes keep_team_inv other_writes_inv
      other_writes_teams)+

lemma get_keeps:
  "(GET, pat, endpoint_of r) \<in> set nest_routes \<Longrightarrow> tables_only I \<Longrightarrow> preserves I (nest_run v now tok r)"
  by (cases r; hypsubst; (rule read_requests, assumption)?) (simp_all add: nest_routes_def route_defs)

lemma step_keeps: "step_system (nest_step v) team_inv"
proof
  fix s :: "'z db_scheme" and c assume s: "team_inv s"
  show "team_inv (nest_step v s c)"
  proof (cases c)
    case (Request now tok r)
    then show ?thesis using preserves_snd [OF run_keeps s] by simp
  next
    case (NightlyJob now)
    show ?thesis unfolding NightlyJob nest_step.simps
      by (rule preserves_snd [OF keep_team_inv s]) (intro other_writes_inv other_writes_teams)+
  next
    case (KafkaMessage now m)
    show ?thesis unfolding KafkaMessage nest_step.simps
      by (rule preserves_snd [OF keep_team_inv s]) (intro other_writes_inv other_writes_teams)+
  next
    case SearchModuleInit
    then show ?thesis using preserves_snd [OF search_module(1) [OF tables_only_team] s] by simp
  qed
qed

end


section \<open>Properties\<close>

text \<open>C1: Whatever reaches the backend, in whatever order and with whatever tokens, requests to any
  of its routes, the nightly job, messages of the topic, the store keeps its integrity (keys,
  unique columns, references) and every team keeps an OWNER.\<close>

theorem backend_invariant:
  assumes "nest_libraries v" and "db_inv s" and "owned s"
  shows "db_inv (foldl (nest_step v) s evs) \<and> owned (foldl (nest_step v) s evs)"
  using step_system.run_inv [OF nest_libraries.step_keeps [OF assms(1)], of s evs] assms(2,3)
  by (simp add: team_inv_def)

text \<open>An environment in memory.\<close>

definition void_cache :: "('s, 'a) cache_lib" where
  "void_cache = \<lparr>cache_get = (\<lambda>_ _ _. None), cache_set = (\<lambda>_ _ _ _ s. s)\<rparr>"

definition mem_env :: "(unit es_db_ext, OrderEvent) nest_env" where
  "mem_env = \<lparr>env_team_tx = rollback_tx, env_order_tx = rollback_tx, env_parse = numeral_pipe, env_prisma = mem_prisma,
     env_bcrypt = plain_bcrypt, env_jwt = plain_jwt 86400000, env_isEmail = (\<lambda>_. True), env_isDateString = (\<lambda>_. True),
     env_parseDate = iso_parse, env_zone = fixed_zone 0, env_es_enabled = True, env_es = mem_es,
     env_publish = (\<lambda>_. ret ()), env_codec = plain_codec, env_popular = void_cache, env_posts = void_cache, env_post = void_cache,
     env_rx_posts = rx_loop 0, env_http_posts = (\<lambda>_ _. Failure 0 Thrown),
     env_rx_post = rx_loop 0, env_http_post = (\<lambda>_ _. Failure 0 Thrown)\<rparr>"

interpretation mem_env: nest_libraries mem_env
  by (rule nest_libraries.intro)
    (simp_all add: mem_env_def void_cache_def mem.prisma_client_axioms mem_catalog.es_safe_axioms event_sink_def)

definition team_es_db :: es_db where
  "team_es_db = db.extend (team_db MEMBER) \<lparr>es_docs = None\<rparr>"

lemma team_es_db_inv: "db_inv team_es_db" "owned team_es_db"
  by code_simp+

theorem backend_invariant_witness:
  "owned (foldl (nest_step mem_env) team_es_db
     [Request 20 (Some alice_token) (RemoveMember_r ''1'' ''1''), NightlyJob 21,
      Request 22 None (Register ''salt'' \<lparr>cu_email = ''bob@example.com'', cu_password = ''secret'', cu_nickname = ''b''\<rparr>),
      Request 23 (Some alice_token) (CreateProject_r \<lparr>cp_name = ''new'', cp_description = Undefined\<rparr>),
      Request 24 (Some alice_token) (CreateIssue_r ''1'' \<lparr>ci_title = ''t'', ci_description = Null, ci_assigneeId = Value 7\<rparr>)])"
  using backend_invariant [OF mem_env.nest_libraries_axioms team_es_db_inv] by blast

text \<open>The handlers without \<open>JwtAuthGuard\<close>.\<close>

definition public_endpoints :: "endpoint list" where
  "public_endpoints = [Ep_register, Ep_login, Ep_search, Ep_health]"

lemma with_user_refused: "jwt_guard J now tok = Inl e \<Longrightarrow> with_user J now tok h = throw e"
  by (simp add: with_user_def)

lemma void_throw [simp]: "void (throw e) = throw e"
  by (simp add: void_def)

text \<open>C12: Every request other than to register, to log in, to search products and for the health
  check is answered with status 401 and changes nothing at all when it carries no token, or
  one that is not valid.\<close>

theorem token_required:
  assumes "endpoint_of r \<notin> set public_endpoints"
    and "tok = None \<or> (\<exists>t. tok = Some t \<and> jwt_verify (env_jwt v) now t = None)"
  shows "\<exists>e. nest_run v now tok r s = (Inl e, s) \<and> fst (exception_filter N e) = 401"
proof -
  let ?e = "UnauthorizedException ''Invalid or missing authentication token''"
  have refused: "jwt_guard (env_jwt v) now tok = Inl ?e"
    using assms(2) by (auto simp: jwt_guard_def JwtAuthGuard_handleRequest_def)
  have "nest_run v now tok r = throw ?e"
    using assms(1) by (cases r) (simp_all add: public_endpoints_def controller_defs with_user_refused [OF refused])
  then show ?thesis by (auto simp: throw_def UnauthorizedException_def filter_domain)
qed

theorem token_required_witness:
  "\<exists>e. nest_run mem_env 86400010 (Some alice_token) (RemoveProduct_r ''1'') team_es_db = (Inl e, team_es_db) \<and>
     fst (exception_filter documented_nest e) = 401"
  by (rule token_required)
    (simp add: public_endpoints_def,
      simp add: mem_env_def plain_jwt_def plain_verify_def alice_token_def plain_sign_def takeWhile_show_int)

text \<open>C14: A GET request to any of the routes leaves every table as it is; what it may change are the
  caches.\<close>

theorem get_requests_safe:
  assumes "nest_libraries v" and "(GET, pat, endpoint_of r) \<in> set nest_routes"
  shows "db.truncate (snd (nest_run v now tok r s)) = db.truncate s"
  using nest_libraries.get_keeps [OF assms, of "\<lambda>s'. db.truncate s' = db.truncate s"]
  by (simp add: preserves_def tables_only_def)

theorem get_requests_safe_witness:
  "db.truncate (snd (nest_run mem_env 20 (Some alice_token) (FindIssues ''1'' \<lparr>qi_status = None, qi_page = Some 2, qi_size = Some 5\<rparr>) team_es_db)) =
     db.truncate team_es_db"
  by (rule get_requests_safe [OF mem_env.nest_libraries_axioms,
        of "[Lit ''api'', Lit ''projects'', Par ''projectId'', Lit ''issues'']"]) code_simp

end
