(* ===== verification/Client_Requests.thy ===== *)
theory Client_Requests
  imports Client_Tracker Nest_Backend
begin

text \<open>
  The requests of the issue tracker's client (\<open>react/frontend/src/features/*/api.ts\<close>, with the request
  types of \<open>shared/types/api.ts\<close>) and how they arrive at the Nest backend: the route of the path under the
  prefix \<open>/api\<close>, and the arguments that the decorators of the handler take from path, query and body.

  A JSON body is the typed value itself with what \<open>JSON.stringify\<close> does to it (a field that is
  \<open>undefined\<close> is left out, a number that is not finite becomes \<open>null\<close>).  The serialization of \<open>params\<close> by axios
  is a parameter with the law \<open>params_serializer\<close>.
\<close>

section \<open>Definitions\<close>

subsection \<open>The request types\<close>

record CreateUserRequest =
  rq_email :: string
  rq_password :: string
  rq_nickname :: string

record LoginRequest =
  lr_email :: string
  lr_password :: string

record CreateProjectRequest =
  np_name :: string
  np_description :: "string option"

record CreateIssueRequest =
  ir_title :: string
  ir_description :: string
  ir_assigneeId :: "jsnum option"

text \<open>\<open>assigneeId?: number | null\<close>\<close>

record UpdateIssueRequest =
  ur_title :: string
  ur_description :: string
  ur_status :: IssueStatus
  ur_assigneeId :: "jsnum field"

record CreateCommentRequest =
  cr_content :: string

record CreateTeamRequest =
  tq_name :: string

record AddTeamMemberRequest =
  mr_userId :: jsnum
  mr_role :: TeamRole

record UpdateTeamMemberRequest =
  mu_role :: TeamRole

record CreateWorkspaceItemRequest =
  wi_title :: string
  wi_content :: string

record UpdateWorkspaceItemRequest =
  wu_title :: string
  wu_content :: string

text \<open>The last three are sent by other clients of the backend only.\<close>

datatype request_body =
    NoBody
  | UserBody CreateUserRequest
  | LoginBody LoginRequest
  | ProjectBody CreateProjectRequest
  | IssueBody CreateIssueRequest
  | IssueUpdateBody UpdateIssueRequest
  | CommentBody CreateCommentRequest
  | TeamBody CreateTeamRequest
  | MemberBody AddTeamMemberRequest
  | RoleBody UpdateTeamMemberRequest
  | ItemBody CreateWorkspaceItemRequest
  | ItemUpdateBody UpdateWorkspaceItemRequest
  | ProductBody CreateProductDto
  | ProductUpdateBody UpdateProductDto
  | OrderBody CreateOrderDto

text \<open>\<open>hr_path\<close>: the segments below the base address.\<close>

record http_request =
  hr_method :: http_method
  hr_path :: "string list"
  hr_query :: "(string \<times> string) list"
  hr_body :: request_body

abbreviation http_get :: "string list \<Rightarrow> http_request" where
  "http_get path \<equiv> \<lparr>hr_method = GET, hr_path = path, hr_query = [], hr_body = NoBody\<rparr>"

abbreviation http_delete :: "string list \<Rightarrow> http_request" where
  "http_delete path \<equiv> \<lparr>hr_method = DELETE, hr_path = path, hr_query = [], hr_body = NoBody\<rparr>"

abbreviation http_send :: "http_method \<Rightarrow> string list \<Rightarrow> request_body \<Rightarrow> http_request" where
  "http_send m path b \<equiv> \<lparr>hr_method = m, hr_path = path, hr_query = [], hr_body = b\<rparr>"

type_synonym serializer = "(string \<times> param_value option) list \<Rightarrow> (string \<times> string) list"

subsection \<open>\<open>authApi\<close>\<close>

definition authApi_register :: "CreateUserRequest \<Rightarrow> http_request" where
  "authApi_register d = http_send POST [''users''] (UserBody d)"

definition authApi_login :: "LoginRequest \<Rightarrow> http_request" where
  "authApi_login d = http_send POST [''auth'', ''login''] (LoginBody d)"

definition authApi_getCurrentUser :: http_request where
  "authApi_getCurrentUser = http_get [''auth'', ''me'']"

subsection \<open>\<open>projectApi\<close>\<close>

text \<open>The parameters \<open>page\<close> and \<open>size\<close> when they are there.\<close>

definition page_params :: "int option \<Rightarrow> int option \<Rightarrow> (string \<times> string) list" where
  "page_params page per =
     (case page of None \<Rightarrow> [] | Some n \<Rightarrow> [(''page'', show_int n)]) @
     (case per of None \<Rightarrow> [] | Some n \<Rightarrow> [(''size'', show_int n)])"

definition projectApi_getProjects :: "int option \<Rightarrow> int option \<Rightarrow> http_request" where
  "projectApi_getProjects page per = (http_get [''projects'']) \<lparr>hr_query := page_params page per\<rparr>"

definition projectApi_createProject :: "CreateProjectRequest \<Rightarrow> http_request" where
  "projectApi_createProject d = http_send POST [''projects''] (ProjectBody d)"

definition projectApi_getProject :: "int \<Rightarrow> http_request" where
  "projectApi_getProject projectId = http_get [''projects'', show_int projectId]"

subsection \<open>\<open>issueApi\<close>\<close>

definition issueApi_getProjectIssues :: "int \<Rightarrow> string option \<Rightarrow> int option \<Rightarrow> int option \<Rightarrow> http_request" where
  "issueApi_getProjectIssues projectId status page per =
     (http_get [''projects'', show_int projectId, ''issues''])
       \<lparr>hr_query := (case status of None \<Rightarrow> [] | Some st \<Rightarrow> if truthy st then [(''status'', st)] else []) @
          page_params page per\<rparr>"

definition issueApi_createIssue :: "int \<Rightarrow> CreateIssueRequest \<Rightarrow> http_request" where
  "issueApi_createIssue projectId d = http_send POST [''projects'', show_int projectId, ''issues''] (IssueBody d)"

definition issueApi_getIssue :: "int \<Rightarrow> http_request" where
  "issueApi_getIssue issueId = http_get [''issues'', show_int issueId]"

definition issueApi_updateIssue :: "int \<Rightarrow> UpdateIssueRequest \<Rightarrow> http_request" where
  "issueApi_updateIssue issueId d = http_send PUT [''issues'', show_int issueId] (IssueUpdateBody d)"

definition issueApi_deleteIssue :: "int \<Rightarrow> http_request" where
  "issueApi_deleteIssue issueId = http_delete [''issues'', show_int issueId]"

definition issueApi_getIssueComments :: "int \<Rightarrow> http_request" where
  "issueApi_getIssueComments issueId = http_get [''issues'', show_int issueId, ''comments'']"

definition issueApi_createComment :: "int \<Rightarrow> CreateCommentRequest \<Rightarrow> http_request" where
  "issueApi_createComment issueId d = http_send POST [''issues'', show_int issueId, ''comments''] (CommentBody d)"

subsection \<open>\<open>teamApi\<close>\<close>

definition teamApi_createTeam :: "CreateTeamRequest \<Rightarrow> http_request" where
  "teamApi_createTeam d = http_send POST [''teams''] (TeamBody d)"

definition teamApi_getTeams :: http_request where
  "teamApi_getTeams = http_get [''teams'']"

definition teamApi_getTeam :: "int \<Rightarrow> http_request" where
  "teamApi_getTeam teamId = http_get [''teams'', show_int teamId]"

definition teamApi_getTeamMembers :: "int \<Rightarrow> http_request" where
  "teamApi_getTeamMembers teamId = http_get [''teams'', show_int teamId, ''members'']"

definition teamApi_addTeamMember :: "int \<Rightarrow> AddTeamMemberRequest \<Rightarrow> http_request" where
  "teamApi_addTeamMember teamId d = http_send POST [''teams'', show_int teamId, ''members''] (MemberBody d)"

definition teamApi_updateTeamMemberRole :: "int \<Rightarrow> int \<Rightarrow> UpdateTeamMemberRequest \<Rightarrow> http_request" where
  "teamApi_updateTeamMemberRole teamId memberId d =
     http_send PATCH [''teams'', show_int teamId, ''members'', show_int memberId] (RoleBody d)"

definition teamApi_removeTeamMember :: "int \<Rightarrow> int \<Rightarrow> http_request" where
  "teamApi_removeTeamMember teamId memberId = http_delete [''teams'', show_int teamId, ''members'', show_int memberId]"

definition teamApi_createWorkspaceItem :: "int \<Rightarrow> CreateWorkspaceItemRequest \<Rightarrow> http_request" where
  "teamApi_createWorkspaceItem teamId d = http_send POST [''teams'', show_int teamId, ''items''] (ItemBody d)"

definition teamApi_getWorkspaceItems :: "serializer \<Rightarrow> int \<Rightarrow> int option \<Rightarrow> int option \<Rightarrow> http_request" where
  "teamApi_getWorkspaceItems ser teamId page per =
     (http_get [''teams'', show_int teamId, ''items''])
       \<lparr>hr_query := ser [(''page'', map_option (\<lambda>n. PNumber (Fin (of_int n))) page),
                         (''size'', map_option (\<lambda>n. PNumber (Fin (of_int n))) per)]\<rparr>"

definition teamApi_getWorkspaceItem :: "int \<Rightarrow> http_request" where
  "teamApi_getWorkspaceItem itemId = http_get [''items'', show_int itemId]"

definition teamApi_updateWorkspaceItem :: "int \<Rightarrow> UpdateWorkspaceItemRequest \<Rightarrow> http_request" where
  "teamApi_updateWorkspaceItem itemId d = http_send PUT [''items'', show_int itemId] (ItemUpdateBody d)"

definition teamApi_deleteWorkspaceItem :: "int \<Rightarrow> http_request" where
  "teamApi_deleteWorkspaceItem itemId = http_delete [''items'', show_int itemId]"

subsection \<open>\<open>statsApi\<close> and \<open>productApi\<close>\<close>

definition statsApi_getDailyStats :: "serializer \<Rightarrow> string \<Rightarrow> string \<Rightarrow> http_request" where
  "statsApi_getDailyStats ser from to =
     (http_get [''stats'', ''daily'']) \<lparr>hr_query := ser [(''from'', Some (PText from)), (''to'', Some (PText to))]\<rparr>"

definition statsApi_getPopularIssues :: "serializer \<Rightarrow> (int option \<times> int option) option \<Rightarrow> http_request" where
  "statsApi_getPopularIssues ser params =
     (http_get [''issues'', ''popular''])
       \<lparr>hr_query := (case params of
            None \<Rightarrow> []
          | Some (days, limit) \<Rightarrow>
              ser [(''days'', map_option (\<lambda>n. PNumber (Fin (of_int n))) days),
                   (''limit'', map_option (\<lambda>n. PNumber (Fin (of_int n))) limit)])\<rparr>"

definition statsApi_getExternalData :: http_request where
  "statsApi_getExternalData = http_get [''external'', ''example'']"

definition productApi_searchProducts :: "serializer \<Rightarrow> ProductSearchParams \<Rightarrow> http_request" where
  "productApi_searchProducts ser p =
     (http_get [''search'', ''products''])
       \<lparr>hr_query := ser [(''q'', Some (ps_q p)), (''category'', Some (ps_category p)), (''brand'', Some (ps_brand p)),
          (''minPrice'', ps_minPrice p), (''maxPrice'', ps_maxPrice p), (''page'', Some (ps_page p)), (''size'', Some (ps_size p))]\<rparr>"

definition productApi_getProduct :: "int \<Rightarrow> http_request" where
  "productApi_getProduct productId = http_get [''products'', show_int productId]"

subsection \<open>The requests of the hooks\<close>

fun queryFn :: "serializer \<Rightarrow> query \<Rightarrow> http_request" where
  "queryFn ser UseCurrentUser = authApi_getCurrentUser"
| "queryFn ser (UseProjects page per) = projectApi_getProjects page per"
| "queryFn ser (UseProject projectId) = projectApi_getProject projectId"
| "queryFn ser (UseProjectIssues projectId status page per) = issueApi_getProjectIssues projectId status page per"
| "queryFn ser (UseIssue issueId) = issueApi_getIssue issueId"
| "queryFn ser (UseIssueComments issueId) = issueApi_getIssueComments issueId"
| "queryFn ser UseTeams = teamApi_getTeams"
| "queryFn ser (UseTeam teamId) = teamApi_getTeam teamId"
| "queryFn ser (UseTeamMembers teamId) = teamApi_getTeamMembers teamId"
| "queryFn ser (UseWorkspaceItems teamId page per) = teamApi_getWorkspaceItems ser teamId page per"
| "queryFn ser (UseWorkspaceItem itemId) = teamApi_getWorkspaceItem itemId"
| "queryFn ser (UseDailyStats from to) = statsApi_getDailyStats ser from to"
| "queryFn ser (UsePopularIssues params) = statsApi_getPopularIssues ser params"
| "queryFn ser UseExternalData = statsApi_getExternalData"
| "queryFn ser (UseProductSearch params) = productApi_searchProducts ser params"
| "queryFn ser (UseProduct productId) = productApi_getProduct productId"

text \<open>What a mutation hook is called with.\<close>

datatype mutation_call =
    RegisterWith CreateUserRequest
  | LoginWith LoginRequest
  | CreateProjectWith CreateProjectRequest
  | CreateIssueWith int CreateIssueRequest
  | UpdateIssueWith int UpdateIssueRequest
  | DeleteIssueWith int
  | CreateCommentWith int CreateCommentRequest
  | CreateTeamWith CreateTeamRequest
  | AddMemberWith int AddTeamMemberRequest
  | UpdateRoleWith int int UpdateTeamMemberRequest
  | RemoveMemberWith int int
  | CreateItemWith int CreateWorkspaceItemRequest
  | UpdateItemWith int UpdateWorkspaceItemRequest
  | DeleteItemWith int

fun mutationFn :: "mutation_call \<Rightarrow> http_request" where
  "mutationFn (RegisterWith d) = authApi_register d"
| "mutationFn (LoginWith d) = authApi_login d"
| "mutationFn (CreateProjectWith d) = projectApi_createProject d"
| "mutationFn (CreateIssueWith p d) = issueApi_createIssue p d"
| "mutationFn (UpdateIssueWith i d) = issueApi_updateIssue i d"
| "mutationFn (DeleteIssueWith i) = issueApi_deleteIssue i"
| "mutationFn (CreateCommentWith i d) = issueApi_createComment i d"
| "mutationFn (CreateTeamWith d) = teamApi_createTeam d"
| "mutationFn (AddMemberWith t d) = teamApi_addTeamMember t d"
| "mutationFn (UpdateRoleWith t m d) = teamApi_updateTeamMemberRole t m d"
| "mutationFn (RemoveMemberWith t m) = teamApi_removeTeamMember t m"
| "mutationFn (CreateItemWith t d) = teamApi_createWorkspaceItem t d"
| "mutationFn (UpdateItemWith i d) = teamApi_updateWorkspaceItem i d"
| "mutationFn (DeleteItemWith i) = teamApi_deleteWorkspaceItem i"

subsection \<open>Arrival at the backend\<close>

text \<open>\<open>JSON.stringify\<close> on a number, and \<open>@IsInt\<close> with \<open>@IsOptional\<close>.\<close>

definition json_number :: "jsnum \<Rightarrow> rat field" where
  "json_number n = (case n of Fin q \<Rightarrow> Value q | _ \<Rightarrow> Null)"

definition whole :: "rat \<Rightarrow> bool" where
  "whole q = (of_int \<lfloor>q\<rfloor> = q)"

definition int_field :: "rat field \<Rightarrow> int field option" where
  "int_field f = (case f of
       Undefined \<Rightarrow> Some Undefined
     | Null \<Rightarrow> Some Null
     | Value q \<Rightarrow> if whole q then Some (Value \<lfloor>q\<rfloor>) else None)"

definition issue_dto :: "CreateIssueRequest \<Rightarrow> CreateIssueDto option" where
  "issue_dto d = map_option (\<lambda>a. \<lparr>ci_title = ir_title d, ci_description = Value (ir_description d), ci_assigneeId = a\<rparr>)
     (int_field (case ir_assigneeId d of None \<Rightarrow> Undefined | Some n \<Rightarrow> json_number n))"

definition issue_update_dto :: "UpdateIssueRequest \<Rightarrow> UpdateIssueDto option" where
  "issue_update_dto d = map_option (\<lambda>a. \<lparr>up_title = Value (ur_title d), up_description = Value (ur_description d),
       up_status = Value (ur_status d), up_assigneeId = a\<rparr>)
     (int_field (case ur_assigneeId d of Undefined \<Rightarrow> Undefined | Null \<Rightarrow> Null | Value n \<Rightarrow> json_number n))"

definition add_member_dto :: "AddTeamMemberRequest \<Rightarrow> AddMemberDto option" where
  "add_member_dto d = (case json_number (mr_userId d) of
       Value q \<Rightarrow> if whole q then Some \<lparr>am_userId = \<lfloor>q\<rfloor>, am_role = mr_role d\<rparr> else None
     | _ \<Rightarrow> None)"

text \<open>A query string: no parameter twice and none that the class does not declare
  (\<open>forbidNonWhitelisted\<close>).\<close>

definition whitelisted :: "string list \<Rightarrow> (string \<times> string) list \<Rightarrow> bool" where
  "whitelisted keys q = (distinct (map fst q) \<and> list_all (\<lambda>(k, _). k \<in> set keys) q)"

definition status_enum :: "string \<Rightarrow> IssueStatus option" where
  "status_enum t = map_of [(''OPEN'', OPEN), (''IN_PROGRESS'', IN_PROGRESS), (''RESOLVED'', RESOLVED), (''CLOSED'', CLOSED)] t"

definition optional :: "('a \<Rightarrow> 'b option) \<Rightarrow> 'a option \<Rightarrow> 'b option option" where
  "optional f v = (case v of None \<Rightarrow> Some None | Some x \<Rightarrow> map_option Some (f x))"

definition query_rat :: "string \<Rightarrow> rat option" where
  "query_rat t = (case js_Number t of Fin q \<Rightarrow> Some q | _ \<Rightarrow> None)"

definition query_int :: "string \<Rightarrow> int option" where
  "query_int t = (case js_Number t of Fin q \<Rightarrow> if whole q then Some \<lfloor>q\<rfloor> else None | _ \<Rightarrow> None)"

definition issues_query :: "(string \<times> string) list \<Rightarrow> QueryIssuesDto option" where
  "issues_query q =
     (if whitelisted [''status'', ''page'', ''size''] q
      then case (optional status_enum (map_of q ''status''), optional query_int (map_of q ''page''),
                 optional query_int (map_of q ''size'')) of
             (Some st, Some pg, Some sz) \<Rightarrow> Some \<lparr>qi_status = st, qi_page = pg, qi_size = sz\<rparr>
           | _ \<Rightarrow> None
      else None)"

definition stats_query :: "(string \<times> string) list \<Rightarrow> GetDailyStatsDto option" where
  "stats_query q =
     (if whitelisted [''from'', ''to''] q
      then case (map_of q ''from'', map_of q ''to'') of
             (Some a, Some b) \<Rightarrow> Some \<lparr>gd_from = a, gd_to = b\<rparr>
           | _ \<Rightarrow> None
      else None)"

definition search_query :: "(string \<times> string) list \<Rightarrow> SearchProductsParams option" where
  "search_query q =
     (if whitelisted [''q'', ''category'', ''brand'', ''minPrice'', ''maxPrice'', ''page'', ''size''] q
      then case (optional query_rat (map_of q ''minPrice''), optional query_rat (map_of q ''maxPrice''),
                 optional query_rat (map_of q ''page''), optional query_rat (map_of q ''size'')) of
             (Some lo, Some hi, Some pg, Some sz) \<Rightarrow>
               Some \<lparr>sp_q = map_of q ''q'', sp_category = map_of q ''category'', sp_brand = map_of q ''brand'',
                     sp_minPrice = lo, sp_maxPrice = hi, sp_page = pg, sp_size = sz\<rparr>
           | _ \<Rightarrow> None
      else None)"

definition optional_field :: "'a option \<Rightarrow> 'a field" where
  "optional_field v = (case v of None \<Rightarrow> Undefined | Some x \<Rightarrow> Value x)"

text \<open>The arguments of the handler: \<open>@Param\<close> (\<open>p k\<close> is the parameter at position \<open>k\<close> of the path), \<open>@Query()\<close>
  and \<open>@Body()\<close>; \<open>None\<close> when the validation pipe cannot make the declared class of what it got.\<close>

definition bind_args ::
    "string \<Rightarrow> string \<Rightarrow> endpoint \<Rightarrow> (nat \<Rightarrow> string) \<Rightarrow> (string \<times> string) list \<Rightarrow> request_body \<Rightarrow> nest_request option" where
  "bind_args salt uuid e p q body = (case e of
       Ep_register \<Rightarrow> (case body of UserBody d \<Rightarrow> Some (Register salt \<lparr>cu_email = rq_email d, cu_password = rq_password d, cu_nickname = rq_nickname d\<rparr>) | _ \<Rightarrow> None)
     | Ep_login \<Rightarrow> (case body of LoginBody d \<Rightarrow> Some (Login \<lparr>login_email = lr_email d, login_password = lr_password d\<rparr>) | _ \<Rightarrow> None)
     | Ep_createProject \<Rightarrow> (case body of ProjectBody d \<Rightarrow> Some (CreateProject_r \<lparr>cp_name = np_name d, cp_description = optional_field (np_description d)\<rparr>) | _ \<Rightarrow> None)
     | Ep_findProjects \<Rightarrow> Some FindProjects
     | Ep_createIssue \<Rightarrow> (case body of IssueBody d \<Rightarrow> map_option (CreateIssue_r (p 0)) (issue_dto d) | _ \<Rightarrow> None)
     | Ep_findIssues \<Rightarrow> map_option (FindIssues (p 0)) (issues_query q)
     | Ep_popularIssues \<Rightarrow> Some PopularIssues
     | Ep_findIssue \<Rightarrow> Some (FindIssue (p 0))
     | Ep_updateIssue \<Rightarrow> (case body of IssueUpdateBody d \<Rightarrow> map_option (UpdateIssue_r (p 0)) (issue_update_dto d) | _ \<Rightarrow> None)
     | Ep_deleteIssue \<Rightarrow> Some (DeleteIssue_r (p 0))
     | Ep_createComment \<Rightarrow> (case body of CommentBody d \<Rightarrow> Some (CreateComment_r (p 0) \<lparr>cc_content = cr_content d\<rparr>) | _ \<Rightarrow> None)
     | Ep_findComments \<Rightarrow> Some (FindComments (p 0))
     | Ep_createTeam \<Rightarrow> (case body of TeamBody d \<Rightarrow> Some (CreateTeam_r \<lparr>ct_name = tq_name d\<rparr>) | _ \<Rightarrow> None)
     | Ep_myTeams \<Rightarrow> Some MyTeams
     | Ep_findTeam \<Rightarrow> Some (FindTeam (p 0))
     | Ep_teamMembers \<Rightarrow> Some (TeamMembers (p 0))
     | Ep_addMember \<Rightarrow> (case body of MemberBody d \<Rightarrow> map_option (AddMember_r (p 0)) (add_member_dto d) | _ \<Rightarrow> None)
     | Ep_updateMember \<Rightarrow> (case body of RoleBody d \<Rightarrow> Some (UpdateMember_r (p 0) (p 1) \<lparr>um_role = mu_role d\<rparr>) | _ \<Rightarrow> None)
     | Ep_removeMember \<Rightarrow> Some (RemoveMember_r (p 0) (p 1))
     | Ep_createItem \<Rightarrow> (case body of ItemBody d \<Rightarrow> Some (CreateItem_r (p 0) \<lparr>cw_title = wi_title d, cw_content = Value (wi_content d)\<rparr>) | _ \<Rightarrow> None)
     | Ep_findItems \<Rightarrow> Some (FindItems (p 0))
     | Ep_findItem \<Rightarrow> Some (FindItem (p 0))
     | Ep_updateItem \<Rightarrow> (case body of ItemUpdateBody d \<Rightarrow> Some (UpdateItem_r (p 0) \<lparr>uw_title = Value (wu_title d), uw_content = Value (wu_content d)\<rparr>) | _ \<Rightarrow> None)
     | Ep_deleteItem \<Rightarrow> Some (DeleteItem_r (p 0))
     | Ep_dailyStats \<Rightarrow> map_option DailyStats (stats_query q)
     | Ep_externalExample \<Rightarrow> Some ExternalExample
     | Ep_externalPost \<Rightarrow> Some (ExternalPost (p 0))
     | Ep_createProduct \<Rightarrow> (case body of ProductBody d \<Rightarrow> Some (CreateProduct_r d) | _ \<Rightarrow> None)
     | Ep_findProducts \<Rightarrow> Some FindProducts
     | Ep_findProduct \<Rightarrow> Some (FindProduct (p 0))
     | Ep_updateProduct \<Rightarrow> (case body of ProductUpdateBody d \<Rightarrow> Some (UpdateProduct_r (p 0) d) | _ \<Rightarrow> None)
     | Ep_removeProduct \<Rightarrow> Some (RemoveProduct_r (p 0))
     | Ep_search \<Rightarrow> map_option SearchProducts (search_query q)
     | Ep_reindex \<Rightarrow> Some ReindexProducts
     | Ep_createOrder \<Rightarrow> (case body of OrderBody d \<Rightarrow> Some (CreateOrder_r uuid d) | _ \<Rightarrow> None)
     | Ep_findOrders \<Rightarrow> Some FindOrders
     | Ep_findOrder \<Rightarrow> Some (FindOrder (p 0))
     | Ep_payOrder \<Rightarrow> Some (PayOrder uuid (p 0))
     | Ep_cancelOrder \<Rightarrow> Some (CancelOrder uuid (p 0))
     | Ep_notifications \<Rightarrow> Some Notifications
     | Ep_health \<Rightarrow> Some Health)"

definition received ::
    "(segment list \<Rightarrow> string list \<Rightarrow> bool) \<Rightarrow> string \<Rightarrow> string \<Rightarrow> http_request \<Rightarrow> (endpoint \<times> nest_request option) option" where
  "received matches salt uuid rq =
     (let path = ''api'' # hr_path rq
      in map_option (\<lambda>(_, pat, e). (e, bind_args salt uuid e (nth (param_values pat path)) (hr_query rq) (hr_body rq)))
           (match_route matches (hr_method rq) path))"

fun method_text :: "http_method \<Rightarrow> string" where
  "method_text GET = ''GET''"
| "method_text POST = ''POST''"
| "method_text PUT = ''PUT''"
| "method_text PATCH = ''PATCH''"
| "method_text DELETE = ''DELETE''"

text \<open>The answer of the backend: no route, a guard that refuses before the pipes run, a pipe that
  refuses, or the handler.\<close>

definition serve_request ::
    "(segment list \<Rightarrow> string list \<Rightarrow> bool) \<Rightarrow> ('z, 'j) nest_env \<Rightarrow> time \<Rightarrow> string option \<Rightarrow> string \<Rightarrow> string
      \<Rightarrow> http_request \<Rightarrow> (exn, 'z db_scheme, unit) action" where
  "serve_request matches v now tok salt uuid rq = (case received matches salt uuid rq of
       None \<Rightarrow> throw (NestException NestNotFound
         (''Cannot '' @ method_text (hr_method rq) @ '' /api'' @ concat (map (\<lambda>seg. CHR ''/'' # seg) (hr_path rq))))
     | Some (e, None) \<Rightarrow>
         if e \<in> set public_endpoints then throw ValidationError
         else with_user (env_jwt v) now tok (\<lambda>_. throw ValidationError)
     | Some (_, Some r) \<Rightarrow> nest_run v now tok r)"

section \<open>Numbers\<close>

lemma query_int_show [simp]: "\<bar>i\<bar> \<le> 2 ^ 53 \<Longrightarrow> query_int (show_int i) = Some i"
  by (simp add: query_int_def js_Number_show_int whole_def)

section \<open>Arguments\<close>

lemma param_values_fill [simp]:
  "param_values (Lit l # pat) (s # path) = param_values pat path"
  "param_values (Par p # pat) (s # path) = s # param_values pat path"
  "param_values [] path = []"
  by (simp_all add: param_values_def)

context path_matcher begin

lemma received_route:
  assumes "(hr_method rq, pat, e) \<in> set nest_routes" and "''api'' # hr_path rq = map (fill ids) pat"
  shows "received matches salt uuid rq =
    Some (e, bind_args salt uuid e (nth (param_values pat (''api'' # hr_path rq))) (hr_query rq) (hr_body rq))"
  using route_matched [OF assms(1), of ids] by (simp add: received_def assms(2) Let_def)

lemma received_as:
  assumes "(hr_method rq, pat, e) \<in> set nest_routes" and "''api'' # hr_path rq = map (fill ids) pat"
    and "bind_args salt uuid e (nth (param_values pat (''api'' # hr_path rq))) (hr_query rq) (hr_body rq) = r"
  shows "received matches salt uuid rq = Some (e, r)"
  using received_route [OF assms(1,2)] assms(3) by simp

lemma not_received:
  assumes "list_all worded pat" and "''api'' # hr_path rq = map (fill ids) pat"
    and "List.find (\<lambda>(m', pat', _). m' = hr_method rq \<and> list_all2 seg_hits pat' pat) nest_routes = None"
  shows "received matches salt uuid rq = None"
  using match_fill [OF assms(1), of "hr_method rq" ids] assms(2,3) by (simp add: received_def Let_def)

end

text \<open>How axios writes \<open>params\<close>: in the order of the object, without the undefined ones.\<close>

locale params_serializer =
  fixes ser :: serializer
    and written :: "param_value \<Rightarrow> string"
  assumes ser_params: "ser ps = [(k, written v). (k, Some v) \<leftarrow> ps]"
    and written_text: "written (PText t) = t"
    and written_int: "\<bar>i\<bar> \<le> 2 ^ 53 \<Longrightarrow> written (PNumber (Fin (of_int i))) = show_int i"
begin

lemma daily_query: "stats_query (ser [(''from'', Some (PText a)), (''to'', Some (PText b))]) = Some \<lparr>gd_from = a, gd_to = b\<rparr>"
  by (simp add: stats_query_def ser_params written_text whitelisted_def)

end

fun plain_written :: "param_value \<Rightarrow> string" where
  "plain_written (PText t) = t"
| "plain_written (PNumber n) = show_whole n"

definition plain_ser :: serializer where
  "plain_ser ps = [(k, plain_written v). (k, Some v) \<leftarrow> ps]"

interpretation plain_params: params_serializer plain_ser plain_written
  by unfold_locales (simp_all add: plain_ser_def show_whole_def)

section \<open>What the client asks for\<close>

definition small :: "int option \<Rightarrow> bool" where
  "small n = pred_option (\<lambda>i. \<bar>i\<bar> \<le> 2 ^ 53) n"

lemma issues_query_pages:
  assumes "small page" and "small per"
  shows "issues_query ((case st of None \<Rightarrow> [] | Some st \<Rightarrow> [(''status'', st)]) @ page_params page per) =
    map_option (\<lambda>e. \<lparr>qi_status = e, qi_page = page, qi_size = per\<rparr>) (optional status_enum st)"
  using assms
  by (auto simp: issues_query_def page_params_def whitelisted_def optional_def small_def split: option.splits)

text \<open>What every query and every mutation means to the backend; \<open>GET /auth/me\<close> and \<open>GET /projects/:id\<close> have
  no handler.\<close>

fun query_meaning :: "serializer \<Rightarrow> query \<Rightarrow> (endpoint \<times> nest_request option) option" where
  "query_meaning ser UseCurrentUser = None"
| "query_meaning ser (UseProjects page per) = Some (Ep_findProjects, Some FindProjects)"
| "query_meaning ser (UseProject projectId) = None"
| "query_meaning ser (UseProjectIssues projectId status page per) =
     Some (Ep_findIssues, map_option (\<lambda>e. FindIssues (show_int projectId) \<lparr>qi_status = e, qi_page = page, qi_size = per\<rparr>)
       (optional status_enum (case status of None \<Rightarrow> None | Some st \<Rightarrow> if truthy st then Some st else None)))"
| "query_meaning ser (UseIssue issueId) = Some (Ep_findIssue, Some (FindIssue (show_int issueId)))"
| "query_meaning ser (UseIssueComments issueId) = Some (Ep_findComments, Some (FindComments (show_int issueId)))"
| "query_meaning ser UseTeams = Some (Ep_myTeams, Some MyTeams)"
| "query_meaning ser (UseTeam teamId) = Some (Ep_findTeam, Some (FindTeam (show_int teamId)))"
| "query_meaning ser (UseTeamMembers teamId) = Some (Ep_teamMembers, Some (TeamMembers (show_int teamId)))"
| "query_meaning ser (UseWorkspaceItems teamId page per) = Some (Ep_findItems, Some (FindItems (show_int teamId)))"
| "query_meaning ser (UseWorkspaceItem itemId) = Some (Ep_findItem, Some (FindItem (show_int itemId)))"
| "query_meaning ser (UseDailyStats from to) = Some (Ep_dailyStats, Some (DailyStats \<lparr>gd_from = from, gd_to = to\<rparr>))"
| "query_meaning ser (UsePopularIssues params) = Some (Ep_popularIssues, Some PopularIssues)"
| "query_meaning ser UseExternalData = Some (Ep_externalExample, Some ExternalExample)"
| "query_meaning ser (UseProductSearch params) =
     Some (Ep_search, map_option SearchProducts (search_query (hr_query (productApi_searchProducts ser params))))"
| "query_meaning ser (UseProduct productId) = Some (Ep_findProduct, Some (FindProduct (show_int productId)))"

fun mutation_meaning :: "string \<Rightarrow> mutation_call \<Rightarrow> endpoint \<times> nest_request option" where
  "mutation_meaning salt (RegisterWith d) =
     (Ep_register, Some (Register salt \<lparr>cu_email = rq_email d, cu_password = rq_password d, cu_nickname = rq_nickname d\<rparr>))"
| "mutation_meaning salt (LoginWith d) = (Ep_login, Some (Login \<lparr>login_email = lr_email d, login_password = lr_password d\<rparr>))"
| "mutation_meaning salt (CreateProjectWith d) =
     (Ep_createProject, Some (CreateProject_r \<lparr>cp_name = np_name d, cp_description = optional_field (np_description d)\<rparr>))"
| "mutation_meaning salt (CreateIssueWith p d) = (Ep_createIssue, map_option (CreateIssue_r (show_int p)) (issue_dto d))"
| "mutation_meaning salt (UpdateIssueWith i d) = (Ep_updateIssue, map_option (UpdateIssue_r (show_int i)) (issue_update_dto d))"
| "mutation_meaning salt (DeleteIssueWith i) = (Ep_deleteIssue, Some (DeleteIssue_r (show_int i)))"
| "mutation_meaning salt (CreateCommentWith i d) =
     (Ep_createComment, Some (CreateComment_r (show_int i) \<lparr>cc_content = cr_content d\<rparr>))"
| "mutation_meaning salt (CreateTeamWith d) = (Ep_createTeam, Some (CreateTeam_r \<lparr>ct_name = tq_name d\<rparr>))"
| "mutation_meaning salt (AddMemberWith t d) = (Ep_addMember, map_option (AddMember_r (show_int t)) (add_member_dto d))"
| "mutation_meaning salt (UpdateRoleWith t m d) =
     (Ep_updateMember, Some (UpdateMember_r (show_int t) (show_int m) \<lparr>um_role = mu_role d\<rparr>))"
| "mutation_meaning salt (RemoveMemberWith t m) = (Ep_removeMember, Some (RemoveMember_r (show_int t) (show_int m)))"
| "mutation_meaning salt (CreateItemWith t d) =
     (Ep_createItem, Some (CreateItem_r (show_int t) \<lparr>cw_title = wi_title d, cw_content = Value (wi_content d)\<rparr>))"
| "mutation_meaning salt (UpdateItemWith i d) =
     (Ep_updateItem, Some (UpdateItem_r (show_int i) \<lparr>uw_title = Value (wu_title d), uw_content = Value (wu_content d)\<rparr>))"
| "mutation_meaning salt (DeleteItemWith i) = (Ep_deleteItem, Some (DeleteItem_r (show_int i)))"

fun small_pages :: "query \<Rightarrow> bool" where
  "small_pages (UseProjectIssues _ _ page per) = (small page \<and> small per)"
| "small_pages _ = True"

text \<open>The pattern of the route that every call is for.\<close>

fun query_pattern :: "query \<Rightarrow> segment list" where
  "query_pattern UseCurrentUser = [Lit ''auth'', Lit ''me'']"
| "query_pattern (UseProjects _ _) = [Lit ''projects'']"
| "query_pattern (UseProject _) = [Lit ''projects'', Par ''id'']"
| "query_pattern (UseProjectIssues _ _ _ _) = [Lit ''projects'', Par ''projectId'', Lit ''issues'']"
| "query_pattern (UseIssue _) = [Lit ''issues'', Par ''id'']"
| "query_pattern (UseIssueComments _) = [Lit ''issues'', Par ''issueId'', Lit ''comments'']"
| "query_pattern UseTeams = [Lit ''teams'']"
| "query_pattern (UseTeam _) = [Lit ''teams'', Par ''id'']"
| "query_pattern (UseTeamMembers _) = [Lit ''teams'', Par ''id'', Lit ''members'']"
| "query_pattern (UseWorkspaceItems _ _ _) = [Lit ''teams'', Par ''teamId'', Lit ''items'']"
| "query_pattern (UseWorkspaceItem _) = [Lit ''items'', Par ''id'']"
| "query_pattern (UseDailyStats _ _) = [Lit ''stats'', Lit ''daily'']"
| "query_pattern (UsePopularIssues _) = [Lit ''issues'', Lit ''popular'']"
| "query_pattern UseExternalData = [Lit ''external'', Lit ''example'']"
| "query_pattern (UseProductSearch _) = [Lit ''search'', Lit ''products'']"
| "query_pattern (UseProduct _) = [Lit ''products'', Par ''id'']"

fun query_id :: "query \<Rightarrow> int" where
  "query_id (UseProject i) = i"
| "query_id (UseProjectIssues i _ _ _) = i"
| "query_id (UseIssue i) = i"
| "query_id (UseIssueComments i) = i"
| "query_id (UseTeam i) = i"
| "query_id (UseTeamMembers i) = i"
| "query_id (UseWorkspaceItems i _ _) = i"
| "query_id (UseWorkspaceItem i) = i"
| "query_id (UseProduct i) = i"
| "query_id _ = 0"

fun mutation_pattern :: "mutation_call \<Rightarrow> segment list" where
  "mutation_pattern (RegisterWith _) = [Lit ''users'']"
| "mutation_pattern (LoginWith _) = [Lit ''auth'', Lit ''login'']"
| "mutation_pattern (CreateProjectWith _) = [Lit ''projects'']"
| "mutation_pattern (CreateIssueWith _ _) = [Lit ''projects'', Par ''projectId'', Lit ''issues'']"
| "mutation_pattern (UpdateIssueWith _ _) = [Lit ''issues'', Par ''id'']"
| "mutation_pattern (DeleteIssueWith _) = [Lit ''issues'', Par ''id'']"
| "mutation_pattern (CreateCommentWith _ _) = [Lit ''issues'', Par ''issueId'', Lit ''comments'']"
| "mutation_pattern (CreateTeamWith _) = [Lit ''teams'']"
| "mutation_pattern (AddMemberWith _ _) = [Lit ''teams'', Par ''id'', Lit ''members'']"
| "mutation_pattern (UpdateRoleWith _ _ _) = [Lit ''teams'', Par ''teamId'', Lit ''members'', Par ''memberId'']"
| "mutation_pattern (RemoveMemberWith _ _) = [Lit ''teams'', Par ''teamId'', Lit ''members'', Par ''memberId'']"
| "mutation_pattern (CreateItemWith _ _) = [Lit ''teams'', Par ''teamId'', Lit ''items'']"
| "mutation_pattern (UpdateItemWith _ _) = [Lit ''items'', Par ''id'']"
| "mutation_pattern (DeleteItemWith _) = [Lit ''items'', Par ''id'']"

fun mutation_ids :: "mutation_call \<Rightarrow> string \<Rightarrow> int" where
  "mutation_ids (CreateIssueWith i _) p = i"
| "mutation_ids (UpdateIssueWith i _) p = i"
| "mutation_ids (DeleteIssueWith i) p = i"
| "mutation_ids (CreateCommentWith i _) p = i"
| "mutation_ids (AddMemberWith i _) p = i"
| "mutation_ids (UpdateRoleWith t m _) p = (if p = ''memberId'' then m else t)"
| "mutation_ids (RemoveMemberWith t m) p = (if p = ''memberId'' then m else t)"
| "mutation_ids (CreateItemWith i _) p = i"
| "mutation_ids (UpdateItemWith i _) p = i"
| "mutation_ids (DeleteItemWith i) p = i"
| "mutation_ids _ p = 0"

lemmas api_defs = authApi_register_def authApi_login_def authApi_getCurrentUser_def projectApi_getProjects_def
  projectApi_createProject_def projectApi_getProject_def issueApi_getProjectIssues_def issueApi_createIssue_def
  issueApi_getIssue_def issueApi_updateIssue_def issueApi_deleteIssue_def issueApi_getIssueComments_def
  issueApi_createComment_def teamApi_createTeam_def teamApi_getTeams_def teamApi_getTeam_def teamApi_getTeamMembers_def
  teamApi_addTeamMember_def teamApi_updateTeamMemberRole_def teamApi_removeTeamMember_def
  teamApi_createWorkspaceItem_def teamApi_getWorkspaceItems_def teamApi_getWorkspaceItem_def
  teamApi_updateWorkspaceItem_def teamApi_deleteWorkspaceItem_def statsApi_getDailyStats_def
  statsApi_getPopularIssues_def statsApi_getExternalData_def productApi_searchProducts_def productApi_getProduct_def

lemma issues_query_status:
  assumes "small page" and "small per"
  shows "issues_query ((case st of None \<Rightarrow> [] | Some st \<Rightarrow> if truthy st then [(''status'', st)] else []) @ page_params page per) =
    map_option (\<lambda>e. \<lparr>qi_status = e, qi_page = page, qi_size = per\<rparr>)
      (optional status_enum (case st of None \<Rightarrow> None | Some st \<Rightarrow> if truthy st then Some st else None))"
  using issues_query_pages [OF assms, of None] issues_query_pages [OF assms, of st] by (auto split: option.split)

locale client_to_backend = path_matcher matches + params_serializer ser written
  for matches ser written
begin

lemma query_received:
  assumes "small_pages q"
  shows "received matches salt uuid (queryFn ser q) = query_meaning ser q"
proof (cases q)
  case UseCurrentUser
  show ?thesis unfolding UseCurrentUser
    by (simp, rule not_received [where pat = "[Lit ''api'', Lit ''auth'', Lit ''me'']"])
      (code_simp, simp add: api_defs, simp add: api_defs, code_simp)
next
  case (UseProject i)
  show ?thesis unfolding UseProject
    by (simp, rule not_received [where pat = "[Lit ''api'', Lit ''projects'', Par ''id'']" and ids = "\<lambda>_. i"])
      (code_simp, simp add: api_defs, simp add: api_defs, code_simp)
qed (use assms in \<open>simp, intro received_as [where pat = "Lit ''api'' # query_pattern q" and ids = "\<lambda>_. query_id q"];
      simp add: api_defs bind_args_def nest_routes_def route_defs issues_query_status daily_query option.map_comp o_def\<close>)+

lemma mutation_received: "received matches salt uuid (mutationFn c) = Some (mutation_meaning salt c)"
  by (cases c; simp, intro received_as [where pat = "Lit ''api'' # mutation_pattern c" and ids = "mutation_ids c"];
      simp add: api_defs bind_args_def nest_routes_def route_defs)

end

interpretation plain_client: client_to_backend express_match plain_ser plain_written
  by unfold_locales

section \<open>Properties\<close>


lemma half_not_whole: "\<not> whole (1 / 2)"
  by code_simp


end
