(* ===== verification/Client_Forms.thy ===== *)
theory Client_Forms
  imports Client_Requests
begin

text \<open>
  The forms of the issue tracker's client: their zod schemas, their default values and what
  \<open>onSubmit\<close> sends (\<open>react/frontend/src/features/*/*Form.tsx\<close>, \<open>app/routes/LoginPage.tsx\<close> and the comment form of
  \<open>app/routes/IssueDetailPage.tsx\<close>).  \<open>handleSubmit\<close> of the form library calls \<open>onSubmit\<close> when the resolver accepts
  the data and not otherwise.

  The properties follow a form down to the tables of the backend: what was typed is what is
  stored, and an edit form that is sent as it was opened changes nothing.
\<close>

section \<open>Definitions\<close>

text \<open>\<open>z.string().min(lo).max(hi)\<close>\<close>

definition z_string :: "nat \<Rightarrow> nat \<Rightarrow> string \<Rightarrow> bool" where
  "z_string lo hi t = (lo \<le> length t \<and> length t \<le> hi)"

definition z_min :: "nat \<Rightarrow> string \<Rightarrow> bool" where
  "z_min lo t = (lo \<le> length t)"

definition handleSubmit :: "('d \<Rightarrow> bool) \<Rightarrow> ('d \<Rightarrow> 'c) \<Rightarrow> 'd \<Rightarrow> 'c option" where
  "handleSubmit schema onSubmit d = (if schema d then Some (onSubmit d) else None)"

subsection \<open>Issues\<close>

record CreateIssueFormData =
  cf_title :: string
  cf_description :: string
  cf_assigneeId :: "string option"

definition createIssueSchema :: "CreateIssueFormData \<Rightarrow> bool" where
  "createIssueSchema d = (z_string 1 200 (cf_title d) \<and> z_min 1 (cf_description d))"

text \<open>\<open>data.assigneeId ? Number(data.assigneeId) : \<dots>\<close>\<close>

definition typed_number :: "string option \<Rightarrow> jsnum option" where
  "typed_number t = (case t of None \<Rightarrow> None | Some x \<Rightarrow> if truthy x then Some (js_Number x) else None)"

definition CreateIssueForm_onSubmit :: "int \<Rightarrow> CreateIssueFormData \<Rightarrow> mutation_call" where
  "CreateIssueForm_onSubmit projectId d =
     CreateIssueWith projectId
       \<lparr>ir_title = cf_title d, ir_description = cf_description d, ir_assigneeId = typed_number (cf_assigneeId d)\<rparr>"

text \<open>An issue as the client gets it.  Its type says that the description is a text; the backend
  sends \<open>null\<close> when there is none.\<close>

record IssueDto =
  id_id :: int
  id_projectId :: int
  id_reporterId :: int
  id_assigneeId :: "int option"
  id_title :: string
  id_description :: "string option"
  id_status :: IssueStatus
  id_createdAt :: time
  id_updatedAt :: time

record EditIssueFormData =
  ef_title :: string
  ef_description :: "string option"
  ef_status :: IssueStatus
  ef_assigneeId :: "string option"

definition editIssueSchema :: "EditIssueFormData \<Rightarrow> bool" where
  "editIssueSchema d =
     (z_string 1 200 (ef_title d) \<and> (case ef_description d of None \<Rightarrow> False | Some t \<Rightarrow> z_min 1 t))"

definition EditIssueForm_defaultValues :: "IssueDto \<Rightarrow> EditIssueFormData" where
  "EditIssueForm_defaultValues issue =
     \<lparr>ef_title = id_title issue, ef_description = id_description issue, ef_status = id_status issue,
      ef_assigneeId = Some (case id_assigneeId issue of None \<Rightarrow> [] | Some a \<Rightarrow> show_int a)\<rparr>"

definition EditIssueForm_onSubmit :: "IssueDto \<Rightarrow> EditIssueFormData \<Rightarrow> mutation_call" where
  "EditIssueForm_onSubmit issue d =
     UpdateIssueWith (id_id issue)
       \<lparr>ur_title = ef_title d, ur_description = (case ef_description d of None \<Rightarrow> [] | Some t \<Rightarrow> t), ur_status = ef_status d,
        ur_assigneeId = (case typed_number (ef_assigneeId d) of None \<Rightarrow> Null | Some n \<Rightarrow> Value n)\<rparr>"

text \<open>The comment form only wants its text not to be empty (\<open>required\<close>).\<close>

definition commentRules :: "string \<Rightarrow> bool" where
  "commentRules content = (content \<noteq> [])"

definition onCommentSubmit :: "int \<Rightarrow> string \<Rightarrow> mutation_call" where
  "onCommentSubmit issueId content = CreateCommentWith issueId \<lparr>cr_content = content\<rparr>"

subsection \<open>Projects, teams and workspace items\<close>

record CreateProjectFormData =
  pf_name :: string
  pf_description :: "string option"

definition createProjectSchema :: "CreateProjectFormData \<Rightarrow> bool" where
  "createProjectSchema d =
     (z_string 1 100 (pf_name d) \<and> (case pf_description d of None \<Rightarrow> True | Some t \<Rightarrow> z_string 0 500 t))"

definition CreateProjectForm_onSubmit :: "CreateProjectFormData \<Rightarrow> mutation_call" where
  "CreateProjectForm_onSubmit d =
     CreateProjectWith \<lparr>np_name = pf_name d,
       np_description = (case pf_description d of None \<Rightarrow> None | Some t \<Rightarrow> if truthy t then Some t else None)\<rparr>"

definition createTeamSchema :: "CreateTeamRequest \<Rightarrow> bool" where
  "createTeamSchema d = z_string 1 100 (tq_name d)"

definition CreateTeamForm_onSubmit :: "CreateTeamRequest \<Rightarrow> mutation_call" where
  "CreateTeamForm_onSubmit d = CreateTeamWith d"

definition createWorkspaceItemSchema :: "CreateWorkspaceItemRequest \<Rightarrow> bool" where
  "createWorkspaceItemSchema d = (z_string 1 200 (wi_title d) \<and> z_min 1 (wi_content d))"

definition CreateWorkspaceItemForm_onSubmit :: "int \<Rightarrow> CreateWorkspaceItemRequest \<Rightarrow> mutation_call" where
  "CreateWorkspaceItemForm_onSubmit teamId d = CreateItemWith teamId d"

subsection \<open>Signing in\<close>

text \<open>\<open>zEmail\<close> is the e-mail check of the schema library.\<close>

definition loginSchema :: "(string \<Rightarrow> bool) \<Rightarrow> LoginRequest \<Rightarrow> bool" where
  "loginSchema zEmail d = (zEmail (lr_email d) \<and> z_min 1 (lr_password d))"

definition LoginPage_onSubmit :: "LoginRequest \<Rightarrow> mutation_call" where
  "LoginPage_onSubmit d = LoginWith d"

text \<open>What a form shows after its request: on success the dialogue is closed, otherwise a form with
  a \<open>root\<close> error shows its text.\<close>

datatype form_outcome = Closed | StillOpen "string option"

definition submitted :: "string option \<Rightarrow> (exn + 'a) \<Rightarrow> form_outcome" where
  "submitted rootError r = (case r of Inr _ \<Rightarrow> Closed | Inl _ \<Rightarrow> StillOpen rootError)"

section \<open>What a form sends\<close>

lemma typed_assignee: "\<bar>a\<bar> \<le> 2 ^ 53 \<Longrightarrow> typed_number (Some (show_int a)) = Some (Fin (of_int a))"
  by (simp add: typed_number_def truthy_def js_Number_show_int)

lemma empty_assignee [simp]: "typed_number (Some []) = None" "typed_number None = None"
  by (simp_all add: typed_number_def truthy_def)

lemma whole_int [simp]: "whole (of_int a)"
  by (simp add: whole_def)

lemma int_field_int [simp]: "int_field (Value (of_int a)) = Some (Value a)"
  by (simp add: int_field_def)

lemma int_field_absent [simp]: "int_field Undefined = Some Undefined" "int_field Null = Some Null"
  by (simp_all add: int_field_def)

text \<open>The row of an issue as the client sees it.\<close>

definition client_issue :: "issue \<Rightarrow> IssueDto" where
  "client_issue r =
     \<lparr>id_id = issue_id r, id_projectId = issue_projectId r, id_reporterId = issue_reporterId r,
      id_assigneeId = issue_assigneeId r, id_title = issue_title r, id_description = issue_description r,
      id_status = issue_status r, id_createdAt = issue_createdAt r, id_updatedAt = issue_updatedAt r\<rparr>"

text \<open>The update that an unchanged edit form asks for.\<close>

lemma unchanged_update:
  assumes "pred_option (\<lambda>a. \<bar>a\<bar> \<le> 2 ^ 53) (issue_assigneeId r)" and "issue_description r = Some t"
  shows "EditIssueForm_onSubmit (client_issue r) (EditIssueForm_defaultValues (client_issue r)) =
      UpdateIssueWith (issue_id r) \<lparr>ur_title = issue_title r, ur_description = t, ur_status = issue_status r,
        ur_assigneeId = (case issue_assigneeId r of None \<Rightarrow> Null | Some a \<Rightarrow> Value (Fin (of_int a)))\<rparr>"
  using assms by (cases "issue_assigneeId r")
    (simp_all add: EditIssueForm_onSubmit_def EditIssueForm_defaultValues_def client_issue_def typed_assignee)

lemma unchanged_dto:
  "issue_update_dto \<lparr>ur_title = ti, ur_description = t, ur_status = st,
      ur_assigneeId = (case a of None \<Rightarrow> Null | Some a \<Rightarrow> Value (Fin (of_int a)))\<rparr> =
    Some \<lparr>up_title = Value ti, up_description = Value t, up_status = Value st,
      up_assigneeId = (case a of None \<Rightarrow> Null | Some a \<Rightarrow> Value a)\<rparr>"
  by (cases a) (simp_all add: issue_update_dto_def json_number_def)

lemma unchanged_row:
  "issue_description r = Some t \<Longrightarrow>
     update_issue now \<lparr>up_title = Value (issue_title r), up_description = Value t, up_status = Value (issue_status r),
       up_assigneeId = (case issue_assigneeId r of None \<Rightarrow> Null | Some a \<Rightarrow> Value a)\<rparr> r = r\<lparr>issue_updatedAt := now\<rparr>"
  by (cases r) (auto simp: update_issue_def set_field_def set_nullable_def split: option.splits)

section \<open>What the backend stores\<close>

context prisma_client begin

lemma issue_checked: "db_inv s \<Longrightarrow> r \<in> set (rows (issues s)) \<Longrightarrow> issue_check s r = None"
  by (auto simp: inv_defs passes_iff)

lemma updated_issue_checked:
  assumes "issue_check s r = None" and "case up_assigneeId d of Value a \<Rightarrow> has_row user_id (users s) a | _ \<Rightarrow> True"
  shows "issue_check s (update_issue now d r) = None"
  using assms by (auto simp: issue_check_def update_issue_def set_nullable_def split: field.splits if_splits)

lemma issue_update_eq:
  assumes "db_inv s" and "r \<in> set (rows (issues s))" and "up_title d \<noteq> Null" and "up_status d \<noteq> Null"
    and "case up_assigneeId d of Value a \<Rightarrow> has_row user_id (users s) a | _ \<Rightarrow> True"
  shows "\<exists>view. IssueService_update P now (issue_id r) d s = (Inr view,
    s\<lparr>issues := (issues s)\<lparr>rows := map (\<lambda>x. if issue_id x = issue_id r then update_issue now d x else x) (rows (issues s))\<rparr>\<rparr>)"
proof -
  let ?s' = "s\<lparr>issues := (issues s)\<lparr>rows := map (\<lambda>x. if issue_id x = issue_id r then update_issue now d x else x) (rows (issues s))\<rparr>\<rparr>"
  let ?upd = "q_update (issue_d P) issues put_issues issue_check (issue_id r) (update_issue now d)"
  have upd: "?upd s = (Inr (update_issue now d r), ?s')"
    using updated_issue_checked [OF issue_checked [OF assms(1,2)] assms(5), of now]
    by (simp add: issue.update_eq [where tab = issues, OF wf_tables(3) [OF assms(1)] assms(2)] put_issues_def)
  have "db_inv (snd (?upd s))" by (intro preserves_snd [OF keep_issue_update assms(1)]) (simp add: update_issue_def)
  then have inv: "db_inv ?s'" unfolding upd by simp
  have "update_issue now d r \<in> set (rows (issues ?s'))" using assms(2) by (force simp: update_issue_def)
  from include_people_eq [OF inv this] show ?thesis
    using assms(3,4,5) upd user.find_key_has_row issue.find_key_some [OF wf_tables(3) [OF assms(1)] assms(2)]
    by (auto simp: IssueService_update_def bind_apply_Inr split: field.splits)
qed

lemma issue_create_eq:
  assumes "db_inv s" and "has_row project_id (projects s) pid" and "has_row user_id (users s) uid"
    and "case ci_assigneeId d of Value a \<Rightarrow> has_row user_id (users s) a | _ \<Rightarrow> True"
  shows "\<exists>view i. seq (issues s) < i \<and> IssueService_create P now pid uid d s = (Inr view,
    s\<lparr>issues := \<lparr>rows = rows (issues s) @ [\<lparr>issue_id = i, issue_projectId = pid, issue_reporterId = uid,
        issue_assigneeId = field_opt (ci_assigneeId d), issue_title = ci_title d,
        issue_description = field_opt (ci_description d), issue_status = OPEN, issue_viewCount = 0,
        issue_createdAt = now, issue_updatedAt = now\<rparr>], seq = i\<rparr>\<rparr>)"
proof -
  let ?row = "\<lambda>i. \<lparr>issue_id = i, issue_projectId = pid, issue_reporterId = uid,
    issue_assigneeId = field_opt (ci_assigneeId d), issue_title = ci_title d,
    issue_description = field_opt (ci_description d), issue_status = OPEN, issue_viewCount = 0,
    issue_createdAt = now, issue_updatedAt = now\<rparr>"
  let ?new = "q_create (issue_d P) issues put_issues issue_check ?row"
  obtain i where i: "seq (issues s) < i" "?new s = (case issue_check s (?row i) of Some e \<Rightarrow> (Inl (PrismaError e), s)
      | None \<Rightarrow> (Inr (?row i), put_issues \<lparr>rows = rows (issues s) @ [?row i], seq = i\<rparr> s))"
    by (rule issue.create_cases)
  let ?s' = "s\<lparr>issues := \<lparr>rows = rows (issues s) @ [?row i], seq = i\<rparr>\<rparr>"
  have new: "?new s = (Inr (?row i), ?s')"
    using assms(2-4) i(2) by (auto simp: issue_check_def field_opt_def put_issues_def split: field.splits)
  have "db_inv (snd (?new s))" by (intro preserves_snd [OF keep_issue_create assms(1)]) simp
  then have inv: "db_inv ?s'" unfolding new by simp
  have "?row i \<in> set (rows (issues ?s'))" by simp
  from include_people_eq [OF inv this] have "\<exists>view. IssueService_create P now pid uid d s = (Inr view, ?s')"
    using assms(2-4) new project.find_key_has_row user.find_key_has_row
    by (auto simp: IssueService_create_def bind_apply_Inr split: field.splits)
  then show ?thesis using i(1) by blast
qed

end

section \<open>Properties\<close>

lemma serve_mutation:
  assumes "path_matcher matches" and "mutation_meaning salt c = (e, Some r)"
  shows "serve_request matches v now tok salt uuid (mutationFn c) = nest_run v now tok r"
  using client_to_backend.mutation_received
    [OF client_to_backend.intro [OF assms(1) plain_params.params_serializer_axioms], of salt uuid c] assms(2)
  by (simp add: serve_request_def)

lemma with_user_accepted: "jwt_guard J now tok = Inr u \<Longrightarrow> with_user J now tok h = h u"
  by (simp add: with_user_def)

lemma void_Inr: "m s = (Inr a, s') \<Longrightarrow> void (bind_action m (\<lambda>x. ret (f x))) s = (Inr (), s')"
  by (simp add: void_def bind_action_def ret_def)

text \<open>C11: The edit form of an issue, sent as it was opened, changes nothing but the time of the last
  update, whatever the issue: the assignee goes through a text field and back.  (The form can
  be sent when the issue has a title of at most 200 characters and a description.)\<close>

theorem edit_form_unchanged:
  assumes "nest_libraries v" and "path_matcher matches" and "db_inv s" and "r \<in> set (rows (issues s))"
    and "jwt_guard (env_jwt v) now tok = Inr u" and "env_parse v (show_int (issue_id r)) = Some (issue_id r)"
    and "pred_option (\<lambda>a. \<bar>a\<bar> \<le> 2 ^ 53) (issue_assigneeId r)"
    and "handleSubmit editIssueSchema (EditIssueForm_onSubmit (client_issue r))
      (EditIssueForm_defaultValues (client_issue r)) = Some c"
  shows "serve_request matches v now tok salt uuid (mutationFn c) s = (Inr (), s\<lparr>issues := (issues s)\<lparr>rows :=
      map (\<lambda>x. if issue_id x = issue_id r then x\<lparr>issue_updatedAt := now\<rparr> else x) (rows (issues s))\<rparr>\<rparr>)"
proof -
  let ?d = "\<lambda>t. \<lparr>up_title = Value (issue_title r), up_description = Value t, up_status = Value (issue_status r),
      up_assigneeId = (case issue_assigneeId r of None \<Rightarrow> Null | Some a \<Rightarrow> Value a)\<rparr>"
  obtain t where t: "issue_description r = Some t"
    using assms(8) by (cases "issue_description r")
      (auto simp: handleSubmit_def editIssueSchema_def EditIssueForm_defaultValues_def client_issue_def)
  have c: "c = UpdateIssueWith (issue_id r) \<lparr>ur_title = issue_title r, ur_description = t, ur_status = issue_status r,
      ur_assigneeId = (case issue_assigneeId r of None \<Rightarrow> Null | Some a \<Rightarrow> Value (Fin (of_int a)))\<rparr>"
    using assms(8) unchanged_update [OF assms(7) t] by (simp add: handleSubmit_def split: if_splits)
  have P: "prisma_client (env_prisma v)" by (rule nest_libraries.prisma [OF assms(1)])
  have "case up_assigneeId (?d t) of Value a \<Rightarrow> has_row user_id (users s) a | _ \<Rightarrow> True"
    using prisma_client.issue_checked [OF P assms(3,4)] by (auto simp: issue_check_def split: option.splits if_splits)
  from prisma_client.issue_update_eq [OF P assms(3,4) _ _ this, of now] obtain view where
    upd: "IssueService_update (env_prisma v) now (issue_id r) (?d t) s = (Inr view, s\<lparr>issues := (issues s)\<lparr>rows :=
        map (\<lambda>x. if issue_id x = issue_id r then update_issue now (?d t) x else x) (rows (issues s))\<rparr>\<rparr>)" by auto
  have same: "map (\<lambda>x. if issue_id x = issue_id r then update_issue now (?d t) x else x) (rows (issues s)) =
      map (\<lambda>x. if issue_id x = issue_id r then x\<lparr>issue_updatedAt := now\<rparr> else x) (rows (issues s))"
    using table_wf_unique [OF wf_tables(3) [OF assms(3)] _ assms(4)] unchanged_row [OF t]
    by (intro map_cong refl) (metis (no_types))
  have "serve_request matches v now tok salt uuid (mutationFn c) = nest_run v now tok (UpdateIssue_r (show_int (issue_id r)) (?d t))"
    by (rule serve_mutation [OF assms(2), where e = Ep_updateIssue]) (simp add: c unchanged_dto)
  then show ?thesis
    using void_Inr [where m = "IssueService_update (env_prisma v) now (issue_id r) (?d t)", OF upd] same assms(6)
    by (simp add: IssueController_update_def with_user_accepted [OF assms(5)] with_id_def)
qed

text \<open>C13: What is typed into the form for a new issue is what is stored: when the form can be sent, by
  a signed-in user for a project that exists, with no assignee or the number of a user, a row
  with exactly the title, the description and the assignee of the form is added, OPEN and
  reported by the user, and nothing else changes.\<close>

theorem create_form_stored:
  assumes "nest_libraries v" and "path_matcher matches" and "db_inv s"
    and "jwt_guard (env_jwt v) now tok = Inr u" and "has_row user_id (users s) (cur_userId u)"
    and "has_row project_id (projects s) pid" and "env_parse v (show_int pid) = Some pid"
    and "cf_assigneeId d = Some (case a of None \<Rightarrow> [] | Some k \<Rightarrow> show_int k)"
    and "pred_option (\<lambda>k. \<bar>k\<bar> \<le> 2 ^ 53 \<and> has_row user_id (users s) k) a"
    and "handleSubmit createIssueSchema (CreateIssueForm_onSubmit pid) d = Some c"
  shows "\<exists>i. seq (issues s) < i \<and> serve_request matches v now tok salt uuid (mutationFn c) s = (Inr (),
    s\<lparr>issues := \<lparr>rows = rows (issues s) @ [\<lparr>issue_id = i, issue_projectId = pid, issue_reporterId = cur_userId u,
        issue_assigneeId = a, issue_title = cf_title d, issue_description = Some (cf_description d), issue_status = OPEN,
        issue_viewCount = 0, issue_createdAt = now, issue_updatedAt = now\<rparr>], seq = i\<rparr>\<rparr>)"
proof -
  let ?f = "case a of None \<Rightarrow> Undefined | Some k \<Rightarrow> Value k"
  let ?d = "\<lparr>ci_title = cf_title d, ci_description = Value (cf_description d), ci_assigneeId = ?f\<rparr>"
  have P: "prisma_client (env_prisma v)" by (rule nest_libraries.prisma [OF assms(1)])
  have "case ci_assigneeId ?d of Value a \<Rightarrow> has_row user_id (users s) a | _ \<Rightarrow> True"
    using assms(9) by (cases a) simp_all
  from prisma_client.issue_create_eq [OF P assms(3,6,5) this, of now] obtain view i where
    i: "seq (issues s) < i" and new: "IssueService_create (env_prisma v) now pid (cur_userId u) ?d s = (Inr view,
      s\<lparr>issues := \<lparr>rows = rows (issues s) @ [\<lparr>issue_id = i, issue_projectId = pid, issue_reporterId = cur_userId u,
        issue_assigneeId = field_opt ?f, issue_title = cf_title d, issue_description = field_opt (Value (cf_description d)),
        issue_status = OPEN, issue_viewCount = 0, issue_createdAt = now, issue_updatedAt = now\<rparr>], seq = i\<rparr>\<rparr>)"
    by auto
  have ok: "createIssueSchema d" and c: "c = CreateIssueForm_onSubmit pid d"
    using assms(10) by (simp_all add: handleSubmit_def split: if_splits)
  have "mutation_meaning salt c = (Ep_createIssue, Some (CreateIssue_r (show_int pid) ?d))"
    using assms(8,9) by (cases a) (simp_all add: c CreateIssueForm_onSubmit_def issue_dto_def typed_assignee json_number_def)
  then have "serve_request matches v now tok salt uuid (mutationFn c) = nest_run v now tok (CreateIssue_r (show_int pid) ?d)"
    by (rule serve_mutation [OF assms(2)])
  moreover have "field_opt ?f = a" by (cases a) (simp_all add: field_opt_def)
  moreover have "valid_CreateIssueDto ?d"
    using ok by (auto simp: createIssueSchema_def z_string_def valid_CreateIssueDto_def)
  ultimately show ?thesis
    using void_Inr [where m = "IssueService_create (env_prisma v) now pid (cur_userId u) ?d", OF new] i assms(7)
    by (auto simp: IssueController_create_def with_user_accepted [OF assms(4)] with_id_def with_body_def field_opt_def)
qed

text \<open>Concrete forms: alice, in a store with one project and one issue that she works on.\<close>

definition form_issue :: issue where
  "form_issue = (issue_row 3 10 0)\<lparr>issue_assigneeId := Some 1, issue_description := Some ''it breaks''\<rparr>"

definition form_db :: es_db where
  "form_db = (db.extend issue_db \<lparr>es_docs = None\<rparr>)\<lparr>issues := \<lparr>rows = [form_issue], seq = 3\<rparr>\<rparr>"

lemma form_db_inv: "db_inv form_db"
  by code_simp

lemma form_alice:
  "jwt_guard (env_jwt mem_env) 21 (Some alice_token) = Inr \<lparr>cur_userId = 1, cur_email = ''alice@example.com''\<rparr>"
  "env_parse mem_env (show_int 1) = Some 1" "env_parse mem_env (show_int 3) = Some 3"
  using alice_gets(1) by (simp_all add: mem_env_def numeral_pipe_def)

theorem edit_form_unchanged_witness:
  "serve_request express_match mem_env 21 (Some alice_token) ''salt'' ''uuid''
     (mutationFn (EditIssueForm_onSubmit (client_issue form_issue) (EditIssueForm_defaultValues (client_issue form_issue)))) form_db =
     (Inr (), form_db\<lparr>issues := \<lparr>rows = [form_issue\<lparr>issue_updatedAt := 21\<rparr>], seq = 3\<rparr>\<rparr>)"
proof -
  have "handleSubmit editIssueSchema (EditIssueForm_onSubmit (client_issue form_issue))
      (EditIssueForm_defaultValues (client_issue form_issue)) =
    Some (EditIssueForm_onSubmit (client_issue form_issue) (EditIssueForm_defaultValues (client_issue form_issue)))"
    by (simp add: handleSubmit_def editIssueSchema_def EditIssueForm_defaultValues_def client_issue_def form_issue_def
        issue_row_def z_string_def z_min_def)
  from edit_form_unchanged [OF mem_env.nest_libraries_axioms express.path_matcher_axioms form_db_inv _ form_alice(1) _ _ this]
  show ?thesis using form_alice(3) by (simp add: form_db_def form_issue_def issue_row_def)
qed

theorem create_form_stored_witness:
  "\<exists>i. 3 < i \<and> serve_request express_match mem_env 21 (Some alice_token) ''salt'' ''uuid''
     (mutationFn (CreateIssueForm_onSubmit 1 \<lparr>cf_title = ''new'', cf_description = ''text'', cf_assigneeId = Some ''1''\<rparr>)) form_db =
     (Inr (), form_db\<lparr>issues := \<lparr>rows = [form_issue, \<lparr>issue_id = i, issue_projectId = 1, issue_reporterId = 1,
        issue_assigneeId = Some 1, issue_title = ''new'', issue_description = Some ''text'', issue_status = OPEN,
        issue_viewCount = 0, issue_createdAt = 21, issue_updatedAt = 21\<rparr>], seq = i\<rparr>\<rparr>)"
proof -
  let ?d = "\<lparr>cf_title = ''new'', cf_description = ''text'', cf_assigneeId = Some ''1''\<rparr>"
  have c: "handleSubmit createIssueSchema (CreateIssueForm_onSubmit 1) ?d = Some (CreateIssueForm_onSubmit 1 ?d)"
    by (simp add: handleSubmit_def createIssueSchema_def z_string_def z_min_def)
  have "has_row user_id (users form_db) 1" "has_row project_id (projects form_db) 1" "show_int 1 = ''1''"
    by code_simp+
  then show ?thesis
    using create_form_stored [OF mem_env.nest_libraries_axioms express.path_matcher_axioms form_db_inv form_alice(1) _ _
        form_alice(2) _ _ c, of "Some 1" "''salt''" "''uuid''"] by (simp add: form_db_def)
qed

end
