(* ===== verification/Views.thy ===== *)
theory Views
  imports Prelude
begin

text \<open>
  What a React component shows, for both frontends: the tree of texts, links, buttons with what a
  click does, inputs and choices.  Style, pictograms and accessibility labels are left out.
  The type parameter is what the user can do on the page.
\<close>

section \<open>Definitions\<close>

text \<open>\<open>Anchor\<close>: a link with the segments of its target; \<open>Push\<close>: a button with its label, whether it is
  enabled and what it does, if anything; \<open>Entry\<close>: a labelled input with its value; \<open>Options\<close>: a choice with the
  selected value.\<close>

datatype 'c html =
    Words string
  | Anchor "string list" "'c html list"
  | Push string bool "'c option"
  | Entry string string
  | Options string string "string list" "'c option"
  | Group "'c html list"

fun links :: "'c html \<Rightarrow> string list list" where
  "links (Anchor to vs) = to # concat (map links vs)"
| "links (Group vs) = concat (map links vs)"
| "links _ = []"

fun clicks :: "'c html \<Rightarrow> 'c list" where
  "clicks (Anchor _ vs) = concat (map clicks vs)"
| "clicks (Group vs) = concat (map clicks vs)"
| "clicks (Push _ enabled act) = (if enabled then case act of None \<Rightarrow> [] | Some c \<Rightarrow> [c] else [])"
| "clicks (Options _ _ _ act) = (case act of None \<Rightarrow> [] | Some c \<Rightarrow> [c])"
| "clicks (Words _) = []"
| "clicks (Entry _ _) = []"

fun shows_text :: "string \<Rightarrow> 'c html \<Rightarrow> bool" where
  "shows_text t (Words w) = (w = t)"
| "shows_text t (Anchor _ vs) = list_ex (shows_text t) vs"
| "shows_text t (Group vs) = list_ex (shows_text t) vs"
| "shows_text t (Push l _ _) = (l = t)"
| "shows_text t (Entry l v) = (l = t \<or> v = t)"
| "shows_text t (Options l v opts _) = (l = t \<or> v = t \<or> t \<in> set opts)"

text \<open>\<open>{cond && <...>}\<close>\<close>

definition only_if :: "bool \<Rightarrow> 'c html list \<Rightarrow> 'c html list" where
  "only_if c vs = (if c then vs else [])"

end
