(* ===== verification/Client_Views.thy ===== *)
theory Client_Views
  imports Client_Forms Views
begin

text \<open>
  What the components of the issue tracker's client show: the shared components
  (\<open>react/frontend/src/shared/components\<close>), the layout (\<open>app/layouts\<close>) and the forms with the messages of their
  schemas.  A view (\<open>Views\<close>) is the tree of what the user sees and can do.
\<close>

section \<open>Definitions\<close>

subsection \<open>Views\<close>

text \<open>What a click or a change can do.\<close>

datatype click =
    Submit
  | OpenDialog
  | CloseDialog
  | ShowStatus "IssueStatus option"
  | OpenEdit
  | DeleteThisIssue
  | ShowMembers
  | ShowWorkspace
  | ChangeRole int
  | RemoveThis int
  | Refetch
  | GoToPage int
  | ClearFilters
  | SignOut
  | ReloadPage

type_synonym view = "click html"

subsection \<open>Shared components\<close>

definition LoadingSpinner :: "string \<Rightarrow> view" where
  "LoadingSpinner message = Group (only_if (truthy message) [Words message])"

definition ErrorMessage :: "string \<Rightarrow> string \<Rightarrow> click option \<Rightarrow> view" where
  "ErrorMessage title message onRetry =
     Group ([Words title, Words message] @ only_if (onRetry \<noteq> None) [Push ''Try again'' True onRetry])"

definition EmptyState :: "string \<Rightarrow> string \<Rightarrow> view option \<Rightarrow> view" where
  "EmptyState title message action =
     Group ([Words title, Words message] @ (case action of None \<Rightarrow> [] | Some a \<Rightarrow> [a]))"

text \<open>\<open>QueryStateHandler\<close> (\<open>Client_Tracker\<close>) with these components for its states.\<close>

definition QueryStateHandler_view ::
    "bool \<Rightarrow> bool \<Rightarrow> string option \<Rightarrow> 'd option \<Rightarrow> ('d \<Rightarrow> bool) option \<Rightarrow> string \<Rightarrow> string \<Rightarrow> string \<Rightarrow> ('d \<Rightarrow> view) \<Rightarrow> view" where
  "QueryStateHandler_view isLoading isError err data isEmpty emptyMessage emptyTitle loadingMessage children =
     (case QueryStateHandler isLoading isError err data isEmpty children of
        Loading \<Rightarrow> LoadingSpinner loadingMessage
      | ErrorShown m \<Rightarrow> ErrorMessage ''Error'' m None
      | EmptyShown \<Rightarrow> EmptyState emptyTitle emptyMessage None
      | Content v \<Rightarrow> v
      | RedirectToLogin \<Rightarrow> Group [])"

record 'r column =
  col_header :: string
  col_render :: "'r \<Rightarrow> view"

definition Table_view :: "'r column list \<Rightarrow> 'r list \<Rightarrow> string \<Rightarrow> view" where
  "Table_view columns data emptyMessage =
     (if data = [] then Words emptyMessage
      else Group [Group (map (\<lambda>c. Words (col_header c)) columns),
                  Group (map (\<lambda>item. Group (map (\<lambda>c. col_render c item) columns)) data)])"

text \<open>\<open>ErrorBoundary\<close>: \<open>failed\<close> is the error that rendering the children threw.\<close>

definition ErrorBoundary :: "string option \<Rightarrow> view \<Rightarrow> view" where
  "ErrorBoundary failed children = (case failed of
       None \<Rightarrow> children
     | Some e \<Rightarrow> Group [Words ''Something went wrong'',
         Words ''An unexpected error occurred. Please try refreshing the page.'',
         Group [Words ''Error details'', Words e], Push ''Reload Page'' True (Some ReloadPage)])"

subsection \<open>Layout\<close>

definition Header_view :: "UserDto option \<Rightarrow> bool \<Rightarrow> view" where
  "Header_view user isAuth =
     Group ([Anchor [] [Words ''Issue Tracker''],
       Anchor [] [Words ''Home''], Anchor [''projects''] [Words ''Projects''], Anchor [''issues''] [Words ''Issues''],
       Anchor [''teams''] [Words ''Teams'']] @
      (case user of
         Some u \<Rightarrow> if isAuth then [Words (''Hello, '' @ ud_nickname u), Push ''Logout'' True (Some SignOut)]
                   else [Anchor [''login''] [Words ''Login'']]
       | None \<Rightarrow> [Anchor [''login''] [Words ''Login'']]))"

definition sidebar_links :: "(string list \<times> string) list" where
  "sidebar_links = [([], ''Dashboard''), ([''projects''], ''Projects''), ([''issues''], ''Issues''), ([''teams''], ''Teams''),
     ([''stats''], ''Statistics''), ([''popular''], ''Popular Issues''), ([''external''], ''External API''),
     ([''products''], ''Product Search'')]"

definition Sidebar_view :: view where
  "Sidebar_view = Group (map (\<lambda>(to, label). Anchor to [Words label]) sidebar_links)"

definition MainLayout :: "UserDto option \<Rightarrow> bool \<Rightarrow> view \<Rightarrow> view" where
  "MainLayout user isAuth children = Group [Header_view user isAuth, Sidebar_view, children]"

subsection \<open>Forms\<close>

text \<open>The message of \<open>z.string().min(1, required).max(hi, long)\<close> for a value, the first that fails.\<close>

definition z_error :: "nat \<Rightarrow> string \<Rightarrow> nat option \<Rightarrow> string \<Rightarrow> string \<Rightarrow> string option" where
  "z_error lo required hi long t =
     (if length t < lo then Some required
      else case hi of None \<Rightarrow> None | Some h \<Rightarrow> if h < length t then Some long else None)"

definition error_words :: "string option \<Rightarrow> view list" where
  "error_words e = (case e of None \<Rightarrow> [] | Some m \<Rightarrow> [Words m])"

text \<open>The buttons at the foot of a form.\<close>

definition form_buttons :: "click option \<Rightarrow> bool \<Rightarrow> string \<Rightarrow> string \<Rightarrow> view list" where
  "form_buttons onCancel isSubmitting busy idle =
     only_if (onCancel \<noteq> None) [Push ''Cancel'' True onCancel] @
     [Push (if isSubmitting then busy else idle) (\<not> isSubmitting) (Some Submit)]"

definition createIssue_errors :: "CreateIssueFormData \<Rightarrow> string option \<times> string option" where
  "createIssue_errors d =
     (z_error 1 ''Title is required'' (Some 200) ''Title is too long'' (cf_title d),
      z_error 1 ''Description is required'' None [] (cf_description d))"

definition CreateIssueForm_view :: "CreateIssueFormData \<Rightarrow> string option \<times> string option \<Rightarrow> click option \<Rightarrow> bool \<Rightarrow> view" where
  "CreateIssueForm_view d errors onCancel isSubmitting =
     Group ([Entry ''Title *'' (cf_title d)] @ error_words (fst errors) @
       [Entry ''Description *'' (cf_description d)] @ error_words (snd errors) @
       [Entry ''Assignee ID (Optional)'' (case cf_assigneeId d of None \<Rightarrow> [] | Some t \<Rightarrow> t)] @
       form_buttons onCancel isSubmitting ''Creating...'' ''Create Issue'')"

text \<open>\<open>nullMessage\<close> is the schema library's own message for a value that is \<open>null\<close>.\<close>

definition editIssue_errors :: "string \<Rightarrow> EditIssueFormData \<Rightarrow> string option \<times> string option" where
  "editIssue_errors nullMessage d =
     (z_error 1 ''Title is required'' (Some 200) ''Title is too long'' (ef_title d),
      case ef_description d of
        None \<Rightarrow> Some nullMessage
      | Some t \<Rightarrow> z_error 1 ''Description is required'' None [] t)"

fun status_text :: "IssueStatus \<Rightarrow> string" where
  "status_text OPEN = ''OPEN''"
| "status_text IN_PROGRESS = ''IN_PROGRESS''"
| "status_text RESOLVED = ''RESOLVED''"
| "status_text CLOSED = ''CLOSED''"

definition EditIssueForm_view :: "EditIssueFormData \<Rightarrow> string option \<times> string option \<Rightarrow> click option \<Rightarrow> bool \<Rightarrow> view" where
  "EditIssueForm_view d errors onCancel isSubmitting =
     Group ([Entry ''Title *'' (ef_title d)] @ error_words (fst errors) @
       [Entry ''Description *'' (case ef_description d of None \<Rightarrow> [] | Some t \<Rightarrow> t)] @ error_words (snd errors) @
       [Options ''Status *'' (status_text (ef_status d)) [''Open'', ''In Progress'', ''Resolved'', ''Closed''] None,
        Entry ''Assignee ID (Optional)'' (case ef_assigneeId d of None \<Rightarrow> [] | Some t \<Rightarrow> t)] @
       form_buttons onCancel isSubmitting ''Saving...'' ''Save Changes'')"

definition createProject_errors :: "CreateProjectFormData \<Rightarrow> string option \<times> string option" where
  "createProject_errors d =
     (z_error 1 ''Project name is required'' (Some 100) ''Name is too long'' (pf_name d),
      case pf_description d of None \<Rightarrow> None | Some t \<Rightarrow> z_error 0 [] (Some 500) ''Description is too long'' t)"

definition CreateProjectForm_view :: "CreateProjectFormData \<Rightarrow> string option \<times> string option \<Rightarrow> click option \<Rightarrow> bool \<Rightarrow> view" where
  "CreateProjectForm_view d errors onCancel isSubmitting =
     Group ([Entry ''Project Name *'' (pf_name d)] @ error_words (fst errors) @
       [Entry ''Description'' (case pf_description d of None \<Rightarrow> [] | Some t \<Rightarrow> t)] @ error_words (snd errors) @
       form_buttons onCancel isSubmitting ''Creating...'' ''Create Project'')"

definition createTeam_errors :: "CreateTeamRequest \<Rightarrow> string option" where
  "createTeam_errors d = z_error 1 ''Team name is required'' (Some 100) ''Team name is too long'' (tq_name d)"

text \<open>The forms of teams and workspace items also show a \<open>root\<close> error, set when the request failed.\<close>

definition CreateTeamForm_view :: "CreateTeamRequest \<Rightarrow> string option \<Rightarrow> string option \<Rightarrow> click option \<Rightarrow> bool \<Rightarrow> view" where
  "CreateTeamForm_view d rootError nameError onCancel isSubmitting =
     Group (error_words rootError @ [Entry ''Team Name'' (tq_name d)] @ error_words nameError @
       form_buttons onCancel isSubmitting ''Creating...'' ''Create Team'')"

definition createItem_errors :: "CreateWorkspaceItemRequest \<Rightarrow> string option \<times> string option" where
  "createItem_errors d =
     (z_error 1 ''Title is required'' (Some 200) ''Title is too long'' (wi_title d),
      z_error 1 ''Content is required'' None [] (wi_content d))"

definition CreateWorkspaceItemForm_view ::
    "CreateWorkspaceItemRequest \<Rightarrow> string option \<Rightarrow> string option \<times> string option \<Rightarrow> click option \<Rightarrow> bool \<Rightarrow> view" where
  "CreateWorkspaceItemForm_view d rootError errors onCancel isSubmitting =
     Group (error_words rootError @ [Entry ''Title'' (wi_title d)] @ error_words (fst errors) @
       [Entry ''Content'' (wi_content d)] @ error_words (snd errors) @
       form_buttons onCancel isSubmitting ''Creating...'' ''Create Item'')"

definition login_errors :: "(string \<Rightarrow> bool) \<Rightarrow> LoginRequest \<Rightarrow> string option \<times> string option" where
  "login_errors zEmail d =
     (if zEmail (lr_email d) then None else Some ''Invalid email address'',
      z_error 1 ''Password is required'' None [] (lr_password d))"

definition LoginPage_view :: "LoginRequest \<Rightarrow> string option \<Rightarrow> string option \<times> string option \<Rightarrow> bool \<Rightarrow> view" where
  "LoginPage_view d rootError errors isSubmitting =
     Group ([Words ''Login''] @ error_words rootError @ [Entry ''Email'' (lr_email d)] @ error_words (fst errors) @
       [Entry ''Password'' (lr_password d)] @ error_words (snd errors) @
       [Push (if isSubmitting then ''Signing In...'' else ''Sign In'') (\<not> isSubmitting) (Some Submit)])"

section \<open>Messages of the forms\<close>

text \<open>A form is sent exactly when it has no message to show.\<close>

lemma form_messages:
  "createIssueSchema d \<longleftrightarrow> createIssue_errors d = (None, None)"
  "editIssueSchema ed \<longleftrightarrow> editIssue_errors nullMessage ed = (None, None)"
  "createProjectSchema pd \<longleftrightarrow> createProject_errors pd = (None, None)"
  "createTeamSchema td \<longleftrightarrow> createTeam_errors td = None"
  "createWorkspaceItemSchema wd \<longleftrightarrow> createItem_errors wd = (None, None)"
  "loginSchema zEmail ld \<longleftrightarrow> login_errors zEmail ld = (None, None)"
  by (auto simp: createIssueSchema_def createIssue_errors_def editIssueSchema_def editIssue_errors_def
      createProjectSchema_def createProject_errors_def createTeamSchema_def createTeam_errors_def
      createWorkspaceItemSchema_def createItem_errors_def loginSchema_def login_errors_def z_error_def z_string_def z_min_def Suc_le_eq
      split: option.splits)

end
