(* ===== verification/Js_Double.thy ===== *)
theory Js_Double
  imports Js_Number
begin

text \<open>
  Facts on binary64 values that time arithmetic relies on: the significand of a double, the
  gap below an integer, \<open>Math.floor\<close> of a rounded quotient, remainders, and the sign of a
  rounded difference.
\<close>

section \<open>Numbers that are doubles\<close>

lemma round_double_error_abs:
  assumes "0 < x"
  shows "\<bar>round_double x - x\<bar> \<le> pow2 (max (- 1074) (rat_exponent x - 52) - 1)"
proof -
  let ?e = "max (- 1074) (rat_exponent x - 52)"
  have rd: "round_double x = of_int (round_half_even (x / pow2 ?e)) * pow2 ?e"
    using assms by (simp add: round_double_def Let_def)
  have "\<bar>round_double x - x\<bar> = \<bar>of_int (round_half_even (x / pow2 ?e)) - x / pow2 ?e\<bar> * pow2 ?e"
    unfolding rd by (simp add: abs_mult [of _ "pow2 ?e", unfolded pow2_abs, symmetric] left_diff_distrib)
  also have "\<dots> \<le> 1 / 2 * pow2 ?e"
    by (intro mult_right_mono round_half_even_near) simp
  also have "\<dots> = pow2 (?e - 1)"
    by (simp add: pow2_diff) (simp add: pow2_def)
  finally show ?thesis .
qed

text \<open>A positive double has a 53-bit significand.\<close>

lemma double_significand:
  assumes "is_double x" and "0 < x"
  obtains m e where "x = of_int m * pow2 e" "0 < m" "m < 2 ^ 53" "- 1074 \<le> e" "e = - 1074 \<or> pow2 (e + 52) \<le> x"
proof -
  let ?e = "max (- 1074) (rat_exponent x - 52)"
  let ?m = "round_half_even (x / pow2 ?e)"
  have x: "x = of_int ?m * pow2 ?e"
    using assms by (simp add: is_double_def round_double_def Let_def)
  have "0 < of_int ?m * pow2 ?e" using x assms(2) by simp
  then have m: "0 < ?m" by (metis of_int_0_less_iff pow2_pos zero_less_mult_pos2)
  have "x < pow2 (rat_exponent x + 1)" by (rule rat_exponent_bounds(2) [OF assms(2)])
  also have "\<dots> \<le> pow2 (?e + 53)" by simp
  also have "\<dots> = pow2 ?e * of_int (2 ^ 53)" by (simp add: pow2_add pow2_int)
  finally have "of_int ?m * pow2 ?e < pow2 ?e * of_int (2 ^ 53)" using x by simp
  then have "of_int ?m < (of_int (2 ^ 53) :: rat)"
    by (metis mult.commute mult_less_cancel_right_pos pow2_pos)
  then have "?m < 2 ^ 53" by (simp only: of_int_less_iff)
  moreover have "?e = - 1074 \<or> pow2 (?e + 52) \<le> x"
    using rat_exponent_bounds(1) [OF assms(2)] by (auto simp: max_def)
  ultimately show ?thesis using that [OF x m] by simp
qed

lemma double_below_pow53:
  assumes "is_double x" and "0 < x" and "x < 2 ^ 53"
  obtains m e where "x = of_int m * pow2 e" "0 < m" "m < 2 ^ 53" "- 1074 \<le> e" "e \<le> 0"
proof -
  obtain m e where me: "x = of_int m * pow2 e" "0 < m" "m < 2 ^ 53" "- 1074 \<le> e" "e = - 1074 \<or> pow2 (e + 52) \<le> x"
    using double_significand [OF assms(1,2)] .
  have "e \<le> 0"
  proof (cases "e = - 1074")
    case False
    with me(5) assms(3) have "pow2 (e + 52) < pow2 53" by (simp add: pow2_def)
    then show ?thesis by simp
  qed simp
  with me show ?thesis using that by blast
qed

text \<open>Below an integer a double keeps a relative distance of more than \<open>2^-53\<close>, so rounding a
  quotient or a product does not reach the integer.\<close>

lemma double_gap:
  assumes "is_double x" and "0 \<le> x" and "x < of_int N" and "of_int N \<le> (2 ^ 53 :: rat)"
  shows "x * (1 + pow2 (- 53)) < of_int N"
proof (cases "x = 0")
  case False
  then have "0 < x" "x < 2 ^ 53" using assms by auto
  then obtain m e where me: "x = of_int m * pow2 e" "0 < m" "m < 2 ^ 53" "- 1074 \<le> e" "e \<le> 0"
    using double_below_pow53 [OF assms(1)] by blast
  let ?k = "N * 2 ^ nat (- e)"
  have p: "pow2 e * of_int (2 ^ nat (- e)) = (1 :: rat)"
    using me(5) by (simp add: pow2_def)
  have N: "of_int N = of_int ?k * pow2 e" using p by (simp add: mult.assoc mult.commute)
  have "of_int m * pow2 e < of_int ?k * pow2 e" using assms(3) me(1) N by metis
  then have "(of_int m :: rat) < of_int ?k" by (rule mult_right_less_imp_less) simp
  then have "m < ?k" by (simp only: of_int_less_iff)
  then have "(of_int m + 1 :: rat) \<le> of_int ?k" by (metis of_int_1 of_int_add of_int_le_iff zless_imp_add1_zle)
  then have "(of_int m + 1) * pow2 e \<le> of_int N" unfolding N by (intro mult_right_mono) simp_all
  then have "x + pow2 e \<le> of_int N" by (simp add: me(1) distrib_right)
  moreover have "x * pow2 (- 53) < pow2 e"
  proof -
    have "(of_int m :: rat) < of_int (2 ^ 53)" using me(3) by (simp only: of_int_less_iff)
    then have "of_int m * pow2 (- 53) < (1 :: rat)" by (simp add: pow2_def)
    then have "of_int m * pow2 (- 53) * pow2 e < 1 * pow2 e" by (intro mult_strict_right_mono) simp_all
    then show ?thesis by (simp add: me(1) mult_ac)
  qed
  ultimately have "x + x * pow2 (- 53) < of_int N" by linarith
  then show ?thesis by (simp add: distrib_left)
qed (use assms in simp)

lemma round_double_le:
  assumes "0 \<le> x"
  shows "round_double x \<le> x * (1 + pow2 (- 53)) \<or> round_double x < 1 / 2 ^ 900"
proof (cases "x = 0")
  case False
  with assms have x: "0 < x" by simp
  show ?thesis
  proof (cases "pow2 (- 1000) \<le> x")
    case True
    from round_double_error [OF x this] show ?thesis by (simp add: algebra_simps abs_le_iff)
  next
    case False
    have "pow2 (rat_exponent x) < pow2 (- 1000)" using rat_exponent_bounds(1) [OF x] False by linarith
    then have "max (- 1074) (rat_exponent x - 52) - 1 < - 1000" by simp
    then have "pow2 (max (- 1074) (rat_exponent x - 52) - 1) < pow2 (- 1000)" by (simp only: pow2_less_iff)
    then have "round_double x < pow2 (- 1000) + pow2 (- 1000)"
      using round_double_error_abs [OF x] False by linarith
    also have "\<dots> = pow2 (- 999)" using pow2_add [of "- 1000" 1] by (simp add: pow2_def)
    also have "\<dots> < pow2 (- 900)" by (simp only: pow2_less_iff)
    finally show ?thesis by (simp add: pow2_def)
  qed
qed simp

lemma round_double_lower:
  assumes "0 \<le> x"
  shows "x * (1 - pow2 (- 53)) - 1 / 2 ^ 900 \<le> round_double x"
proof (cases "x = 0")
  case False
  with assms have x: "0 < x" by simp
  show ?thesis
  proof (cases "pow2 (- 1000) \<le> x")
    case True
    have "(0 :: rat) \<le> 1 / 2 ^ 900" by simp
    with round_double_error [OF x True] show ?thesis by (auto simp: algebra_simps abs_le_iff)
  next
    case False
    have "x * (1 - pow2 (- 53)) \<le> x" using x by (simp add: algebra_simps)
    also have "\<dots> \<le> pow2 (- 900)" using False pow2_strict_mono [of "- 1000" "- 900"] by linarith
    finally have "x * (1 - pow2 (- 53)) - 1 / 2 ^ 900 \<le> 0" by (simp add: pow2_def)
    with round_double_nonneg [OF assms] show ?thesis by linarith
  qed
qed simp

lemma round_scaled_below:
  assumes "is_double x" "0 \<le> x" "x < of_int N" "of_int N \<le> (2 ^ 53 :: rat)" "1 \<le> N" "0 < c" "1 \<le> c * of_int N"
  shows "round_double (c * x) < c * of_int N"
proof -
  have "c * (x * (1 + pow2 (- 53))) < c * of_int N"
    by (rule mult_strict_left_mono [OF double_gap [OF assms(1-4)] assms(6)])
  then have a: "c * x * (1 + pow2 (- 53)) < c * of_int N" by (simp add: mult.assoc)
  have "(1 :: rat) / 2 ^ 900 < 1" by simp
  then have "1 / 2 ^ 900 < c * of_int N" using assms(7) by linarith
  with a round_double_le [of "c * x"] assms(2,6) show ?thesis by (auto intro: order_le_less_trans)
qed


text \<open>\<open>Math.floor(x / n)\<close> for a positive integer \<open>n\<close> is not disturbed by the rounding, the
  remainder by \<open>n\<close> is a double, and the floor of the remainder is the remainder of the floor.\<close>

lemma round_double_ge_int:
  assumes "of_int k \<le> x" and "0 \<le> k" and "k \<le> 2 ^ 52" and "x < of_int k + 1"
  shows "of_int k \<le> round_double x"
proof (cases "k = 0")
  case True
  with assms(1) show ?thesis by (simp add: round_double_nonneg)
next
  case False
  let ?e = "rat_exponent x - 52"
  have k: "1 \<le> k" using False assms(2) by simp
  have "(1 :: rat) \<le> of_int k" using k by simp
  then have x1: "1 \<le> x" using assms(1) by linarith
  then have x: "0 < x" by simp
  have "pow2 0 < pow2 (rat_exponent x + 1)" using rat_exponent_bounds(2) [OF x] x1 by (simp add: pow2_def)
  then have e0: "0 \<le> rat_exponent x" by simp
  have "(of_int k :: rat) \<le> of_int (2 ^ 52)" using assms(3) by (simp only: of_int_le_iff)
  then have "x < 2 ^ 52 + 1" using assms(4) by simp
  then have "x < pow2 53" by (simp add: pow2_def)
  then have "pow2 (rat_exponent x) < pow2 53" using rat_exponent_bounds(1) [OF x] by linarith
  then have e1: "?e \<le> 0" by simp
  have mx: "max (- 1074) ?e = ?e" using e0 by simp
  have rd: "round_double x = of_int (round_half_even (x / pow2 ?e)) * pow2 ?e"
    using x mx by (simp add: round_double_def Let_def)
  let ?k = "k * 2 ^ nat (- ?e)"
  have kk: "of_int k / pow2 ?e = of_int ?k" using e1 by (simp add: pow2_def)
  have "of_int k / pow2 ?e \<le> x / pow2 ?e" by (intro divide_right_mono assms(1)) simp
  then have "?k \<le> \<lfloor>x / pow2 ?e\<rfloor>" unfolding kk by (simp add: le_floor_iff)
  also have "\<dots> \<le> round_half_even (x / pow2 ?e)" by (simp add: round_half_even_def Let_def)
  finally have "of_int ?k \<le> (of_int (round_half_even (x / pow2 ?e)) :: rat)" by (simp only: of_int_le_iff)
  then have "of_int k / pow2 ?e \<le> of_int (round_half_even (x / pow2 ?e))" by (simp only: kk)
  then show ?thesis unfolding rd by (simp add: pos_divide_le_eq)
qed

lemma floor_js_div:
  assumes "is_double x" and "0 \<le> x" and "x < 2 ^ 52" and "1 \<le> n"  and "n \<le> 2 ^ 20"
  shows "\<lfloor>js_div x (of_int n)\<rfloor> = \<lfloor>x / of_int n\<rfloor>"
proof -
  let ?k = "\<lfloor>x / of_int n\<rfloor>"
  have n: "(1 :: rat) \<le> of_int n" using assms(4) by simp
  then have n0: "(0 :: rat) < of_int n" by simp
  have k: "of_int ?k \<le> x / of_int n" "x / of_int n < of_int ?k + 1" by linarith+
  have "x / of_int n \<le> x" using assms(2) n n0 by (simp add: pos_divide_le_eq mult_left_mono [of 1 "of_int n" x, simplified])
  then have kx: "of_int ?k \<le> x" using k(1) by linarith
  have "(2 ^ 52 :: rat) = of_int (2 ^ 52)" by simp
  then have "(of_int ?k :: rat) < of_int (2 ^ 52)" using kx assms(3) by linarith
  then have k52: "?k < 2 ^ 52" by (simp only: of_int_less_iff)
  have k0: "0 \<le> ?k" using assms(2) n0 by simp
  have low: "of_int ?k \<le> js_div x (of_int n)"
    unfolding js_div_def using k k0 k52 by (intro round_double_ge_int) auto
  have "x < (of_int ?k + 1) * of_int n" using k(2) n0 by (simp add: pos_divide_less_eq)
  then have xN: "x < of_int (n * (?k + 1))" by (simp add: algebra_simps)
  have "of_int ?k * of_int n \<le> x" using k(1) n0 by (simp only: pos_le_divide_eq)
  then have "of_int n * of_int ?k \<le> x" by (simp only: mult.commute)
  moreover have "(of_int n :: rat) \<le> of_int (2 ^ 20)" using assms(5) by (simp only: of_int_le_iff)
  ultimately have "of_int (n * (?k + 1)) \<le> (2 ^ 53 :: rat)" using assms(3) by (simp add: algebra_simps)
  from round_scaled_below [OF assms(1,2) xN this, of "1 / of_int n"]
  have "round_double (1 / of_int n * x) < 1 / of_int n * of_int (n * (?k + 1))"
    using n n0 k0 assms(4) by (simp add: mult_pos_pos int_one_le_iff_zero_less)
  then have "js_div x (of_int n) < of_int ?k + 1" using n0 by (simp add: js_div_def)
  with low show ?thesis by (simp add: floor_eq_iff)
qed

lemma is_double_zero [simp]: "is_double 0"
  by (simp add: is_double_def)

lemma floor_div_int:
  fixes x :: rat
  assumes "1 \<le> n"
  shows "\<lfloor>x / of_int n\<rfloor> = \<lfloor>x\<rfloor> div n"
proof (rule floor_unique)
  have n0: "(0 :: rat) < of_int n" using assms by simp
  have "n * (\<lfloor>x\<rfloor> div n) \<le> \<lfloor>x\<rfloor>" "\<lfloor>x\<rfloor> + 1 \<le> n * (\<lfloor>x\<rfloor> div n + 1)"
  proof -
    have "n * (\<lfloor>x\<rfloor> div n) + \<lfloor>x\<rfloor> mod n = \<lfloor>x\<rfloor>" by (rule mult_div_mod_eq)
    moreover have "0 \<le> \<lfloor>x\<rfloor> mod n" "\<lfloor>x\<rfloor> mod n < n" using assms by simp_all
    ultimately show "n * (\<lfloor>x\<rfloor> div n) \<le> \<lfloor>x\<rfloor>" "\<lfloor>x\<rfloor> + 1 \<le> n * (\<lfloor>x\<rfloor> div n + 1)"
      unfolding distrib_left by linarith+
  qed
  then have "of_int (n * (\<lfloor>x\<rfloor> div n)) \<le> (of_int \<lfloor>x\<rfloor> :: rat)"
    "of_int (\<lfloor>x\<rfloor> + 1) \<le> (of_int (n * (\<lfloor>x\<rfloor> div n + 1)) :: rat)" by (simp_all only: of_int_le_iff)
  then have "of_int n * of_int (\<lfloor>x\<rfloor> div n) \<le> x" "x < of_int n * (of_int (\<lfloor>x\<rfloor> div n) + 1)" by simp_all linarith+
  then show "of_int (\<lfloor>x\<rfloor> div n) \<le> x / of_int n" "x / of_int n < of_int (\<lfloor>x\<rfloor> div n) + 1"
    using n0 by (simp_all add: pos_le_divide_eq pos_divide_less_eq mult.commute)
qed

lemma js_mod_floor:
  assumes "0 \<le> x" and "1 \<le> n"
  shows "js_mod x (of_int n) = x - of_int (n * (\<lfloor>x\<rfloor> div n))" "\<lfloor>js_mod x (of_int n)\<rfloor> = \<lfloor>x\<rfloor> mod n"
proof -
  have n0: "(0 :: rat) < of_int n" using assms(2) by simp
  have f: "\<lfloor>x / of_int n\<rfloor> = \<lfloor>x\<rfloor> div n" by (rule floor_div_int [OF assms(2)])
  show m: "js_mod x (of_int n) = x - of_int (n * (\<lfloor>x\<rfloor> div n))"
    using js_mod_nonneg(1) [OF assms(1) n0] by (simp add: f)
  have "\<lfloor>x - of_int (n * (\<lfloor>x\<rfloor> div n))\<rfloor> = \<lfloor>x\<rfloor> - n * (\<lfloor>x\<rfloor> div n)" by (simp only: floor_diff_of_int)
  then show "\<lfloor>js_mod x (of_int n)\<rfloor> = \<lfloor>x\<rfloor> mod n" by (simp only: m minus_mult_div_eq_mod)
qed

lemma is_double_js_mod:
  assumes "is_double x" and "0 \<le> x" and "x < 2 ^ 53" and "1 \<le> n"
  shows "is_double (js_mod x (of_int n))"
proof (cases "x = 0")
  case False
  then have "0 < x" using assms(2) by simp
  then obtain m e where me: "x = of_int m * pow2 e" "0 < m" "m < 2 ^ 53" "- 1074 \<le> e" "e \<le> 0"
    using double_below_pow53 [OF assms(1) _ assms(3)] by blast
  let ?j = "m - n * (\<lfloor>x\<rfloor> div n) * 2 ^ nat (- e)"
  have one: "of_int (2 ^ nat (- e)) * pow2 e = (1 :: rat)" using me(5) by (simp add: pow2_def)
  have r: "js_mod x (of_int n) = of_int ?j * pow2 e"
  proof -
    have "of_int (n * (\<lfloor>x\<rfloor> div n) * 2 ^ nat (- e)) * pow2 e = (of_int (n * (\<lfloor>x\<rfloor> div n)) :: rat)"
      using one by (metis mult.assoc mult.right_neutral of_int_mult)
    then show ?thesis using js_mod_floor(1) [OF assms(2,4)] me(1) by (simp add: left_diff_distrib)
  qed
  have "0 \<le> js_mod x (of_int n)" using js_mod_nonneg(2) [OF assms(2)] assms(4) by simp
  then have "0 \<le> ?j" using r by (metis of_int_0_le_iff pow2_pos zero_le_mult_iff not_le)
  moreover have "?j \<le> m" using assms(2,4) by (simp add: pos_imp_zdiv_nonneg_iff)
  ultimately have "\<bar>?j\<bar> \<le> 2 ^ 53" using me(3) by simp
  then show ?thesis unfolding is_double_def r by (rule round_double_exact [OF _ me(4)])
qed (simp add: js_mod_def)

text \<open>Two different doubles have a difference that does not round to zero.\<close>

lemma double_grid:
  assumes "is_double x" and "0 \<le> x"
  obtains m where "x = of_int m * pow2 (- 1074)"
proof (cases "x = 0")
  case False
  then obtain m e where me: "x = of_int m * pow2 e" "- 1074 \<le> e"
    using double_significand [OF assms(1)] assms(2) by (metis order_less_le)
  have "pow2 e = of_int (2 ^ nat (e + 1074)) * pow2 (- 1074)"
    using pow2_add [of "e + 1074" "- 1074"] pow2_int [of "e + 1074"] me(2) by simp
  then have "x = of_int (m * 2 ^ nat (e + 1074)) * pow2 (- 1074)" by (simp add: me(1))
  then show ?thesis using that by blast
qed (use that [of 0] in simp)

lemma round_double_pos:
  assumes "pow2 (- 1074) \<le> x"
  shows "0 < round_double x"
proof -
  let ?e = "max (- 1074) (rat_exponent x - 52)"
  have x: "0 < x" using assms pow2_pos [of "- 1074"] by linarith
  have "pow2 ?e \<le> x"
  proof (cases "rat_exponent x - 52 \<le> - 1074")
    case False
    then have "pow2 ?e < pow2 (rat_exponent x)" by simp
    then show ?thesis using rat_exponent_bounds(1) [OF x] by linarith
  qed (use assms in simp)
  then have "1 \<le> x / pow2 ?e" by simp
  then have "1 \<le> \<lfloor>x / pow2 ?e\<rfloor>" by (simp add: le_floor_iff)
  also have "\<dots> \<le> round_half_even (x / pow2 ?e)" by (simp add: round_half_even_def Let_def)
  finally show ?thesis using x by (simp add: round_double_def Let_def)
qed

lemma js_sub_pos:
  assumes "is_double a" and "is_double b" and "0 \<le> a" and "a < b"
  shows "0 < js_sub b a"
proof -
  obtain m n where mn: "a = of_int m * pow2 (- 1074)" "b = of_int n * pow2 (- 1074)"
    using double_grid [OF assms(1,3)] double_grid [OF assms(2)] assms(3,4) by (metis order_less_imp_le order_trans)
  have "(of_int m :: rat) < of_int n"
    by (rule mult_right_less_imp_less [of _ "pow2 (- 1074)"]) (use assms(4) mn in simp_all)
  then have "1 \<le> n - m" by simp
  then have "(1 :: rat) \<le> of_int (n - m)" by (simp only: of_int_1_le_iff)
  then have "1 * pow2 (- 1074) \<le> of_int (n - m) * pow2 (- 1074)" by (intro mult_right_mono) simp_all
  then have "pow2 (- 1074) \<le> b - a" by (simp add: mn left_diff_distrib)
  then show ?thesis unfolding js_sub_def by (rule round_double_pos)
qed

lemma is_double_round:
  assumes "0 \<le> x"
  shows "is_double (round_double x)"
proof (cases "x = 0")
  case False
  let ?e = "max (- 1074) (rat_exponent x - 52)" and ?m = "round_half_even (x / pow2 (max (- 1074) (rat_exponent x - 52)))"
  have x: "0 < x" using False assms by simp
  have rd: "round_double x = of_int ?m * pow2 ?e" using x by (simp add: round_double_def Let_def)
  have "x < pow2 (?e + 53)"
  proof -
    have "pow2 (rat_exponent x + 1) \<le> pow2 (?e + 53)" by simp
    then show ?thesis using rat_exponent_bounds(2) [OF x] by linarith
  qed
  then have "x / pow2 ?e < of_int (2 ^ 53)" by (simp add: pow2_add pos_divide_less_eq pow2_int)
  then have "\<lfloor>x / pow2 ?e\<rfloor> < 2 ^ 53" by (simp only: floor_less_iff)
  then have up: "?m \<le> 2 ^ 53" by (simp add: round_half_even_def Let_def)
  have "0 \<le> x / pow2 ?e" using x by (simp add: order_less_imp_le)
  then have "0 \<le> \<lfloor>x / pow2 ?e\<rfloor>" by simp
  also have "\<dots> \<le> ?m" by (simp add: round_half_even_def Let_def)
  finally show ?thesis using up round_double_exact [of ?m ?e] unfolding is_double_def rd by simp
qed simp

lemma round_half_even_le: "y < of_int N \<Longrightarrow> round_half_even y \<le> N"
  using floor_less_iff [of y N] by (auto simp: round_half_even_def Let_def)

text \<open>Rounding keeps the order.\<close>

lemma round_half_even_ge: "of_int N \<le> y \<Longrightarrow> N \<le> round_half_even y"
  using le_floor_iff [of N y] by (auto simp: round_half_even_def Let_def)

lemma round_half_even_mono:
  assumes "x \<le> y"
  shows "round_half_even x \<le> round_half_even y"
proof (cases "\<lfloor>x\<rfloor> = \<lfloor>y\<rfloor>")
  case True
  then show ?thesis using assms by (auto simp: round_half_even_def Let_def)
next
  case False
  then have "\<lfloor>x\<rfloor> + 1 \<le> \<lfloor>y\<rfloor>" using floor_mono [OF assms] by linarith
  moreover have "round_half_even x \<le> \<lfloor>x\<rfloor> + 1" by (simp add: round_half_even_def Let_def)
  moreover have "\<lfloor>y\<rfloor> \<le> round_half_even y" by (simp add: round_half_even_def Let_def)
  ultimately show ?thesis by linarith
qed

definition grid :: "rat \<Rightarrow> int" where
  "grid x = max (- 1074) (rat_exponent x - 52)"

lemma round_double_grid: "0 < x \<Longrightarrow> round_double x = of_int (round_half_even (x / pow2 (grid x))) * pow2 (grid x)"
  by (simp add: round_double_def grid_def Let_def)

lemma round_double_below_pow:
  assumes "0 < x"
  shows "round_double x \<le> pow2 (max (- 1074) (rat_exponent x + 1))"
proof -
  let ?k = "max (- 1074) (rat_exponent x + 1)" let ?n = "?k - grid x"
  have n: "pow2 ?n = of_int (2 ^ nat ?n)" by (rule pow2_int) (simp add: grid_def)
  have split: "pow2 ?k = pow2 ?n * pow2 (grid x)" using pow2_add [of ?n "grid x"] by simp
  have "x < pow2 (rat_exponent x + 1)" by (rule rat_exponent_bounds(2) [OF assms])
  also have "\<dots> \<le> of_int (2 ^ nat ?n) * pow2 (grid x)" unfolding n [symmetric] split [symmetric] by simp
  finally have "x / pow2 (grid x) < of_int (2 ^ nat ?n)" by (simp add: pos_divide_less_eq)
  then have "round_half_even (x / pow2 (grid x)) \<le> 2 ^ nat ?n" by (rule round_half_even_le)
  then have "of_int (round_half_even (x / pow2 (grid x))) \<le> pow2 ?n" unfolding n by (simp only: of_int_le_iff)
  then show ?thesis unfolding round_double_grid [OF assms] split by (rule mult_right_mono) simp
qed

lemma round_double_above_pow:
  assumes "0 < x" and "- 1022 \<le> rat_exponent x"
  shows "pow2 (rat_exponent x) \<le> round_double x"
proof -
  have g: "grid x = rat_exponent x - 52" using assms(2) by (simp add: grid_def)
  have split: "pow2 (rat_exponent x) = of_int (2 ^ 52) * pow2 (grid x)"
    using pow2_add [of 52 "grid x"] by (simp add: g pow2_def)
  then have "of_int (2 ^ 52) \<le> x / pow2 (grid x)" using rat_exponent_bounds(1) [OF assms(1)] by (simp add: pos_le_divide_eq)
  then have "(2 ^ 52 :: int) \<le> round_half_even (x / pow2 (grid x))" by (rule round_half_even_ge)
  then have "of_int (2 ^ 52) \<le> (of_int (round_half_even (x / pow2 (grid x))) :: rat)" by (simp only: of_int_le_iff)
  then show ?thesis unfolding round_double_grid [OF assms(1)] split by (rule mult_right_mono) simp
qed

lemma round_double_mono:
  assumes "0 \<le> x" and "x \<le> y"
  shows "round_double x \<le> round_double y"
proof (cases "x = 0")
  case True
  then show ?thesis using round_double_nonneg [of y] assms by simp
next
  case False
  then have x: "0 < x" and y: "0 < y" using assms by auto
  have "pow2 (rat_exponent x) < pow2 (rat_exponent y + 1)"
    using rat_exponent_bounds(1) [OF x] rat_exponent_bounds(2) [OF y] assms(2) by linarith
  then have le: "rat_exponent x \<le> rat_exponent y" by simp
  show ?thesis
  proof (cases "grid x = grid y")
    case True
    have "x / pow2 (grid y) \<le> y / pow2 (grid y)" using assms(2) by (simp add: divide_right_mono)
    then have "of_int (round_half_even (x / pow2 (grid y))) \<le> (of_int (round_half_even (y / pow2 (grid y))) :: rat)"
      by (simp only: of_int_le_iff round_half_even_mono)
    then show ?thesis unfolding round_double_grid [OF x] round_double_grid [OF y] True by (rule mult_right_mono) simp
  next
    case False
    have lt: "rat_exponent x < rat_exponent y" "- 1022 \<le> rat_exponent y" using False le by (auto simp: grid_def max_def split: if_splits)
    have "round_double x \<le> pow2 (max (- 1074) (rat_exponent x + 1))" by (rule round_double_below_pow [OF x])
    also have "\<dots> \<le> pow2 (rat_exponent y)" using lt by simp
    also have "\<dots> \<le> round_double y" by (rule round_double_above_pow [OF y lt(2)])
    finally show ?thesis .
  qed
qed

lemma round_double_le_one:
  assumes "0 \<le> x" and "x \<le> 1"
  shows "round_double x \<le> 1"
  using round_double_mono [OF assms] round_double_int [of 1] by simp

end
