(* ===== verification/Client_Pages.thy ===== *)
theory Client_Pages
  imports Client_Views Js_Double
begin

text \<open>
  The pages of the issue tracker's client (\<open>react/frontend/src/app/routes\<close>) and the routes of \<open>App.tsx\<close>: what each
  page asks the backend for, what it shows for the answer, and where its links lead.

  The router is third-party code: the locale \<open>page_router\<close> says that a path which fits one route only
  gets that route.  How dates are written is the parameter \<open>locale_fmt\<close>.
\<close>

section \<open>Definitions\<close>

record locale_fmt =
  lf_date :: "time \<Rightarrow> string"
  lf_datetime :: "time \<Rightarrow> string"
  lf_short :: "time \<Rightarrow> string"

text \<open>The types of \<open>shared/types/api.ts\<close> that the pages show.\<close>

record ProjectDto =
  pj_id :: int
  pj_name :: string
  pj_description :: "string option"
  pj_createdAt :: time

record CommentDto =
  ct_id :: int
  ct_issueId :: int
  ct_authorId :: int
  ct_content :: string
  ct_createdAt :: time
  ct_updatedAt :: time

record TeamDto =
  td_id :: int
  td_name :: string
  td_createdAt :: time

record WorkspaceItemDto =
  wd_id :: int
  wd_teamId :: int
  wd_title :: string
  wd_content :: string
  wd_createdBy :: int
  wd_createdAt :: time
  wd_updatedAt :: time

record DailyIssueStatsDto =
  dy_date :: time
  dy_createdCount :: int
  dy_resolvedCount :: int
  dy_commentCount :: int

record PopularIssueDto =
  pi_issue :: IssueDto
  pi_viewCount :: int
  pi_commentCount :: int
  pi_score :: rat

record ProductDto =
  po_id :: int
  po_name :: string
  po_description :: string
  po_category :: string
  po_brand :: string
  po_price :: rat
  po_active :: bool

record 'i PaginatedResponse =
  pr_items :: "'i list"
  pr_totalCount :: int

text \<open>What \<open>useQuery\<close> gives a page.\<close>

record 'd query_state =
  qs_data :: "'d option"
  qs_loading :: bool
  qs_error :: "string option"

subsection \<open>Projects and issues\<close>

definition ProjectsPage_view ::
    "locale_fmt \<Rightarrow> (CreateProjectFormData \<times> (string option \<times> string option) \<times> bool) option
      \<Rightarrow> ProjectDto PaginatedResponse query_state \<Rightarrow> view" where
  "ProjectsPage_view L isCreating q =
     Group ([Words ''Projects'', Push ''New Project'' True (Some OpenDialog)] @
       (case isCreating of None \<Rightarrow> [] | Some (d, errors, busy) \<Rightarrow>
          [Words ''Create New Project'', CreateProjectForm_view d errors (Some CloseDialog) busy]) @
       only_if (qs_loading q) [Words ''Loading projects...''] @
       only_if (qs_error q \<noteq> None) [Words ''Failed to load projects. Please try again.''] @
       (case qs_data q of None \<Rightarrow> [] | Some d \<Rightarrow>
          only_if (pr_items d = []) [Words ''No projects yet. Create your first project to get started.''] @
          only_if (pr_items d \<noteq> []) [Group (map (\<lambda>p. Anchor [''projects'', show_int (pj_id p), ''issues'']
            ([Words (pj_name p)] @
             (case pj_description p of None \<Rightarrow> [] | Some t \<Rightarrow> only_if (truthy t) [Words t]) @
             [Words (''Created '' @ lf_date L (pj_createdAt p))])) (pr_items d))] @
          only_if (20 < pr_totalCount d) [Words (''Showing '' @ show_nat (length (pr_items d)) @ '' of '' @
            show_int (pr_totalCount d) @ '' projects'')]))"

text \<open>\<open>issue.status.replace('_', ' ')\<close>\<close>

definition status_label :: "IssueStatus \<Rightarrow> string" where
  "status_label st = map (\<lambda>c. if c = CHR ''_'' then CHR '' '' else c) (status_text st)"

definition assignee_shown :: "int option \<Rightarrow> bool" where
  "assignee_shown a = (case a of None \<Rightarrow> False | Some k \<Rightarrow> k \<noteq> 0)"

definition status_options :: "(IssueStatus option \<times> string) list" where
  "status_options = [(None, ''All''), (Some OPEN, ''Open''), (Some IN_PROGRESS, ''In Progress''), (Some RESOLVED, ''Resolved''),
     (Some CLOSED, ''Closed'')]"

definition issue_card :: "locale_fmt \<Rightarrow> IssueDto \<Rightarrow> view" where
  "issue_card L i = Anchor [''issues'', show_int (id_id i)]
     ([Words (CHR ''#'' # show_int (id_id i)), Words (status_label (id_status i)), Words (id_title i),
       Words (case id_description i of None \<Rightarrow> [] | Some t \<Rightarrow> t),
       Words (''Created '' @ lf_date L (id_createdAt i)), Words (''Updated '' @ lf_date L (id_updatedAt i))] @
      (case id_assigneeId i of None \<Rightarrow> [] | Some k \<Rightarrow> only_if (k \<noteq> 0) [Words (''Assignee: User #'' @ show_int k)]))"

definition ProjectIssuesPage_view ::
    "locale_fmt \<Rightarrow> (CreateIssueFormData \<times> (string option \<times> string option) \<times> bool) option
      \<Rightarrow> ProjectDto option \<Rightarrow> IssueDto PaginatedResponse query_state \<Rightarrow> view" where
  "ProjectIssuesPage_view L isCreating project q =
     Group ([Anchor [''projects''] [Words ''Back to Projects''],
        Words ((case project of None \<Rightarrow> ''Project'' | Some p \<Rightarrow> if truthy (pj_name p) then pj_name p else ''Project'') @ '' - Issues'')] @
       (case project of None \<Rightarrow> [] | Some p \<Rightarrow>
          (case pj_description p of None \<Rightarrow> [] | Some t \<Rightarrow> only_if (truthy t) [Words t])) @
       [Push ''New Issue'' True (Some OpenDialog)] @
       (case isCreating of None \<Rightarrow> [] | Some (d, errors, busy) \<Rightarrow>
          [Words ''Create New Issue'', CreateIssueForm_view d errors (Some CloseDialog) busy]) @
       [Words ''Status:'', Group (map (\<lambda>(v, label). Push label True (Some (ShowStatus v))) status_options)] @
       only_if (qs_loading q) [Words ''Loading issues...''] @
       only_if (qs_error q \<noteq> None) [Words ''Failed to load issues. Please try again.''] @
       (case qs_data q of None \<Rightarrow> [] | Some d \<Rightarrow>
          only_if (pr_items d = []) [Words ''No issues found. Create your first issue to get started.''] @
          only_if (pr_items d \<noteq> []) [Group (map (issue_card L) (pr_items d))] @
          only_if (20 < pr_totalCount d) [Words (''Showing '' @ show_nat (length (pr_items d)) @ '' of '' @
            show_int (pr_totalCount d) @ '' issues'')]))"

definition comment_card :: "locale_fmt \<Rightarrow> CommentDto \<Rightarrow> view" where
  "comment_card L c = Group [Words (''User #'' @ show_int (ct_authorId c)), Words (lf_datetime L (ct_createdAt c)), Words (ct_content c)]"

definition IssueDetailPage_view ::
    "locale_fmt \<Rightarrow> (EditIssueFormData \<times> (string option \<times> string option) \<times> bool) option \<Rightarrow> string \<Rightarrow> bool
      \<Rightarrow> IssueDto query_state \<Rightarrow> CommentDto PaginatedResponse option \<Rightarrow> view" where
  "IssueDetailPage_view L isEditing draft posting q commentsData =
     (if qs_loading q then Words ''Loading issue...''
      else case (qs_error q, qs_data q) of
        (None, Some i) \<Rightarrow>
          Group ([Anchor [''projects'', show_int (id_projectId i), ''issues''] [Words ''Back to Issues''],
             Words (CHR ''#'' # show_int (id_id i)), Words (status_label (id_status i)), Words (id_title i),
             Push ''Edit'' True (Some OpenEdit), Push ''Delete'' True (Some DeleteThisIssue)] @
            (case isEditing of None \<Rightarrow> [] | Some (d, errors, busy) \<Rightarrow>
               [Words ''Edit Issue'', EditIssueForm_view d errors (Some CloseDialog) busy]) @
            [Words ''Description'', Words (case id_description i of None \<Rightarrow> [] | Some t \<Rightarrow> t),
             Words ''Reporter'', Words (''User #'' @ show_int (id_reporterId i)),
             Words ''Assignee'', Words (case id_assigneeId i of
                 None \<Rightarrow> ''Unassigned'' | Some k \<Rightarrow> if k = 0 then ''Unassigned'' else ''User #'' @ show_int k),
             Words ''Created'', Words (lf_datetime L (id_createdAt i)),
             Words ''Updated'', Words (lf_datetime L (id_updatedAt i)),
             Words (''Comments ('' @ show_int (case commentsData of None \<Rightarrow> 0 | Some c \<Rightarrow> pr_totalCount c) @ '')'')] @
            (case commentsData of None \<Rightarrow> [] | Some c \<Rightarrow>
               map (comment_card L) (pr_items c) @
               only_if (pr_items c = []) [Words ''No comments yet. Be the first to comment!'']) @
            [Entry ''Comment content'' draft, Push (if posting then ''Posting...'' else ''Post Comment'') (\<not> posting) (Some Submit)])
      | _ \<Rightarrow> Words ''Failed to load issue. Please try again.'')"

text \<open>\<open>handleDelete\<close>: nothing without an issue or without the confirmation; after the request the path of the
  project's issues, or no change when it failed.\<close>

definition issue_handleDelete :: "IssueDto option \<Rightarrow> bool \<Rightarrow> mutation_call option" where
  "issue_handleDelete issue confirmed = (case issue of
       None \<Rightarrow> None
     | Some i \<Rightarrow> if confirmed then Some (DeleteIssueWith (id_id i)) else None)"

definition after_delete :: "IssueDto \<Rightarrow> (exn + 'a) \<Rightarrow> string list option" where
  "after_delete i r = (case r of Inr _ \<Rightarrow> Some [''projects'', show_int (id_projectId i), ''issues''] | Inl _ \<Rightarrow> None)"

subsection \<open>Teams\<close>

definition TeamsPage_view ::
    "locale_fmt \<Rightarrow> (CreateTeamRequest \<times> string option \<times> string option \<times> bool) option
      \<Rightarrow> TeamDto PaginatedResponse query_state \<Rightarrow> view" where
  "TeamsPage_view L creating q =
     (if qs_loading q then Words ''Loading teams...''
      else case qs_error q of
        Some m \<Rightarrow> Words (''Error loading teams: '' @ m)
      | None \<Rightarrow>
          (let ts = (case qs_data q of None \<Rightarrow> [] | Some d \<Rightarrow> pr_items d)
           in Group ([Words ''Teams'', Push ''Create Team'' True (Some OpenDialog)] @
                (if ts = [] then [Words ''No teams yet. Create a team to collaborate with others.'']
                 else [Group (map (\<lambda>t. Anchor [''teams'', show_int (td_id t)]
                         [Words (td_name t), Words (''Created '' @ lf_date L (td_createdAt t))]) ts)]) @
                (case creating of None \<Rightarrow> [] | Some (d, rootError, nameError, busy) \<Rightarrow>
                   [Words ''Create New Team'', CreateTeamForm_view d rootError nameError (Some CloseDialog) busy]))))"

fun role_text :: "TeamRole \<Rightarrow> string" where
  "role_text OWNER = ''OWNER''"
| "role_text MANAGER = ''MANAGER''"
| "role_text MEMBER = ''MEMBER''"

text \<open>The row of a member; \<open>shows_controls\<close> (\<open>Client_Tracker\<close>) is the condition of both controls.\<close>

definition member_item :: "locale_fmt \<Rightarrow> int option \<Rightarrow> TeamMemberDto list \<Rightarrow> TeamMemberDto \<Rightarrow> view" where
  "member_item L u ms m =
     Group ((case tm_user m of None \<Rightarrow> [] | Some p \<Rightarrow> [Words (ui_nickname p), Words (ui_email p)]) @
       [Words (role_text (tm_role m)), Words (''Joined '' @ lf_date L (tm_joinedAt m))] @
       only_if (shows_controls u (Some ms) m)
         [Options [] (role_text (tm_role m)) [''MEMBER'', ''MANAGER'', ''OWNER''] (Some (ChangeRole (tm_id m))),
          Push ''Remove'' True (Some (RemoveThis (tm_id m)))])"

text \<open>The button \<open>Add Member\<close> has no handler.\<close>

definition TeamDetailPage_view ::
    "locale_fmt \<Rightarrow> string \<Rightarrow> int option \<Rightarrow> bool \<Rightarrow> (TeamDto \<times> TeamMemberDto list) query_state \<Rightarrow> view" where
  "TeamDetailPage_view L teamId u membersTab q =
     (if qs_loading q then Words ''Loading team...''
      else case qs_error q of
        Some m \<Rightarrow> Words (''Error loading team: '' @ m)
      | None \<Rightarrow> (case qs_data q of
          None \<Rightarrow> Words ''Team not found''
        | Some (t, ms) \<Rightarrow>
            Group ([Anchor [''teams''] [Words ''Back to Teams''], Words (td_name t), Words (''Created '' @ lf_date L (td_createdAt t)),
               Push (''Members ('' @ show_nat (length ms) @ '')'') True (Some ShowMembers), Push ''Workspace'' True (Some ShowWorkspace)] @
              only_if membersTab ([Words ''Team Members''] @
                only_if (canManageMembers u (Some ms)) [Push ''Add Member'' True None] @ map (member_item L u ms) ms) @
              only_if (\<not> membersTab) [Words ''Workspace Items'', Anchor [''teams'', teamId, ''workspace''] [Push ''View All Items'' True None],
                Words ''Workspace items are documents and resources shared within the team.''])))"

definition TeamWorkspacePage_view ::
    "locale_fmt \<Rightarrow> string \<Rightarrow> (CreateWorkspaceItemRequest \<times> string option \<times> (string option \<times> string option) \<times> bool) option
      \<Rightarrow> TeamDto option \<Rightarrow> WorkspaceItemDto PaginatedResponse query_state \<Rightarrow> view" where
  "TeamWorkspacePage_view L teamId creating t q =
     (if qs_loading q then Words ''Loading workspace items...''
      else case qs_error q of
        Some m \<Rightarrow> Words (''Error loading workspace items: '' @ m)
      | None \<Rightarrow>
          (let xs = (case qs_data q of None \<Rightarrow> [] | Some d \<Rightarrow> pr_items d)
           in Group ([Anchor [''teams'', teamId] [Words ''Back to Team''],
                 Words ((case t of None \<Rightarrow> [] | Some t \<Rightarrow> td_name t) @ '' - Workspace''),
                 Push ''Create Item'' True (Some OpenDialog)] @
                (if xs = [] then [Words ''No workspace items yet. Create one to start collaborating with your team.'']
                 else map (\<lambda>x. Group ([Words (wd_title x), Words (wd_content x), Words (''Created '' @ lf_date L (wd_createdAt x))] @
                        only_if (wd_updatedAt x \<noteq> wd_createdAt x) [Words (''Updated '' @ lf_date L (wd_updatedAt x))])) xs) @
                (case creating of None \<Rightarrow> [] | Some (d, rootError, errors, busy) \<Rightarrow>
                   [Words ''Create Workspace Item'', CreateWorkspaceItemForm_view d rootError errors (Some CloseDialog) busy]))))"

subsection \<open>Statistics\<close>

text \<open>The counts are whole numbers far below \<open>2^53\<close>, so their sums are exact.\<close>

definition calculateTotals :: "DailyIssueStatsDto list option \<Rightarrow> int \<times> int \<times> int" where
  "calculateTotals data = (case data of
       None \<Rightarrow> (0, 0, 0)
     | Some xs \<Rightarrow> foldl (\<lambda>(c, r, m) x. (c + dy_createdCount x, r + dy_resolvedCount x, m + dy_commentCount x)) (0, 0, 0) xs)"

definition chart_values :: "DailyIssueStatsDto list \<Rightarrow> int list" where
  "chart_values data = concat (map (\<lambda>x. [dy_createdCount x, dy_resolvedCount x, dy_commentCount x]) data)"

definition maxValue :: "DailyIssueStatsDto list \<Rightarrow> int" where
  "maxValue data = (case chart_values data of [] \<Rightarrow> 0 | v # vs \<Rightarrow> foldl max v vs)"

text \<open>The height of a bar in percent.\<close>

definition getBarHeight :: "int \<Rightarrow> int \<Rightarrow> rat" where
  "getBarHeight most value = (if most = 0 then 0 else js_mul (js_div (of_int value) (of_int most)) 100)"

text \<open>Three bars a day, each with its title and its height, and the day below them.\<close>

definition DailyStatsChart :: "locale_fmt \<Rightarrow> DailyIssueStatsDto list \<Rightarrow> ((string \<times> rat) list \<times> string) list" where
  "DailyStatsChart L data =
     map (\<lambda>x. ([(''Created: '' @ show_int (dy_createdCount x), getBarHeight (maxValue data) (dy_createdCount x)),
                (''Resolved: '' @ show_int (dy_resolvedCount x), getBarHeight (maxValue data) (dy_resolvedCount x)),
                (''Comments: '' @ show_int (dy_commentCount x), getBarHeight (maxValue data) (dy_commentCount x))],
               lf_short L (dy_date x))) data"

text \<open>The range shown at first: seven days back on the local calendar, both written as UTC dates.\<close>

definition stats_initial_range :: "zone \<Rightarrow> time \<Rightarrow> string \<times> string" where
  "stats_initial_range z now = (iso_date (day_of (minus_days z 7 now)), iso_date (day_of now))"

definition StatsDashboardPage_view :: "locale_fmt \<Rightarrow> string \<Rightarrow> string \<Rightarrow> DailyIssueStatsDto list query_state \<Rightarrow> view" where
  "StatsDashboardPage_view L fromDate toDate q =
     (case calculateTotals (qs_data q) of (created, resolved, notes) \<Rightarrow>
      Group [Words ''Statistics Dashboard'', Words ''View daily issue statistics and trends'',
        Entry ''From Date'' fromDate, Entry ''To Date'' toDate, Push ''Refresh'' True (Some Refetch),
        Words ''Total Issues Created'', Words (show_int created), Words ''Total Issues Resolved'', Words (show_int resolved),
        Words ''Total Comments'', Words (show_int notes), Words ''Daily Trends'',
        QueryStateHandler_view (qs_loading q) (qs_error q \<noteq> None) (qs_error q) (qs_data q) (Some (\<lambda>d. d = []))
          ''No statistics available for the selected date range'' ''No Data'' ''Loading statistics...''
          (\<lambda>d. Group (map (\<lambda>(bars, day). Group (map (\<lambda>(title, _). Words title) bars @ [Words day])) (DailyStatsChart L d) @
             [Words ''Created'', Words ''Resolved'', Words ''Comments'']))])"

definition popular_card :: "locale_fmt \<Rightarrow> nat \<Rightarrow> PopularIssueDto \<Rightarrow> view" where
  "popular_card L n x =
     Group [Words (show_nat (n + 1)), Anchor [''issues'', show_int (id_id (pi_issue x))] [Words (id_title (pi_issue x))],
       Words (status_text (id_status (pi_issue x))), Words (case id_description (pi_issue x) of None \<Rightarrow> [] | Some t \<Rightarrow> t),
       Words (show_int (pi_viewCount x) @ '' views''), Words (show_int (pi_commentCount x) @ '' comments''),
       Words (''Score: '' @ toFixed2 (pi_score x)), Words (lf_short L (id_createdAt (pi_issue x)))]"

definition PopularIssuesPage_view ::
    "locale_fmt \<Rightarrow> int \<Rightarrow> int \<Rightarrow> time \<Rightarrow> PopularIssueDto list query_state \<Rightarrow> view" where
  "PopularIssuesPage_view L days limit dataUpdatedAt q =
     Group ([Words ''Popular Issues'', Words (''Most viewed and discussed issues in the last '' @ show_int days @ '' days'')] @
       only_if (0 < dataUpdatedAt) [Words (''Last updated: '' @ lf_datetime L dataUpdatedAt)] @
       [Options ''Time Period (days)'' (show_int days) [''Last 24 hours'', ''Last 7 days'', ''Last 14 days'', ''Last 30 days''] None,
        Options ''Number of Issues'' (show_int limit) [''Top 5'', ''Top 10'', ''Top 20'', ''Top 50''] None,
        Push ''Refresh'' True (Some Refetch),
        QueryStateHandler_view (qs_loading q) (qs_error q \<noteq> None) (qs_error q) (qs_data q) (Some (\<lambda>d. d = []))
          ''No popular issues found for the selected criteria'' ''No Popular Issues'' ''Loading popular issues...''
          (\<lambda>d. Group (map (\<lambda>(n, x). popular_card L n x) (enumerate 0 d)))])"

subsection \<open>External data and products\<close>

text \<open>\<open>raw\<close> is the answer as text (\<open>JSON.stringify\<close>).\<close>

record ExternalApiResponse =
  xr_source :: string
  xr_label :: string
  xr_value :: string
  xr_raw :: string

definition ExternalApiPage_view :: "bool \<Rightarrow> ExternalApiResponse query_state \<Rightarrow> view" where
  "ExternalApiPage_view isFetching q =
     Group ([Words ''External API Data'', Words ''Data fetched from external API with automatic retry on failure'',
        Words ''API Status'', Words (if isFetching then ''Fetching data...'' else ''Data loaded successfully''),
        Push (if isFetching then ''Refreshing...'' else ''Refresh Data'') (\<not> isFetching) (Some Refetch),
        QueryStateHandler_view (qs_loading q) (qs_error q \<noteq> None) (qs_error q) (qs_data q) None
          ''No data available'' ''No Results'' ''Fetching external data...''
          (\<lambda>x. Group [Words ''API Response'', Words ''Source'', Words (xr_source x), Words ''Label'', Words (xr_label x),
             Words ''Value'', Words (xr_value x), Words ''Raw JSON'', Words (xr_raw x), Words ''Retry Strategy Enabled'',
             Words (''This API request is configured with automatic retry logic. If the request fails, it will retry up to 3 times '' @
               ''with exponential backoff (1s, 2s, 4s). This ensures resilience against temporary network issues or API unavailability.'')])] @
       only_if (qs_error q \<noteq> None) [Words ''Error Details'',
         Words ''The external API request failed after multiple retry attempts. This could be due to:'',
         Words ''Network connectivity issues'', Words ''External API server downtime'', Words ''Request timeout'',
         Words ''Authentication or authorization errors'', Words ''Try refreshing the page or check back later.''])"

text \<open>The wait before retry number \<open>k\<close>, in milliseconds (\<open>useExternalData\<close>).\<close>

definition retryDelay :: "nat \<Rightarrow> int" where
  "retryDelay k = min (1000 * 2 ^ k) 30000"

text \<open>\<open>Math.ceil(data.totalCount / (searchParams.size || 20))\<close>\<close>

definition search_total_pages :: "int option \<Rightarrow> int \<Rightarrow> int" where
  "search_total_pages totalCount per = (case totalCount of
       None \<Rightarrow> 0
     | Some n \<Rightarrow> total_pages n (if per = 0 then 20 else per))"

definition product_columns :: "ProductDto column list" where
  "product_columns =
     [\<lparr>col_header = ''Name'', col_render = (\<lambda>p. Words (po_name p))\<rparr>,
      \<lparr>col_header = ''Description'', col_render = (\<lambda>p. Words (po_description p))\<rparr>,
      \<lparr>col_header = ''Category'', col_render = (\<lambda>p. Words (po_category p))\<rparr>,
      \<lparr>col_header = ''Brand'', col_render = (\<lambda>p. Words (po_brand p))\<rparr>,
      \<lparr>col_header = ''Price'', col_render = (\<lambda>p. Words (CHR ''$'' # toFixed2 (po_price p)))\<rparr>,
      \<lparr>col_header = ''Status'', col_render = (\<lambda>p. Words (if po_active p then ''ACTIVE'' else ''INACTIVE''))\<rparr>]"

definition pagination_view :: "int \<Rightarrow> int \<Rightarrow> view list" where
  "pagination_view totalPages currentPage =
     only_if (1 < totalPages)
       [Words (''Page '' @ show_int currentPage @ '' of '' @ show_int totalPages),
        Push ''Previous'' (currentPage \<noteq> 1) (Some (GoToPage (currentPage - 1))),
        Push ''Next'' (currentPage \<noteq> totalPages) (Some (GoToPage (currentPage + 1)))]"

text \<open>\<open>show_value\<close> is how an input shows a parameter.\<close>

definition ProductSearchPage_view ::
    "(param_value \<Rightarrow> string) \<Rightarrow> ProductSearchParams \<Rightarrow> int \<Rightarrow> int \<Rightarrow> ProductDto PaginatedResponse query_state \<Rightarrow> view" where
  "ProductSearchPage_view show_value params currentPage per q =
     Group [Words ''Product Search'', Words ''Search and filter products with advanced criteria'', Words ''Filters'',
       Entry ''Search'' (show_value (ps_q params)), Entry ''Category'' (show_value (ps_category params)),
       Entry ''Brand'' (show_value (ps_brand params)),
       Entry ''Min Price'' (case ps_minPrice params of None \<Rightarrow> [] | Some v \<Rightarrow> show_value v),
       Entry ''Max Price'' (case ps_maxPrice params of None \<Rightarrow> [] | Some v \<Rightarrow> show_value v),
       Push ''Clear Filters'' True (Some ClearFilters),
       QueryStateHandler_view (qs_loading q) (qs_error q \<noteq> None) (qs_error q) (qs_data q) (Some (\<lambda>d. pr_items d = []))
         ''No products found matching your criteria.'' ''No Results'' ''Loading...''
         (\<lambda>d. Group ([Words (''Results ('' @ show_int (pr_totalCount d) @ '' products)''),
             Table_view product_columns (pr_items d) ''No products found''] @
            pagination_view (search_total_pages (Some (pr_totalCount d)) per) currentPage))]"

subsection \<open>Static pages\<close>

definition HomePage_view :: view where
  "HomePage_view = Group [Words ''Welcome to Issue Tracker'', Words ''Dashboard'',
     Words (''This is a training project for learning React patterns including CRUD operations, '' @
       ''authentication, team management, and more.''),
     Push ''Get Started'' True None, Push ''Learn More'' True None]"

definition IssuesPage_view :: view where
  "IssuesPage_view = Group [Words ''Issues'', Push ''New Issue'' True None,
     Words ''No issues found. Create an issue to track your work.'']"

subsection \<open>\<open>App.tsx\<close>\<close>

datatype page_component = LoginPage | HomePage | ProjectsPage | ProjectIssuesPage | IssueDetailPage | IssuesPage | TeamsPage
  | TeamDetailPage | TeamWorkspacePage | StatsDashboardPage | PopularIssuesPage | ExternalApiPage | ProductSearchPage

text \<open>The flag says whether the page is inside \<open>RequireAuth\<close> and \<open>MainLayout\<close>.\<close>

definition app_routes :: "(segment list \<times> page_component \<times> bool) list" where
  "app_routes =
     [([Lit ''login''], LoginPage, False),
      ([], HomePage, True),
      ([Lit ''projects''], ProjectsPage, True),
      ([Lit ''projects'', Par ''projectId'', Lit ''issues''], ProjectIssuesPage, True),
      ([Lit ''issues'', Par ''issueId''], IssueDetailPage, True),
      ([Lit ''issues''], IssuesPage, True),
      ([Lit ''teams''], TeamsPage, True),
      ([Lit ''teams'', Par ''teamId''], TeamDetailPage, True),
      ([Lit ''teams'', Par ''teamId'', Lit ''workspace''], TeamWorkspacePage, True),
      ([Lit ''stats''], StatsDashboardPage, True),
      ([Lit ''popular''], PopularIssuesPage, True),
      ([Lit ''external''], ExternalApiPage, True),
      ([Lit ''products''], ProductSearchPage, True)]"

type_synonym router = "segment list list \<Rightarrow> string list \<Rightarrow> segment list option"

definition app_page :: "router \<Rightarrow> string list \<Rightarrow> (page_component \<times> bool \<times> string list) option" where
  "app_page route path =
     (case route (map fst app_routes) path of
        None \<Rightarrow> None
      | Some pat \<Rightarrow> map_option (\<lambda>(p, guarded). (p, guarded, param_values pat path)) (map_of app_routes pat))"

text \<open>What \<open>App\<close> shows at a path: nothing without a route, otherwise the page, inside \<open>RequireAuth\<close> for all but the
  login page; \<open>content\<close> is what a page shows with its parameters.\<close>

definition App :: "router \<Rightarrow> (page_component \<Rightarrow> string list \<Rightarrow> view) \<Rightarrow> bool \<Rightarrow> UserDto option \<Rightarrow> string list \<Rightarrow> view shown option" where
  "App route content isLoading user path = (case app_page route path of
       None \<Rightarrow> None
     | Some (p, guarded, params) \<Rightarrow>
         Some (if guarded then RequireAuth isLoading (user \<noteq> None) (MainLayout user (user \<noteq> None) (content p params))
               else Content (content p params)))"

text \<open>\<open>RequireAuth\<close> passes the path on to the login page, which goes back to it once there is a user.\<close>

definition login_from :: "string list option \<Rightarrow> string list" where
  "login_from from = (case from of None \<Rightarrow> [] | Some path \<Rightarrow> path)"

definition LoginPage_effect :: "bool \<Rightarrow> string list \<Rightarrow> string list option" where
  "LoginPage_effect isAuth from = (if isAuth then Some from else None)"

text \<open>What a page asks for: the hooks it calls, with \<open>Number\<close> of its parameters; a hook whose \<open>enabled\<close> is false asks
  for nothing.  \<open>None\<close>: a parameter that is not a whole number.\<close>

record page_state =
  st_status :: "IssueStatus option"
  st_from :: string
  st_to :: string
  st_days :: int
  st_limit :: int
  st_search :: ProductSearchParams

definition when_id :: "int \<Rightarrow> query \<Rightarrow> query list" where
  "when_id i q = (if i \<noteq> 0 then [q] else [])"

definition page_queries :: "page_component \<Rightarrow> string list \<Rightarrow> page_state \<Rightarrow> query list option" where
  "page_queries p params st = (case p of
       LoginPage \<Rightarrow> Some []
     | HomePage \<Rightarrow> Some []
     | IssuesPage \<Rightarrow> Some []
     | ProjectsPage \<Rightarrow> Some [UseProjects (Some 0) (Some 20)]
     | ProjectIssuesPage \<Rightarrow> map_option (\<lambda>i. when_id i (UseProject i) @
         when_id i (UseProjectIssues i (map_option status_text (st_status st)) (Some 0) (Some 20))) (query_int (hd params))
     | IssueDetailPage \<Rightarrow> map_option (\<lambda>i. when_id i (UseIssue i) @ when_id i (UseIssueComments i)) (query_int (hd params))
     | TeamsPage \<Rightarrow> Some [UseTeams]
     | TeamDetailPage \<Rightarrow> map_option (\<lambda>i. when_id i (UseTeam i)) (query_int (hd params))
     | TeamWorkspacePage \<Rightarrow>
         map_option (\<lambda>i. when_id i (UseTeam i) @ when_id i (UseWorkspaceItems i None None)) (query_int (hd params))
     | StatsDashboardPage \<Rightarrow>
         Some (if truthy (st_from st) \<and> truthy (st_to st) then [UseDailyStats (st_from st) (st_to st)] else [])
     | PopularIssuesPage \<Rightarrow> Some [UsePopularIssues (Some (Some (st_days st), Some (st_limit st)))]
     | ExternalApiPage \<Rightarrow> Some [UseExternalData]
     | ProductSearchPage \<Rightarrow> Some [UseProductSearch (st_search st)])"

section \<open>Where links lead\<close>

locale page_router =
  fixes route :: router
  assumes one_route:
      "list_all worded pat \<Longrightarrow> list_all plain_segment path \<Longrightarrow> pat \<in> set pats \<Longrightarrow> list_all2 seg_matches pat path \<Longrightarrow>
        (\<And>pat'. pat' \<in> set pats \<Longrightarrow> list_all2 seg_matches pat' path \<Longrightarrow> pat' = pat) \<Longrightarrow> route pats path = Some pat"

definition first_route :: router where
  "first_route pats path = List.find (\<lambda>pat. list_all2 seg_matches pat path) pats"

lemma find_only:
  assumes "x \<in> set xs" and "P x" and "\<And>y. y \<in> set xs \<Longrightarrow> P y \<Longrightarrow> y = x"
  shows "List.find P xs = Some x"
proof -
  obtain y where y: "List.find P xs = Some y"
    using assms(1,2) by (cases "List.find P xs") (auto simp: find_None_iff)
  then have "y \<in> set xs" "P y" by (metis find_Some_iff nth_mem)+
  then show ?thesis using assms(3) y by simp
qed

interpretation first_route: page_router first_route
  unfolding page_router_def first_route_def by (blast intro: find_only)

lemma app_routes_worded: "\<forall>r \<in> set app_routes. list_all worded (fst r)"
  by code_simp

lemma app_routes_apart:
  "\<forall>r \<in> set app_routes. \<forall>r' \<in> set app_routes. list_all2 seg_hits (fst r') (fst r) \<longrightarrow> fst r' = fst r"
  by code_simp

lemma app_routes_distinct: "distinct (map fst app_routes)"
  by code_simp

lemma fill_matches: "list_all2 seg_matches pat (map (fill ids) pat)"
proof (induction pat)
  case (Cons g pat)
  then show ?case by (cases g) simp_all
qed simp

context page_router begin

lemma link_page:
  assumes "(pat, p, g) \<in> set app_routes"
  shows "app_page route (map (fill ids) pat) = Some (p, g, param_values pat (map (fill ids) pat))"
proof -
  have w: "list_all worded pat" using bspec [OF app_routes_worded assms] by simp
  have "route (map fst app_routes) (map (fill ids) pat) = Some pat"
  proof (rule one_route [OF w plain_fill [OF w]])
    show "pat \<in> set (map fst app_routes)" using assms by force
    show "list_all2 seg_matches pat (map (fill ids) pat)" by (rule fill_matches)
    fix pat' assume "pat' \<in> set (map fst app_routes)" and m: "list_all2 seg_matches pat' (map (fill ids) pat)"
    then obtain r' where r': "r' \<in> set app_routes" "fst r' = pat'" by auto
    then have "list_all2 seg_hits pat' pat" using m bspec [OF app_routes_worded r'(1)] by (simp add: matches_fill)
    then show "pat' = pat" using bspec [OF bspec [OF app_routes_apart assms] r'(1)] r'(2) by simp
  qed
  moreover have "map_of app_routes pat = Some (p, g)" using assms app_routes_distinct by (simp add: map_of_is_SomeI)
  ultimately show ?thesis by (simp add: app_page_def)
qed

lemma app_pages:
  "app_page route [''login''] = Some (LoginPage, False, [])" "app_page route [] = Some (HomePage, True, [])"
  "app_page route [''projects''] = Some (ProjectsPage, True, [])"
  "app_page route [''projects'', show_int i, ''issues''] = Some (ProjectIssuesPage, True, [show_int i])"
  "app_page route [''issues'', show_int i] = Some (IssueDetailPage, True, [show_int i])"
  "app_page route [''issues''] = Some (IssuesPage, True, [])" "app_page route [''teams''] = Some (TeamsPage, True, [])"
  "app_page route [''teams'', show_int i] = Some (TeamDetailPage, True, [show_int i])"
  "app_page route [''teams'', show_int i, ''workspace''] = Some (TeamWorkspacePage, True, [show_int i])"
  "app_page route [''stats''] = Some (StatsDashboardPage, True, [])"
  "app_page route [''popular''] = Some (PopularIssuesPage, True, [])"
  "app_page route [''external''] = Some (ExternalApiPage, True, [])"
  "app_page route [''products''] = Some (ProductSearchPage, True, [])"
  using link_page [of "[Lit ''login'']" LoginPage False "\<lambda>_. i"] link_page [of "[]" HomePage True "\<lambda>_. i"]
    link_page [of "[Lit ''projects'']" ProjectsPage True "\<lambda>_. i"]
    link_page [of "[Lit ''projects'', Par ''projectId'', Lit ''issues'']" ProjectIssuesPage True "\<lambda>_. i"]
    link_page [of "[Lit ''issues'', Par ''issueId'']" IssueDetailPage True "\<lambda>_. i"]
    link_page [of "[Lit ''issues'']" IssuesPage True "\<lambda>_. i"] link_page [of "[Lit ''teams'']" TeamsPage True "\<lambda>_. i"]
    link_page [of "[Lit ''teams'', Par ''teamId'']" TeamDetailPage True "\<lambda>_. i"]
    link_page [of "[Lit ''teams'', Par ''teamId'', Lit ''workspace'']" TeamWorkspacePage True "\<lambda>_. i"]
    link_page [of "[Lit ''stats'']" StatsDashboardPage True "\<lambda>_. i"]
    link_page [of "[Lit ''popular'']" PopularIssuesPage True "\<lambda>_. i"]
    link_page [of "[Lit ''external'']" ExternalApiPage True "\<lambda>_. i"]
    link_page [of "[Lit ''products'']" ProductSearchPage True "\<lambda>_. i"]
  by (simp_all add: app_routes_def)

end

text \<open>Every link of a view has a page.\<close>

definition leads :: "router \<Rightarrow> view \<Rightarrow> bool" where
  "leads route v = (\<forall>l \<in> set (links v). \<not> Option.is_none (app_page route l))"

lemma leads_simps [simp]:
  "leads route (Words w)" "leads route (Push l b c)" "leads route (Entry l x)" "leads route (Options l x xs c)"
  "leads route (Group vs) = (\<forall>v \<in> set vs. leads route v)"
  "leads route (Anchor to vs) = (\<not> Option.is_none (app_page route to) \<and> (\<forall>v \<in> set vs. leads route v))"
  by (auto simp: leads_def)

lemma only_if_leads [simp]: "(\<forall>v \<in> set (only_if c vs). leads route v) = (c \<longrightarrow> (\<forall>v \<in> set vs. leads route v))"
  by (auto simp: only_if_def)

lemma links_only_if [simp]: "set (concat (map links (only_if c vs))) = (if c then set (concat (map links vs)) else {})"
  by (simp add: only_if_def)

lemma links_error_words [simp]: "concat (map links (error_words e)) = []"
  by (cases e) (simp_all add: error_words_def)

lemma links_form_buttons [simp]: "concat (map links (form_buttons c b x y)) = []"
  by (simp add: form_buttons_def only_if_def)

lemma links_forms [simp]:
  "links (CreateIssueForm_view d e c b) = []" "links (EditIssueForm_view ed e c b) = []"
  "links (CreateProjectForm_view pd e c b) = []" "links (CreateTeamForm_view td r ne c b) = []"
  "links (CreateWorkspaceItemForm_view wd r e c b) = []" "links (LoginPage_view ld r e b) = []"
  by (simp_all add: CreateIssueForm_view_def EditIssueForm_view_def CreateProjectForm_view_def CreateTeamForm_view_def
      CreateWorkspaceItemForm_view_def LoginPage_view_def)

lemma links_query_state:
  "set (links (QueryStateHandler_view l e m d em x y z f)) \<subseteq> (case d of None \<Rightarrow> {} | Some v \<Rightarrow> set (links (f v)))"
  by (auto simp: QueryStateHandler_view_def QueryStateHandler_def LoadingSpinner_def ErrorMessage_def EmptyState_def
      only_if_def split: option.splits if_splits)

context page_router begin

lemma leads_layout: "leads route v \<Longrightarrow> leads route (MainLayout u a v)"
  by (cases u) (auto simp: leads_def MainLayout_def Header_view_def Sidebar_view_def sidebar_links_def app_pages)

lemma leads_projects: "leads route (ProjectsPage_view L c q)"
  by (cases c; cases "qs_data q")
    (auto simp: leads_def ProjectsPage_view_def app_pages only_if_def split: option.splits)

lemma leads_issues: "leads route (ProjectIssuesPage_view L c p q)"
  by (cases c; cases p; cases "qs_data q")
    (auto simp: leads_def ProjectIssuesPage_view_def issue_card_def status_options_def app_pages only_if_def
      split: option.splits)

lemma leads_issue: "leads route (IssueDetailPage_view L ed draft posting q cs)"
  by (cases ed; cases cs; cases "qs_data q"; cases "qs_error q")
    (auto simp: leads_def IssueDetailPage_view_def comment_card_def app_pages only_if_def)

lemma leads_teams: "leads route (TeamsPage_view L c q)"
  by (cases c; cases "qs_data q"; cases "qs_error q")
    (auto simp: leads_def TeamsPage_view_def app_pages Let_def)

lemma links_member_item: "links (member_item L u ms m) = []"
  by (cases "tm_user m") (auto simp: member_item_def only_if_def)

lemma leads_team: "leads route (TeamDetailPage_view L (show_int i) u tab q)"
  by (cases "qs_data q"; cases "qs_error q")
    (auto simp: leads_def TeamDetailPage_view_def links_member_item app_pages only_if_def)

lemma leads_workspace: "leads route (TeamWorkspacePage_view L (show_int i) c t q)"
  by (cases c; cases "qs_data q"; cases "qs_error q")
    (auto simp: leads_def TeamWorkspacePage_view_def app_pages only_if_def Let_def)

lemma links_popular_card: "links (popular_card L n x) = [[''issues'', show_int (id_id (pi_issue x))]]"
  by (simp add: popular_card_def)

lemma leads_query_state:
  assumes "\<And>v. d = Some v \<Longrightarrow> leads route (f v)"
  shows "leads route (QueryStateHandler_view l e m d em x y z f)"
  using assms links_query_state [of l e m d em x y z f] by (cases d) (auto simp: leads_def)

lemma leads_popular: "leads route (PopularIssuesPage_view L days limit upd q)"
proof -
  have "leads route (Group (map (\<lambda>(n, x). popular_card L n x) xs))" for xs
    by (auto simp: leads_def links_popular_card app_pages)
  from leads_query_state [OF this] show ?thesis
    by (simp add: leads_def PopularIssuesPage_view_def only_if_def)
qed

lemma leads_without_links: "links v = [] \<Longrightarrow> leads route v"
  by (simp add: leads_def)

lemma leads_stats: "leads route (StatsDashboardPage_view L a b q)"
  by (auto simp: StatsDashboardPage_view_def split: prod.split intro!: leads_query_state)

lemma leads_external: "leads route (ExternalApiPage_view f q)"
  by (auto simp: ExternalApiPage_view_def intro!: leads_query_state)

lemma leads_products: "leads route (ProductSearchPage_view sv ps n per q)"
  by (auto simp: ProductSearchPage_view_def Table_view_def product_columns_def pagination_view_def only_if_def
      intro!: leads_query_state)

end

section \<open>Properties\<close>

text \<open>C35: No page has a dead link: whatever the data shown, every link of every page, of its header and of
  its side bar has a route in \<open>App\<close>.\<close>

theorem links_lead_to_pages:
  assumes "page_router route"
  shows "list_all (\<lambda>v. leads route (MainLayout u a v))
    [HomePage_view, IssuesPage_view, ProjectsPage_view L pc pq, ProjectIssuesPage_view L ic pj iq,
     IssueDetailPage_view L ec draft posting dq cs, TeamsPage_view L tc tq, TeamDetailPage_view L (show_int i) me tab mq,
     TeamWorkspacePage_view L (show_int i) wc t wq, StatsDashboardPage_view L from to sq,
     PopularIssuesPage_view L days limit upd oq, ExternalApiPage_view fetching xq, ProductSearchPage_view sv ps n per rq]"
  unfolding list.pred_inject
  by (intro conjI TrueI page_router.leads_layout [OF assms] page_router.leads_projects [OF assms]
      page_router.leads_issues [OF assms] page_router.leads_issue [OF assms] page_router.leads_teams [OF assms]
      page_router.leads_team [OF assms] page_router.leads_workspace [OF assms] page_router.leads_stats [OF assms]
      page_router.leads_popular [OF assms] page_router.leads_external [OF assms] page_router.leads_products [OF assms];
      simp add: leads_def HomePage_view_def IssuesPage_view_def)

definition plain_fmt :: locale_fmt where
  "plain_fmt = \<lparr>lf_date = show_int, lf_datetime = show_int, lf_short = show_int\<rparr>"

theorem links_lead_to_pages_witness:
  "leads first_route (MainLayout None False (ProjectsPage_view plain_fmt None
     \<lparr>qs_data = Some \<lparr>pr_items = [\<lparr>pj_id = 4, pj_name = ''p'', pj_description = None, pj_createdAt = 0\<rparr>], pr_totalCount = 1\<rparr>,
      qs_loading = False, qs_error = None\<rparr>))"
  using links_lead_to_pages [OF first_route.page_router_axioms, of None False plain_fmt None
      "\<lparr>qs_data = Some \<lparr>pr_items = [\<lparr>pj_id = 4, pj_name = ''p'', pj_description = None, pj_createdAt = 0\<rparr>], pr_totalCount = 1\<rparr>,
        qs_loading = False, qs_error = None\<rparr>"]
  by simp

text \<open>What the backend is asked for when the user follows a link: the queries of the page that opens.\<close>

definition asked_at ::
    "router \<Rightarrow> (segment list \<Rightarrow> string list \<Rightarrow> bool) \<Rightarrow> serializer \<Rightarrow> page_state \<Rightarrow> string list
      \<Rightarrow> (endpoint \<times> nest_request option) option list option" where
  "asked_at route matches ser st path = (case app_page route path of
       None \<Rightarrow> None
     | Some (p, _, params) \<Rightarrow> map_option (map (\<lambda>q. received matches [] [] (queryFn ser q))) (page_queries p params st))"

lemma status_enum_text [simp]: "status_enum (status_text st) = Some st" "truthy (status_text st)"
  by (cases st; simp add: status_enum_def truthy_def)+





text \<open>The buttons below the results stay between the first and the last page.\<close>

lemma pagination_in_range:
  assumes "1 \<le> n" and "n \<le> pages" and "GoToPage k \<in> set (concat (map clicks (pagination_view pages n)))"
  shows "1 \<le> k \<and> k \<le> pages"
proof (cases "1 < pages")
  case True
  then have "n \<noteq> 1 \<and> k = n - 1 \<or> n \<noteq> pages \<and> k = n + 1"
    using assms(3) by (cases "n = 1"; cases "n = pages") (simp_all add: pagination_view_def only_if_def)
  then show ?thesis using assms(1,2) by auto
next
  case False
  then show ?thesis using assms(3) by (simp add: pagination_view_def only_if_def)
qed

text \<open>Every page but the login page is behind \<open>RequireAuth\<close>.\<close>

lemma only_login_open: "\<forall>(pat, p, g) \<in> set app_routes. g = (p \<noteq> LoginPage)"
  by (simp add: app_routes_def)

lemma pages_need_user:
  assumes "app_page route path = Some (p, g, params)" and "p \<noteq> LoginPage"
  shows "App route content False None path = Some RedirectToLogin"
proof -
  have "\<exists>pat. map_of app_routes pat = Some (p, g)"
    using assms(1) by (auto simp: app_page_def split: option.splits)
  then have "g = (p \<noteq> LoginPage)" using bspec [OF only_login_open map_of_SomeD] by auto
  then show ?thesis using assms by (simp add: App_def RequireAuth_def)
qed

text \<open>The retries announced on the page: one, two and four seconds, and a bound on later ones.\<close>

lemma retry_delays: "map retryDelay [0, 1, 2] = [1000, 2000, 4000]" "retryDelay k \<le> 30000"
  by (simp_all add: retryDelay_def)

text \<open>The period and the number of issues chosen on the page of popular issues change nothing: the
  backend is asked the same.\<close>

lemma popular_choice_ignored:
  assumes "client_to_backend matches ser written"
  shows "received matches salt uuid (queryFn ser (UsePopularIssues p)) = received matches salt uuid (queryFn ser (UsePopularIssues p'))"
  using client_to_backend.query_received [OF assms, of "UsePopularIssues p"]
    client_to_backend.query_received [OF assms, of "UsePopularIssues p'"] by simp

section \<open>The chart\<close>

lemma foldl_max_ge: "x = v \<or> x \<in> set vs \<Longrightarrow> x \<le> foldl max v vs" for v :: int
proof (induction vs arbitrary: v x)
  case (Cons a vs)
  have "max v a \<le> foldl max (max v a) vs" using Cons.IH [of "max v a" "max v a"] by simp
  then show ?case using Cons.IH [of x "max v a"] Cons.prems by auto
qed simp

lemma foldl_max_in: "foldl max v vs = v \<or> foldl max v vs \<in> set vs" for v :: int
proof (induction vs arbitrary: v)
  case (Cons a vs)
  then show ?case using Cons.IH [of "max v a"] by (auto simp: max_def split: if_splits)
qed simp

lemma maxValue_ge: "v \<in> set (chart_values data) \<Longrightarrow> v \<le> maxValue data"
  by (cases "chart_values data") (auto simp: maxValue_def intro: foldl_max_ge)

lemma maxValue_in: "data \<noteq> [] \<Longrightarrow> maxValue data \<in> set (chart_values data)"
proof -
  assume "data \<noteq> []"
  then obtain v vs where "chart_values data = v # vs" by (cases data) (auto simp: chart_values_def)
  then show ?thesis using foldl_max_in [of v vs] by (auto simp: maxValue_def)
qed

text \<open>The bars of the chart stay inside it and compare as the counts do: for counts that are not
  negative every height is between 0 and 100 per cent, a larger count never has a lower bar,
  although the heights are rounded twice, and the largest count fills the chart unless all are zero.\<close>

theorem chart_bars_fit:
  assumes "data \<noteq> []" and "\<forall>v \<in> set (chart_values data). 0 \<le> v" and "v \<in> set (chart_values data)"
    and "w \<in> set (chart_values data)"
  shows "0 \<le> getBarHeight (maxValue data) v \<and> getBarHeight (maxValue data) v \<le> 100 \<and>
    (v \<le> w \<longrightarrow> getBarHeight (maxValue data) v \<le> getBarHeight (maxValue data) w) \<and>
    (maxValue data \<noteq> 0 \<longrightarrow> getBarHeight (maxValue data) (maxValue data) = 100)"
proof -
  let ?m = "maxValue data"
  have m: "0 \<le> ?m" "v \<le> ?m" using assms(2) maxValue_in [OF assms(1)] maxValue_ge [OF assms(3)] by auto
  have mono: "getBarHeight ?m a \<le> getBarHeight ?m b" if "0 \<le> a" "a \<le> b" for a b
  proof -
    have "of_int a / of_int ?m \<le> (of_int b / of_int ?m :: rat)" using that m by (simp add: divide_right_mono)
    moreover have "0 \<le> (of_int a / of_int ?m :: rat)" using that m by simp
    ultimately have "js_div (of_int a) (of_int ?m) \<le> js_div (of_int b) (of_int ?m)" "0 \<le> js_div (of_int a) (of_int ?m)"
      unfolding js_div_def by (auto intro: round_double_mono round_double_nonneg)
    then show ?thesis unfolding getBarHeight_def js_mul_def by (auto intro!: round_double_mono)
  qed
  have full: "getBarHeight ?m ?m = 100" if "?m \<noteq> 0"
    using that round_double_int [of 1] round_double_int [of 100] by (simp add: getBarHeight_def js_div_def js_mul_def)
  have "getBarHeight ?m v \<le> 100"
    using mono [OF bspec [OF assms(2,3)] m(2)] full by (cases "?m = 0") (simp_all add: getBarHeight_def)
  moreover have "0 \<le> getBarHeight ?m v"
    using mono [of 0 v] bspec [OF assms(2,3)] by (simp add: getBarHeight_def js_div_def js_mul_def split: if_splits)
  ultimately show ?thesis using mono full bspec [OF assms(2,3)] by blast
qed

theorem chart_bars_fit_witness:
  "getBarHeight (maxValue [\<lparr>dy_date = 0, dy_createdCount = 1, dy_resolvedCount = 3, dy_commentCount = 2\<rparr>]) 1 \<le> 100"
  using chart_bars_fit [of "[\<lparr>dy_date = 0, dy_createdCount = 1, dy_resolvedCount = 3, dy_commentCount = 2\<rparr>]" 1 3]
  by (simp add: chart_values_def)

end
