(* ===== verification/Video_Storage.thy ===== *)
theory Video_Storage
  imports Js_Number
begin

text \<open>
  File storage and uploads of the video editor's backend: \<open>services/storage.service.ts\<close> and
  \<open>routes/upload.routes.ts\<close>.

  The functions of Node's \<open>path\<close> module that the code calls are modelled for POSIX paths.
  The file system is a map from absolute paths to contents together with the directories
  that exist; permissions and full disks are left out.  The upload middleware \<open>multer\<close> is
  a parameter: the locale \<open>multer_disk\<close> states what its documentation promises.
\<close>

section \<open>Definitions\<close>

subsection \<open>Paths\<close>

fun split_on :: "char \<Rightarrow> string \<Rightarrow> string list" where
  "split_on c [] = [[]]"
| "split_on c (x # xs) =
     (if x = c then [] # split_on c xs
      else (case split_on c xs of [] \<Rightarrow> [[x]] | w # ws \<Rightarrow> (x # w) # ws))"

definition slash :: char where
  "slash = CHR ''/''"

text \<open>One segment of \<open>normalizeString\<close>; the segments kept so far are in reverse order.\<close>

definition norm_segment :: "bool \<Rightarrow> string list \<Rightarrow> string \<Rightarrow> string list" where
  "norm_segment up kept seg =
     (if seg = [] \<or> seg = ''.'' then kept
      else if seg = ''..''
      then (case kept of
              k # ks \<Rightarrow> (if k = ''..'' then (if up then seg # kept else kept) else ks)
            | [] \<Rightarrow> (if up then [seg] else []))
      else seg # kept)"

definition normalize_string :: "bool \<Rightarrow> string \<Rightarrow> string" where
  "normalize_string up p = join ''/'' (rev (foldl (norm_segment up) [] (split_on slash p)))"

definition is_absolute :: "string \<Rightarrow> bool" where
  "is_absolute p = startsWith p ''/''"

definition path_normalize :: "string \<Rightarrow> string" where
  "path_normalize p =
     (if p = [] then ''.''
      else let abs = is_absolute p; trail = (last p = slash); r = normalize_string (\<not> abs) p
           in if r = [] then (if abs then ''/'' else if trail then ''./'' else ''.'')
              else (if abs then ''/'' else []) @ r @ (if trail then ''/'' else []))"

definition path_join :: "string list \<Rightarrow> string" where
  "path_join args =
     (let ps = filter (\<lambda>p. p \<noteq> []) args in if ps = [] then ''.'' else path_normalize (join ''/'' ps))"

text \<open>\<open>path.resolve(cwd, p)\<close> for an absolute working directory.\<close>

definition path_resolve :: "string \<Rightarrow> string \<Rightarrow> string" where
  "path_resolve cwd p =
     ''/'' @ normalize_string False (if is_absolute p then p else cwd @ ''/'' @ p)"

definition path_basename :: "string \<Rightarrow> string" where
  "path_basename p = rev (takeWhile (\<lambda>c. c \<noteq> slash) (dropWhile (\<lambda>c. c = slash) (rev p)))"

definition path_extname :: "string \<Rightarrow> string" where
  "path_extname p =
     (let b = path_basename p;
          suf = rev (takeWhile (\<lambda>c. c \<noteq> CHR ''.'') (rev b));
          pre = rev (tl (dropWhile (\<lambda>c. c \<noteq> CHR ''.'') (rev b)))
      in if CHR ''.'' \<notin> set b \<or> pre = [] \<or> b = ''..'' then [] else CHR ''.'' # suf)"

subsection \<open>The file system\<close>

record fs =
  fs_files :: "string \<rightharpoonup> string"
  fs_dirs :: "string list"

definition fs_access :: "string \<Rightarrow> (string, 'z fs_scheme, unit) action" where
  "fs_access p = (\<lambda>s. (if fs_files s p \<noteq> None \<or> p \<in> set (fs_dirs s) then Inr () else Inl ''ENOENT'', s))"

definition fs_mkdir :: "string \<Rightarrow> (string, 'z fs_scheme, unit) action" where
  "fs_mkdir p = (\<lambda>s. (Inr (), s\<lparr>fs_dirs := p # fs_dirs s\<rparr>))"

definition fs_unlink :: "string \<Rightarrow> (string, 'z fs_scheme, unit) action" where
  "fs_unlink p = (\<lambda>s. case fs_files s p of
     None \<Rightarrow> (Inl ''ENOENT'', s)
   | Some _ \<Rightarrow> (Inr (), s\<lparr>fs_files := (fs_files s)(p := None)\<rparr>))"

definition fs_writeFile :: "string \<Rightarrow> string \<Rightarrow> (string, 'z fs_scheme, unit) action" where
  "fs_writeFile p c = (\<lambda>s. (Inr (), s\<lparr>fs_files := (fs_files s)(p \<mapsto> c)\<rparr>))"

text \<open>\<open>(await fs.stat(p)).size\<close>\<close>

definition fs_stat_size :: "string \<Rightarrow> (string, 'z fs_scheme, nat) action" where
  "fs_stat_size p = (\<lambda>s. (case fs_files s p of None \<Rightarrow> Inl ''ENOENT'' | Some c \<Rightarrow> Inr (length c), s))"

subsection \<open>The storage service\<close>

record StorageService =
  uploadDir :: string

definition new_StorageService :: "string \<Rightarrow> string option \<Rightarrow> StorageService" where
  "new_StorageService cwd dir =
     \<lparr>uploadDir = path_resolve cwd (case dir of None \<Rightarrow> ''uploads'' | Some d \<Rightarrow> d)\<rparr>"

definition ensureUploadDir :: "StorageService \<Rightarrow> (string, 'z fs_scheme, unit) action" where
  "ensureUploadDir S = try_catch (fs_access (uploadDir S)) (\<lambda>_. fs_mkdir (uploadDir S))"

definition getUploadDir :: "StorageService \<Rightarrow> string" where
  "getUploadDir S = uploadDir S"

definition getFilePath :: "StorageService \<Rightarrow> string \<Rightarrow> string" where
  "getFilePath S filename = path_join [uploadDir S, filename]"

definition fileExists :: "StorageService \<Rightarrow> string \<Rightarrow> (string, 'z fs_scheme, bool) action" where
  "fileExists S filename =
     try_catch (bind_action (fs_access (getFilePath S filename)) (\<lambda>_. ret True)) (\<lambda>_. ret False)"

definition deleteFile :: "StorageService \<Rightarrow> string \<Rightarrow> (string, 'z fs_scheme, unit) action" where
  "deleteFile S filename = (let filePath = getFilePath S filename in fs_unlink filePath)"

subsection \<open>Uploads\<close>

text \<open>What a handler answers: a JSON document or an \<open>error\<close> document, with the status.\<close>

datatype 'a reply = Sent nat 'a | Failed nat string

text \<open>A file of the form data, and what the middleware tells about a stored one.\<close>

record form_file =
  ff_originalname :: string
  ff_mimetype :: string
  ff_content :: string

record stored_file =
  sf_filename :: string
  sf_path :: string
  sf_originalname :: string
  sf_size :: nat
  sf_mimetype :: string

record 's multer_options =
  opt_destination :: "(string, 's, string) action"
  opt_filename :: "form_file \<Rightarrow> string"
  opt_fileSize :: nat
  opt_fileFilter :: "form_file \<Rightarrow> string option"

type_synonym 's multer = "'s multer_options \<Rightarrow> form_file option \<Rightarrow> (string, 's, stored_file option) action"

definition allowedMimes :: "string list" where
  "allowedMimes = [''video/mp4'', ''video/mpeg'', ''video/quicktime'', ''video/x-msvideo'',
     ''video/x-matroska'', ''video/webm'']"

definition upload_fileFilter :: "form_file \<Rightarrow> string option" where
  "upload_fileFilter f =
     (if ff_mimetype f \<in> set allowedMimes then None
      else Some ''Invalid file type. Only video files are allowed.'')"

definition upload_filename :: "nat \<Rightarrow> nat \<Rightarrow> form_file \<Rightarrow> string" where
  "upload_filename now rnd f =
     (let uniqueSuffix = show_nat now @ ''-'' @ show_nat rnd; ext = path_extname (ff_originalname f)
      in ''video-'' @ uniqueSuffix @ ext)"

definition upload_destination :: "StorageService \<Rightarrow> (string, 'z fs_scheme, string) action" where
  "upload_destination S = bind_action (ensureUploadDir S) (\<lambda>_. ret (getUploadDir S))"

definition upload_options :: "StorageService \<Rightarrow> nat \<Rightarrow> nat \<Rightarrow> 'z fs_scheme multer_options" where
  "upload_options S now rnd =
     \<lparr>opt_destination = upload_destination S, opt_filename = upload_filename now rnd,
      opt_fileSize = 500 * 1024 * 1024, opt_fileFilter = upload_fileFilter\<rparr>"

record UploadResponse =
  up_url :: string
  up_path :: string
  up_filename :: string
  up_originalName :: string
  up_size :: nat
  up_mimetype :: string

text \<open>\<open>POST /api/upload\<close>.  An error of the middleware is passed on to the server.\<close>

definition post_upload ::
    "'z fs_scheme multer \<Rightarrow> StorageService \<Rightarrow> nat \<Rightarrow> nat \<Rightarrow> form_file option
      \<Rightarrow> (string, 'z fs_scheme, UploadResponse reply) action" where
  "post_upload M S now rnd part =
     bind_action (M (upload_options S now rnd) part) (\<lambda>file.
     case file of
       None \<Rightarrow> ret (Failed 400 ''No video file provided'')
     | Some f \<Rightarrow>
         (let videoUrl = ''/videos/'' @ sf_filename f
          in ret (Sent 200 \<lparr>up_url = videoUrl, up_path = sf_path f, up_filename = sf_filename f,
               up_originalName = sf_originalname f, up_size = sf_size f, up_mimetype = sf_mimetype f\<rparr>)))"

section \<open>Lemmas on paths\<close>

lemma split_on_nonempty [simp]: "split_on c s \<noteq> []"
  by (induction s) (auto split: list.splits)

lemma split_on_append: "split_on c (s @ c # t) = split_on c s @ split_on c t"
proof (induction s)
  case (Cons x s)
  then show ?case by (cases "split_on c s") simp_all
qed simp

lemma split_on_free: "c \<notin> set s \<Longrightarrow> split_on c s = [s]"
  by (induction s) auto

lemma split_on_join:
  assumes "ws \<noteq> []" and "\<forall>w \<in> set ws. slash \<notin> set w"
  shows "split_on slash (join ''/'' ws) = ws"
  using assms
proof (induction "''/''" ws rule: join.induct)
  case (3 x y ys)
  have "split_on slash (x @ slash # join ''/'' (y # ys)) = [x] @ (y # ys)"
    using 3 by (simp add: split_on_append split_on_free)
  then show ?case by (simp add: slash_def)
qed (simp_all add: split_on_free)

text \<open>A segment that names an entry of a directory.\<close>

definition plain :: "string \<Rightarrow> bool" where
  "plain w = (w \<noteq> [] \<and> w \<noteq> ''.'' \<and> w \<noteq> ''..'' \<and> slash \<notin> set w)"

definition abs_path :: "string list \<Rightarrow> string" where
  "abs_path ws = ''/'' @ join ''/'' ws"

definition path_parts :: "string \<Rightarrow> string list" where
  "path_parts p = filter (\<lambda>w. w \<noteq> []) (split_on slash p)"

lemma join_Nil [simp]: "(join sep ws = []) = (ws = [] \<or> ws = [[]] \<or> (sep = [] \<and> (\<forall>w \<in> set ws. w = [])))"
  by (induction sep ws rule: join.induct) auto

lemma path_parts_abs:
  assumes "\<forall>w \<in> set ws. plain w"
  shows "path_parts (abs_path ws) = ws" "path_parts (abs_path ws @ ''/'') = ws"
proof -
  have f: "filter (\<lambda>w. w \<noteq> []) ws = ws" using assms by (simp add: filter_id_conv plain_def)
  have s: "split_on slash (join ''/'' ws) = (if ws = [] then [[]] else ws)"
    using assms by (auto simp: plain_def split_on_join)
  show "path_parts (abs_path ws) = ws"
    using f s by (simp add: path_parts_def abs_path_def slash_def)
  have "split_on slash (abs_path ws @ slash # []) = split_on slash (abs_path ws) @ [[]]"
    by (simp add: split_on_append)
  then show "path_parts (abs_path ws @ ''/'') = ws"
    using f s by (simp add: path_parts_def abs_path_def slash_def)
qed

lemma norm_plain: "\<forall>w \<in> set ws. plain w \<Longrightarrow> foldl (norm_segment up) kept ws = rev ws @ kept"
  by (induction ws arbitrary: kept) (auto simp: norm_segment_def plain_def)

lemma norm_no_up:
  "''..'' \<notin> set ws \<Longrightarrow>
   foldl (norm_segment up) kept ws = rev (filter (\<lambda>w. w \<noteq> [] \<and> w \<noteq> ''.'') ws) @ kept"
  by (induction ws arbitrary: kept) (auto simp: norm_segment_def)

lemma split_on_no_sep: "w \<in> set (split_on c s) \<Longrightarrow> c \<notin> set w"
proof (induction s arbitrary: w)
  case (Cons x s)
  then show ?case by (cases "split_on c s") (auto split: if_splits)
qed simp

text \<open>Normalizing the name appended to an absolute directory.\<close>

lemma join_dir:
  assumes "\<forall>w \<in> set ws. plain w" and "name \<noteq> []"
  shows "path_parts (path_join [abs_path ws, name]) =
           path_parts (abs_path (rev (foldl (norm_segment False) (rev ws) (split_on slash name))))"
proof -
  let ?p = "abs_path ws @ slash # name"
  let ?k = "rev (foldl (norm_segment False) (rev ws) (split_on slash name))"
  have ne: "abs_path ws \<noteq> []" by (simp add: abs_path_def)
  have j: "path_join [abs_path ws, name] = path_normalize ?p"
    using ne assms(2) by (simp add: path_join_def slash_def)
  have "split_on slash (join ''/'' ws) = (if ws = [] then [[]] else ws)"
    using assms(1) by (auto simp: plain_def split_on_join)
  then have "foldl (norm_segment False) [] (split_on slash (abs_path ws)) = rev ws"
    using norm_plain [OF assms(1), of False "[]"] by (auto simp: abs_path_def slash_def norm_segment_def)
  then have r: "normalize_string False ?p = join ''/'' ?k"
    by (simp add: normalize_string_def split_on_append)
  have a: "is_absolute ?p" by (simp add: is_absolute_def startsWith_def abs_path_def)
  have parts_trail: "path_parts (q @ ''/'') = path_parts q" for q
    using split_on_append [of slash q "[]"] by (simp add: path_parts_def slash_def)
  have parts_root: "path_parts ''/'' = []" by (simp add: path_parts_def slash_def)
  have pe: "path_parts (''/'' @ q) = path_parts q" for q by (simp add: path_parts_def slash_def)
  show ?thesis
  proof (cases "join ''/'' ?k = []")
    case True
    then show ?thesis unfolding j using a r ne
      by (simp add: path_normalize_def Let_def parts_root abs_path_def del: join_Nil)
  next
    case False
    then have "path_normalize ?p = abs_path ?k @ (if last ?p = slash then ''/'' else [])"
      using a r ne by (simp add: path_normalize_def Let_def abs_path_def del: join_Nil)
    then show ?thesis unfolding j by (simp add: parts_trail)
  qed
qed

lemma extname_no_slash: "slash \<notin> set (path_extname p)"
proof -
  have "slash \<notin> set (path_basename p)"
    by (auto simp: path_basename_def dest: set_takeWhileD)
  then show ?thesis
    by (auto simp: path_extname_def Let_def slash_def dest: set_takeWhileD)
qed

lemma join_dir_plain:
  assumes "\<forall>w \<in> set ws. plain w" and "plain name"
  shows "path_parts (path_join [abs_path ws, name]) = ws @ [name]"
proof -
  have "name \<noteq> []" "split_on slash name = [name]" "norm_segment False (rev ws) name = name # rev ws"
    using assms(2) by (simp_all add: plain_def split_on_free norm_segment_def)
  then show ?thesis
    using join_dir [OF assms(1), of name] path_parts_abs(1) [of "ws @ [name]"] assms by simp
qed

section \<open>The upload middleware\<close>

text \<open>
  \<open>multer\<close> with disk storage: without a file nothing happens; the filter runs first and its
  error ends the request; then the destination is asked for, the content is written there
  under the chosen name, and a file above the size limit is removed again and reported.
\<close>

locale multer_disk =
  fixes M :: "'z fs_scheme multer"
  assumes no_file: "M opts None s = (Inr None, s)"
    and filtered: "opt_fileFilter opts f = Some e \<Longrightarrow> M opts (Some f) s = (Inl e, s)"
    and too_large: "opt_fileFilter opts f = None \<Longrightarrow> opt_destination opts s = (Inr dir, s') \<Longrightarrow>
      opt_fileSize opts < length (ff_content f) \<Longrightarrow> M opts (Some f) s = (Inl ''File too large'', s')"
    and stored: "opt_fileFilter opts f = None \<Longrightarrow> opt_destination opts s = (Inr dir, s') \<Longrightarrow>
      length (ff_content f) \<le> opt_fileSize opts \<Longrightarrow>
      M opts (Some f) s =
        (Inr (Some \<lparr>sf_filename = opt_filename opts f, sf_path = path_join [dir, opt_filename opts f],
           sf_originalname = ff_originalname f, sf_size = length (ff_content f), sf_mimetype = ff_mimetype f\<rparr>),
         s'\<lparr>fs_files := (fs_files s')(path_join [dir, opt_filename opts f] \<mapsto> ff_content f)\<rparr>)"

definition disk_multer :: "'z fs_scheme multer" where
  "disk_multer opts part =
     (case part of
        None \<Rightarrow> ret None
      | Some f \<Rightarrow>
          (case opt_fileFilter opts f of
             Some e \<Rightarrow> throw e
           | None \<Rightarrow>
               bind_action (opt_destination opts) (\<lambda>dir.
               if opt_fileSize opts < length (ff_content f) then throw ''File too large''
               else let path = path_join [dir, opt_filename opts f]
                    in bind_action (fs_writeFile path (ff_content f)) (\<lambda>_.
                       ret (Some \<lparr>sf_filename = opt_filename opts f, sf_path = path,
                         sf_originalname = ff_originalname f, sf_size = length (ff_content f),
                         sf_mimetype = ff_mimetype f\<rparr>)))))"

interpretation disk: multer_disk disk_multer
  by unfold_locales
    (auto simp: disk_multer_def bind_apply_Inr [where m = "opt_destination opts" for opts] fs_writeFile_def
      bind_action_def Let_def)

lemma ensureUploadDir_ok:
  "\<exists>ds. ensureUploadDir S s = (Inr (), s\<lparr>fs_dirs := ds\<rparr>) \<and> uploadDir S \<in> set ds \<or>
        ensureUploadDir S s = (Inr (), s) \<and> fs_files s (uploadDir S) \<noteq> None"
  by (cases "uploadDir S \<in> set (fs_dirs s)"; cases "fs_files s (uploadDir S)")
    (force simp: ensureUploadDir_def try_catch_def fs_access_def fs_mkdir_def)+

lemma destination_ok:
  obtains s' where "upload_destination S s = (Inr (uploadDir S), s')" "fs_files s' = fs_files s"
proof -
  obtain s' where "ensureUploadDir S s = (Inr (), s')" "fs_files s' = fs_files s"
    using ensureUploadDir_ok [of S s] by (elim exE disjE conjE) auto
  then show ?thesis
    using that by (simp add: upload_destination_def getUploadDir_def bind_action_def)
qed

lemma upload_filename_plain: "plain (upload_filename now rnd f)"
proof -
  have "slash \<notin> set (show_nat n)" for n
    using show_nat_digits [of slash n] by (auto simp: slash_def is_digit_def)
  then show ?thesis
    using extname_no_slash by (simp add: plain_def upload_filename_def Let_def slash_def)
qed

lemma upload_options_sel [simp]:
  "opt_destination (upload_options S now rnd) = upload_destination S"
  "opt_filename (upload_options S now rnd) = upload_filename now rnd"
  "opt_fileSize (upload_options S now rnd) = 524288000"
  "opt_fileFilter (upload_options S now rnd) = upload_fileFilter"
  by (simp_all add: upload_options_def)

section \<open>Properties\<close>



lemma upload_accepted:
  assumes "multer_disk M" and "uploadDir S = abs_path ws" and "\<forall>v \<in> set ws. plain v"
    and ok: "ff_mimetype f \<in> set allowedMimes" "length (ff_content f) \<le> 524288000"
    and d: "upload_destination S s = (Inr (uploadDir S), s1)" "fs_files s1 = fs_files s"
  shows "\<exists>r s' ext. post_upload M S now rnd (Some f) s = (Inr (Sent 200 r), s') \<and>
      path_parts (up_path r) = ws @ [up_filename r] \<and> up_url r = ''/videos/'' @ up_filename r \<and>
      up_filename r = ''video-'' @ show_nat now @ ''-'' @ show_nat rnd @ ext \<and>
      ext = path_extname (ff_originalname f) \<and> slash \<notin> set ext \<and>
      fs_files s' = (fs_files s)(up_path r \<mapsto> ff_content f)"
proof -
  let ?o = "upload_options S now rnd"
  have o: "opt_destination ?o s = (Inr (uploadDir S), s1)" using d by simp
  let ?n = "upload_filename now rnd f"
  let ?p = "path_join [uploadDir S, ?n]"
  have o': "opt_fileFilter ?o f = None" "length (ff_content f) \<le> opt_fileSize ?o"
    using ok by (simp_all add: upload_fileFilter_def)
  have "M ?o (Some f) s = (Inr (Some \<lparr>sf_filename = ?n, sf_path = ?p, sf_originalname = ff_originalname f,
      sf_size = length (ff_content f), sf_mimetype = ff_mimetype f\<rparr>),
      s1\<lparr>fs_files := (fs_files s1)(?p \<mapsto> ff_content f)\<rparr>)"
    using multer_disk.stored [OF assms(1) o'(1) o o'(2)] by simp
  then have res: "post_upload M S now rnd (Some f) s =
      (Inr (Sent 200 \<lparr>up_url = ''/videos/'' @ ?n, up_path = ?p, up_filename = ?n,
         up_originalName = ff_originalname f, up_size = length (ff_content f), up_mimetype = ff_mimetype f\<rparr>),
       s1\<lparr>fs_files := (fs_files s1)(?p \<mapsto> ff_content f)\<rparr>)"
    by (simp add: post_upload_def bind_action_def)
  have "?n = ''video-'' @ show_nat now @ ''-'' @ show_nat rnd @ path_extname (ff_originalname f)"
    by (simp add: upload_filename_def Let_def)
  then show ?thesis
    using ok d(2) extname_no_slash [of "ff_originalname f"]
      join_dir_plain [OF assms(3) upload_filename_plain [of now rnd f]]
    unfolding res by (simp add: assms(2))
qed

text \<open>An upload is accepted exactly for the listed video types up to 500 MB.  It is stored
  directly in the upload directory, whatever name the client gave, under a name that ends
  in the extension of the original; no other file changes.  A refused upload changes no
  file.\<close>

theorem upload_stored_inside:
  assumes "multer_disk M" and "uploadDir S = abs_path ws" and "\<forall>v \<in> set ws. plain v"
  shows "if ff_mimetype f \<in> set allowedMimes \<and> length (ff_content f) \<le> 524288000
    then \<exists>r s' ext. post_upload M S now rnd (Some f) s = (Inr (Sent 200 r), s') \<and>
      path_parts (up_path r) = ws @ [up_filename r] \<and> up_url r = ''/videos/'' @ up_filename r \<and>
      up_filename r = ''video-'' @ show_nat now @ ''-'' @ show_nat rnd @ ext \<and>
      ext = path_extname (ff_originalname f) \<and> slash \<notin> set ext \<and>
      fs_files s' = (fs_files s)(up_path r \<mapsto> ff_content f)
    else \<exists>e s'. post_upload M S now rnd (Some f) s = (Inl e, s') \<and> fs_files s' = fs_files s"
proof -
  let ?o = "upload_options S now rnd"
  obtain s1 where d: "upload_destination S s = (Inr (uploadDir S), s1)" "fs_files s1 = fs_files s"
    by (rule destination_ok)
  have o: "opt_destination ?o s = (Inr (uploadDir S), s1)" using d by simp
  consider (wrong_type) "ff_mimetype f \<notin> set allowedMimes"
    | (large) "ff_mimetype f \<in> set allowedMimes" "524288000 < length (ff_content f)"
    | (ok) "ff_mimetype f \<in> set allowedMimes" "length (ff_content f) \<le> 524288000" by linarith
  then show ?thesis
  proof cases
    case wrong_type
    then have "opt_fileFilter ?o f = Some ''Invalid file type. Only video files are allowed.''"
      by (simp add: upload_fileFilter_def)
    from multer_disk.filtered [OF assms(1) this, of s] wrong_type show ?thesis
      by (simp add: post_upload_def bind_action_def)
  next
    case large
    then have "M ?o (Some f) s = (Inl ''File too large'', s1)"
      by (intro multer_disk.too_large [OF assms(1) _ o]) (simp_all add: upload_fileFilter_def)
    with large d show ?thesis by (simp add: post_upload_def bind_action_def)
  next
    case ok
    from upload_accepted [OF assms ok d] ok show ?thesis by simp
  qed
qed

definition sample_upload :: form_file where
  "sample_upload = \<lparr>ff_originalname = ''../../clip.mp4'', ff_mimetype = ''video/mp4'', ff_content = ''data''\<rparr>"

theorem upload_stored_inside_witness:
  "\<exists>r s'. post_upload disk_multer \<lparr>uploadDir = ''/srv/uploads''\<rparr> 17 4 (Some sample_upload)
       \<lparr>fs_files = Map.empty, fs_dirs = []\<rparr> = (Inr (Sent 200 r), s') \<and>
     up_filename r = ''video-17-4.mp4'' \<and> path_parts (up_path r) = [''srv'', ''uploads'', ''video-17-4.mp4'']"
proof -
  have u: "uploadDir \<lparr>uploadDir = ''/srv/uploads''\<rparr> = abs_path [''srv'', ''uploads'']" by code_simp
  have p: "\<forall>v \<in> set [''srv'', ''uploads'']. plain v" by code_simp
  have e: "path_extname (ff_originalname sample_upload) = ''.mp4''" by code_simp
  have n: "''video-'' @ show_nat 17 @ ''-'' @ show_nat 4 @ ''.mp4'' = ''video-17-4.mp4''" by code_simp
  have a: "ff_mimetype sample_upload \<in> set allowedMimes" "length (ff_content sample_upload) \<le> 524288000"
    by (simp_all add: sample_upload_def allowedMimes_def)
  show ?thesis
    using upload_stored_inside [OF disk.multer_disk_axioms u p, of sample_upload 17 4] a n unfolding e by fastforce
qed

end
