(* ===== verification/Video_Projects.thy ===== *)
theory Video_Projects
  imports Video_Storage "HOL-Library.List_Lexorder" "HOL-Library.Char_ord"
begin

text \<open>
  The database service and the project handlers of the video editor's backend:
  \<open>db/database.service.ts\<close>, \<open>routes/project.routes.ts\<close> and the table of
  \<open>migrations/001_initial_schema.sql\<close>.

  The connection pool of \<open>pg\<close> is a parameter, \<open>pool_lib\<close>; the locale \<open>pg_pool\<close> counts its
  clients in use, \<open>pg_transactions\<close> states what \<open>BEGIN\<close>, \<open>COMMIT\<close> and \<open>ROLLBACK\<close> do, and
  \<open>pg_projects\<close> that PostgreSQL executes the statements on the projects table as the
  reference semantics \<open>exec_stmt\<close> says.  The handlers build the statement texts as the code
  does.  The timeline of a project is its JSON text.
\<close>

section \<open>Definitions\<close>

subsection \<open>The database service\<close>

datatype sql_value = SqlText string | SqlNull

record ('s, 'r) pool_lib =
  pool_connect :: "(string, 's, unit) action"
  pool_release :: "'s \<Rightarrow> 's"
  client_query :: "string \<Rightarrow> sql_value list \<Rightarrow> (string, 's, 'r list) action"
  pool_query :: "string \<Rightarrow> (string, 's, 'r list) action"
  pool_end :: "(string, 's, unit) action"

definition try_finally :: "('e, 's, 'a) action \<Rightarrow> ('s \<Rightarrow> 's) \<Rightarrow> ('e, 's, 'a) action" where
  "try_finally m f = (\<lambda>s. case m s of (r, s') \<Rightarrow> (r, f s'))"

definition DatabaseService_query ::
    "('s, 'r) pool_lib \<Rightarrow> string \<Rightarrow> sql_value list \<Rightarrow> (string, 's, 'r list) action" where
  "DatabaseService_query L stmt params =
     bind_action (pool_connect L) (\<lambda>_. try_finally (client_query L stmt params) (pool_release L))"

definition DatabaseService_queryOne ::
    "('s, 'r) pool_lib \<Rightarrow> string \<Rightarrow> sql_value list \<Rightarrow> (string, 's, 'r option) action" where
  "DatabaseService_queryOne L stmt params =
     bind_action (DatabaseService_query L stmt params) (\<lambda>rows.
     ret (if length rows > 0 then Some (rows ! 0) else None))"

definition DatabaseService_transaction ::
    "('s, 'r) pool_lib \<Rightarrow> (string, 's, 'a) action \<Rightarrow> (string, 's, 'a) action" where
  "DatabaseService_transaction L callback =
     bind_action (pool_connect L) (\<lambda>_.
     try_finally
       (try_catch
          (bind_action (client_query L ''BEGIN'' []) (\<lambda>_.
           bind_action callback (\<lambda>result.
           bind_action (client_query L ''COMMIT'' []) (\<lambda>_.
           ret result))))
          (\<lambda>error. bind_action (client_query L ''ROLLBACK'' []) (\<lambda>_. throw error)))
       (pool_release L))"

definition DatabaseService_close :: "('s, 'r) pool_lib \<Rightarrow> (string, 's, unit) action" where
  "DatabaseService_close L = pool_end L"

definition endsWith :: "string \<Rightarrow> string \<Rightarrow> bool" where
  "endsWith s e = (length e \<le> length s \<and> drop (length s - length e) s = e)"

text \<open>The migrations: the directory listing and the file contents are given.\<close>

definition DatabaseService_runMigrations ::
    "('s, 'r) pool_lib \<Rightarrow> string + string list \<Rightarrow> (string \<Rightarrow> string + string) \<Rightarrow> (string, 's, unit) action" where
  "DatabaseService_runMigrations L listing readFile =
     (case listing of
        Inl e \<Rightarrow> throw e
      | Inr files \<Rightarrow>
          (let sqlFiles = sort (filter (\<lambda>f. endsWith f ''.sql'') files)
           in bind_action (map_action (\<lambda>file. case readFile file of
                  Inl e \<Rightarrow> throw e
                | Inr sql \<Rightarrow> pool_query L sql) sqlFiles) (\<lambda>_. ret ())))"

subsection \<open>Projects\<close>

record vproject =
  vp_id :: int
  vp_name :: string
  vp_description :: "string option"
  vp_video_filename :: string
  vp_video_url :: string
  vp_timeline_state :: string
  vp_created_at :: int
  vp_updated_at :: int

record vproject_body =
  vb_name :: "string field"
  vb_description :: "string field"
  vb_videoFilename :: "string field"
  vb_videoUrl :: "string field"
  vb_timelineState :: "string field"

definition present :: "string field \<Rightarrow> bool" where
  "present f = (case f of Value s \<Rightarrow> truthy s | _ \<Rightarrow> False)"

definition sql_of :: "string field \<Rightarrow> sql_value" where
  "sql_of f = (case f of Value s \<Rightarrow> SqlText s | _ \<Rightarrow> SqlNull)"

text \<open>The line break and the indentation of the statements in the source.\<close>

definition nl :: string where
  "nl = CHR 0x0A # ''       ''"

definition insert_sql :: string where
  "insert_sql = ''INSERT INTO projects (name, description, video_filename, video_url, timeline_state)'' @ nl @
     ''VALUES ($1, $2, $3, $4, $5)'' @ nl @ ''RETURNING *''"

definition respond_500 :: "string \<Rightarrow> (string, 's, 'a reply) action \<Rightarrow> (string, 's, 'a reply) action" where
  "respond_500 msg m = try_catch m (\<lambda>_. ret (Failed 500 msg))"

definition post_project ::
    "('s, vproject) pool_lib \<Rightarrow> vproject_body \<Rightarrow> (string, 's, vproject option reply) action" where
  "post_project L b =
     respond_500 ''Failed to create project''
       (if \<not> present (vb_name b) \<or> \<not> present (vb_videoFilename b) \<or> \<not> present (vb_videoUrl b)
        then ret (Failed 400 ''Missing required fields: name, videoFilename, videoUrl'')
        else bind_action
          (DatabaseService_queryOne L insert_sql
             [sql_of (vb_name b), if present (vb_description b) then sql_of (vb_description b) else SqlNull,
              sql_of (vb_videoFilename b), sql_of (vb_videoUrl b),
              SqlText (case field_opt (vb_timelineState b) of None \<Rightarrow> ''{}'' | Some t \<Rightarrow> t)]) (\<lambda>project.
          ret (Sent 201 project)))"

definition get_projects :: "('s, vproject) pool_lib \<Rightarrow> (string, 's, vproject list reply) action" where
  "get_projects L =
     respond_500 ''Failed to get projects''
       (bind_action (DatabaseService_query L ''SELECT * FROM projects ORDER BY updated_at DESC'' []) (\<lambda>projects.
        ret (Sent 200 projects)))"

definition found_or_404 :: "'a option \<Rightarrow> (string, 's, 'a reply) action" where
  "found_or_404 r = (case r of None \<Rightarrow> ret (Failed 404 ''Project not found'') | Some p \<Rightarrow> ret (Sent 200 p))"

definition get_project :: "('s, vproject) pool_lib \<Rightarrow> string \<Rightarrow> (string, 's, vproject reply) action" where
  "get_project L pid =
     respond_500 ''Failed to get project''
       (bind_action (DatabaseService_queryOne L ''SELECT * FROM projects WHERE id = $1'' [SqlText pid]) found_or_404)"

text \<open>One \<open>if (field !== undefined)\<close> of the update: the assignment with the next parameter
  number, and the value.\<close>

definition push_update ::
    "string \<Rightarrow> sql_value option \<Rightarrow> string list \<times> sql_value list \<times> nat \<Rightarrow> string list \<times> sql_value list \<times> nat" where
  "push_update column v st =
     (case (v, st) of
        (None, _) \<Rightarrow> st
      | (Some x, updates, vals, paramIndex) \<Rightarrow>
          (updates @ [column @ '' = $'' @ show_nat paramIndex], vals @ [x], paramIndex + 1))"

definition given :: "string field \<Rightarrow> sql_value option" where
  "given f = (case f of Undefined \<Rightarrow> None | Null \<Rightarrow> Some SqlNull | Value s \<Rightarrow> Some (SqlText s))"

text \<open>\<open>JSON.stringify(null)\<close> is a JSON text.\<close>

definition given_json :: "string field \<Rightarrow> sql_value option" where
  "given_json f = (case f of Undefined \<Rightarrow> None | Null \<Rightarrow> Some (SqlText ''null'') | Value s \<Rightarrow> Some (SqlText s))"

definition put_project ::
    "('s, vproject) pool_lib \<Rightarrow> string \<Rightarrow> vproject_body \<Rightarrow> (string, 's, vproject reply) action" where
  "put_project L pid b =
     respond_500 ''Failed to update project''
       (let (updates, vals, paramIndex) =
              push_update ''timeline_state'' (given_json (vb_timelineState b))
                (push_update ''description'' (given (vb_description b))
                  (push_update ''name'' (given (vb_name b)) ([], [], 1)))
        in if updates = [] then ret (Failed 400 ''No fields to update'')
           else bind_action
             (DatabaseService_queryOne L
                (''UPDATE projects SET '' @ join '', '' updates @ nl @ ''WHERE id = $'' @ show_nat paramIndex @ nl @
                 ''RETURNING *'') (vals @ [SqlText pid])) found_or_404)"

definition delete_project ::
    "('s, vproject) pool_lib \<Rightarrow> string \<Rightarrow> (string, 's, (string \<times> vproject) reply) action" where
  "delete_project L pid =
     respond_500 ''Failed to delete project''
       (bind_action (DatabaseService_queryOne L ''DELETE FROM projects WHERE id = $1 RETURNING *'' [SqlText pid]) (\<lambda>p.
        case p of
          None \<Rightarrow> ret (Failed 404 ''Project not found'')
        | Some project \<Rightarrow> ret (Sent 200 (''Project deleted'', project))))"

section \<open>Reference semantics of the statements\<close>

record ptable =
  pt_rows :: "vproject list"
  pt_seq :: int

datatype sql_stmt = InsertProject | SelectAll | SelectById | UpdateById "(string \<times> nat) list" nat | DeleteById

definition assignment :: "string \<times> nat \<Rightarrow> string" where
  "assignment a = fst a @ '' = $'' @ show_nat (snd a)"

fun render :: "sql_stmt \<Rightarrow> string" where
  "render InsertProject = insert_sql"
| "render SelectAll = ''SELECT * FROM projects ORDER BY updated_at DESC''"
| "render SelectById = ''SELECT * FROM projects WHERE id = $1''"
| "render (UpdateById cs k) =
     ''UPDATE projects SET '' @ join '', '' (map assignment cs) @ nl @ ''WHERE id = $'' @ show_nat k @ nl @ ''RETURNING *''"
| "render DeleteById = ''DELETE FROM projects WHERE id = $1 RETURNING *''"

definition columns :: "string list" where
  "columns = [''name'', ''description'', ''timeline_state'']"

definition valid_stmt :: "sql_stmt \<Rightarrow> bool" where
  "valid_stmt st = (case st of UpdateById cs k \<Rightarrow> cs \<noteq> [] \<and> (\<forall>(c, i) \<in> set cs. c \<in> set columns) | _ \<Rightarrow> True)"

definition param :: "sql_value list \<Rightarrow> nat \<Rightarrow> string + sql_value" where
  "param vs i = (if 1 \<le> i \<and> i \<le> length vs then Inr (vs ! (i - 1)) else Inl ''bind message supplies too few parameters'')"

definition not_null :: "sql_value \<Rightarrow> string + string" where
  "not_null v = (case v of SqlNull \<Rightarrow> Inl ''null value violates not-null constraint'' | SqlText s \<Rightarrow> Inr s)"

definition varchar255 :: "sql_value \<Rightarrow> string + string" where
  "varchar255 v = (case not_null v of
     Inl e \<Rightarrow> Inl e
   | Inr s \<Rightarrow> if length s \<le> 255 then Inr s else Inl ''value too long for type character varying(255)'')"

definition nullable :: "sql_value \<Rightarrow> string option" where
  "nullable v = (case v of SqlNull \<Rightarrow> None | SqlText s \<Rightarrow> Some s)"

definition set_column :: "string \<Rightarrow> sql_value \<Rightarrow> vproject \<Rightarrow> string + vproject" where
  "set_column c v p =
     (if c = ''name'' then (case varchar255 v of Inl e \<Rightarrow> Inl e | Inr s \<Rightarrow> Inr (p\<lparr>vp_name := s\<rparr>))
      else if c = ''description'' then Inr (p\<lparr>vp_description := nullable v\<rparr>)
      else (case not_null v of Inl e \<Rightarrow> Inl e | Inr s \<Rightarrow> Inr (p\<lparr>vp_timeline_state := s\<rparr>)))"

fun set_columns :: "sql_value list \<Rightarrow> (string \<times> nat) list \<Rightarrow> vproject \<Rightarrow> string + vproject" where
  "set_columns vs [] p = Inr p"
| "set_columns vs ((c, i) # cs) p =
     (case param vs i of
        Inl e \<Rightarrow> Inl e
      | Inr v \<Rightarrow> (case set_column c v p of Inl e \<Rightarrow> Inl e | Inr q \<Rightarrow> set_columns vs cs q))"

definition id_param :: "(string \<Rightarrow> int option) \<Rightarrow> sql_value list \<Rightarrow> nat \<Rightarrow> string + int" where
  "id_param parse vs i =
     (case param vs i of
        Inl e \<Rightarrow> Inl e
      | Inr SqlNull \<Rightarrow> Inl ''null id''
      | Inr (SqlText s) \<Rightarrow> (case parse s of None \<Rightarrow> Inl ''invalid input syntax for type integer'' | Some k \<Rightarrow> Inr k))"

text \<open>The row a statement for one identifier works on: identifiers are unique.\<close>

definition row_of :: "int \<Rightarrow> ptable \<Rightarrow> vproject option" where
  "row_of k t = List.find (\<lambda>p. vp_id p = k) (pt_rows t)"

definition put_row :: "vproject \<Rightarrow> ptable \<Rightarrow> ptable" where
  "put_row p t = t\<lparr>pt_rows := map (\<lambda>q. if vp_id q = vp_id p then p else q) (pt_rows t)\<rparr>"

fun exec_stmt ::
    "(string \<Rightarrow> int option) \<Rightarrow> int \<Rightarrow> sql_stmt \<Rightarrow> sql_value list \<Rightarrow> ptable \<Rightarrow> (string + vproject list) \<times> ptable" where
  "exec_stmt parse now InsertProject vs t =
     (case vs of
        [n, d, f, u, j] \<Rightarrow>
          (case (varchar255 n, varchar255 f, not_null u, not_null j) of
             (Inr n', Inr f', Inr u', Inr j') \<Rightarrow>
               (let p = \<lparr>vp_id = pt_seq t + 1, vp_name = n', vp_description = nullable d, vp_video_filename = f',
                         vp_video_url = u', vp_timeline_state = j', vp_created_at = now, vp_updated_at = now\<rparr>
                in (Inr [p], \<lparr>pt_rows = pt_rows t @ [p], pt_seq = pt_seq t + 1\<rparr>))
           | _ \<Rightarrow> (Inl ''constraint violated'', t))
      | _ \<Rightarrow> (Inl ''bind message supplies the wrong number of parameters'', t))"
| "exec_stmt parse now SelectAll vs t = (Inr (sort_by (order_desc vp_updated_at) (pt_rows t)), t)"
| "exec_stmt parse now SelectById vs t =
     (case id_param parse vs 1 of
        Inl e \<Rightarrow> (Inl e, t)
      | Inr k \<Rightarrow> (Inr (case row_of k t of None \<Rightarrow> [] | Some p \<Rightarrow> [p]), t))"
| "exec_stmt parse now (UpdateById cs i) vs t =
     (case id_param parse vs i of
        Inl e \<Rightarrow> (Inl e, t)
      | Inr k \<Rightarrow>
          (case row_of k t of
             None \<Rightarrow> (Inr [], t)
           | Some p \<Rightarrow>
               (case set_columns vs cs p of
                  Inl e \<Rightarrow> (Inl e, t)
                | Inr q \<Rightarrow> (let q' = q\<lparr>vp_updated_at := now\<rparr> in (Inr [q'], put_row q' t)))))"
| "exec_stmt parse now DeleteById vs t =
     (case id_param parse vs 1 of
        Inl e \<Rightarrow> (Inl e, t)
      | Inr k \<Rightarrow>
          (case row_of k t of
             None \<Rightarrow> (Inr [], t)
           | Some p \<Rightarrow> (Inr [p], t\<lparr>pt_rows := filter (\<lambda>q. vp_id q \<noteq> k) (pt_rows t)\<rparr>)))"

lemma valid_simple [simp]: "valid_stmt InsertProject" "valid_stmt SelectAll" "valid_stmt SelectById" "valid_stmt DeleteById"
  by (simp_all add: valid_stmt_def)

declare exec_stmt.simps [simp del]

definition wf_ptable :: "ptable \<Rightarrow> bool" where
  "wf_ptable t = (distinct (map vp_id (pt_rows t)) \<and> (\<forall>p \<in> set (pt_rows t). vp_id p \<le> pt_seq t))"

section \<open>What the pool promises\<close>

locale pg_pool =
  fixes L :: "('s, 'r) pool_lib" and busy :: "'s \<Rightarrow> nat"
  assumes connect_ok: "pool_connect L s = (Inr (), s') \<Longrightarrow> busy s' = Suc (busy s)"
    and connect_err: "pool_connect L s = (Inl e, s') \<Longrightarrow> busy s' = busy s"
    and release_busy: "busy (pool_release L s) = busy s - 1"
    and query_busy: "busy (snd (client_query L stmt vs s)) = busy s"
begin

lemma query_balanced: "busy (snd (DatabaseService_query L stmt vs s)) = busy s"
proof (cases "pool_connect L s")
  case (Pair r s1)
  then show ?thesis
    using connect_ok [of s s1] connect_err [of s _ s1] query_busy [of stmt vs s1] release_busy
    by (cases r) (auto simp: DatabaseService_query_def bind_action_def try_finally_def split: prod.splits)
qed

lemma queryOne_balanced: "busy (snd (DatabaseService_queryOne L stmt vs s)) = busy s"
  using query_balanced [of stmt vs s]
  by (auto simp: DatabaseService_queryOne_def bind_action_def split: prod.splits sum.splits)

end

locale pg_transactions = pg_pool L busy
  for L :: "('s, 'r) pool_lib" and busy :: "'s \<Rightarrow> nat" +
  fixes tables :: "'s \<Rightarrow> 't" and saved :: "'s \<Rightarrow> 't option"
  assumes begin_tx: "\<exists>r s'. client_query L ''BEGIN'' [] s = (Inr r, s') \<and> tables s' = tables s \<and> saved s' = Some (tables s)"
    and commit_tx: "\<exists>r s'. client_query L ''COMMIT'' [] s = (Inr r, s') \<and> tables s' = tables s \<and> saved s' = None"
    and rollback_tx: "saved s = Some t \<Longrightarrow>
      \<exists>r s'. client_query L ''ROLLBACK'' [] s = (Inr r, s') \<and> tables s' = t \<and> saved s' = None"
    and connect_tables: "tables (snd (pool_connect L s)) = tables s"
    and release_tables: "tables (pool_release L s) = tables s"
begin

lemma transaction_all_or_nothing:
  assumes "fst (pool_connect L s) = Inr ()"
    and keeps: "\<And>s. busy (snd (callback s)) = busy s" "\<And>s. saved (snd (callback s)) = saved s"
  obtains s1 where "tables s1 = tables s"
    and "case callback s1 of
      (Inl e, _) \<Rightarrow> \<exists>s'. DatabaseService_transaction L callback s = (Inl e, s') \<and> tables s' = tables s \<and> busy s' = busy s
    | (Inr a, s2) \<Rightarrow> \<exists>s'. DatabaseService_transaction L callback s = (Inr a, s') \<and> tables s' = tables s2 \<and> busy s' = busy s"
proof -
  obtain s0 where s0: "pool_connect L s = (Inr (), s0)" using assms(1) by (metis fst_conv surj_pair)
  note b0 = connect_ok [OF s0]
  have t0: "tables s0 = tables s" using connect_tables [of s] s0 by simp
  obtain rb s1 where s1: "client_query L ''BEGIN'' [] s0 = (Inr rb, s1)" "tables s1 = tables s0" "saved s1 = Some (tables s0)"
    using begin_tx by blast
  have b1: "busy s1 = busy s0" using query_busy [of "''BEGIN''" "[]" s0] s1 by simp
  obtain r s2 where s2: "callback s1 = (r, s2)" by fastforce
  have k2: "busy s2 = busy s1" "saved s2 = saved s1" using keeps [of s1] s2 by simp_all
  show ?thesis
  proof (cases r)
    case (Inl e)
    obtain rr s3 where s3: "client_query L ''ROLLBACK'' [] s2 = (Inr rr, s3)" "tables s3 = tables s0"
      using rollback_tx [of s2 "tables s0"] k2 s1 by auto
    have b3: "busy s3 = busy s2" using query_busy [of "''ROLLBACK''" "[]" s2] s3 by simp
    have "DatabaseService_transaction L callback s = (Inl e, pool_release L s3)"
      using s0 s1 s2 s3 Inl by (simp add: DatabaseService_transaction_def bind_action_def try_finally_def try_catch_def)
    then show ?thesis
      using that [of s1] s1 s2 s3 t0 b0 b1 b3 k2 Inl release_tables [of s3] release_busy [of s3] by simp
  next
    case (Inr a)
    obtain rr s3 where s3: "client_query L ''COMMIT'' [] s2 = (Inr rr, s3)" "tables s3 = tables s2"
      using commit_tx by blast
    have b3: "busy s3 = busy s2" using query_busy [of "''COMMIT''" "[]" s2] s3 by simp
    have "DatabaseService_transaction L callback s = (Inr a, pool_release L s3)"
      using s0 s1 s2 s3 Inr by (simp add: DatabaseService_transaction_def bind_action_def try_finally_def try_catch_def)
    then show ?thesis
      using that [of s1] s1 s2 s3 t0 b0 b1 b3 k2 Inr release_tables [of s3] release_busy [of s3] by simp
  qed
qed

end

text \<open>The identifier of a row, printed, is read back as that identifier.\<close>

locale pg_projects = pg_pool L busy
  for L :: "('s, vproject) pool_lib" and busy :: "'s \<Rightarrow> nat" +
  fixes tbl :: "'s \<Rightarrow> ptable" and clock :: "'s \<Rightarrow> int" and parse :: "string \<Rightarrow> int option"
  assumes stmt_result: "valid_stmt st \<Longrightarrow> fst (client_query L (render st) vs s) = fst (exec_stmt parse (clock s) st vs (tbl s))"
    and stmt_table: "valid_stmt st \<Longrightarrow> tbl (snd (client_query L (render st) vs s)) = snd (exec_stmt parse (clock s) st vs (tbl s))"
    and connect_tbl: "tbl (snd (pool_connect L s)) = tbl s" "clock (snd (pool_connect L s)) = clock s"
    and release_tbl: "tbl (pool_release L s) = tbl s"
    and parse_show: "0 < k \<Longrightarrow> k < 2 ^ 31 \<Longrightarrow> parse (show_int k) = Some k"
begin

lemma query_stmt:
  assumes "fst (pool_connect L s) = Inr ()" and "valid_stmt st"
  obtains s' where "DatabaseService_query L (render st) vs s = (fst (exec_stmt parse (clock s) st vs (tbl s)), s')"
    "tbl s' = snd (exec_stmt parse (clock s) st vs (tbl s))" "busy s' = busy s"
proof -
  obtain s0 where s0: "pool_connect L s = (Inr (), s0)" using assms(1) by (metis fst_conv surj_pair)
  have k: "tbl s0 = tbl s" "clock s0 = clock s" using connect_tbl [of s] s0 by simp_all
  obtain r s1 where s1: "client_query L (render st) vs s0 = (r, s1)" by fastforce
  have "r = fst (exec_stmt parse (clock s) st vs (tbl s))" "tbl s1 = snd (exec_stmt parse (clock s) st vs (tbl s))"
    using stmt_result [OF assms(2), of vs s0] stmt_table [OF assms(2), of vs s0] s1 k by simp_all
  moreover have "DatabaseService_query L (render st) vs s = (r, pool_release L s1)"
    using s0 s1 by (simp add: DatabaseService_query_def bind_action_def try_finally_def)
  ultimately show ?thesis
    using that [of "pool_release L s1"] release_tbl query_balanced [of "render st" vs s] by simp
qed

lemma queryOne_stmt:
  assumes "fst (pool_connect L s) = Inr ()" and "valid_stmt st"
  obtains s' where "DatabaseService_queryOne L (render st) vs s =
      (map_sum id (\<lambda>rows. if rows = [] then None else Some (hd rows)) (fst (exec_stmt parse (clock s) st vs (tbl s))), s')"
    "tbl s' = snd (exec_stmt parse (clock s) st vs (tbl s))" "busy s' = busy s"
proof -
  obtain s' where s': "DatabaseService_query L (render st) vs s = (fst (exec_stmt parse (clock s) st vs (tbl s)), s')"
    "tbl s' = snd (exec_stmt parse (clock s) st vs (tbl s))" "busy s' = busy s"
    by (rule query_stmt [OF assms])
  have "DatabaseService_queryOne L (render st) vs s =
      (map_sum id (\<lambda>rows. if rows = [] then None else Some (hd rows)) (fst (exec_stmt parse (clock s) st vs (tbl s))), s')"
    using s'(1) by (cases "fst (exec_stmt parse (clock s) st vs (tbl s))")
      (auto simp: DatabaseService_queryOne_def bind_action_def hd_conv_nth)
  then show ?thesis using s'(2,3) that by blast
qed

end

subsection \<open>The dynamic update\<close>

definition given_columns :: "vproject_body \<Rightarrow> (string \<times> sql_value) list" where
  "given_columns b =
     (case given (vb_name b) of None \<Rightarrow> [] | Some v \<Rightarrow> [(''name'', v)]) @
     (case given (vb_description b) of None \<Rightarrow> [] | Some v \<Rightarrow> [(''description'', v)]) @
     (case given_json (vb_timelineState b) of None \<Rightarrow> [] | Some v \<Rightarrow> [(''timeline_state'', v)])"

definition numbered :: "(string \<times> sql_value) list \<Rightarrow> (string \<times> nat) list" where
  "numbered cvs = zip (map fst cvs) [1..<Suc (length cvs)]"

lemma numbered_snoc: "numbered (cvs @ [cv]) = numbered cvs @ [(fst cv, Suc (length cvs))]"
proof -
  have "[1..<Suc (Suc (length cvs))] = [1..<Suc (length cvs)] @ [Suc (length cvs)]" by (rule upt_Suc_append) simp
  then show ?thesis by (simp add: numbered_def zip_append del: upt_Suc)
qed

lemma push_update_numbered:
  "push_update c v (map assignment (numbered cvs), map snd cvs, length cvs + 1) =
     (let cvs' = cvs @ (case v of None \<Rightarrow> [] | Some x \<Rightarrow> [(c, x)])
      in (map assignment (numbered cvs'), map snd cvs', length cvs' + 1))"
  by (cases v) (simp_all add: push_update_def numbered_snoc assignment_def Let_def)

lemma built_update:
  "push_update ''timeline_state'' (given_json (vb_timelineState b))
      (push_update ''description'' (given (vb_description b))
        (push_update ''name'' (given (vb_name b)) ([], [], 1))) =
   (map assignment (numbered (given_columns b)), map snd (given_columns b), length (given_columns b) + 1)"
proof -
  have "([], [], 1) = (map assignment (numbered []), map snd ([] :: (string \<times> sql_value) list), length ([] :: (string \<times> sql_value) list) + 1)"
    by (simp add: numbered_def)
  then show ?thesis
    unfolding given_columns_def by (simp only: push_update_numbered Let_def append_Nil append_assoc)
qed

fun apply_columns :: "(string \<times> sql_value) list \<Rightarrow> vproject \<Rightarrow> string + vproject" where
  "apply_columns [] p = Inr p"
| "apply_columns ((c, v) # cvs) p = (case set_column c v p of Inl e \<Rightarrow> Inl e | Inr q \<Rightarrow> apply_columns cvs q)"

lemma set_columns_numbered:
  "set_columns (pre @ map snd cvs @ suf) (zip (map fst cvs) [Suc (length pre)..<Suc (length pre + length cvs)]) p =
   apply_columns cvs p"
proof (induction cvs arbitrary: pre p)
  case (Cons cv cvs)
  obtain c v where cv: "cv = (c, v)" by fastforce
  have u: "[Suc (length pre)..<Suc (length pre + length (cv # cvs))] =
      Suc (length pre) # [Suc (Suc (length pre))..<Suc (Suc (length pre) + length cvs)]"
    by (simp add: upt_conv_Cons del: upt_Suc)
  have "param (pre @ map snd (cv # cvs) @ suf) (Suc (length pre)) = Inr v"
    by (simp add: param_def cv nth_append)
  then show ?case
    using Cons.IH [of "pre @ [v]"] unfolding u by (simp add: cv del: upt_Suc split: sum.splits)
qed simp

lemma id_param_last:
  "id_param parse (map snd cvs @ [SqlText pid]) (length cvs + 1) =
     (case parse pid of None \<Rightarrow> Inl ''invalid input syntax for type integer'' | Some k \<Rightarrow> Inr k)"
  by (simp add: id_param_def param_def nth_append split: option.splits)

lemma numbered_empty [simp]: "numbered cvs = [] \<longleftrightarrow> cvs = []"
  by (cases cvs) (simp_all add: numbered_def upt_conv_Cons del: upt_Suc)

lemma given_columns_valid:
  "given_columns b \<noteq> [] \<Longrightarrow> valid_stmt (UpdateById (numbered (given_columns b)) k)"
  using numbered_empty [of "given_columns b"]
  by (auto simp: valid_stmt_def columns_def numbered_def given_columns_def dest!: set_zip_leftD split: option.splits)

text \<open>What the fields of the body ask for.\<close>

definition bad_update :: "vproject_body \<Rightarrow> bool" where
  "bad_update b = (vb_name b = Null \<or> (\<exists>n. vb_name b = Value n \<and> 255 < length n))"

lemma bad_update_code [code]:
  "bad_update b = (case vb_name b of Undefined \<Rightarrow> False | Null \<Rightarrow> True | Value n \<Rightarrow> 255 < length n)"
  by (auto simp: bad_update_def split: field.splits)

definition updated :: "vproject_body \<Rightarrow> vproject \<Rightarrow> vproject" where
  "updated b p = p\<lparr>vp_name := set_field (vb_name b) (vp_name p),
     vp_description := set_nullable (vb_description b) (vp_description p),
     vp_timeline_state := (case vb_timelineState b of Undefined \<Rightarrow> vp_timeline_state p | Null \<Rightarrow> ''null'' | Value j \<Rightarrow> j)\<rparr>"

lemma apply_given:
  "if bad_update b then \<exists>e. apply_columns (given_columns b) p = Inl e
   else apply_columns (given_columns b) p = Inr (updated b p)"
  by (cases "vb_name b"; cases "vb_description b"; cases "vb_timelineState b")
    (auto simp: bad_update_def updated_def given_columns_def given_def given_json_def set_column_def varchar255_def
      not_null_def nullable_def set_field_def set_nullable_def)

section \<open>A pool over one table\<close>

record pg_state =
  pg_tbl :: ptable
  pg_saved :: "ptable option"
  pg_busy :: nat
  pg_clock :: int

definition parse_assignment :: "string \<Rightarrow> string \<times> nat" where
  "parse_assignment a = (let a' = dropWhile (\<lambda>c. c = CHR '' '') a
     in (takeWhile (\<lambda>c. c \<noteq> CHR '' '') a', read_nat (drop 4 (dropWhile (\<lambda>c. c \<noteq> CHR '' '') a'))))"

text \<open>Reading a statement back.\<close>

definition parse_stmt :: "string \<Rightarrow> sql_stmt option" where
  "parse_stmt t =
     (if t = render InsertProject then Some InsertProject
      else if t = render SelectAll then Some SelectAll
      else if t = render SelectById then Some SelectById
      else if t = render DeleteById then Some DeleteById
      else if startsWith t ''UPDATE projects SET ''
      then (case split_on CHR 0x0A (drop 20 t) of
              [sets, cond, _] \<Rightarrow>
                Some (UpdateById (map parse_assignment (split_on CHR '','' sets)) (read_nat (drop 19 cond)))
            | _ \<Rightarrow> None)
      else None)"

lemma parse_assignment_render:
  assumes "c \<in> set columns"
  shows "parse_assignment (assignment (c, i)) = (c, i)" "parse_assignment (CHR '' '' # assignment (c, i)) = (c, i)"
    "CHR '','' \<notin> set (assignment (c, i))" "CHR 0x0A \<notin> set (assignment (c, i))"
proof -
  have d: "CHR '','' \<notin> set (show_nat i)" "CHR 0x0A \<notin> set (show_nat i)"
    using show_nat_digits [of "CHR '',''" i] show_nat_digits [of "CHR 0x0A" i] by (auto simp: is_digit_def)
  show "parse_assignment (assignment (c, i)) = (c, i)" "parse_assignment (CHR '' '' # assignment (c, i)) = (c, i)"
    "CHR '','' \<notin> set (assignment (c, i))" "CHR 0x0A \<notin> set (assignment (c, i))"
    using assms d by (auto simp: columns_def assignment_def parse_assignment_def Let_def)
qed

lemma split_comma_join:
  assumes "ws \<noteq> []" and "\<forall>w \<in> set ws. CHR '','' \<notin> set w"
  shows "split_on CHR '','' (join '', '' ws) = hd ws # map ((#) CHR '' '') (tl ws)"
  using assms
proof (induction "'', ''" ws rule: join.induct)
  case (3 x y ys)
  have "split_on CHR '','' (x @ CHR '','' # CHR '' '' # join '', '' (y # ys)) =
      x # split_on CHR '','' (CHR '' '' # join '', '' (y # ys))"
    using 3(3) by (simp add: split_on_append split_on_free)
  then show ?case using 3 by simp
qed (simp_all add: split_on_free)

lemma join_free: "c \<notin> set sep \<Longrightarrow> \<forall>w \<in> set ws. c \<notin> set w \<Longrightarrow> c \<notin> set (join sep ws)"
  by (induction sep ws rule: join.induct) auto

lemma parse_render:
  assumes "valid_stmt st"
  shows "parse_stmt (render st) = Some st"
proof (cases st)
  case (UpdateById cs k)
  then have cs: "cs \<noteq> []" "\<And>c i. (c, i) \<in> set cs \<Longrightarrow> c \<in> set columns"
    using assms by (auto simp: valid_stmt_def)
  let ?sets = "join '', '' (map assignment cs)"
  have "CHR 0x0A \<notin> set ?sets" using parse_assignment_render(4) cs(2) by (intro join_free) auto
  moreover have "CHR 0x0A \<notin> set (show_nat k)"
    using show_nat_digits [of "CHR 0x0A" k] by (auto simp: is_digit_def)
  ultimately have "split_on CHR 0x0A (?sets @ nl @ ''WHERE id = $'' @ show_nat k @ nl @ ''RETURNING *'') =
      [?sets, ''       WHERE id = $'' @ show_nat k, ''       RETURNING *'']"
    by (simp add: nl_def split_on_append split_on_free)
  moreover have "map parse_assignment (split_on CHR '','' ?sets) = cs"
  proof -
    have "split_on CHR '','' ?sets = hd (map assignment cs) # map ((#) CHR '' '') (tl (map assignment cs))"
      using cs parse_assignment_render(3) by (intro split_comma_join) auto
    moreover have "map (parse_assignment \<circ> (#) CHR '' '' \<circ> assignment) (tl cs) = tl cs"
      using cs parse_assignment_render(2) by (intro map_idI) (auto dest!: list.set_sel(2))
    moreover have "parse_assignment (assignment (hd cs)) = hd cs"
      using cs parse_assignment_render(1) by (cases cs) auto
    ultimately show ?thesis using cs(1) by (simp add: hd_map map_tl [symmetric] comp_assoc)
  qed
  ultimately show ?thesis
    unfolding UpdateById by (simp add: parse_stmt_def insert_sql_def startsWith_def)
qed (simp_all add: parse_stmt_def insert_sql_def)

definition run_stmt :: "(string \<Rightarrow> int option) \<Rightarrow> string \<Rightarrow> sql_value list \<Rightarrow> (string, pg_state, vproject list) action" where
  "run_stmt parse stmt vs s =
     (if stmt = ''BEGIN'' then (Inr [], s\<lparr>pg_saved := Some (pg_tbl s)\<rparr>)
      else if stmt = ''COMMIT'' then (Inr [], s\<lparr>pg_saved := None\<rparr>)
      else if stmt = ''ROLLBACK''
      then (Inr [], s\<lparr>pg_tbl := (case pg_saved s of None \<Rightarrow> pg_tbl s | Some t \<Rightarrow> t), pg_saved := None\<rparr>)
      else case parse_stmt stmt of
             None \<Rightarrow> (Inl ''syntax error'', s)
           | Some st \<Rightarrow>
               (case exec_stmt parse (pg_clock s) st vs (pg_tbl s) of (r, t) \<Rightarrow> (r, s\<lparr>pg_tbl := t\<rparr>)))"

text \<open>At most twenty clients; a connection that cannot be had in time is an error.\<close>

definition mem_pool :: "(string \<Rightarrow> int option) \<Rightarrow> (pg_state, vproject) pool_lib" where
  "mem_pool parse =
     \<lparr>pool_connect = (\<lambda>s. if pg_busy s < 20 then (Inr (), s\<lparr>pg_busy := pg_busy s + 1\<rparr>) else (Inl ''timeout exceeded'', s)),
      pool_release = (\<lambda>s. s\<lparr>pg_busy := pg_busy s - 1\<rparr>), client_query = run_stmt parse,
      pool_query = (\<lambda>stmt. run_stmt parse stmt []), pool_end = ret ()\<rparr>"

lemma mem_pool_sel [simp]:
  "pool_connect (mem_pool parse) s = (if pg_busy s < 20 then (Inr (), s\<lparr>pg_busy := pg_busy s + 1\<rparr>) else (Inl ''timeout exceeded'', s))"
  "pool_release (mem_pool parse) s = s\<lparr>pg_busy := pg_busy s - 1\<rparr>"
  "client_query (mem_pool parse) = run_stmt parse"
  by (simp_all add: mem_pool_def)

lemma render_not_tx: "render st \<noteq> ''BEGIN''" "render st \<noteq> ''COMMIT''" "render st \<noteq> ''ROLLBACK''"
  by (cases st; simp add: insert_sql_def)+

lemma run_stmt_render:
  "valid_stmt st \<Longrightarrow> run_stmt parse (render st) vs s =
     (case exec_stmt parse (pg_clock s) st vs (pg_tbl s) of (r, t) \<Rightarrow> (r, s\<lparr>pg_tbl := t\<rparr>))"
  using render_not_tx [of st] by (simp add: run_stmt_def parse_render)

lemma run_stmt_busy: "pg_busy (snd (run_stmt parse stmt vs s)) = pg_busy s"
  by (auto simp: run_stmt_def split: option.splits prod.splits)

definition pg_id :: "string \<Rightarrow> int option" where
  "pg_id s = (if int_numeral s \<and> - (2 ^ 31) \<le> read_int s \<and> read_int s < 2 ^ 31 then Some (read_int s) else None)"

interpretation mem: pg_projects "mem_pool pg_id" pg_busy pg_tbl pg_clock pg_id
  by unfold_locales
    (auto simp: run_stmt_render run_stmt_busy pg_id_def split: if_splits prod.splits)

interpretation mem_tx: pg_transactions "mem_pool pg_id" pg_busy pg_tbl pg_saved
  by unfold_locales (auto simp: run_stmt_def)

section \<open>Properties\<close>

lemma given_columns_empty:
  "given_columns b = [] \<longleftrightarrow> vb_name b = Undefined \<and> vb_description b = Undefined \<and> vb_timelineState b = Undefined"
  by (cases "vb_name b"; cases "vb_description b"; cases "vb_timelineState b")
    (simp_all add: given_columns_def given_def given_json_def)

lemma put_project_stmt:
  assumes "given_columns b \<noteq> []"
  shows "put_project L pid b s = respond_500 ''Failed to update project''
    (bind_action (DatabaseService_queryOne L (render (UpdateById (numbered (given_columns b)) (length (given_columns b) + 1)))
       (map snd (given_columns b) @ [SqlText pid])) found_or_404) s"
  unfolding put_project_def built_update using assms by (simp add: Let_def)

lemma exec_update:
  "exec_stmt parse now (UpdateById (numbered cvs) (length cvs + 1)) (map snd cvs @ [SqlText pid]) t =
    (case parse pid of
       None \<Rightarrow> (Inl ''invalid input syntax for type integer'', t)
     | Some k \<Rightarrow> (case row_of k t of
         None \<Rightarrow> (Inr [], t)
       | Some p \<Rightarrow> (case apply_columns cvs p of
           Inl e \<Rightarrow> (Inl e, t)
         | Inr q \<Rightarrow> (Inr [q\<lparr>vp_updated_at := now\<rparr>], put_row (q\<lparr>vp_updated_at := now\<rparr>) t))))"
proof -
  have "set_columns (map snd cvs @ [SqlText pid]) (numbered cvs) p = apply_columns cvs p" for p
    using set_columns_numbered [of "[]" cvs "[SqlText pid]" p] by (simp add: numbered_def)
  then show ?thesis by (simp only: exec_stmt.simps id_param_last Let_def) (simp split: option.splits)
qed


definition demo_row :: vproject where
  "demo_row = \<lparr>vp_id = 1, vp_name = ''Demo'', vp_description = None, vp_video_filename = ''a.mp4'',
     vp_video_url = ''/videos/a.mp4'', vp_timeline_state = ''{}'', vp_created_at = 5, vp_updated_at = 5\<rparr>"

definition demo_pg :: pg_state where
  "demo_pg = \<lparr>pg_tbl = \<lparr>pt_rows = [demo_row], pt_seq = 1\<rparr>, pg_saved = None, pg_busy = 0, pg_clock = 9\<rparr>"

definition demo_update :: vproject_body where
  "demo_update = \<lparr>vb_name = Undefined, vb_description = Value ''cut'', vb_videoFilename = Undefined,
     vb_videoUrl = Undefined, vb_timelineState = Value ''[]''\<rparr>"


text \<open>What a successful creation has stored.\<close>

lemma insert_row:
  assumes "fst (exec_stmt parse now InsertProject [sql_of n, d, sql_of f, sql_of u, j] t) = Inr rows"
    and "present n" "present f" "present u"
  obtains p where "rows = [p]" "vp_id p = pt_seq t + 1" "n = Value (vp_name p)" "f = Value (vp_video_filename p)"
    "u = Value (vp_video_url p)" "vp_updated_at p = now"
    "snd (exec_stmt parse now InsertProject [sql_of n, d, sql_of f, sql_of u, j] t) =
       \<lparr>pt_rows = pt_rows t @ [p], pt_seq = pt_seq t + 1\<rparr>"
proof -
  obtain n' f' u' where v: "n = Value n'" "f = Value f'" "u = Value u'"
    using assms(2-4) by (cases n; cases f; cases u) (auto simp: present_def)
  obtain j' where j: "not_null j = Inr j'"
    using assms(1) v by (cases "not_null j") (auto simp: exec_stmt.simps(1) split: sum.splits)
  have len: "length n' \<le> 255" "length f' \<le> 255"
    using assms(1) by (auto simp: v exec_stmt.simps(1) sql_of_def varchar255_def not_null_def split: if_splits sum.splits)
  show thesis
    by (rule that [of "\<lparr>vp_id = pt_seq t + 1, vp_name = n', vp_description = nullable d, vp_video_filename = f',
          vp_video_url = u', vp_timeline_state = j', vp_created_at = now, vp_updated_at = now\<rparr>"])
      (use assms(1) v j len in \<open>simp_all add: exec_stmt.simps(1) Let_def sql_of_def varchar255_def not_null_def\<close>)
qed

lemma post_project_created:
  assumes "pg_projects L busy tbl clock parse" and "fst (pool_connect L s) = Inr ()"
    and "post_project L b s = (Inr (Sent 201 (Some p)), s')"
  shows "vp_id p = pt_seq (tbl s) + 1" "vb_name b = Value (vp_name p)" "vb_videoFilename b = Value (vp_video_filename p)"
    "vb_videoUrl b = Value (vp_video_url p)" "vp_updated_at p = clock s"
    "tbl s' = \<lparr>pt_rows = pt_rows (tbl s) @ [p], pt_seq = pt_seq (tbl s) + 1\<rparr>" "busy s' = busy s"
proof -
  let ?vs = "[sql_of (vb_name b), if present (vb_description b) then sql_of (vb_description b) else SqlNull,
      sql_of (vb_videoFilename b), sql_of (vb_videoUrl b),
      SqlText (case field_opt (vb_timelineState b) of None \<Rightarrow> ''{}'' | Some t \<Rightarrow> t)]"
  let ?e = "exec_stmt parse (clock s) InsertProject ?vs (tbl s)"
  obtain s1 where s1: "DatabaseService_queryOne L (render InsertProject) ?vs s =
      (map_sum id (\<lambda>rows. if rows = [] then None else Some (hd rows)) (fst ?e), s1)" "tbl s1 = snd ?e" "busy s1 = busy s"
    by (rule pg_projects.queryOne_stmt [OF assms(1,2) valid_simple(1)])
  have pr: "present (vb_name b)" "present (vb_videoFilename b)" "present (vb_videoUrl b)"
    using assms(3) by (auto simp: post_project_def respond_500_def try_catch_def split: if_splits)
  then have post: "post_project L b s = respond_500 ''Failed to create project''
      (bind_action (DatabaseService_queryOne L (render InsertProject) ?vs) (\<lambda>project. ret (Sent 201 project))) s"
    by (simp add: post_project_def)
  obtain rows where rows: "fst ?e = Inr rows"
    using assms(3) s1(1) unfolding post by (cases "fst ?e") (simp_all add: respond_500_def try_catch_def bind_action_def)
  obtain q where q: "rows = [q]" "vp_id q = pt_seq (tbl s) + 1" "vb_name b = Value (vp_name q)"
    "vb_videoFilename b = Value (vp_video_filename q)" "vb_videoUrl b = Value (vp_video_url q)" "vp_updated_at q = clock s"
    "snd ?e = \<lparr>pt_rows = pt_rows (tbl s) @ [q], pt_seq = pt_seq (tbl s) + 1\<rparr>"
    by (rule insert_row [OF rows pr])
  have "q = p \<and> s1 = s'"
    using assms(3) s1(1) rows q(1) unfolding post by (simp add: respond_500_def try_catch_def bind_action_def)
  then show "vp_id p = pt_seq (tbl s) + 1" "vb_name b = Value (vp_name p)" "vb_videoFilename b = Value (vp_video_filename p)"
    "vb_videoUrl b = Value (vp_video_url p)" "vp_updated_at p = clock s"
    "tbl s' = \<lparr>pt_rows = pt_rows (tbl s) @ [p], pt_seq = pt_seq (tbl s) + 1\<rparr>" "busy s' = busy s"
    using q s1(2,3) by simp_all
qed

lemma get_project_row:
  assumes "pg_projects L busy tbl clock parse" and "fst (pool_connect L s) = Inr ()"
    and "row_of k (tbl s) = Some p" and "0 < k" "k < 2 ^ 31"
  obtains s' where "get_project L (show_int k) s = (Inr (Sent 200 p), s')" "tbl s' = tbl s"
proof -
  have "parse (show_int k) = Some k" using assms(4,5) by (rule pg_projects.parse_show [OF assms(1)])
  then have sel: "exec_stmt parse (clock s) SelectById [SqlText (show_int k)] (tbl s) = (Inr [p], tbl s)"
    using assms(3) by (simp add: exec_stmt.simps(3) id_param_def param_def)
  obtain s2 where s2: "DatabaseService_queryOne L (render SelectById) [SqlText (show_int k)] s = (Inr (Some p), s2)"
    "tbl s2 = tbl s"
    by (rule pg_projects.queryOne_stmt [OF assms(1,2) valid_simple(3), of "[SqlText (show_int k)]"]) (simp add: sel)
  then have "get_project L (show_int k) s = (Inr (Sent 200 p), s2)"
    by (simp add: get_project_def respond_500_def try_catch_def bind_action_def found_or_404_def)
  then show thesis using s2(2) by (rule that)
qed

text \<open>A project that was created is read back, by the identifier the response carries, as it was
  created; it is a new row, the other rows stay, and the client goes back to the pool.\<close>

theorem project_create_read:
  assumes "pg_projects L busy tbl clock parse" and "wf_ptable (tbl s)" and "0 \<le> pt_seq (tbl s)" and "pt_seq (tbl s) < 2 ^ 31 - 1"
    and "fst (pool_connect L s) = Inr ()" and "post_project L b s = (Inr (Sent 201 (Some p)), s')"
    and "fst (pool_connect L s') = Inr ()"
  shows "(\<exists>s''. get_project L (show_int (vp_id p)) s' = (Inr (Sent 200 p), s'') \<and> tbl s'' = tbl s') \<and>
    pt_rows (tbl s') = pt_rows (tbl s) @ [p] \<and> wf_ptable (tbl s') \<and> busy s' = busy s \<and>
    vp_id p \<notin> vp_id ` set (pt_rows (tbl s)) \<and> vp_updated_at p = clock s \<and>
    vb_name b = Value (vp_name p) \<and> vb_videoFilename b = Value (vp_video_filename p) \<and> vb_videoUrl b = Value (vp_video_url p)"
proof -
  note new = post_project_created [OF assms(1,5,6)]
  have fresh: "vp_id p \<notin> vp_id ` set (pt_rows (tbl s))" using assms(2) new(1) by (auto simp: wf_ptable_def)
  have wf: "wf_ptable (tbl s')" using assms(2) fresh new(1,6) by (auto simp: wf_ptable_def)
  have "row_of (vp_id p) (tbl s') = Some p"
  proof -
    have "List.find (\<lambda>q. vp_id q = vp_id p) (xs @ [p]) = Some p" if "vp_id p \<notin> vp_id ` set xs" for xs
      using that by (induction xs) auto
    then show ?thesis using fresh new(6) by (simp add: row_of_def)
  qed
  from get_project_row [OF assms(1,7) this] obtain s'' where
    "get_project L (show_int (vp_id p)) s' = (Inr (Sent 200 p), s'')" "tbl s'' = tbl s'"
    using new(1) assms(3,4) by auto
  then show ?thesis using new fresh wf by auto
qed

definition demo_create :: vproject_body where
  "demo_create = \<lparr>vb_name = Value ''New'', vb_description = Undefined, vb_videoFilename = Value ''b.mp4'',
     vb_videoUrl = Value ''/videos/b.mp4'', vb_timelineState = Undefined\<rparr>"

definition new_row :: vproject where
  "new_row = \<lparr>vp_id = 2, vp_name = ''New'', vp_description = None, vp_video_filename = ''b.mp4'',
     vp_video_url = ''/videos/b.mp4'', vp_timeline_state = ''{}'', vp_created_at = 9, vp_updated_at = 9\<rparr>"

lemma demo_created:
  "post_project (mem_pool pg_id) demo_create demo_pg =
     (Inr (Sent 201 (Some new_row)), demo_pg\<lparr>pg_tbl := \<lparr>pt_rows = [demo_row, new_row], pt_seq = 2\<rparr>\<rparr>)"
  using run_stmt_render [OF valid_simple(1), of pg_id]
  by (simp add: exec_stmt.simps(1) post_project_def respond_500_def try_catch_def bind_action_def DatabaseService_queryOne_def
      DatabaseService_query_def try_finally_def demo_create_def present_def truthy_def demo_pg_def
      sql_of_def field_opt_def varchar255_def not_null_def nullable_def new_row_def Let_def demo_row_def)

theorem project_create_read_witness:
  "(\<exists>s''. get_project (mem_pool pg_id) (show_int 2)
     (demo_pg\<lparr>pg_tbl := \<lparr>pt_rows = [demo_row, new_row], pt_seq = 2\<rparr>\<rparr>) = (Inr (Sent 200 new_row), s''))"
proof -
  have "wf_ptable (pg_tbl demo_pg)" "0 \<le> pt_seq (pg_tbl demo_pg)" "pt_seq (pg_tbl demo_pg) < 2 ^ 31 - 1"
    "fst (pool_connect (mem_pool pg_id) demo_pg) = Inr ()"
    "fst (pool_connect (mem_pool pg_id) (demo_pg\<lparr>pg_tbl := \<lparr>pt_rows = [demo_row, new_row], pt_seq = 2\<rparr>\<rparr>)) = Inr ()"
    by (simp_all add: demo_pg_def wf_ptable_def demo_row_def)
  from project_create_read [OF mem.pg_projects_axioms this(1-4) demo_created this(5)] show ?thesis
    by (auto simp: new_row_def)
qed

text \<open>A transaction returns what the callback returns and keeps its changes, or passes on what it
  throws and leaves the tables as they were; in both cases the client goes back to the
  pool.\<close>

theorem transaction_rolls_back:
  assumes "pg_transactions L busy tables saved" and "fst (pool_connect L s) = Inr ()"
    and "\<And>s. busy (snd (callback s)) = busy s" and "\<And>s. saved (snd (callback s)) = saved s"
  shows "\<exists>s1. tables s1 = tables s \<and> (case callback s1 of
      (Inl e, _) \<Rightarrow> \<exists>s'. DatabaseService_transaction L callback s = (Inl e, s') \<and> tables s' = tables s \<and> busy s' = busy s
    | (Inr a, s2) \<Rightarrow> \<exists>s'. DatabaseService_transaction L callback s = (Inr a, s') \<and> tables s' = tables s2 \<and> busy s' = busy s)"
proof -
  obtain s1 where "tables s1 = tables s"
    "case callback s1 of
       (Inl e, _) \<Rightarrow> \<exists>s'. DatabaseService_transaction L callback s = (Inl e, s') \<and> tables s' = tables s \<and> busy s' = busy s
     | (Inr a, s2) \<Rightarrow> \<exists>s'. DatabaseService_transaction L callback s = (Inr a, s') \<and> tables s' = tables s2 \<and> busy s' = busy s"
    by (rule pg_transactions.transaction_all_or_nothing [OF assms])
  then show ?thesis by (intro exI conjI)
qed

text \<open>A callback that empties the table and then fails.\<close>

definition drop_and_fail :: "(string, pg_state, unit) action" where
  "drop_and_fail = (\<lambda>s. (Inl ''fail'', s\<lparr>pg_tbl := \<lparr>pt_rows = [], pt_seq = 0\<rparr>\<rparr>))"

theorem transaction_rolls_back_witness:
  "\<exists>s'. DatabaseService_transaction (mem_pool pg_id) drop_and_fail demo_pg = (Inl ''fail'', s') \<and>
     pt_rows (pg_tbl s') = [demo_row] \<and> pg_busy s' = 0"
proof -
  have c: "fst (pool_connect (mem_pool pg_id) demo_pg) = Inr ()" by (simp add: demo_pg_def)
  show ?thesis
    using transaction_rolls_back [OF mem_tx.pg_transactions_axioms c, of drop_and_fail]
    by (auto simp: drop_and_fail_def demo_pg_def)
qed

end
