(* ===== verification/Client_Projects.thy ===== *)
theory Client_Projects
  imports Video_Projects
begin

text \<open>
  The requests of the video editor's frontend: the hooks \<open>useProjects\<close>, \<open>useVideoEdit\<close> and
  \<open>useVideoUpload\<close>, and the project panel.  A hook keeps whether a request is pending and the last
  error; its world is what \<open>fetch\<close> reaches.  \<open>fetch\<close> is a parameter, and \<open>serve\<close> is the one that
  reaches a handler of the backend, so that the panel can be run against the routes of
  \<open>Video_Projects\<close>.
\<close>

section \<open>Definitions\<close>

subsection \<open>Requests\<close>

text \<open>A response: its status is a success, its body as the data asked for, and the member \<open>error\<close> of
  its body.  Reading a body can fail.\<close>

record 'a response =
  rs_ok :: bool
  rs_data :: "string + 'a"
  rs_error :: "string + string option"

type_synonym ('b, 's, 'a) fetch = "string \<Rightarrow> string \<Rightarrow> 'b option \<Rightarrow> (string, 's, 'a response) action"

record 's hook =
  hk_loading :: bool
  hk_error :: "string option"
  hk_world :: 's

definition start_request :: "'s hook \<Rightarrow> 's hook" where
  "start_request h = h\<lparr>hk_loading := True, hk_error := None\<rparr>"

definition request_failed :: "string \<Rightarrow> 's hook \<Rightarrow> 's hook" where
  "request_failed msg h = h\<lparr>hk_error := Some msg, hk_loading := False\<rparr>"

text \<open>\<open>errorData.error || fallback\<close>\<close>

definition or_else :: "string option \<Rightarrow> string \<Rightarrow> string" where
  "or_else m fallback = (case m of None \<Rightarrow> fallback | Some t \<Rightarrow> if t = [] then fallback else t)"

text \<open>One request of a hook; \<open>reads_error\<close> says whether the hook reads the message of an error.\<close>

definition request :: "bool \<Rightarrow> string \<Rightarrow> (string, 's, 'a response) action \<Rightarrow> 's hook \<Rightarrow> 'a option \<times> 's hook" where
  "request reads_error fallback call h0 =
     (let h = start_request h0
      in case call (hk_world h) of
           (Inl e, w) \<Rightarrow> (None, request_failed e (h\<lparr>hk_world := w\<rparr>))
         | (Inr r, w) \<Rightarrow>
             (let h' = h\<lparr>hk_world := w\<rparr>
              in if \<not> rs_ok r
                 then (None, request_failed (if reads_error
                          then (case rs_error r of Inl e \<Rightarrow> e | Inr m \<Rightarrow> or_else m fallback) else fallback) h')
                 else (case rs_data r of
                         Inl e \<Rightarrow> (None, request_failed e h')
                       | Inr a \<Rightarrow> (Some a, h'\<lparr>hk_loading := False\<rparr>))))"

subsection \<open>\<open>useProjects\<close>\<close>

text \<open>The timeline state is kept as its JSON text.\<close>

record CreateProjectParams =
  cp_name :: string
  cp_description :: "string option"
  cp_videoFilename :: string
  cp_videoUrl :: string
  cp_timelineState :: "string option"

definition projects_url :: "string \<Rightarrow> string" where
  "projects_url API_URL = API_URL @ ''/api/projects''"

definition project_url :: "string \<Rightarrow> int \<Rightarrow> string" where
  "project_url API_URL pid = API_URL @ ''/api/projects/'' @ show_int pid"

definition createProject ::
    "string \<Rightarrow> (CreateProjectParams, 's, 'p) fetch \<Rightarrow> CreateProjectParams \<Rightarrow> 's hook \<Rightarrow> 'p option \<times> 's hook" where
  "createProject API_URL fetch params =
     request True ''Failed to create project'' (fetch ''POST'' (projects_url API_URL) (Some params))"

definition getProjects :: "string \<Rightarrow> (unit, 's, 'p list) fetch \<Rightarrow> 's hook \<Rightarrow> 'p list \<times> 's hook" where
  "getProjects API_URL fetch h =
     (case request False ''Failed to fetch projects'' (fetch ''GET'' (projects_url API_URL) None) h of
        (None, h') \<Rightarrow> ([], h')
      | (Some ps, h') \<Rightarrow> (ps, h'))"

definition getProject :: "string \<Rightarrow> ('b, 's, 'p) fetch \<Rightarrow> int \<Rightarrow> 's hook \<Rightarrow> 'p option \<times> 's hook" where
  "getProject API_URL fetch pid = request False ''Failed to fetch project'' (fetch ''GET'' (project_url API_URL pid) None)"

definition updateProject :: "string \<Rightarrow> ('b, 's, 'p) fetch \<Rightarrow> int \<Rightarrow> 'b \<Rightarrow> 's hook \<Rightarrow> 'p option \<times> 's hook" where
  "updateProject API_URL fetch pid updates =
     request True ''Failed to update project'' (fetch ''PUT'' (project_url API_URL pid) (Some updates))"

text \<open>The body of the response to a deletion is not read.\<close>

definition deleteProject :: "string \<Rightarrow> ('b, 's, 'p) fetch \<Rightarrow> int \<Rightarrow> 's hook \<Rightarrow> bool \<times> 's hook" where
  "deleteProject API_URL fetch pid h0 =
     (let h = start_request h0
      in case fetch ''DELETE'' (project_url API_URL pid) None (hk_world h) of
           (Inl e, w) \<Rightarrow> (False, request_failed e (h\<lparr>hk_world := w\<rparr>))
         | (Inr r, w) \<Rightarrow>
             (if \<not> rs_ok r then (False, request_failed ''Failed to delete project'' (h\<lparr>hk_world := w\<rparr>))
              else (True, h\<lparr>hk_world := w, hk_loading := False\<rparr>)))"

subsection \<open>\<open>useVideoEdit\<close>\<close>

record TrimParams =
  tp_filename :: string
  tp_startTime :: rat
  tp_endTime :: rat

record SplitParams =
  sp_filename :: string
  sp_splitTime :: rat

definition useVideoEdit_trimVideo :: "string \<Rightarrow> (TrimParams, 's, 'r) fetch \<Rightarrow> TrimParams \<Rightarrow> 's hook \<Rightarrow> 'r option \<times> 's hook" where
  "useVideoEdit_trimVideo API_URL fetch params =
     request True ''Trim failed'' (fetch ''POST'' (API_URL @ ''/api/edit/trim'') (Some params))"

definition useVideoEdit_splitVideo :: "string \<Rightarrow> (SplitParams, 's, 'r) fetch \<Rightarrow> SplitParams \<Rightarrow> 's hook \<Rightarrow> 'r option \<times> 's hook" where
  "useVideoEdit_splitVideo API_URL fetch params =
     request True ''Split failed'' (fetch ''POST'' (API_URL @ ''/api/edit/split'') (Some params))"

subsection \<open>\<open>useVideoUpload\<close>\<close>

text \<open>The events of the request object and the outcome of the promise.\<close>

record upload_state =
  us_uploading :: bool
  us_progress :: rat
  us_error :: "string option"

datatype 'a outcome = Pending | Resolved 'a | Rejected string

datatype xhr_event = XhrProgress bool rat rat | XhrLoad nat string | XhrError

definition start_upload :: "upload_state \<Rightarrow> upload_state" where
  "start_upload u = u\<lparr>us_uploading := True, us_progress := 0, us_error := None\<rparr>"

text \<open>What \<open>JSON.parse\<close> throws in the load handler is lost: the promise stays as it is.\<close>

definition on_xhr :: "(string \<Rightarrow> 'a option) \<Rightarrow> xhr_event \<Rightarrow> upload_state \<times> 'a outcome \<Rightarrow> upload_state \<times> 'a outcome" where
  "on_xhr parse e st = (case (e, st) of
       (XhrProgress computable got whole, u, p) \<Rightarrow>
         ((if computable then u\<lparr>us_progress := js_mul (js_div got whole) 100\<rparr> else u), p)
     | (XhrLoad status body, u, p) \<Rightarrow>
         (let u' = u\<lparr>us_uploading := False\<rparr>
          in if status = 200
             then (u', case parse body of None \<Rightarrow> p | Some a \<Rightarrow> if p = Pending then Resolved a else p)
             else (u'\<lparr>us_error := Some ''Upload failed''\<rparr>, if p = Pending then Rejected ''Upload failed'' else p))
     | (XhrError, u, p) \<Rightarrow>
         (u\<lparr>us_uploading := False, us_error := Some ''Upload failed''\<rparr>, if p = Pending then Rejected ''Upload failed'' else p))"

subsection \<open>\<open>ProjectPanel\<close>\<close>

record video_info =
  vi_url :: string
  vi_path :: string
  vi_filename :: string
  vi_originalName :: string
  vi_size :: nat
  vi_mimetype :: string
  vi_duration :: "rat option"

record ('s, 'p) project_panel =
  pp_projects :: "'p list"
  pp_projectName :: string
  pp_showSaveForm :: bool
  pp_alerts :: "string list"
  pp_hook :: "'s hook"

definition loadProjects :: "string \<Rightarrow> (unit, 's, 'p list) fetch \<Rightarrow> ('s, 'p) project_panel \<Rightarrow> ('s, 'p) project_panel" where
  "loadProjects API_URL fetch P =
     (case getProjects API_URL fetch (pp_hook P) of (ps, h) \<Rightarrow> P\<lparr>pp_projects := ps, pp_hook := h\<rparr>)"

definition save_params :: "(rat \<Rightarrow> string) \<Rightarrow> string \<Rightarrow> video_info \<Rightarrow> CreateProjectParams" where
  "save_params timeline_json name v =
     \<lparr>cp_name = trim name, cp_description = None, cp_videoFilename = vi_filename v, cp_videoUrl = vi_url v,
      cp_timelineState = Some (timeline_json (case vi_duration v of None \<Rightarrow> 0 | Some d \<Rightarrow> d))\<rparr>"

definition handleSave ::
    "string \<Rightarrow> (CreateProjectParams, 's, 'c option) fetch \<Rightarrow> (unit, 's, 'p list) fetch \<Rightarrow> (rat \<Rightarrow> string) \<Rightarrow> video_info option \<Rightarrow>
      ('s, 'p) project_panel \<Rightarrow> ('s, 'p) project_panel" where
  "handleSave API_URL create_fetch list_fetch timeline_json video P =
     (case video of
        None \<Rightarrow> P\<lparr>pp_alerts := pp_alerts P @ [''Please enter a project name'']\<rparr>
      | Some v \<Rightarrow>
          (if trim (pp_projectName P) = [] then P\<lparr>pp_alerts := pp_alerts P @ [''Please enter a project name'']\<rparr>
           else case createProject API_URL create_fetch (save_params timeline_json (pp_projectName P) v) (pp_hook P) of
                  (Some (Some project), h) \<Rightarrow>
                    loadProjects API_URL list_fetch (P\<lparr>pp_hook := h, pp_projectName := [], pp_showSaveForm := False\<rparr>)
                | (_, h) \<Rightarrow> P\<lparr>pp_hook := h\<rparr>))"

definition handleDelete ::
    "string \<Rightarrow> ('d, 's, 'e) fetch \<Rightarrow> (unit, 's, 'p list) fetch \<Rightarrow> bool \<Rightarrow> int \<Rightarrow> ('s, 'p) project_panel \<Rightarrow> ('s, 'p) project_panel" where
  "handleDelete API_URL delete_fetch list_fetch confirmed pid P =
     (if confirmed
      then case deleteProject API_URL delete_fetch pid (pp_hook P) of
             (True, h) \<Rightarrow> loadProjects API_URL list_fetch (P\<lparr>pp_hook := h\<rparr>)
           | (False, h) \<Rightarrow> P\<lparr>pp_hook := h\<rparr>
      else P)"

section \<open>The backend behind the requests\<close>

definition http_response :: "'a reply \<Rightarrow> 'a response" where
  "http_response r = (case r of
       Sent c a \<Rightarrow> \<lparr>rs_ok = (200 \<le> c \<and> c < 300), rs_data = Inr a, rs_error = Inr None\<rparr>
     | Failed c e \<Rightarrow> \<lparr>rs_ok = (200 \<le> c \<and> c < 300), rs_data = Inl ''no data'', rs_error = Inr (Some e)\<rparr>)"

text \<open>A handler that fails sends no response.\<close>

definition serve :: "(string, 's, 'a reply) action \<Rightarrow> (string, 's, 'a response) action" where
  "serve handler s = (case handler s of
       (Inl e, s') \<Rightarrow> (Inl ''Failed to fetch'', s')
     | (Inr r, s') \<Rightarrow> (Inr (http_response r), s'))"

definition project_body :: "CreateProjectParams \<Rightarrow> vproject_body" where
  "project_body p =
     \<lparr>vb_name = Value (cp_name p), vb_description = (case cp_description p of None \<Rightarrow> Undefined | Some d \<Rightarrow> Value d),
      vb_videoFilename = Value (cp_videoFilename p), vb_videoUrl = Value (cp_videoUrl p),
      vb_timelineState = (case cp_timelineState p of None \<Rightarrow> Undefined | Some t \<Rightarrow> Value t)\<rparr>"

text \<open>The routes \<open>POST /api/projects\<close> and \<open>GET /api/projects\<close>.\<close>

definition create_api :: "('s, vproject) pool_lib \<Rightarrow> (CreateProjectParams, 's, vproject option) fetch" where
  "create_api L meth url body = serve (post_project L (case body of
       None \<Rightarrow> \<lparr>vb_name = Undefined, vb_description = Undefined, vb_videoFilename = Undefined, vb_videoUrl = Undefined,
                vb_timelineState = Undefined\<rparr>
     | Some params \<Rightarrow> project_body params))"

definition list_api :: "('s, vproject) pool_lib \<Rightarrow> (unit, 's, vproject list) fetch" where
  "list_api L meth url body = serve (get_projects L)"

section \<open>Lemmas\<close>

text \<open>A request that has ended is not pending, and reports an error exactly if it has no result.\<close>

lemma request_settled:
  "hk_loading (snd (request b f c h)) = False \<and>
   (hk_error (snd (request b f c h)) = None \<longleftrightarrow> fst (request b f c h) \<noteq> None)"
  by (auto simp: request_def start_request_def request_failed_def Let_def split: prod.splits sum.splits)

lemma request_served:
  assumes "handler (hk_world h) = (Inr (Sent c a), s')" and "200 \<le> c" "c < 300"
  shows "request b f (serve handler) h = (Some a, \<lparr>hk_loading = False, hk_error = None, hk_world = s'\<rparr>)"
  using assms by (cases h) (simp add: request_def start_request_def serve_def http_response_def Let_def)

lemma post_project_ok:
  assumes "pg_projects L busy tbl clock parse" and "fst (pool_connect L s) = Inr ()"
    and "vb_name b = Value n" "vb_videoFilename b = Value f" "vb_videoUrl b = Value u"
    and "n \<noteq> []" "f \<noteq> []" "u \<noteq> []" "length n \<le> 255" "length f \<le> 255"
  obtains p s' where "post_project L b s = (Inr (Sent 201 (Some p)), s')"
proof -
  let ?vs = "[SqlText n, if present (vb_description b) then sql_of (vb_description b) else SqlNull, SqlText f, SqlText u,
      SqlText (case field_opt (vb_timelineState b) of None \<Rightarrow> ''{}'' | Some t \<Rightarrow> t)]"
  obtain s1 where s1: "DatabaseService_queryOne L (render InsertProject) ?vs s =
      (map_sum id (\<lambda>rows. if rows = [] then None else Some (hd rows)) (fst (exec_stmt parse (clock s) InsertProject ?vs (tbl s))), s1)"
    by (rule pg_projects.queryOne_stmt [OF assms(1,2) valid_simple(1)])
  obtain p where "fst (exec_stmt parse (clock s) InsertProject ?vs (tbl s)) = Inr [p]"
    using assms(9,10) by (simp add: exec_stmt.simps(1) Let_def varchar255_def not_null_def)
  then have "post_project L b s = (Inr (Sent 201 (Some p)), s1)"
    using s1 assms(3-8)
    by (simp add: post_project_def present_def truthy_def sql_of_def respond_500_def try_catch_def bind_action_def)
  then show thesis by (rule that)
qed

lemma get_projects_ok:
  assumes "pg_projects L busy tbl clock parse" and "fst (pool_connect L s) = Inr ()"
  obtains s' where "get_projects L s = (Inr (Sent 200 (sort_by (order_desc vp_updated_at) (pt_rows (tbl s)))), s')"
proof -
  obtain s' where "DatabaseService_query L (render SelectAll) [] s = (fst (exec_stmt parse (clock s) SelectAll [] (tbl s)), s')"
    by (rule pg_projects.query_stmt [OF assms valid_simple(2)])
  then have "get_projects L s = (Inr (Sent 200 (sort_by (order_desc vp_updated_at) (pt_rows (tbl s)))), s')"
    by (simp add: get_projects_def exec_stmt.simps(2) respond_500_def try_catch_def bind_action_def)
  then show thesis by (rule that)
qed

section \<open>Properties\<close>

text \<open>C23: Saving a project from the panel, with a name that is not blank, stores it and shows it: the
  list of the panel becomes the projects that were stored together with the new one, which has
  the trimmed name and the file of the video, latest update first; the form is reset and no error
  is shown.\<close>

theorem saved_project_listed:
  assumes "pg_projects L busy tbl clock parse" and "\<And>s. busy s = busy (hk_world (pp_hook P)) \<Longrightarrow> fst (pool_connect L s) = Inr ()"
    and "trim (pp_projectName P) \<noteq> []" "length (trim (pp_projectName P)) \<le> 255"
    and "vi_filename v \<noteq> []" "length (vi_filename v) \<le> 255" "vi_url v \<noteq> []"
  shows "\<exists>p. let P' = handleSave API_URL (create_api L) (list_api L) timeline_json (Some v) P
    in pp_projects P' = sort_by (order_desc vp_updated_at) (pt_rows (tbl (hk_world (pp_hook P))) @ [p]) \<and>
       vp_name p = trim (pp_projectName P) \<and> vp_video_filename p = vi_filename v \<and> vp_video_url p = vi_url v \<and>
       pp_projectName P' = [] \<and> \<not> pp_showSaveForm P' \<and> hk_error (pp_hook P') = None \<and> \<not> hk_loading (pp_hook P')"
proof -
  let ?w = "hk_world (pp_hook P)" and ?b = "project_body (save_params timeline_json (pp_projectName P) v)"
  have b: "vb_name ?b = Value (trim (pp_projectName P))" "vb_videoFilename ?b = Value (vi_filename v)" "vb_videoUrl ?b = Value (vi_url v)"
    by (simp_all add: project_body_def save_params_def)
  obtain p s1 where s1: "post_project L ?b ?w = (Inr (Sent 201 (Some p)), s1)"
    by (rule post_project_ok [OF assms(1) assms(2) [OF refl] b assms(3,5,7,4,6)])
  note new = post_project_created [OF assms(1) assms(2) [OF refl] s1]
  obtain s2 where s2: "get_projects L s1 = (Inr (Sent 200 (sort_by (order_desc vp_updated_at) (pt_rows (tbl s1)))), s2)"
    by (rule get_projects_ok [OF assms(1) assms(2) [OF new(7)]])
  have c: "createProject API_URL (create_api L) (save_params timeline_json (pp_projectName P) v) (pp_hook P) =
      (Some (Some p), \<lparr>hk_loading = False, hk_error = None, hk_world = s1\<rparr>)"
    unfolding createProject_def create_api_def by (rule request_served [where c = 201]) (simp_all add: s1)
  have "request False f (list_api L m u x) \<lparr>hk_loading = False, hk_error = None, hk_world = s1\<rparr> =
      (Some (sort_by (order_desc vp_updated_at) (pt_rows (tbl s1))), \<lparr>hk_loading = False, hk_error = None, hk_world = s2\<rparr>)" for f m u x
    unfolding list_api_def by (rule request_served [where c = 200]) (simp_all add: s2)
  then show ?thesis
    using assms(3) c new b by (auto simp: handleSave_def loadProjects_def getProjects_def Let_def intro!: exI [of _ p])
qed

definition demo_panel :: "(pg_state, vproject) project_panel" where
  "demo_panel = \<lparr>pp_projects = [], pp_projectName = '' Cut '', pp_showSaveForm = True, pp_alerts = [],
     pp_hook = \<lparr>hk_loading = False, hk_error = None, hk_world = demo_pg\<rparr>\<rparr>"

definition demo_video :: video_info where
  "demo_video = \<lparr>vi_url = ''/videos/b.mp4'', vi_path = [], vi_filename = ''b.mp4'', vi_originalName = ''b.mp4'', vi_size = 4,
     vi_mimetype = ''video/mp4'', vi_duration = None\<rparr>"

theorem saved_project_listed_witness:
  "\<exists>p. pp_projects (handleSave [] (create_api (mem_pool pg_id)) (list_api (mem_pool pg_id)) (\<lambda>_. ''{}'') (Some demo_video) demo_panel) =
     sort_by (order_desc vp_updated_at) [demo_row, p] \<and> vp_name p = ''Cut''"
proof -
  have name: "trim (pp_projectName demo_panel) = ''Cut''" by code_simp
  have pool: "fst (pool_connect (mem_pool pg_id) s) = Inr ()" if "pg_busy s = pg_busy (hk_world (pp_hook demo_panel))" for s
    using that by (simp add: demo_panel_def demo_pg_def)
  have v: "vi_filename demo_video \<noteq> []" "length (vi_filename demo_video) \<le> 255" "vi_url demo_video \<noteq> []"
    by (simp_all add: demo_video_def)
  have n: "trim (pp_projectName demo_panel) \<noteq> []" "length (trim (pp_projectName demo_panel)) \<le> 255" by (simp_all add: name)
  have rows: "pt_rows (pg_tbl (hk_world (pp_hook demo_panel))) = [demo_row]" by (simp add: demo_panel_def demo_pg_def)
  from saved_project_listed [OF mem.pg_projects_axioms pool n v, of "[]" "\<lambda>_. ''{}''"] show ?thesis
    unfolding name rows by (auto simp: Let_def simp del: sort_by.simps)
qed

end
