(* ===== verification/Video_Edit.thy ===== *)
theory Video_Edit
  imports Video_Storage Js_Double "HOL-Library.List_Lexorder" "HOL-Library.Char_ord"
begin

text \<open>
  Editing operations of the video editor's backend: \<open>services/ffmpeg.service.ts\<close> and
  \<open>routes/edit.routes.ts\<close>.

  The numbers of a request body are scalar JSON values, since the handlers compare them
  without checking their type: \<open>jsval\<close> with the conversions of the language.  File names
  are strings or absent, subtitles have the declared types.  \<open>fluent-ffmpeg\<close> is a
  parameter: \<open>ff_run\<close> executes one job on the file system and \<open>ff_probe\<close> reads a file.
  The video and audio filters of a job are kept structured instead of printed.
\<close>

section \<open>Definitions\<close>

subsection \<open>Scalar values\<close>

datatype jsval = JUndef | JNull | JBool bool | JNum jsnum | JStr string

definition to_number :: "jsval \<Rightarrow> jsnum" where
  "to_number v = (case v of JUndef \<Rightarrow> NaN | JNull \<Rightarrow> Fin 0 | JBool b \<Rightarrow> Fin (if b then 1 else 0)
     | JNum n \<Rightarrow> n | JStr s \<Rightarrow> js_Number s)"

definition truthy_val :: "jsval \<Rightarrow> bool" where
  "truthy_val v = (case v of JUndef \<Rightarrow> False | JNull \<Rightarrow> False | JBool b \<Rightarrow> b
     | JNum n \<Rightarrow> n \<noteq> Fin 0 \<and> n \<noteq> NaN | JStr s \<Rightarrow> truthy s)"

fun num_less :: "jsnum \<Rightarrow> jsnum \<Rightarrow> bool" where
  "num_less (Fin x) (Fin y) = (x < y)"
| "num_less (Fin x) Infinity = True"
| "num_less NegInfinity (Fin y) = True"
| "num_less NegInfinity Infinity = True"
| "num_less _ _ = False"

definition num_le :: "jsnum \<Rightarrow> jsnum \<Rightarrow> bool" where
  "num_le m n = (num_less m n \<or> (m = n \<and> m \<noteq> NaN))"

fun num_sub :: "jsnum \<Rightarrow> jsnum \<Rightarrow> jsnum" where
  "num_sub (Fin x) (Fin y) = to_jsnum (x - y)"
| "num_sub (Fin x) Infinity = NegInfinity"
| "num_sub (Fin x) NegInfinity = Infinity"
| "num_sub Infinity (Fin y) = Infinity"
| "num_sub Infinity NegInfinity = Infinity"
| "num_sub NegInfinity (Fin y) = NegInfinity"
| "num_sub NegInfinity Infinity = NegInfinity"
| "num_sub _ _ = NaN"

text \<open>\<open>1 / n\<close>; a zero that the code divides by is positive.\<close>

fun num_recip :: "jsnum \<Rightarrow> jsnum" where
  "num_recip (Fin x) = (if x = 0 then Infinity else to_jsnum (1 / x))"
| "num_recip NaN = NaN"
| "num_recip _ = Fin 0"

text \<open>Two strings are compared as strings, any other operands as numbers.\<close>

definition js_less :: "jsval \<Rightarrow> jsval \<Rightarrow> bool" where
  "js_less v w = (case (v, w) of (JStr s, JStr t) \<Rightarrow> s < t | _ \<Rightarrow> num_less (to_number v) (to_number w))"

definition js_le :: "jsval \<Rightarrow> jsval \<Rightarrow> bool" where
  "js_le v w = (case (v, w) of (JStr s, JStr t) \<Rightarrow> s \<le> t | _ \<Rightarrow> num_le (to_number v) (to_number w))"

definition js_minus :: "jsval \<Rightarrow> jsval \<Rightarrow> jsval" where
  "js_minus v w = JNum (num_sub (to_number v) (to_number w))"

definition lit :: "rat \<Rightarrow> jsval" where
  "lit q = JNum (Fin q)"

subsection \<open>Jobs\<close>

record ProcessingResult =
  pr_filename :: string
  pr_path :: string
  pr_url :: string
  pr_size :: nat
  pr_duration :: jsval

record Subtitle =
  sub_text :: string
  sub_startTime :: rat
  sub_duration :: rat

datatype video_filter = Setpts jsnum | Subtitles string string

record ff_job =
  job_input :: string
  job_startTime :: "jsval option"
  job_duration :: "jsval option"
  job_videoCodec :: "string option"
  job_audioCodec :: "string option"
  job_videoFilters :: "video_filter list"
  job_atempo :: "jsval option"
  job_output :: string

text \<open>What \<open>ffprobe\<close> reports: the duration and bit rate of the container and the streams.\<close>

record probe_stream =
  ps_codec_type :: string
  ps_width :: "int option"
  ps_height :: "int option"
  ps_codec_name :: "string option"

record probe =
  pb_duration :: "jsnum option"
  pb_bit_rate :: "jsnum option"
  pb_streams :: "probe_stream list"

record 's ffmpeg =
  ff_run :: "ff_job \<Rightarrow> (string, 's, unit) action"
  ff_probe :: "string \<Rightarrow> (string, 's, probe) action"

record video_metadata =
  vm_duration :: jsnum
  vm_width :: "int option"
  vm_height :: "int option"
  vm_codec :: "string option"
  vm_bitrate :: "jsnum option"

definition unique_name :: "string \<Rightarrow> nat \<Rightarrow> nat \<Rightarrow> string \<Rightarrow> string" where
  "unique_name prefix now rnd ext = prefix @ show_nat now @ ''-'' @ show_nat rnd @ ext"

text \<open>Running a job and reporting the size of its output; an error of the job gets a prefix.\<close>

definition map_error :: "('e \<Rightarrow> 'e) \<Rightarrow> ('e, 's, 'a) action \<Rightarrow> ('e, 's, 'a) action" where
  "map_error f m = try_catch m (\<lambda>e. throw (f e))"

definition finish_job :: "string \<Rightarrow> string \<Rightarrow> jsval \<Rightarrow> (string, 'z fs_scheme, ProcessingResult) action" where
  "finish_job outputFilename outputPath dur =
     bind_action (fs_stat_size outputPath) (\<lambda>bytes.
     ret \<lparr>pr_filename = outputFilename, pr_path = outputPath, pr_url = ''/videos/'' @ outputFilename,
          pr_size = bytes, pr_duration = dur\<rparr>)"

definition trimVideo ::
    "'z fs_scheme ffmpeg \<Rightarrow> StorageService \<Rightarrow> nat \<Rightarrow> nat \<Rightarrow> string \<Rightarrow> jsval \<Rightarrow> jsval \<Rightarrow> jsval
      \<Rightarrow> (string, 'z fs_scheme, ProcessingResult) action" where
  "trimVideo F S now rnd inputPath startTime duration endTime =
     (let outputFilename = unique_name ''trim-'' now rnd (path_extname inputPath);
          outputPath = getFilePath S outputFilename;
          actualDuration = (if endTime \<noteq> JUndef then js_minus endTime startTime else duration)
      in if \<not> truthy_val actualDuration \<or> js_le actualDuration (lit 0)
         then throw ''Invalid duration or end time''
         else bind_action
           (map_error (\<lambda>m. ''FFmpeg trim error: '' @ m)
              (ff_run F \<lparr>job_input = inputPath, job_startTime = Some startTime, job_duration = Some actualDuration,
                 job_videoCodec = Some ''copy'', job_audioCodec = Some ''copy'', job_videoFilters = [],
                 job_atempo = None, job_output = outputPath\<rparr>)) (\<lambda>_.
            finish_job outputFilename outputPath JUndef))"

definition getVideoMetadata ::
    "'z fs_scheme ffmpeg \<Rightarrow> string \<Rightarrow> (string, 'z fs_scheme, video_metadata) action" where
  "getVideoMetadata F videoPath =
     bind_action (map_error (\<lambda>m. ''FFprobe error: '' @ m) (ff_probe F videoPath)) (\<lambda>metadata.
     let videoStream = List.find (\<lambda>s. ps_codec_type s = ''video'') (pb_streams metadata)
     in ret \<lparr>vm_duration = (case pb_duration metadata of
                 Some d \<Rightarrow> if truthy_val (JNum d) then d else Fin 0 | None \<Rightarrow> Fin 0),
             vm_width = Option.bind videoStream ps_width, vm_height = Option.bind videoStream ps_height,
             vm_codec = Option.bind videoStream ps_codec_name, vm_bitrate = pb_bit_rate metadata\<rparr>)"

text \<open>One part of a split.  Both parts are started before either is awaited: the second runs
  whether or not the first fails, and the first failure is the one reported.\<close>

definition split_part ::
    "'z fs_scheme ffmpeg \<Rightarrow> string \<Rightarrow> string \<Rightarrow> string \<Rightarrow> string \<Rightarrow> jsval \<Rightarrow> jsval option \<Rightarrow> jsval
      \<Rightarrow> (string, 'z fs_scheme, ProcessingResult) action" where
  "split_part F part inputPath partFilename partPath startTime setDur dur =
     bind_action
       (map_error (\<lambda>m. ''FFmpeg split '' @ part @ '' error: '' @ m)
          (ff_run F \<lparr>job_input = inputPath, job_startTime = Some startTime, job_duration = setDur,
             job_videoCodec = Some ''copy'', job_audioCodec = Some ''copy'', job_videoFilters = [],
             job_atempo = None, job_output = partPath\<rparr>)) (\<lambda>_.
        finish_job partFilename partPath dur)"

definition promise_all2 :: "('e, 's, 'a) action \<Rightarrow> ('e, 's, 'a) action \<Rightarrow> ('e, 's, 'a list) action" where
  "promise_all2 m1 m2 =
     (\<lambda>s. case m1 s of (r1, s1) \<Rightarrow> (case m2 s1 of (r2, s2) \<Rightarrow>
        (case r1 of Inl e \<Rightarrow> (Inl e, s2)
         | Inr a \<Rightarrow> (case r2 of Inl e \<Rightarrow> (Inl e, s2) | Inr b \<Rightarrow> (Inr [a, b], s2)))))"

definition splitVideo ::
    "'z fs_scheme ffmpeg \<Rightarrow> StorageService \<Rightarrow> nat \<Rightarrow> nat \<Rightarrow> string \<Rightarrow> jsval
      \<Rightarrow> (string, 'z fs_scheme, ProcessingResult list) action" where
  "splitVideo F S now rnd inputPath splitTime =
     (let ext = path_extname inputPath;
          part1Filename = unique_name ''split-part1-'' now rnd ext;
          part2Filename = unique_name ''split-part2-'' now rnd ext;
          part1Path = getFilePath S part1Filename;
          part2Path = getFilePath S part2Filename
      in bind_action (getVideoMetadata F inputPath) (\<lambda>metadata.
         let totalDuration = JNum (vm_duration metadata)
         in if \<not> truthy_val totalDuration \<or> js_le totalDuration splitTime
            then throw ''Invalid split time''
            else promise_all2
              (split_part F ''part1'' inputPath part1Filename part1Path (lit 0) (Some splitTime) splitTime)
              (split_part F ''part2'' inputPath part2Filename part2Path splitTime None
                 (js_minus totalDuration splitTime))))"

subsection \<open>Subtitles\<close>

definition formatSRTTime :: "rat \<Rightarrow> string" where
  "formatSRTTime seconds =
     (let hours = \<lfloor>js_div seconds 3600\<rfloor>;
          minutes = \<lfloor>js_div (js_mod seconds 3600) 60\<rfloor>;
          secs = \<lfloor>js_mod seconds 60\<rfloor>;
          millis = \<lfloor>js_mul (js_mod seconds 1) 1000\<rfloor>
      in padStart 2 CHR ''0'' (show_int hours) @ '':'' @ padStart 2 CHR ''0'' (show_int minutes) @ '':''
         @ padStart 2 CHR ''0'' (show_int secs) @ '','' @ padStart 3 CHR ''0'' (show_int millis))"

definition srt_block :: "nat \<Rightarrow> Subtitle \<Rightarrow> string" where
  "srt_block i sub =
     (let start = formatSRTTime (sub_startTime sub);
          stop = formatSRTTime (js_add (sub_startTime sub) (sub_duration sub))
      in show_nat (i + 1) @ [CHR 0x0A] @ start @ '' --> '' @ stop @ [CHR 0x0A] @ sub_text sub @ [CHR 0x0A])"

fun mapi_from :: "nat \<Rightarrow> (nat \<Rightarrow> 'a \<Rightarrow> 'b) \<Rightarrow> 'a list \<Rightarrow> 'b list" where
  "mapi_from i f [] = []"
| "mapi_from i f (x # xs) = f i x # mapi_from (Suc i) f xs"

definition generateSRT :: "Subtitle list \<Rightarrow> string" where
  "generateSRT subtitles = join [CHR 0x0A] (mapi_from 0 srt_block subtitles)"

definition force_style :: string where
  "force_style = ''Alignment=2,MarginV=20,FontSize=24''"

definition escape_path :: "string \<Rightarrow> string" where
  "escape_path p = concat (map (\<lambda>c. if c = CHR 0x3A then [CHR 0x5C, CHR 0x3A] else [c])
     (map (\<lambda>c. if c = CHR 0x5C then CHR 0x2F else c) p))"

text \<open>Writing the temporary subtitle file, and the rest of the operation.\<close>

definition temp_path :: "StorageService \<Rightarrow> nat \<Rightarrow> string" where
  "temp_path S now = getFilePath S (''temp-'' @ show_nat now @ ''.srt'')"

definition process_prepare ::
    "StorageService \<Rightarrow> nat \<Rightarrow> Subtitle list \<Rightarrow> (string, 'z fs_scheme, string option) action" where
  "process_prepare S now subtitles =
     (if subtitles \<noteq> []
      then let subtitlePath = temp_path S now
           in bind_action (fs_writeFile subtitlePath (generateSRT subtitles)) (\<lambda>_. ret (Some subtitlePath))
      else ret None)"

definition remove_temp :: "string option \<Rightarrow> (string, 'z fs_scheme, unit) action" where
  "remove_temp subtitlePath =
     (case subtitlePath of None \<Rightarrow> ret () | Some p \<Rightarrow> try_catch (fs_unlink p) (\<lambda>_. ret ()))"

definition process_job :: "string \<Rightarrow> string option \<Rightarrow> jsval \<Rightarrow> string \<Rightarrow> ff_job" where
  "process_job inputPath subtitlePath speed outputPath =
     (let change = (truthy_val speed \<and> speed \<noteq> lit 1)
      in \<lparr>job_input = inputPath, job_startTime = None, job_duration = None, job_videoCodec = None,
          job_audioCodec = None,
          job_videoFilters =
            (if change then [Setpts (num_recip (to_number speed))] else []) @
            (case subtitlePath of None \<Rightarrow> [] | Some p \<Rightarrow> [Subtitles (escape_path p) force_style]),
          job_atempo = (if change then Some speed else None), job_output = outputPath\<rparr>)"

definition process_run ::
    "'z fs_scheme ffmpeg \<Rightarrow> string \<Rightarrow> string option \<Rightarrow> jsval \<Rightarrow> string \<Rightarrow> string
      \<Rightarrow> (string, 'z fs_scheme, ProcessingResult) action" where
  "process_run F inputPath subtitlePath speed outputFilename outputPath =
     bind_action
       (try_catch (ff_run F (process_job inputPath subtitlePath speed outputPath))
          (\<lambda>m. bind_action (remove_temp subtitlePath) (\<lambda>_. throw (''FFmpeg processing error: '' @ m)))) (\<lambda>_.
     bind_action (remove_temp subtitlePath) (\<lambda>_.
     finish_job outputFilename outputPath JUndef))"

definition addSubtitlesAndSpeed ::
    "'z fs_scheme ffmpeg \<Rightarrow> StorageService \<Rightarrow> nat \<Rightarrow> nat \<Rightarrow> string \<Rightarrow> Subtitle list \<Rightarrow> jsval
      \<Rightarrow> (string, 'z fs_scheme, ProcessingResult) action" where
  "addSubtitlesAndSpeed F S now rnd inputPath subtitles speed =
     (let outputFilename = unique_name ''processed-'' now rnd (path_extname inputPath);
          outputPath = getFilePath S outputFilename
      in bind_action (process_prepare S now subtitles) (\<lambda>subtitlePath.
         process_run F inputPath subtitlePath speed outputFilename outputPath))"

subsection \<open>Handlers\<close>

definition api_url :: "string option \<Rightarrow> string" where
  "api_url env = (case env of Some u \<Rightarrow> if truthy u then u else ''http://localhost:3001'' | None \<Rightarrow> ''http://localhost:3001'')"

definition with_url :: "string option \<Rightarrow> ProcessingResult \<Rightarrow> ProcessingResult" where
  "with_url env r = r\<lparr>pr_url := api_url env @ pr_url r\<rparr>"

definition catch_500 :: "(string, 's, 'a reply) action \<Rightarrow> (string, 's, 'a reply) action" where
  "catch_500 m = try_catch m (\<lambda>e. ret (Failed 500 e))"

text \<open>The rest of a handler runs with the path of a file that exists.\<close>

definition with_file ::
    "StorageService \<Rightarrow> string \<Rightarrow> (string \<Rightarrow> (string, 'z fs_scheme, 'a reply) action)
      \<Rightarrow> (string, 'z fs_scheme, 'a reply) action" where
  "with_file S filename k =
     (let inputPath = getFilePath S filename
      in bind_action (fileExists S filename) (\<lambda>found.
         if \<not> found then ret (Failed 404 ''Video file not found'') else k inputPath))"

definition post_trim ::
    "string option \<Rightarrow> 'z fs_scheme ffmpeg \<Rightarrow> StorageService \<Rightarrow> nat \<Rightarrow> nat \<Rightarrow> string field \<Rightarrow> jsval \<Rightarrow> jsval
      \<Rightarrow> (string, 'z fs_scheme, ProcessingResult reply) action" where
  "post_trim env F S now rnd filename startTime endTime =
     catch_500
       (case field_opt filename of
          None \<Rightarrow> ret (Failed 400 ''Missing required fields: filename, startTime, endTime'')
        | Some name \<Rightarrow>
            (if \<not> truthy name \<or> startTime = JUndef \<or> endTime = JUndef
             then ret (Failed 400 ''Missing required fields: filename, startTime, endTime'')
             else if js_less startTime (lit 0) \<or> js_le endTime startTime
             then ret (Failed 400 ''Invalid time range: endTime must be greater than startTime'')
             else with_file S name (\<lambda>inputPath.
               bind_action (trimVideo F S now rnd inputPath startTime JUndef endTime) (\<lambda>result.
               ret (Sent 200 (with_url env result))))))"

definition post_split ::
    "string option \<Rightarrow> 'z fs_scheme ffmpeg \<Rightarrow> StorageService \<Rightarrow> nat \<Rightarrow> nat \<Rightarrow> string field \<Rightarrow> jsval
      \<Rightarrow> (string, 'z fs_scheme, ProcessingResult list reply) action" where
  "post_split env F S now rnd filename splitTime =
     catch_500
       (case field_opt filename of
          None \<Rightarrow> ret (Failed 400 ''Missing required fields: filename, splitTime'')
        | Some name \<Rightarrow>
            (if \<not> truthy name \<or> splitTime = JUndef
             then ret (Failed 400 ''Missing required fields: filename, splitTime'')
             else if js_le splitTime (lit 0)
             then ret (Failed 400 ''Invalid split time: must be greater than 0'')
             else with_file S name (\<lambda>inputPath.
               bind_action (splitVideo F S now rnd inputPath splitTime) (\<lambda>results.
               ret (Sent 200 (map (with_url env) results))))))"

definition get_metadata ::
    "'z fs_scheme ffmpeg \<Rightarrow> StorageService \<Rightarrow> string \<Rightarrow> (string, 'z fs_scheme, video_metadata reply) action" where
  "get_metadata F S filename =
     catch_500 (with_file S filename (\<lambda>inputPath.
       bind_action (getVideoMetadata F inputPath) (\<lambda>metadata. ret (Sent 200 metadata))))"

definition post_process ::
    "string option \<Rightarrow> 'z fs_scheme ffmpeg \<Rightarrow> StorageService \<Rightarrow> nat \<Rightarrow> nat \<Rightarrow> string field \<Rightarrow> Subtitle list field
      \<Rightarrow> jsval \<Rightarrow> (string, 'z fs_scheme, ProcessingResult reply) action" where
  "post_process env F S now rnd filename subtitles speed =
     catch_500
       (case field_opt filename of
          None \<Rightarrow> ret (Failed 400 ''Missing required field: filename'')
        | Some name \<Rightarrow>
            (if \<not> truthy name then ret (Failed 400 ''Missing required field: filename'')
             else if field_opt subtitles = None \<and> \<not> truthy_val speed
             then ret (Failed 400 ''At least one of subtitles or speed must be provided'')
             else if truthy_val speed \<and> (js_less speed (lit (1 / 2)) \<or> js_less (lit 2) speed)
             then ret (Failed 400 ''Speed must be between 0.5 and 2.0'')
             else with_file S name (\<lambda>inputPath.
               bind_action (addSubtitlesAndSpeed F S now rnd inputPath
                   (case field_opt subtitles of None \<Rightarrow> [] | Some subs \<Rightarrow> subs) speed) (\<lambda>result.
               ret (Sent 200 (with_url env result))))))"

section \<open>Subtitle files\<close>

text \<open>The reference reader of a subtitle file: blocks of a number, a line with two times and
  lines of text up to an empty line.\<close>

record cue =
  cue_number :: nat
  cue_start :: nat
  cue_end :: nat
  cue_text :: "string list"

definition srt_ms :: "string \<Rightarrow> nat" where
  "srt_ms t =
     (let hms = split_on CHR '':'' (takeWhile (\<lambda>c. c \<noteq> CHR '','') t);
          ms = tl (dropWhile (\<lambda>c. c \<noteq> CHR '','') t)
      in foldl (\<lambda>acc w. 60 * acc + read_nat w) 0 hms * 1000 + read_nat ms)"

definition srt_times :: "string \<Rightarrow> nat \<times> nat" where
  "srt_times l = (srt_ms (takeWhile (\<lambda>c. c \<noteq> CHR '' '') l), srt_ms (drop 5 (dropWhile (\<lambda>c. c \<noteq> CHR '' '') l)))"

function parse_cues :: "string list \<Rightarrow> cue list" where
  "parse_cues (n # t # rest) =
     \<lparr>cue_number = read_nat n, cue_start = fst (srt_times t), cue_end = snd (srt_times t),
      cue_text = takeWhile (\<lambda>l. l \<noteq> []) rest\<rparr> # parse_cues (tl (dropWhile (\<lambda>l. l \<noteq> []) rest))"
| "parse_cues [] = []"
| "parse_cues [l] = []"
  by pat_completeness auto

termination
proof (relation "measure length", simp)
  fix n t :: string and rest :: "string list"
  have "length (dropWhile (\<lambda>l. l \<noteq> []) rest) \<le> length rest" by (rule length_dropWhile_le)
  then show "(tl (dropWhile (\<lambda>l. l \<noteq> []) rest), n # t # rest) \<in> measure length" by simp
qed

definition parse_srt :: "string \<Rightarrow> cue list" where
  "parse_srt s = parse_cues (split_on CHR 0x0A s)"

text \<open>The milliseconds that a time is printed as.\<close>

definition shown_ms :: "rat \<Rightarrow> nat" where
  "shown_ms x = nat \<lfloor>x\<rfloor> * 1000 + nat \<lfloor>js_mul (js_mod x 1) 1000\<rfloor>"

lemma srt_fields:
  assumes "is_double x" and "0 \<le> x" and "x < 2 ^ 52"
  shows "\<lfloor>js_div x 3600\<rfloor> = \<lfloor>x\<rfloor> div 3600" "\<lfloor>js_div (js_mod x 3600) 60\<rfloor> = \<lfloor>x\<rfloor> mod 3600 div 60"
    "\<lfloor>js_mod x 60\<rfloor> = \<lfloor>x\<rfloor> mod 60"
proof -
  show "\<lfloor>js_div x 3600\<rfloor> = \<lfloor>x\<rfloor> div 3600"
    using floor_js_div [OF assms, of 3600] floor_div_int [of 3600 x] by simp
  show "\<lfloor>js_mod x 60\<rfloor> = \<lfloor>x\<rfloor> mod 60" using js_mod_floor(2) [OF assms(2), of 60] by simp
  have d: "is_double (js_mod x 3600)" using is_double_js_mod [OF assms(1,2), of 3600] assms(3) by simp
  have b: "0 \<le> js_mod x 3600" "js_mod x 3600 < 3600" using js_mod_nonneg(2,3) [OF assms(2), of 3600] by simp_all
  then have "js_mod x 3600 < 2 ^ 52" by simp
  then have "\<lfloor>js_div (js_mod x 3600) 60\<rfloor> = \<lfloor>js_mod x 3600\<rfloor> div 60"
    using floor_js_div [OF d b(1), of 60] floor_div_int [of 60 "js_mod x 3600"] by simp
  also have "\<lfloor>js_mod x 3600\<rfloor> = \<lfloor>x\<rfloor> mod 3600" using js_mod_floor(2) [OF assms(2), of 3600] by simp
  finally show "\<lfloor>js_div (js_mod x 3600) 60\<rfloor> = \<lfloor>x\<rfloor> mod 3600 div 60" .
qed

lemma srt_millis:
  assumes "is_double x" and "0 \<le> x" and "x < 2 ^ 52"
  shows "0 \<le> \<lfloor>js_mul (js_mod x 1) 1000\<rfloor>" "\<lfloor>js_mul (js_mod x 1) 1000\<rfloor> < 1000"
    "of_int \<lfloor>js_mul (js_mod x 1) 1000\<rfloor> \<le> 1000 * (x - of_int \<lfloor>x\<rfloor>) + 1 / 2 ^ 40"
    "1000 * (x - of_int \<lfloor>x\<rfloor>) < of_int \<lfloor>js_mul (js_mod x 1) 1000\<rfloor> + 1 + 1 / 2 ^ 40"
proof -
  let ?f = "js_mod x 1" and ?r = "js_mul (js_mod x 1) 1000"
  have f: "?f = x - of_int \<lfloor>x\<rfloor>" using js_mod_floor(1) [OF assms(2), of 1] by simp
  have d: "is_double ?f" using is_double_js_mod [OF assms(1,2), of 1] assms(3) by simp
  have b: "0 \<le> ?f" "?f < 1" using js_mod_nonneg(2,3) [OF assms(2), of 1] by simp_all
  have r: "?r = round_double (1000 * ?f)" by (simp add: js_mul_def mult.commute)
  show "0 \<le> \<lfloor>?r\<rfloor>" unfolding r using round_double_nonneg [of "1000 * ?f"] b by simp
  have "round_double (1000 * ?f) < 1000 * of_int 1"
    by (rule round_scaled_below [OF d b(1)]) (use b in simp_all)
  then show "\<lfloor>?r\<rfloor> < 1000" unfolding r by (simp add: floor_less_iff)
  have small: "1000 * ?f * pow2 (- 53) \<le> 1 / 2 ^ 41" using b by (simp add: pow2_def)
  have "round_double (1000 * ?f) \<le> 1000 * ?f + 1 / 2 ^ 41"
    using round_double_le [of "1000 * ?f"] b small by (auto simp: distrib_left)
  moreover have "of_int \<lfloor>?r\<rfloor> \<le> ?r" by linarith
  ultimately have "of_int \<lfloor>?r\<rfloor> \<le> 1000 * ?f + 1 / 2 ^ 41" unfolding r by linarith
  then show "of_int \<lfloor>?r\<rfloor> \<le> 1000 * (x - of_int \<lfloor>x\<rfloor>) + 1 / 2 ^ 40" unfolding f by simp
  have "1000 * ?f - 1 / 2 ^ 41 - 1 / 2 ^ 900 \<le> round_double (1000 * ?f)"
    using round_double_lower [of "1000 * ?f"] b small by (simp add: right_diff_distrib)
  moreover have "?r < of_int \<lfloor>?r\<rfloor> + 1" by linarith
  moreover have "(1 :: rat) / 2 ^ 41 + 1 / 2 ^ 900 \<le> 1 / 2 ^ 40" by simp
  ultimately have "1000 * ?f < of_int \<lfloor>?r\<rfloor> + 1 + 1 / 2 ^ 40" unfolding r by linarith
  then show "1000 * (x - of_int \<lfloor>x\<rfloor>) < of_int \<lfloor>?r\<rfloor> + 1 + 1 / 2 ^ 40" unfolding f .
qed

lemma digits_free:
  "\<not> is_digit c \<Longrightarrow> c \<notin> set (padStart k CHR ''0'' (show_nat n))"
  using show_nat_digits [of c n] by (auto simp: padStart_def is_digit_def)

lemma takeWhile_sep:
  "c \<notin> set a \<Longrightarrow> takeWhile (\<lambda>x. x \<noteq> c) (a @ c # b) = a"
  "c \<notin> set a \<Longrightarrow> dropWhile (\<lambda>x. x \<noteq> c) (a @ c # b) = c # b"
  by (induction a) auto

lemma show_int_nat: "0 \<le> i \<Longrightarrow> show_int i = show_nat (nat i)"
  by (simp add: show_int_def)

lemma formatSRTTime_fields:
  assumes "is_double x" and "0 \<le> x" and "x < 2 ^ 52"
  shows "formatSRTTime x =
    padStart 2 CHR ''0'' (show_nat (nat \<lfloor>x\<rfloor> div 3600)) @ '':'' @
    padStart 2 CHR ''0'' (show_nat (nat \<lfloor>x\<rfloor> mod 3600 div 60)) @ '':'' @
    padStart 2 CHR ''0'' (show_nat (nat \<lfloor>x\<rfloor> mod 60)) @ '','' @
    padStart 3 CHR ''0'' (show_nat (nat \<lfloor>js_mul (js_mod x 1) 1000\<rfloor>))"
proof -
  obtain k where k: "\<lfloor>x\<rfloor> = int k" using assms(2) by (metis zero_le_floor zero_le_imp_eq_int)
  have "int k div 3600 = int (k div 3600)" "int k mod 3600 div 60 = int (k mod 3600 div 60)" "int k mod 60 = int (k mod 60)"
    by (simp_all add: zdiv_int zmod_int)
  then show ?thesis
    unfolding formatSRTTime_def Let_def srt_fields [OF assms] k show_int_nat [OF srt_millis(1) [OF assms]]
    by (simp add: show_int_nat del: of_nat_div of_nat_mod)
qed

lemma srt_ms_fields:
  "srt_ms (padStart a CHR ''0'' (show_nat h) @ '':'' @ padStart b CHR ''0'' (show_nat m) @ '':'' @
     padStart c CHR ''0'' (show_nat s) @ '','' @ padStart d CHR ''0'' (show_nat l)) =
   ((60 * h + m) * 60 + s) * 1000 + l"
proof -
  let ?h = "padStart a CHR ''0'' (show_nat h)" and ?m = "padStart b CHR ''0'' (show_nat m)"
  let ?s = "padStart c CHR ''0'' (show_nat s)" and ?l = "padStart d CHR ''0'' (show_nat l)"
  have nd: "\<not> is_digit CHR '':''" "\<not> is_digit CHR '',''" by (simp_all add: is_digit_def)
  let ?p = "?h @ CHR '':'' # ?m @ CHR '':'' # ?s"
  have free: "CHR '','' \<notin> set ?p" using digits_free [OF nd(2)] by auto
  have "split_on CHR '':'' ?p = [?h, ?m, ?s]"
    using digits_free [OF nd(1)] by (simp add: split_on_append split_on_free)
  then show ?thesis
    using takeWhile_sep [OF free, of ?l] by (simp add: srt_ms_def Let_def)
qed

lemma srt_ms_format:
  assumes "is_double x" and "0 \<le> x" and "x < 2 ^ 52"
  shows "srt_ms (formatSRTTime x) = shown_ms x"
proof -
  let ?n = "nat \<lfloor>x\<rfloor>"
  have "(60 * (?n div 3600) + ?n mod 3600 div 60) * 60 + ?n mod 60 = ?n"
  proof -
    have "?n mod 3600 mod 60 = ?n mod 60" by (simp add: mod_mod_cancel)
    then have "?n mod 3600 = 60 * (?n mod 3600 div 60) + ?n mod 60"
      using mult_div_mod_eq [of 60 "?n mod 3600"] by simp
    then have "3600 * (?n div 3600) + (60 * (?n mod 3600 div 60) + ?n mod 60) = ?n"
      using mult_div_mod_eq [of 3600 ?n] by simp
    then show ?thesis by (simp only: distrib_right mult.assoc mult.commute) simp
  qed
  then show ?thesis
    unfolding formatSRTTime_fields [OF assms] srt_ms_fields shown_ms_def by simp
qed

text \<open>A subtitle that fits on one line, at a time that can be shown.\<close>

definition valid_subtitle :: "Subtitle \<Rightarrow> bool" where
  "valid_subtitle sub =
     (sub_text sub \<noteq> [] \<and> CHR 0x0A \<notin> set (sub_text sub) \<and> is_double (sub_startTime sub) \<and> 0 \<le> sub_startTime sub \<and>
      0 \<le> sub_duration sub \<and> sub_startTime sub < 2 ^ 52 \<and> js_add (sub_startTime sub) (sub_duration sub) < 2 ^ 52)"

definition time_line :: "Subtitle \<Rightarrow> string" where
  "time_line sub = formatSRTTime (sub_startTime sub) @ '' --> '' @
     formatSRTTime (js_add (sub_startTime sub) (sub_duration sub))"

lemma format_chars:
  assumes "is_double x" "0 \<le> x" "x < 2 ^ 52" and "\<not> is_digit c" "c \<noteq> CHR '':''" "c \<noteq> CHR '',''"
  shows "c \<notin> set (formatSRTTime x)"
  unfolding formatSRTTime_fields [OF assms(1-3)] using digits_free [OF assms(4)] assms(5,6) by simp

lemma end_is_double:
  "0 \<le> sub_startTime sub \<Longrightarrow> 0 \<le> sub_duration sub \<Longrightarrow>
   is_double (js_add (sub_startTime sub) (sub_duration sub)) \<and> 0 \<le> js_add (sub_startTime sub) (sub_duration sub)"
  unfolding js_add_def by (simp add: is_double_round round_double_nonneg)

lemma srt_times_line:
  assumes "valid_subtitle sub"
  shows "srt_times (time_line sub) = (shown_ms (sub_startTime sub), shown_ms (js_add (sub_startTime sub) (sub_duration sub)))"
    and "CHR 0x0A \<notin> set (time_line sub)"
proof -
  let ?a = "sub_startTime sub" and ?b = "js_add (sub_startTime sub) (sub_duration sub)"
  have a: "is_double ?a" "0 \<le> ?a" "?a < 2 ^ 52" and b: "is_double ?b" "0 \<le> ?b" "?b < 2 ^ 52"
    using assms end_is_double [of sub] by (simp_all add: valid_subtitle_def)
  have nd: "\<not> is_digit CHR '' ''" "\<not> is_digit CHR 0x0A" by (simp_all add: is_digit_def)
  have free: "CHR '' '' \<notin> set (formatSRTTime ?a)" by (rule format_chars [OF a nd(1)]) simp_all
  have l: "time_line sub = formatSRTTime ?a @ CHR '' '' # ''--> '' @ formatSRTTime ?b" by (simp add: time_line_def)
  show "srt_times (time_line sub) = (shown_ms ?a, shown_ms ?b)"
    unfolding srt_times_def l takeWhile_sep [OF free] using srt_ms_format [OF a] srt_ms_format [OF b] by simp
  show "CHR 0x0A \<notin> set (time_line sub)"
    using format_chars [OF a nd(2)] format_chars [OF b nd(2)] by (simp add: time_line_def)
qed

lemma split_block:
  assumes "valid_subtitle sub"
  shows "split_on CHR 0x0A (srt_block i sub) = [show_nat (i + 1), time_line sub, sub_text sub, []]"
proof -
  have "CHR 0x0A \<notin> set (show_nat (i + 1))"
    using show_nat_digits [of "CHR 0x0A" "i + 1"] by (auto simp: is_digit_def)
  moreover have "srt_block i sub = show_nat (i + 1) @ CHR 0x0A # time_line sub @ CHR 0x0A # sub_text sub @ CHR 0x0A # []"
    by (simp add: srt_block_def time_line_def Let_def)
  ultimately show ?thesis
    using srt_times_line(2) [OF assms] assms by (simp add: split_on_append split_on_free valid_subtitle_def)
qed

lemma split_join:
  "ws \<noteq> [] \<Longrightarrow> split_on c (join [c] ws) = concat (map (split_on c) ws)"
  by (induction "[c]" ws rule: join.induct) (simp_all add: split_on_append)

lemma mapi_from_empty [simp]: "mapi_from i f xs = [] \<longleftrightarrow> xs = []"
  by (cases xs) simp_all

lemma parse_blocks:
  assumes "\<forall>sub \<in> set subs. valid_subtitle sub"
  shows "parse_cues (concat (map (split_on CHR 0x0A) (mapi_from i srt_block subs))) =
    mapi_from i (\<lambda>i sub. \<lparr>cue_number = i + 1, cue_start = shown_ms (sub_startTime sub),
      cue_end = shown_ms (js_add (sub_startTime sub) (sub_duration sub)), cue_text = [sub_text sub]\<rparr>) subs"
  using assms
proof (induction subs arbitrary: i)
  case (Cons sub subs)
  then have v: "valid_subtitle sub" by simp
  then have "sub_text sub \<noteq> []" by (simp add: valid_subtitle_def)
  with Cons show ?case by (simp add: split_block [OF v] srt_times_line(1) [OF v])
qed simp

section \<open>Properties of subtitle files\<close>

text \<open>C17: Reading back the generated subtitle file gives every subtitle, numbered from one, with
  its text and the printed times, for texts of one non-empty line.\<close>

theorem srt_roundtrip:
  assumes "\<forall>sub \<in> set subs. valid_subtitle sub"
  shows "parse_srt (generateSRT subs) =
    mapi_from 0 (\<lambda>i sub. \<lparr>cue_number = i + 1, cue_start = shown_ms (sub_startTime sub),
      cue_end = shown_ms (js_add (sub_startTime sub) (sub_duration sub)), cue_text = [sub_text sub]\<rparr>) subs"
proof (cases "subs = []")
  case False
  then show ?thesis using parse_blocks [OF assms, of 0] by (simp add: parse_srt_def generateSRT_def split_join)
qed (simp add: parse_srt_def generateSRT_def)

lemma is_double_int: "\<bar>m\<bar> \<le> 2 ^ 53 \<Longrightarrow> is_double (of_int m)"
  by (simp add: is_double_def round_double_int)

theorem srt_roundtrip_witness:
  "parse_srt (generateSRT [\<lparr>sub_text = ''Hello'', sub_startTime = 1, sub_duration = 2\<rparr>]) =
     [\<lparr>cue_number = 1, cue_start = 1000, cue_end = 3000, cue_text = [''Hello'']\<rparr>]"
proof -
  have add: "js_add 1 2 = 3" using js_add_int [of 1 2] by simp
  have one: "is_double 1" using is_double_int [of 1] by simp
  have "js_mul 0 1000 = 0" by (simp add: js_mul_def)
  then have ms: "shown_ms 1 = 1000" "shown_ms 3 = 3000"
    using js_mod_floor(1) [of 1 1] js_mod_floor(1) [of 3 1] by (simp_all add: shown_ms_def)
  show ?thesis
    using srt_roundtrip [of "[\<lparr>sub_text = ''Hello'', sub_startTime = 1, sub_duration = 2\<rparr>]"] one add ms
    by (simp add: valid_subtitle_def)
qed

text \<open>C37: A time is printed as hours, minutes and seconds below sixty, and milliseconds below a
  thousand, which together are at most one millisecond below the time (up to a rounding
  error of \<open>2^-40\<close> milliseconds) and exact for whole seconds.  The truncation can lose a
  millisecond: the double nearest to 1.001 is printed as one second.\<close>

theorem srt_time_accuracy:
  assumes "is_double x" and "0 \<le> x" and "x < 2 ^ 52"
  shows "(\<exists>h m s l. formatSRTTime x =
      padStart 2 CHR ''0'' (show_nat h) @ '':'' @ padStart 2 CHR ''0'' (show_nat m) @ '':'' @
      padStart 2 CHR ''0'' (show_nat s) @ '','' @ padStart 3 CHR ''0'' (show_nat l) \<and> m < 60 \<and> s < 60 \<and> l < 1000 \<and>
      srt_ms (formatSRTTime x) = ((60 * h + m) * 60 + s) * 1000 + l) \<and>
    of_nat (srt_ms (formatSRTTime x)) \<le> 1000 * x + 1 / 2 ^ 40 \<and>
    1000 * x < of_nat (srt_ms (formatSRTTime x)) + 1 + 1 / 2 ^ 40 \<and>
    (x = of_int \<lfloor>x\<rfloor> \<longrightarrow> of_nat (srt_ms (formatSRTTime x)) = 1000 * x)"
proof (intro conjI impI)
  let ?l = "\<lfloor>js_mul (js_mod x 1) 1000\<rfloor>"
  note f = formatSRTTime_fields [OF assms] and ms = srt_ms_format [OF assms] and mi = srt_millis [OF assms]
  have l: "nat ?l < 1000" using mi(1,2) by (metis nat_less_iff of_nat_numeral)
  have r: "nat \<lfloor>x\<rfloor> mod 3600 div 60 < 60" "nat \<lfloor>x\<rfloor> mod 60 < 60"
    using less_mult_imp_div_less [of "nat \<lfloor>x\<rfloor> mod 3600" 60 60] by simp_all
  show "\<exists>h m s l. formatSRTTime x =
      padStart 2 CHR ''0'' (show_nat h) @ '':'' @ padStart 2 CHR ''0'' (show_nat m) @ '':'' @
      padStart 2 CHR ''0'' (show_nat s) @ '','' @ padStart 3 CHR ''0'' (show_nat l) \<and> m < 60 \<and> s < 60 \<and> l < 1000 \<and>
      srt_ms (formatSRTTime x) = ((60 * h + m) * 60 + s) * 1000 + l"
    using l r f arg_cong [OF f, of srt_ms, unfolded srt_ms_fields] by blast
  have n: "0 \<le> \<lfloor>x\<rfloor>" using assms(2) by simp
  have T: "of_nat (srt_ms (formatSRTTime x)) = 1000 * of_int \<lfloor>x\<rfloor> + (of_int ?l :: rat)"
    unfolding ms shown_ms_def using n mi(1) by (simp add: of_nat_nat)
  show "of_nat (srt_ms (formatSRTTime x)) \<le> 1000 * x + 1 / 2 ^ 40"
    using mi(3) unfolding T by (simp add: right_diff_distrib)
  show "1000 * x < of_nat (srt_ms (formatSRTTime x)) + 1 + 1 / 2 ^ 40"
    using mi(4) unfolding T by (simp add: right_diff_distrib)
  show "of_nat (srt_ms (formatSRTTime x)) = 1000 * x" if "x = of_int \<lfloor>x\<rfloor>"
  proof -
    have "js_mod x 1 = 0" using js_mod_floor(1) [OF assms(2), of 1] that by simp
    then have "?l = 0" by (simp add: js_mul_def)
    then show ?thesis unfolding T using that by simp
  qed
qed

definition second_and_one :: rat where
  "second_and_one = 4508103226997866 / 4503599627370496"

theorem srt_time_accuracy_witness:
  "is_double second_and_one \<and> \<bar>second_and_one - 1001 / 1000\<bar> < 1 / 10 ^ 15 \<and>
   formatSRTTime second_and_one = ''00:00:01,000'' \<and>
   1000 * second_and_one < of_nat (srt_ms (formatSRTTime second_and_one)) + 1 + 1 / 2 ^ 40"
proof -
  have d: "is_double second_and_one"
    using round_double_exact [of 4508103226997866 "- 52"] by (simp add: is_double_def pow2_def second_and_one_def)
  have f: "formatSRTTime second_and_one = ''00:00:01,000''" by code_simp
  have b: "0 \<le> second_and_one" "second_and_one < 2 ^ 52" "\<bar>second_and_one - 1001 / 1000\<bar> < 1 / 10 ^ 15"
    by (simp_all add: second_and_one_def)
  show ?thesis using srt_time_accuracy [OF d b(1,2)] d b f by blast
qed

section \<open>Lemmas on the handlers\<close>

definition path_exists :: "string \<Rightarrow> 'z fs_scheme \<Rightarrow> bool" where
  "path_exists p s = (fs_files s p \<noteq> None \<or> p \<in> set (fs_dirs s))"

lemma fileExists_eq: "fileExists S name s = (Inr (path_exists (getFilePath S name) s), s)"
  by (simp add: fileExists_def try_catch_def bind_action_def fs_access_def path_exists_def)

lemma with_file_eq:
  "with_file S name k s =
     (if path_exists (getFilePath S name) s then k (getFilePath S name) s
      else (Inr (Failed 404 ''Video file not found''), s))"
  by (simp add: with_file_def Let_def bind_action_def fileExists_eq)

lemma to_jsnum_pos:
  assumes "0 < round_double x"
  shows "num_less (Fin 0) (to_jsnum x)"
  using assms by (simp add: to_jsnum_def Let_def)

lemma positive_duration:
  "truthy_val (JNum d) \<and> \<not> js_le (JNum d) (lit 0) \<longleftrightarrow> num_less (Fin 0) d"
  by (cases d) (auto simp: truthy_val_def js_le_def lit_def num_le_def to_number_def)

lemma num_less_sub_NaN: "\<not> num_less (Fin 0) (num_sub n NaN)" "\<not> num_less (Fin 0) (num_sub NaN n)"
  by (cases n; simp)+

lemma not_negative: "n \<noteq> NaN \<Longrightarrow> \<not> num_less n (Fin 0) \<longleftrightarrow> num_le (Fin 0) n"
  by (cases n) (auto simp: num_le_def)

definition trim_job :: "string \<Rightarrow> jsval \<Rightarrow> jsval \<Rightarrow> string \<Rightarrow> ff_job" where
  "trim_job inputPath startTime dur outputPath =
     \<lparr>job_input = inputPath, job_startTime = Some startTime, job_duration = Some dur, job_videoCodec = Some ''copy'',
      job_audioCodec = Some ''copy'', job_videoFilters = [], job_atempo = None, job_output = outputPath\<rparr>"

text \<open>How a handler answers the outcome of a job.\<close>

definition job_reply ::
    "string option \<Rightarrow> string \<Rightarrow> string \<Rightarrow> string \<Rightarrow> (string + unit) \<times> 'z fs_scheme
      \<Rightarrow> (string + ProcessingResult reply) \<times> 'z fs_scheme" where
  "job_reply env prefix out path r =
     (case r of
        (Inl m, s') \<Rightarrow> (Inr (Failed 500 (prefix @ m)), s')
      | (Inr _, s') \<Rightarrow>
          (Inr (case fs_files s' path of
             None \<Rightarrow> Failed 500 ''ENOENT''
           | Some c \<Rightarrow> Sent 200 \<lparr>pr_filename = out, pr_path = path, pr_url = api_url env @ ''/videos/'' @ out,
               pr_size = length c, pr_duration = JUndef\<rparr>), s'))"

lemma finish_reply:
  "catch_500 (bind_action (bind_action (map_error ((@) prefix) run) (\<lambda>_. finish_job out path JUndef))
      (\<lambda>r. ret (Sent 200 (with_url env r)))) s = job_reply env prefix out path (run s)"
  by (cases "run s"; cases "fst (run s)"; cases "fs_files (snd (run s)) path")
    (auto simp: catch_500_def try_catch_def bind_action_def map_error_def finish_job_def fs_stat_size_def
      job_reply_def with_url_def)

lemma trim_refused:
  assumes "w \<noteq> JUndef" and "\<not> num_less (Fin 0) (num_sub (to_number w) (to_number v))"
  shows "trimVideo F S now rnd inp v d w = throw ''Invalid duration or end time''"
  using assms positive_duration [of "num_sub (to_number w) (to_number v)"]
  by (simp add: trimVideo_def Let_def js_minus_def)

section \<open>Properties of the handlers\<close>

lemma trim_request:
  assumes "is_double a" and "is_double b" and "name \<noteq> []"
  shows "post_trim env F S now rnd (Value name) (lit a) (lit b) s =
      (if a < 0 \<or> b \<le> a
       then (Inr (Failed 400 ''Invalid time range: endTime must be greater than startTime''), s)
       else if \<not> path_exists (getFilePath S name) s then (Inr (Failed 404 ''Video file not found''), s)
       else let out = unique_name ''trim-'' now rnd (path_extname (getFilePath S name)); p = getFilePath S out
            in job_reply env ''FFmpeg trim error: '' out p
                 (ff_run F (trim_job (getFilePath S name) (lit a) (JNum (to_jsnum (b - a))) p) s))"
proof -
  have le: "js_less (lit a) (lit 0) \<longleftrightarrow> a < 0" "js_le (lit b) (lit a) \<longleftrightarrow> b \<le> a"
    by (auto simp: js_less_def js_le_def lit_def to_number_def num_le_def)
  have sub: "js_minus (lit b) (lit a) = JNum (to_jsnum (b - a))"
    by (simp add: js_minus_def lit_def to_number_def)
  have pos: "num_less (Fin 0) (to_jsnum (b - a))" if "\<not> a < 0" "\<not> b \<le> a"
    using js_sub_pos [OF assms(1,2)] that by (intro to_jsnum_pos) (simp add: js_sub_def)
  have d: "lit a \<noteq> JUndef" "lit b \<noteq> JUndef" by (simp_all add: lit_def)
  let ?k = "\<lambda>inputPath. bind_action (trimVideo F S now rnd inputPath (lit a) JUndef (lit b)) (\<lambda>r. ret (Sent 200 (with_url env r)))"
  show ?thesis
  proof (cases "a < 0 \<or> b \<le> a")
    case True
    then show ?thesis using le assms(3) d
      by (auto simp: post_trim_def catch_500_def try_catch_def field_opt_def truthy_def)
  next
    case False
    then have p: "truthy_val (JNum (to_jsnum (b - a)))" "\<not> js_le (JNum (to_jsnum (b - a))) (lit 0)"
      using pos positive_duration [of "to_jsnum (b - a)"] by auto
    have "post_trim env F S now rnd (Value name) (lit a) (lit b) s = catch_500 (with_file S name ?k) s"
      using False le assms(3) d by (simp add: post_trim_def field_opt_def truthy_def)
    also have "\<dots> = (if path_exists (getFilePath S name) s then catch_500 (?k (getFilePath S name)) s
        else (Inr (Failed 404 ''Video file not found''), s))"
      by (simp add: catch_500_def try_catch_def with_file_eq)
    finally show ?thesis
      using False p d by (simp add: trimVideo_def Let_def sub trim_job_def finish_reply)
  qed
qed

lemma trim_not_started:
  assumes bad: "\<not> (num_le (Fin 0) (to_number v) \<and> num_less (Fin 0) (num_sub (to_number w) (to_number v)))"
  shows "post_trim env F S now rnd (Value name) v w s = post_trim env F' S now rnd (Value name) v w s"
proof (cases "w = JUndef \<or> js_less v (lit 0)")
  case False
  have "num_less (to_number v) (Fin 0) \<longleftrightarrow> js_less v (lit 0)"
    by (cases v) (simp_all add: js_less_def lit_def to_number_def)
  with False bad have n: "\<not> num_less (Fin 0) (num_sub (to_number w) (to_number v))"
    using not_negative [of "to_number v"] num_less_sub_NaN by metis
  from False show ?thesis by (simp add: post_trim_def field_opt_def trim_refused [OF _ n] cong: if_cong)
qed (auto simp: post_trim_def field_opt_def)

text \<open>Trimming.  For numbers, an empty or negative range is refused with 400, a missing file
  with 404, and otherwise exactly one job copies the streams from the start for the
  difference of the times, and its failure or missing output is a 500.  For any other
  scalar values, strings and \<open>null\<close> included, no job runs unless the start is at least
  zero and the rounded difference is positive.\<close>

theorem trim_spec:
  assumes "is_double a" and "is_double b" and "name \<noteq> []"
  shows "post_trim env F S now rnd (Value name) (lit a) (lit b) s =
      (if a < 0 \<or> b \<le> a
       then (Inr (Failed 400 ''Invalid time range: endTime must be greater than startTime''), s)
       else if \<not> path_exists (getFilePath S name) s then (Inr (Failed 404 ''Video file not found''), s)
       else let out = unique_name ''trim-'' now rnd (path_extname (getFilePath S name)); p = getFilePath S out
            in job_reply env ''FFmpeg trim error: '' out p
                 (ff_run F (trim_job (getFilePath S name) (lit a) (JNum (to_jsnum (b - a))) p) s)) \<and>
    (\<not> (num_le (Fin 0) (to_number v) \<and> num_less (Fin 0) (num_sub (to_number w) (to_number v))) \<longrightarrow>
     post_trim env F S now rnd (Value name) v w s = post_trim env F' S now rnd (Value name) v w s)"
  using trim_request [OF assms] trim_not_started by blast

text \<open>A tool that copies the input to the output.\<close>

definition copy_ffmpeg :: "'z fs_scheme ffmpeg" where
  "copy_ffmpeg =
     \<lparr>ff_run = (\<lambda>job s. case fs_files s (job_input job) of
        None \<Rightarrow> (Inl ''no input'', s)
      | Some c \<Rightarrow> (Inr (), s\<lparr>fs_files := (fs_files s)(job_output job \<mapsto> c)\<rparr>)),
      ff_probe = (\<lambda>p. ret \<lparr>pb_duration = Some (Fin 10), pb_bit_rate = None, pb_streams = []\<rparr>)\<rparr>"

definition clip_fs :: fs where
  "clip_fs = \<lparr>fs_files = [''/srv/uploads/a.mp4'' \<mapsto> ''12345''], fs_dirs = [''/srv/uploads'']\<rparr>"

definition srv_storage :: StorageService where
  "srv_storage = \<lparr>uploadDir = ''/srv/uploads''\<rparr>"

lemma srv_paths:
  "getFilePath srv_storage ''a.mp4'' = ''/srv/uploads/a.mp4''"
  "path_extname ''/srv/uploads/a.mp4'' = ''.mp4''"
  "unique_name ''trim-'' 17 4 ''.mp4'' = ''trim-17-4.mp4''"
  "getFilePath srv_storage ''trim-17-4.mp4'' = ''/srv/uploads/trim-17-4.mp4''"
  "unique_name ''processed-'' 17 4 ''.mp4'' = ''processed-17-4.mp4''"
  "getFilePath srv_storage ''processed-17-4.mp4'' = ''/srv/uploads/processed-17-4.mp4''"
  "temp_path srv_storage 17 = ''/srv/uploads/temp-17.srt''"
  by code_simp+

theorem trim_spec_witness:
  "\<exists>s'. post_trim None copy_ffmpeg srv_storage 17 4 (Value ''a.mp4'') (lit 1) (lit 3) clip_fs =
     (Inr (Sent 200 \<lparr>pr_filename = ''trim-17-4.mp4'', pr_path = ''/srv/uploads/trim-17-4.mp4'',
        pr_url = ''http://localhost:3001/videos/trim-17-4.mp4'', pr_size = 5, pr_duration = JUndef\<rparr>), s')"
proof -
  have d: "is_double 1" "is_double 3" using is_double_int [of 1] is_double_int [of 3] by simp_all
  show ?thesis
    using trim_spec [OF d, of "''a.mp4''" None copy_ffmpeg srv_storage 17 4 clip_fs]
    by (simp add: srv_paths path_exists_def clip_fs_def Let_def copy_ffmpeg_def trim_job_def job_reply_def api_url_def)
qed

text \<open>A split time that is no number passes every check: both comparisons with it are false.\<close>

lemma split_not_a_number:
  assumes "to_number v = NaN" "v \<noteq> JUndef" "name \<noteq> []" "path_exists (getFilePath S name) s"
    and "ff_probe F (getFilePath S name) s = (Inr pb, s)" "pb_duration pb = Some (Fin t)" "t \<noteq> 0"
  shows "post_split env F S now rnd (Value name) v s =
    catch_500 (bind_action (promise_all2
      (split_part F ''part1'' (getFilePath S name)
         (unique_name ''split-part1-'' now rnd (path_extname (getFilePath S name)))
         (getFilePath S (unique_name ''split-part1-'' now rnd (path_extname (getFilePath S name)))) (lit 0) (Some v) v)
      (split_part F ''part2'' (getFilePath S name)
         (unique_name ''split-part2-'' now rnd (path_extname (getFilePath S name)))
         (getFilePath S (unique_name ''split-part2-'' now rnd (path_extname (getFilePath S name)))) v None (JNum NaN)))
      (\<lambda>rs. ret (Sent 200 (map (with_url env) rs)))) s"
proof -
  have le: "\<not> js_le v (lit 0)" "\<not> js_le (JNum (Fin t)) v"
    using assms(1) by (cases v; simp add: js_le_def lit_def num_le_def to_number_def)+
  have md: "getVideoMetadata F (getFilePath S name) s = (Inr m, s) \<Longrightarrow> vm_duration m = Fin t" for m
    using assms(5-7) by (auto simp: getVideoMetadata_def bind_action_def map_error_def try_catch_def Let_def truthy_val_def)
  obtain m where m: "getVideoMetadata F (getFilePath S name) s = (Inr m, s)" "vm_duration m = Fin t"
    using md assms(5) by (auto simp: getVideoMetadata_def bind_action_def map_error_def try_catch_def Let_def)
  have tr: "truthy_val (JNum (Fin t))" using assms(7) by (simp add: truthy_val_def)
  have sub: "js_minus (JNum (Fin t)) v = JNum NaN" using assms(1) by (simp add: js_minus_def to_number_def)
  show ?thesis
    using assms(2-4) le m tr
    by (simp add: post_split_def field_opt_def truthy_def catch_500_def try_catch_def with_file_eq splitVideo_def
        Let_def bind_action_def [of "getVideoMetadata F (getFilePath S name)"] sub bind_action_def)
qed

text \<open>Two requests of the same millisecond use the same temporary file: the second overwrites the
  subtitles of the first before they are read, and the first removes those of the second.\<close>

lemma temp_file_collision:
  assumes "subs1 \<noteq> []" and "subs2 \<noteq> []"
  shows "\<exists>p s'. bind_action (process_prepare S now subs1) (\<lambda>p1.
      bind_action (process_prepare S now subs2) (\<lambda>p2. ret (p1, p2))) s = (Inr (Some p, Some p), s') \<and>
    fs_files s' p = Some (generateSRT subs2) \<and> fs_files (snd (remove_temp (Some p) s')) p = None"
  using assms by (simp add: process_prepare_def Let_def bind_action_def fs_writeFile_def remove_temp_def
      try_catch_def fs_unlink_def)

lemma remove_temp_eq:
  "remove_temp (Some p) s = (Inr (), s\<lparr>fs_files := (fs_files s)(p := None)\<rparr>)"
  by (cases "fs_files s p") (auto simp: remove_temp_def try_catch_def fs_unlink_def fun_upd_idem)

text \<open>Processing with subtitles.  The job sees a temporary file with the generated subtitles and
  otherwise the files as they were; the file is removed again whether the job succeeds or
  fails, and nothing else the job left is touched.  A failed job is a 500.\<close>

theorem process_temp_removed:
  assumes "name \<noteq> []" and "path_exists (getFilePath S name) s" and "subs \<noteq> []"
    and "speed = JUndef \<or> (\<exists>q. speed = lit q \<and> 1 / 2 \<le> q \<and> q \<le> 2)"
    and "p = temp_path S now"
    and "out = unique_name ''processed-'' now rnd (path_extname (getFilePath S name))"
    and "ff_run F (process_job (getFilePath S name) (Some p) speed (getFilePath S out))
           (s\<lparr>fs_files := (fs_files s)(p \<mapsto> generateSRT subs)\<rparr>) = (r, s1)"
  shows "post_process env F S now rnd (Value name) (Value subs) speed s =
    job_reply env ''FFmpeg processing error: '' out (getFilePath S out)
      (r, s1\<lparr>fs_files := (fs_files s1)(p := None)\<rparr>)"
proof -
  have sp: "\<not> (truthy_val speed \<and> (js_less speed (lit (1 / 2)) \<or> js_less (lit 2) speed))"
    using assms(4) by (auto simp: truthy_val_def js_less_def lit_def to_number_def)
  show ?thesis
    using assms(1-3,7) sp
    by (cases r; cases "fs_files s1 (getFilePath S out)"; cases "getFilePath S out = p")
      (auto simp: post_process_def field_opt_def truthy_def catch_500_def try_catch_def with_file_eq addSubtitlesAndSpeed_def
        Let_def bind_action_def process_prepare_def fs_writeFile_def process_run_def assms(5,6) [symmetric] remove_temp_eq
        finish_job_def fs_stat_size_def job_reply_def with_url_def)
qed

theorem process_temp_removed_witness:
  "\<exists>s'. post_process None copy_ffmpeg srv_storage 17 4 (Value ''a.mp4'')
       (Value [\<lparr>sub_text = ''Hi'', sub_startTime = 0, sub_duration = 1\<rparr>]) JUndef clip_fs =
     (Inr (Sent 200 \<lparr>pr_filename = ''processed-17-4.mp4'', pr_path = ''/srv/uploads/processed-17-4.mp4'',
        pr_url = ''http://localhost:3001/videos/processed-17-4.mp4'', pr_size = 5, pr_duration = JUndef\<rparr>), s') \<and>
     fs_files s' ''/srv/uploads/temp-17.srt'' = None"
proof -
  let ?subs = "[\<lparr>sub_text = ''Hi'', sub_startTime = 0, sub_duration = 1\<rparr>]"
  let ?s = "clip_fs\<lparr>fs_files := (fs_files clip_fs)(''/srv/uploads/temp-17.srt'' \<mapsto> generateSRT ?subs)\<rparr>"
  have run: "ff_run copy_ffmpeg (process_job ''/srv/uploads/a.mp4'' (Some ''/srv/uploads/temp-17.srt'') JUndef
      ''/srv/uploads/processed-17-4.mp4'') ?s =
      (Inr (), ?s\<lparr>fs_files := (fs_files ?s)(''/srv/uploads/processed-17-4.mp4'' \<mapsto> ''12345'')\<rparr>)"
    by (simp add: copy_ffmpeg_def process_job_def Let_def clip_fs_def)
  have "path_exists (getFilePath srv_storage ''a.mp4'') clip_fs"
    by (simp add: srv_paths path_exists_def clip_fs_def)
  from process_temp_removed [where name = "''a.mp4''" and subs = ?subs and speed = JUndef and now = 17 and rnd = 4
      and env = None and F = copy_ffmpeg, OF _ this _ _ refl refl, unfolded srv_paths, OF _ _ _ run]
  show ?thesis by (simp add: job_reply_def api_url_def)
qed

end
