(* ===== verification/Client_Editor.thy ===== *)
theory Client_Editor
  imports Client_Projects Video_Edit
begin

text \<open>
  The editor of the video editor's frontend: \<open>App.tsx\<close>, \<open>EditPanel.tsx\<close>,
  \<open>SubtitleEditor.tsx\<close>, \<open>VideoPlayer.tsx\<close>, \<open>Timeline.tsx\<close> and \<open>VideoUpload.tsx\<close>.  The states of
  the components are records and their handlers functions on them; what they show is in \<open>Client_Panels\<close> and \<open>Client_Player\<close>.
  An alert is recorded.  The handlers can be run against the edit routes of \<open>Video_Edit\<close>.
\<close>

section \<open>Definitions\<close>

subsection \<open>\<open>App\<close>\<close>

record app =
  ap_video :: "video_info option"
  ap_currentTime :: rat
  ap_duration :: rat
  ap_processedVideos :: "ProcessingResult list"

definition handleVideoUploaded :: "video_info \<Rightarrow> app \<Rightarrow> app" where
  "handleVideoUploaded uploadedVideo a =
     a\<lparr>ap_video := Some uploadedVideo, ap_currentTime := 0, ap_duration := 0, ap_processedVideos := []\<rparr>"

definition handleTrimComplete :: "ProcessingResult \<Rightarrow> app \<Rightarrow> app" where
  "handleTrimComplete r a =
     a\<lparr>ap_processedVideos := [r],
       ap_video := Some \<lparr>vi_url = pr_url r, vi_path = pr_path r, vi_filename = pr_filename r,
         vi_originalName = ''Trimmed - '' @ or_else (map_option vi_originalName (ap_video a)) ''video'',
         vi_size = pr_size r, vi_mimetype = ''video/mp4'',
         vi_duration = (case pr_duration r of JNum (Fin d) \<Rightarrow> Some d | _ \<Rightarrow> None)\<rparr>\<rparr>"

definition handleSplitComplete :: "ProcessingResult list \<Rightarrow> app \<Rightarrow> app" where
  "handleSplitComplete results a = a\<lparr>ap_processedVideos := results\<rparr>"

definition handleProjectLoad :: "vproject \<Rightarrow> app \<Rightarrow> app" where
  "handleProjectLoad p a =
     a\<lparr>ap_video := Some \<lparr>vi_url = vp_video_url p, vi_path = [], vi_filename = vp_video_filename p,
         vi_originalName = vp_name p, vi_size = 0, vi_mimetype = ''video/mp4'', vi_duration = None\<rparr>,
       ap_processedVideos := []\<rparr>"

subsection \<open>\<open>VideoUpload\<close>\<close>

text \<open>The chosen file with its type; the upload gives a result or \<open>null\<close>.\<close>

definition handleFile ::
    "string \<Rightarrow> (form_file \<Rightarrow> 's \<Rightarrow> video_info option \<times> 's) \<Rightarrow> form_file \<Rightarrow> string list \<times> 's \<times> app \<Rightarrow> string list \<times> 's \<times> app" where
  "handleFile apiUrl uploadVideo f st = (case st of (alerts, s, a) \<Rightarrow>
     if \<not> startsWith (ff_mimetype f) ''video/'' then (alerts @ [''Please select a video file''], s, a)
     else case uploadVideo f s of
            (None, s') \<Rightarrow> (alerts, s', a)
          | (Some r, s') \<Rightarrow> (alerts, s', handleVideoUploaded (r\<lparr>vi_url := apiUrl @ vi_url r\<rparr>) a))"

subsection \<open>\<open>SubtitleEditor\<close>\<close>

record ui_subtitle =
  su_id :: string
  su_text :: string
  su_startTime :: rat
  su_duration :: rat

record subtitle_editor =
  se_editingId :: "string option"
  se_newSubText :: string
  se_newSubStart :: rat
  se_newSubDuration :: rat
  se_subtitles :: "ui_subtitle list"
  se_alerts :: "string list"

text \<open>The list is the state of the parent component.\<close>

definition handleAdd :: "nat \<Rightarrow> rat \<Rightarrow> subtitle_editor \<Rightarrow> subtitle_editor" where
  "handleAdd now currentTime E =
     (if trim (se_newSubText E) = [] then E\<lparr>se_alerts := se_alerts E @ [''Please enter subtitle text'']\<rparr>
      else E\<lparr>se_subtitles := sort_by (order_asc su_startTime) (se_subtitles E @
               [\<lparr>su_id = ''sub-'' @ show_nat now, su_text = trim (se_newSubText E), su_startTime = se_newSubStart E,
                 su_duration = se_newSubDuration E\<rparr>]),
             se_newSubText := [], se_newSubStart := currentTime\<rparr>)"

definition handleRemove :: "string \<Rightarrow> subtitle_editor \<Rightarrow> subtitle_editor" where
  "handleRemove sid E = E\<lparr>se_subtitles := filter (\<lambda>sub. su_id sub \<noteq> sid) (se_subtitles E)\<rparr>"

text \<open>The component passes a new text and nothing else.\<close>

definition handleEdit :: "string \<Rightarrow> string \<Rightarrow> subtitle_editor \<Rightarrow> subtitle_editor" where
  "handleEdit sid new_text E =
     E\<lparr>se_subtitles := map (\<lambda>sub. if su_id sub = sid then sub\<lparr>su_text := new_text\<rparr> else sub) (se_subtitles E),
       se_editingId := None\<rparr>"

definition setStartToCurrent :: "rat \<Rightarrow> subtitle_editor \<Rightarrow> subtitle_editor" where
  "setStartToCurrent currentTime E = E\<lparr>se_newSubStart := currentTime\<rparr>"

subsection \<open>\<open>EditPanel\<close>\<close>

datatype edit_mode = ModeTrim | ModeSplit | ModeSubtitle

record 's edit_panel =
  ep_mode :: edit_mode
  ep_trimStart :: rat
  ep_trimEnd :: rat
  ep_splitTime :: rat
  ep_subtitles :: "ui_subtitle list"
  ep_speed :: rat
  ep_processingSubtitle :: bool
  ep_subtitleError :: "string option"
  ep_alerts :: "string list"
  ep_hook :: "'s hook"

definition on_duration :: "rat \<Rightarrow> 's edit_panel \<Rightarrow> 's edit_panel" where
  "on_duration duration P = (if 0 < duration then P\<lparr>ep_trimEnd := duration, ep_splitTime := js_div duration 2\<rparr> else P)"

definition panel_formatTime :: "rat \<Rightarrow> string" where
  "panel_formatTime seconds =
     (let mins = \<lfloor>seconds\<rfloor>; secs = \<lfloor>js_mul (js_mod seconds 1) 60\<rfloor>
      in show_int mins @ '':'' @ padStart 2 CHR ''0'' (show_int secs))"

definition handleTrim ::
    "string \<Rightarrow> (TrimParams, 's, ProcessingResult) fetch \<Rightarrow> video_info \<Rightarrow> 's edit_panel \<times> app \<Rightarrow> 's edit_panel \<times> app" where
  "handleTrim API_URL fetch video st = (case st of (P, a) \<Rightarrow>
     if ep_trimEnd P \<le> ep_trimStart P
     then (P\<lparr>ep_alerts := ep_alerts P @ [''End time must be greater than start time'']\<rparr>, a)
     else case useVideoEdit_trimVideo API_URL fetch
                 \<lparr>tp_filename = vi_filename video, tp_startTime = ep_trimStart P, tp_endTime = ep_trimEnd P\<rparr> (ep_hook P) of
            (None, h) \<Rightarrow> (P\<lparr>ep_hook := h\<rparr>, a)
          | (Some result, h) \<Rightarrow> (P\<lparr>ep_hook := h\<rparr>, handleTrimComplete result a))"

definition handleSplit ::
    "string \<Rightarrow> (SplitParams, 's, ProcessingResult list) fetch \<Rightarrow> video_info \<Rightarrow> rat \<Rightarrow> 's edit_panel \<times> app \<Rightarrow> 's edit_panel \<times> app" where
  "handleSplit API_URL fetch video duration st = (case st of (P, a) \<Rightarrow>
     if ep_splitTime P \<le> 0 \<or> duration \<le> ep_splitTime P
     then (P\<lparr>ep_alerts := ep_alerts P @ [''Split time must be between 0 and video duration'']\<rparr>, a)
     else case useVideoEdit_splitVideo API_URL fetch
                 \<lparr>sp_filename = vi_filename video, sp_splitTime = ep_splitTime P\<rparr> (ep_hook P) of
            (None, h) \<Rightarrow> (P\<lparr>ep_hook := h\<rparr>, a)
          | (Some parts, h) \<Rightarrow> (P\<lparr>ep_hook := h\<rparr>, handleSplitComplete parts a))"

record process_params =
  qp_filename :: string
  qp_subtitles :: "ui_subtitle list option"
  qp_speed :: "rat option"

text \<open>The request of this handler is its own, not one of a hook; its state is that of the panel.\<close>

definition handleProcess ::
    "string \<Rightarrow> (process_params, 's, ProcessingResult) fetch \<Rightarrow> video_info \<Rightarrow> 's edit_panel \<times> app \<Rightarrow> 's edit_panel \<times> app" where
  "handleProcess API_URL fetch video st = (case st of (P, a) \<Rightarrow>
     if ep_subtitles P = [] \<and> ep_speed P = 1
     then (P\<lparr>ep_alerts := ep_alerts P @ [''Add at least one subtitle or change speed'']\<rparr>, a)
     else case request True ''Processing failed'' (fetch ''POST'' (API_URL @ ''/api/edit/process'')
                 (Some \<lparr>qp_filename = vi_filename video,
                        qp_subtitles = (if ep_subtitles P \<noteq> [] then Some (ep_subtitles P) else None),
                        qp_speed = (if ep_speed P \<noteq> 1 then Some (ep_speed P) else None)\<rparr>))
                 \<lparr>hk_loading = ep_processingSubtitle P, hk_error = ep_subtitleError P, hk_world = hk_world (ep_hook P)\<rparr> of
            (None, h) \<Rightarrow> (P\<lparr>ep_processingSubtitle := hk_loading h, ep_subtitleError := hk_error h,
                ep_hook := (ep_hook P)\<lparr>hk_world := hk_world h\<rparr>\<rparr>, a)
          | (Some result, h) \<Rightarrow>
              (P\<lparr>ep_processingSubtitle := hk_loading h, ep_subtitleError := hk_error h,
                 ep_hook := (ep_hook P)\<lparr>hk_world := hk_world h\<rparr>, ep_subtitles := [], ep_speed := 1\<rparr>,
               handleTrimComplete result a))"

subsection \<open>\<open>VideoPlayer\<close> and \<open>Timeline\<close>\<close>

record player_state =
  pl_playing :: bool
  pl_currentTime :: rat
  pl_duration :: rat
  pl_volume :: rat
  pl_muted :: bool

record video_element =
  ve_playing :: bool
  ve_currentTime :: rat
  ve_duration :: rat
  ve_volume :: rat
  ve_muted :: bool

definition player_timeupdate :: "video_element \<Rightarrow> player_state \<times> app \<Rightarrow> player_state \<times> app" where
  "player_timeupdate v st = (case st of (p, a) \<Rightarrow> (p\<lparr>pl_currentTime := ve_currentTime v\<rparr>, a\<lparr>ap_currentTime := ve_currentTime v\<rparr>))"

definition player_durationchange :: "video_element \<Rightarrow> player_state \<times> app \<Rightarrow> player_state \<times> app" where
  "player_durationchange v st = (case st of (p, a) \<Rightarrow> (p\<lparr>pl_duration := ve_duration v\<rparr>, a\<lparr>ap_duration := ve_duration v\<rparr>))"

definition togglePlay :: "player_state \<Rightarrow> video_element \<Rightarrow> video_element" where
  "togglePlay p v = (if pl_playing p then v\<lparr>ve_playing := False\<rparr> else v\<lparr>ve_playing := True\<rparr>)"

text \<open>The value of the input, a number.\<close>

definition player_handleSeek :: "rat \<Rightarrow> player_state \<times> video_element \<Rightarrow> player_state \<times> video_element" where
  "player_handleSeek time st = (case st of (p, v) \<Rightarrow> (p\<lparr>pl_currentTime := time\<rparr>, v\<lparr>ve_currentTime := time\<rparr>))"

definition handleVolumeChange :: "rat \<Rightarrow> player_state \<times> video_element \<Rightarrow> player_state \<times> video_element" where
  "handleVolumeChange volume st =
     (case st of (p, v) \<Rightarrow> (p\<lparr>pl_volume := volume, pl_muted := (volume = 0)\<rparr>, v\<lparr>ve_volume := volume\<rparr>))"

definition toggleMute :: "player_state \<times> video_element \<Rightarrow> player_state \<times> video_element" where
  "toggleMute st = (case st of (p, v) \<Rightarrow>
     (let newMuted = (\<not> pl_muted p) in (p\<lparr>pl_muted := newMuted\<rparr>, v\<lparr>ve_muted := newMuted\<rparr>)))"

definition player_formatTime :: "rat \<Rightarrow> string" where
  "player_formatTime seconds =
     (let mins = \<lfloor>js_div seconds 60\<rfloor>; secs = \<lfloor>js_mod seconds 60\<rfloor>
      in show_int mins @ '':'' @ padStart 2 CHR ''0'' (show_int secs))"

definition seekTo :: "rat \<Rightarrow> video_element \<Rightarrow> video_element" where
  "seekTo time v = v\<lparr>ve_currentTime := time\<rparr>"

text \<open>A click on the time line, at \<open>x\<close> of \<open>width\<close> pixels: the time to seek to, if any.\<close>

definition timeline_handleClick :: "rat \<Rightarrow> rat \<Rightarrow> rat \<Rightarrow> rat option" where
  "timeline_handleClick duration x width =
     (if duration \<le> 0 then None
      else Some (max 0 (min duration (js_mul (js_div x width) duration))))"

section \<open>The backend behind the panel\<close>

text \<open>The route \<open>POST /api/edit/trim\<close>.\<close>

definition trim_api ::
    "string option \<Rightarrow> 'z fs_scheme ffmpeg \<Rightarrow> StorageService \<Rightarrow> nat \<Rightarrow> nat \<Rightarrow> (TrimParams, 'z fs_scheme, ProcessingResult) fetch" where
  "trim_api env F S now rnd meth url body = serve (case body of
       None \<Rightarrow> post_trim env F S now rnd Undefined JUndef JUndef
     | Some p \<Rightarrow> post_trim env F S now rnd (Value (tp_filename p)) (lit (tp_startTime p)) (lit (tp_endTime p)))"

section \<open>Properties\<close>

subsection \<open>Trimming from the panel\<close>

text \<open>C20: Trimming in the editor.  A range whose end is not after its start is refused in the panel and
  nothing is requested.  Otherwise the backend does not refuse the range: if the file exists and
  FFmpeg writes its output, the editor shows the trimmed video under the name and address the
  backend gave it; if not, the video stays and the panel shows the backend's message.\<close>

theorem trim_in_editor:
  assumes "is_double (ep_trimStart P)" and "is_double (ep_trimEnd P)" and "0 \<le> ep_trimStart P" and "vi_filename v \<noteq> []"
  shows "let s = hk_world (ep_hook P); i = getFilePath S (vi_filename v);
      out = unique_name ''trim-'' now rnd (path_extname i); p = getFilePath S out;
      run = ff_run F (trim_job i (lit (ep_trimStart P)) (JNum (to_jsnum (ep_trimEnd P - ep_trimStart P))) p) s;
      (P', a') = handleTrim API_URL (trim_api env F S now rnd) v (P, a)
    in if ep_trimEnd P \<le> ep_trimStart P then hk_world (ep_hook P') = s \<and> a' = a \<and> ep_alerts P' \<noteq> ep_alerts P
       else if \<not> path_exists i s then a' = a \<and> hk_error (ep_hook P') = Some ''Video file not found''
       else case run of
           (Inl m, s') \<Rightarrow> a' = a \<and> hk_error (ep_hook P') = Some (''FFmpeg trim error: '' @ m)
         | (Inr _, s') \<Rightarrow> hk_world (ep_hook P') = s' \<and>
             (case fs_files s' p of
                None \<Rightarrow> a' = a \<and> hk_error (ep_hook P') = Some ''ENOENT''
              | Some c \<Rightarrow> hk_error (ep_hook P') = None \<and>
                  map_option (\<lambda>w. (vi_filename w, vi_url w, vi_size w)) (ap_video a') =
                    Some (out, api_url env @ ''/videos/'' @ out, length c))"
proof -
  let ?s = "hk_world (ep_hook P)" and ?i = "getFilePath S (vi_filename v)"
  note trim = trim_request [OF assms(1,2,4), of env F S now rnd ?s]
  show ?thesis
    using trim assms(3)
    by (auto simp: handleTrim_def useVideoEdit_trimVideo_def trim_api_def request_def serve_def start_request_def request_failed_def
        http_response_def or_else_def handleTrimComplete_def job_reply_def Let_def split: prod.splits sum.splits option.splits if_splits)
qed

definition clip_info :: video_info where
  "clip_info = \<lparr>vi_url = ''/videos/a.mp4'', vi_path = [], vi_filename = ''a.mp4'', vi_originalName = ''a.mp4'', vi_size = 5,
     vi_mimetype = ''video/mp4'', vi_duration = None\<rparr>"

definition clip_panel :: "fs edit_panel" where
  "clip_panel = \<lparr>ep_mode = ModeTrim, ep_trimStart = 1, ep_trimEnd = 3, ep_splitTime = 5, ep_subtitles = [], ep_speed = 1,
     ep_processingSubtitle = False, ep_subtitleError = None, ep_alerts = [],
     ep_hook = \<lparr>hk_loading = False, hk_error = None, hk_world = clip_fs\<rparr>\<rparr>"

definition clip_app :: app where
  "clip_app = \<lparr>ap_video = Some clip_info, ap_currentTime = 0, ap_duration = 10, ap_processedVideos = []\<rparr>"

theorem trim_in_editor_witness:
  "map_option (\<lambda>w. (vi_filename w, vi_url w, vi_size w))
     (ap_video (snd (handleTrim [] (trim_api None copy_ffmpeg srv_storage 17 4) clip_info (clip_panel, clip_app)))) =
   Some (''trim-17-4.mp4'', ''http://localhost:3001/videos/trim-17-4.mp4'', length ''12345'')"
proof -
  have "is_double (ep_trimStart clip_panel)" "is_double (ep_trimEnd clip_panel)" "0 \<le> ep_trimStart clip_panel"
    "vi_filename clip_info \<noteq> []"
    using is_double_int [of 1] is_double_int [of 3] by (simp_all add: clip_panel_def clip_info_def)
  from trim_in_editor [OF this, of srv_storage 17 4 copy_ffmpeg "[]" None clip_app] show ?thesis
    by (simp add: clip_panel_def clip_info_def srv_paths path_exists_def clip_fs_def Let_def copy_ffmpeg_def trim_job_def
        api_url_def split: prod.splits)
qed

subsection \<open>The list of subtitles\<close>

datatype subtitle_op = TypeText string | SetStart rat | SetDuration rat | Add nat rat | Remove string | EditText string string

definition subtitle_step :: "subtitle_editor \<Rightarrow> subtitle_op \<Rightarrow> subtitle_editor" where
  "subtitle_step E c = (case c of
       TypeText t \<Rightarrow> E\<lparr>se_newSubText := t\<rparr>
     | SetStart q \<Rightarrow> setStartToCurrent q E
     | SetDuration q \<Rightarrow> E\<lparr>se_newSubDuration := q\<rparr>
     | Add now currentTime \<Rightarrow> handleAdd now currentTime E
     | Remove sid \<Rightarrow> handleRemove sid E
     | EditText sid t \<Rightarrow> handleEdit sid t E)"

definition subtitles_sorted :: "subtitle_editor \<Rightarrow> bool" where
  "subtitles_sorted E = sorted_wrt (order_asc su_startTime) (se_subtitles E)"

lemma sorted_wrt_start:
  "sorted_wrt (order_asc su_startTime) (xs :: ui_subtitle list) \<longleftrightarrow> sorted_wrt (\<lambda>x y. su_startTime x \<le> su_startTime y) xs"
proof -
  have "order_asc su_startTime = (\<lambda>x y :: ui_subtitle. su_startTime x \<le> su_startTime y)" by (simp add: order_asc_def fun_eq_iff)
  then show ?thesis by simp
qed

lemma sorted_map_start:
  fixes xs :: "ui_subtitle list" and f :: "ui_subtitle \<Rightarrow> ui_subtitle"
  assumes "\<And>x. su_startTime (f x) = su_startTime x" and "sorted_wrt (order_asc su_startTime) xs"
  shows "sorted_wrt (order_asc su_startTime) (map f xs)"
  using assms by (simp add: sorted_wrt_start sorted_wrt_map order_asc_def)

lemma subtitles_sorted_step: "subtitles_sorted E \<Longrightarrow> subtitles_sorted (subtitle_step E c)"
proof (cases c)
  case (EditText sid t)
  assume "subtitles_sorted E"
  then show ?thesis
    unfolding EditText subtitle_step_def handleEdit_def subtitles_sorted_def by (simp add: sorted_map_start)
qed (auto simp: subtitle_step_def subtitles_sorted_def handleAdd_def handleRemove_def setStartToCurrent_def
    sorted_sort_by intro: sorted_wrt_filter)

interpretation subtitle_list: step_system subtitle_step subtitles_sorted
  by unfold_locales (rule subtitles_sorted_step)

text \<open>What the panel sends of a subtitle.\<close>

definition sent_subtitle :: "ui_subtitle \<Rightarrow> Subtitle" where
  "sent_subtitle u = \<lparr>sub_text = su_text u, sub_startTime = su_startTime u, sub_duration = su_duration u\<rparr>"

text \<open>C28: Whatever is typed, added, removed and edited in the subtitle editor, the list of subtitles stays
  sorted by start time, an added one is in it with its text trimmed and not blank, and the times
  handed to the writer of the subtitle file are in order.\<close>

theorem subtitle_list_sorted:
  assumes "subtitles_sorted E"
  shows "let E' = foldl subtitle_step E cs; E'' = handleAdd now t E'
    in sorted_wrt (\<lambda>x y. sub_startTime x \<le> sub_startTime y) (map sent_subtitle (se_subtitles E')) \<and>
       sorted_wrt (\<lambda>x y. sub_startTime x \<le> sub_startTime y) (map sent_subtitle (se_subtitles E'')) \<and>
       (if trim (se_newSubText E') = [] then se_subtitles E'' = se_subtitles E'
        else mset (se_subtitles E'') = add_mset \<lparr>su_id = ''sub-'' @ show_nat now, su_text = trim (se_newSubText E'),
               su_startTime = se_newSubStart E', su_duration = se_newSubDuration E'\<rparr> (mset (se_subtitles E')))"
proof -
  have s: "subtitles_sorted (foldl subtitle_step E cs)" using assms by (rule subtitle_list.run_inv)
  have s': "subtitles_sorted (handleAdd now t (foldl subtitle_step E cs))"
    using subtitles_sorted_step [OF s, of "Add now t"] by (simp add: subtitle_step_def)
  have "sorted_wrt (\<lambda>x y. sub_startTime x \<le> sub_startTime y) (map sent_subtitle (se_subtitles X))" if "subtitles_sorted X" for X
    using that by (simp add: subtitles_sorted_def sorted_wrt_start sorted_wrt_map sent_subtitle_def)
  from this [OF s] this [OF s'] show ?thesis by (simp add: Let_def handleAdd_def)
qed

definition empty_editor :: subtitle_editor where
  "empty_editor = \<lparr>se_editingId = None, se_newSubText = [], se_newSubStart = 0, se_newSubDuration = 3, se_subtitles = [], se_alerts = []\<rparr>"

theorem subtitle_list_sorted_witness:
  "map sub_startTime (map sent_subtitle (se_subtitles (foldl subtitle_step empty_editor
      [TypeText ''two'', SetStart 5, Add 1 0, TypeText '' one '', SetStart 2, Add 2 0]))) = [2, 5] \<and>
   sorted_wrt (\<lambda>x y. sub_startTime x \<le> sub_startTime y) (map sent_subtitle (se_subtitles (foldl subtitle_step empty_editor
      [TypeText ''two'', SetStart 5, Add 1 0, TypeText '' one '', SetStart 2, Add 2 0])))"
proof -
  have "subtitles_sorted empty_editor" by (simp add: subtitles_sorted_def empty_editor_def)
  from subtitle_list_sorted [OF this, where cs = "[TypeText ''two'', SetStart 5, Add 1 0, TypeText '' one '', SetStart 2, Add 2 0]"]
  have "sorted_wrt (\<lambda>x y. sub_startTime x \<le> sub_startTime y) (map sent_subtitle (se_subtitles (foldl subtitle_step empty_editor
      [TypeText ''two'', SetStart 5, Add 1 0, TypeText '' one '', SetStart 2, Add 2 0])))" by (simp only: Let_def)
  moreover have "map sub_startTime (map sent_subtitle (se_subtitles (foldl subtitle_step empty_editor
      [TypeText ''two'', SetStart 5, Add 1 0, TypeText '' one '', SetStart 2, Add 2 0]))) = [2, 5]" by code_simp
  ultimately show ?thesis by blast
qed

subsection \<open>Further facts\<close>

text \<open>The panel prints ninety seconds as ninety minutes; the player prints a minute and a half.\<close>

lemma panel_time_not_minutes: "panel_formatTime 90 = ''90:00'' \<and> player_formatTime 90 = ''1:30''"
  by code_simp

text \<open>Raising the volume of a muted player: the player shows it as not muted, the element stays muted.\<close>

lemma volume_leaves_muted:
  assumes "q \<noteq> 0" and "\<not> pl_muted p"
  shows "let (p', v') = handleVolumeChange q (toggleMute (p, v)) in \<not> pl_muted p' \<and> ve_muted v'"
  using assms by (simp add: handleVolumeChange_def toggleMute_def Let_def)

text \<open>A click seeks into the video.\<close>

lemma click_within: "timeline_handleClick d x w = Some q \<Longrightarrow> 0 \<le> q \<and> q \<le> d"
  by (auto simp: timeline_handleClick_def split: if_splits)

end
