(* ===== verification/Client_Panels.thy ===== *)
theory Client_Panels
  imports Client_Editor Views
begin

text \<open>
  What the panels of the video editor's frontend show and which handler each control calls:
  \<open>EditPanel.tsx\<close> with \<open>SubtitleEditor.tsx\<close>, \<open>ControlPanel.tsx\<close> (which \<open>App.tsx\<close> does not use) and \<open>ProjectPanel.tsx\<close>, over the
  states and handlers of \<open>Client_Editor\<close> and \<open>Client_Projects\<close>.
\<close>

section \<open>Definitions\<close>

subsection \<open>\<open>ControlPanel\<close>\<close>

record 's control_panel =
  cq_split :: bool
  cq_trimStart :: rat
  cq_trimEnd :: rat
  cq_splitTime :: rat
  cq_alerts :: "string list"
  cq_hook :: "'s hook"

definition control_on_duration :: "rat \<Rightarrow> 's control_panel \<Rightarrow> 's control_panel" where
  "control_on_duration duration C = C\<lparr>cq_trimEnd := duration, cq_splitTime := js_div duration 2\<rparr>"

text \<open>\<open>onTrimComplete\<close> and \<open>onSplitComplete\<close> are given by the caller, or absent.\<close>

definition control_handleTrim ::
    "string \<Rightarrow> (TrimParams, 's, ProcessingResult) fetch \<Rightarrow> (ProcessingResult \<Rightarrow> 'a \<Rightarrow> 'a) option \<Rightarrow> video_info
      \<Rightarrow> 's control_panel \<times> 'a \<Rightarrow> 's control_panel \<times> 'a" where
  "control_handleTrim API_URL fetch onTrimComplete video st = (case st of (C, a) \<Rightarrow>
     if cq_trimEnd C \<le> cq_trimStart C
     then (C\<lparr>cq_alerts := cq_alerts C @ [''End time must be greater than start time'']\<rparr>, a)
     else case useVideoEdit_trimVideo API_URL fetch
                 \<lparr>tp_filename = vi_filename video, tp_startTime = cq_trimStart C, tp_endTime = cq_trimEnd C\<rparr> (cq_hook C) of
            (None, h) \<Rightarrow> (C\<lparr>cq_hook := h\<rparr>, a)
          | (Some result, h) \<Rightarrow> (C\<lparr>cq_hook := h\<rparr>, case onTrimComplete of None \<Rightarrow> a | Some f \<Rightarrow> f result a))"

definition control_handleSplit ::
    "string \<Rightarrow> (SplitParams, 's, ProcessingResult list) fetch \<Rightarrow> (ProcessingResult list \<Rightarrow> 'a \<Rightarrow> 'a) option \<Rightarrow> video_info \<Rightarrow> rat
      \<Rightarrow> 's control_panel \<times> 'a \<Rightarrow> 's control_panel \<times> 'a" where
  "control_handleSplit API_URL fetch onSplitComplete video duration st = (case st of (C, a) \<Rightarrow>
     if cq_splitTime C \<le> 0 \<or> duration \<le> cq_splitTime C
     then (C\<lparr>cq_alerts := cq_alerts C @ [''Split time must be between 0 and video duration'']\<rparr>, a)
     else case useVideoEdit_splitVideo API_URL fetch
                 \<lparr>sp_filename = vi_filename video, sp_splitTime = cq_splitTime C\<rparr> (cq_hook C) of
            (None, h) \<Rightarrow> (C\<lparr>cq_hook := h\<rparr>, a)
          | (Some parts, h) \<Rightarrow> (C\<lparr>cq_hook := h\<rparr>, case onSplitComplete of None \<Rightarrow> a | Some f \<Rightarrow> f parts a))"

text \<open>The clicks of both panels; an input of type \<open>range\<close> can be moved to a value.\<close>

datatype panel_click =
    SetMode edit_mode
  | TrimStartCurrent
  | TrimEndCurrent
  | SplitCurrent
  | DoTrim
  | DoSplit
  | DoProcess
  | SpeedReset
  | SubtitleNow
  | SubtitleAdd
  | SubtitleEdit string
  | SubtitleDone
  | SubtitleRemove string
  | SaveProject
  | ShowSave bool
  | LoadProject vproject
  | DeleteProject int

type_synonym panel_view = "panel_click html"

text \<open>\<open>num\<close> is \<open>String\<close> on numbers.\<close>

definition range_row :: "(rat \<Rightarrow> string) \<Rightarrow> string \<Rightarrow> rat \<Rightarrow> panel_click \<Rightarrow> panel_view" where
  "range_row num label value cur = Group [Words (label @ panel_formatTime value), Entry [] (num value), Push ''Current'' True (Some cur)]"

definition ControlPanel_view :: "(rat \<Rightarrow> string) \<Rightarrow> rat \<Rightarrow> 's control_panel \<Rightarrow> panel_view" where
  "ControlPanel_view num duration C =
     (let processing = hk_loading (cq_hook C)
      in Group ([Words ''Video Editing'', Push ''Trim'' True (Some (SetMode ModeTrim)), Push ''Split'' True (Some (SetMode ModeSplit))] @
        only_if (\<not> cq_split C)
          [range_row num ''Start Time: '' (cq_trimStart C) TrimStartCurrent, range_row num ''End Time: '' (cq_trimEnd C) TrimEndCurrent,
           Words (''Output duration: '' @ panel_formatTime (js_sub (cq_trimEnd C) (cq_trimStart C))),
           Push (if processing then ''Processing...'' else ''Trim Video'') (\<not> (processing \<or> cq_trimEnd C \<le> cq_trimStart C)) (Some DoTrim)] @
        only_if (cq_split C)
          [range_row num ''Split At: '' (cq_splitTime C) SplitCurrent,
           Words (''Part 1: 0:00 - '' @ panel_formatTime (cq_splitTime C) @ '' ('' @ panel_formatTime (cq_splitTime C) @ '')''),
           Words (''Part 2: '' @ panel_formatTime (cq_splitTime C) @ '' - '' @ panel_formatTime duration @ '' ('' @
             panel_formatTime (js_sub duration (cq_splitTime C)) @ '')''),
           Push (if processing then ''Processing...'' else ''Split Video'')
             (\<not> (processing \<or> cq_splitTime C \<le> 0 \<or> duration \<le> cq_splitTime C)) (Some DoSplit)] @
        (case hk_error (cq_hook C) of None \<Rightarrow> [] | Some e \<Rightarrow> only_if (truthy e) [Words e]) @
        only_if processing [Words ''Processing video... This may take a few seconds.'']))"

subsection \<open>\<open>SubtitleEditor\<close>\<close>

definition plural_s :: "nat \<Rightarrow> string" where
  "plural_s n = (if n \<noteq> 1 then ''s'' else [])"

text \<open>\<open>fixed1\<close> is \<open>toFixed(1)\<close>.\<close>

definition SubtitleEditor_view :: "(rat \<Rightarrow> string) \<Rightarrow> (rat \<Rightarrow> string) \<Rightarrow> subtitle_editor \<Rightarrow> panel_view" where
  "SubtitleEditor_view num fixed1 E =
     Group ([Words ''Subtitles'', Entry ''Text'' (se_newSubText E),
        Words (''Start: '' @ panel_formatTime (se_newSubStart E)), Entry [] (fixed1 (se_newSubStart E)), Push ''Now'' True (Some SubtitleNow),
        Words (''Duration: '' @ num (se_newSubDuration E) @ ''s''), Entry [] (num (se_newSubDuration E)),
        Push ''+ Add Subtitle'' True (Some SubtitleAdd)] @
       only_if (se_subtitles E \<noteq> [])
         (Words (show_nat (length (se_subtitles E)) @ '' subtitle'' @ plural_s (length (se_subtitles E))) #
          map (\<lambda>s. if se_editingId E = Some (su_id s)
                   then Group [Entry [] (su_text s), Push ''Done'' True (Some SubtitleDone)]
                   else Group [Words (su_text s), Words (panel_formatTime (su_startTime s) @ '' - '' @
                          panel_formatTime (js_add (su_startTime s) (su_duration s)) @ '' ('' @ num (su_duration s) @ ''s)''),
                          Push ''Edit'' True (Some (SubtitleEdit (su_id s))), Push ''Remove'' True (Some (SubtitleRemove (su_id s)))])
              (se_subtitles E)))"

subsection \<open>\<open>EditPanel\<close>\<close>

text \<open>The subtitle editor is drawn inside the panel, on the panel's list.\<close>

definition speed_controls :: "(rat \<Rightarrow> string) \<Rightarrow> (rat \<Rightarrow> string) \<Rightarrow> subtitle_editor \<Rightarrow> 's edit_panel \<Rightarrow> panel_view list" where
  "speed_controls num fixed1 E P =
     [Words (''Playback Speed: '' @ num (ep_speed P) @ ''x''), Entry [] (num (ep_speed P)), Push ''Reset'' True (Some SpeedReset),
      Words (if ep_speed P < 1 then ''Slower'' else if 1 < ep_speed P then ''Faster'' else ''Normal''),
      SubtitleEditor_view num fixed1 (E\<lparr>se_subtitles := ep_subtitles P\<rparr>),
      Push (if ep_processingSubtitle P then ''Processing...'' else ''Apply Changes'') (\<not> ep_processingSubtitle P) (Some DoProcess)]"

text \<open>\<open>error || subtitleError\<close>: the first of the two that is not empty.\<close>

definition panel_error :: "string option \<Rightarrow> string option \<Rightarrow> panel_view list" where
  "panel_error e e' = (case filter truthy (map the (filter (\<lambda>x. x \<noteq> None) [e, e'])) of [] \<Rightarrow> [] | m # _ \<Rightarrow> [Words m])"

definition EditPanel_view :: "(rat \<Rightarrow> string) \<Rightarrow> (rat \<Rightarrow> string) \<Rightarrow> subtitle_editor \<Rightarrow> 's edit_panel \<Rightarrow> panel_view" where
  "EditPanel_view num fixed1 E P =
     (let processing = hk_loading (ep_hook P)
      in Group ([Words ''Video Editing'', Push ''Trim'' True (Some (SetMode ModeTrim)), Push ''Split'' True (Some (SetMode ModeSplit)),
          Push ''Subtitle/Speed'' True (Some (SetMode ModeSubtitle))] @
        only_if (ep_mode P = ModeTrim)
          [range_row num ''Start: '' (ep_trimStart P) TrimStartCurrent, range_row num ''End: '' (ep_trimEnd P) TrimEndCurrent,
           Push (if processing then ''Processing...'' else ''Trim Video'') (\<not> processing) (Some DoTrim)] @
        only_if (ep_mode P = ModeSplit)
          [range_row num ''Split At: '' (ep_splitTime P) SplitCurrent,
           Push (if processing then ''Processing...'' else ''Split Video'') (\<not> processing) (Some DoSplit)] @
        only_if (ep_mode P = ModeSubtitle) (speed_controls num fixed1 E P) @
        panel_error (hk_error (ep_hook P)) (ep_subtitleError P)))"

text \<open>What a click on a control of the panel does to it; the subtitle editor's own clicks are in
  \<open>Client_Editor\<close>.\<close>

definition edit_click ::
    "string \<Rightarrow> (TrimParams, 's, ProcessingResult) fetch \<Rightarrow> (SplitParams, 's, ProcessingResult list) fetch
      \<Rightarrow> (process_params, 's, ProcessingResult) fetch \<Rightarrow> video_info \<Rightarrow> rat \<Rightarrow> rat \<Rightarrow> panel_click
      \<Rightarrow> 's edit_panel \<times> app \<Rightarrow> 's edit_panel \<times> app" where
  "edit_click api tf sf pf video duration currentTime c st = (case st of (P, a) \<Rightarrow>
     case c of
       SetMode m \<Rightarrow> (P\<lparr>ep_mode := m\<rparr>, a)
     | TrimStartCurrent \<Rightarrow> (P\<lparr>ep_trimStart := currentTime\<rparr>, a)
     | TrimEndCurrent \<Rightarrow> (P\<lparr>ep_trimEnd := currentTime\<rparr>, a)
     | SplitCurrent \<Rightarrow> (P\<lparr>ep_splitTime := currentTime\<rparr>, a)
     | SpeedReset \<Rightarrow> (P\<lparr>ep_speed := 1\<rparr>, a)
     | DoTrim \<Rightarrow> handleTrim api tf video (P, a)
     | DoSplit \<Rightarrow> handleSplit api sf video duration (P, a)
     | DoProcess \<Rightarrow> handleProcess api pf video (P, a)
     | _ \<Rightarrow> (P, a))"

definition control_click ::
    "string \<Rightarrow> (TrimParams, 's, ProcessingResult) fetch \<Rightarrow> (SplitParams, 's, ProcessingResult list) fetch
      \<Rightarrow> (ProcessingResult \<Rightarrow> 'a \<Rightarrow> 'a) option \<Rightarrow> (ProcessingResult list \<Rightarrow> 'a \<Rightarrow> 'a) option
      \<Rightarrow> video_info \<Rightarrow> rat \<Rightarrow> rat \<Rightarrow> panel_click \<Rightarrow> 's control_panel \<times> 'a \<Rightarrow> 's control_panel \<times> 'a" where
  "control_click api tf sf onTrim onSplit video duration currentTime c st = (case st of (C, a) \<Rightarrow>
     case c of
       SetMode m \<Rightarrow> (C\<lparr>cq_split := (m = ModeSplit)\<rparr>, a)
     | TrimStartCurrent \<Rightarrow> (C\<lparr>cq_trimStart := currentTime\<rparr>, a)
     | TrimEndCurrent \<Rightarrow> (C\<lparr>cq_trimEnd := currentTime\<rparr>, a)
     | SplitCurrent \<Rightarrow> (C\<lparr>cq_splitTime := currentTime\<rparr>, a)
     | DoTrim \<Rightarrow> control_handleTrim api tf onTrim video (C, a)
     | DoSplit \<Rightarrow> control_handleSplit api sf onSplit video duration (C, a)
     | _ \<Rightarrow> (C, a))"

subsection \<open>\<open>ProjectPanel\<close> and \<open>App\<close>\<close>

text \<open>\<open>date\<close> is \<open>toLocaleDateString\<close> on a time of the database.\<close>

definition ProjectPanel_view :: "(int \<Rightarrow> string) \<Rightarrow> video_info option \<Rightarrow> ('s, vproject) project_panel \<Rightarrow> panel_view" where
  "ProjectPanel_view date video P =
     Group ([Words ''Projects''] @
       only_if (video \<noteq> None)
         (if \<not> pp_showSaveForm P then [Push ''Save Project'' True (Some (ShowSave True))]
          else [Entry ''Project name...'' (pp_projectName P), Push ''Save'' (\<not> hk_loading (pp_hook P)) (Some SaveProject),
                Push ''Cancel'' True (Some (ShowSave False))]) @
       [Words (show_nat (length (pp_projects P)) @ '' saved project'' @ plural_s (length (pp_projects P)))] @
       (if pp_projects P \<noteq> []
        then map (\<lambda>p. Group ([Words (vp_name p)] @
               (case vp_description p of None \<Rightarrow> [] | Some t \<Rightarrow> only_if (truthy t) [Words t]) @
               [Words (date (vp_created_at p)), Push ''Load'' True (Some (LoadProject p)), Push ''Delete'' True (Some (DeleteProject (vp_id p)))]))
             (pp_projects P)
        else [Words ''No saved projects yet'']))"

section \<open>Clicks\<close>

text \<open>The two panels send the same requests and report the same results.\<close>

lemma control_trim_same:
  assumes "cq_trimStart C = ep_trimStart P" and "cq_trimEnd C = ep_trimEnd P" and "cq_hook C = ep_hook P"
  shows "snd (control_handleTrim api tf (Some handleTrimComplete) video (C, a)) = snd (handleTrim api tf video (P, a)) \<and>
    cq_hook (fst (control_handleTrim api tf (Some handleTrimComplete) video (C, a))) = ep_hook (fst (handleTrim api tf video (P, a)))"
  using assms by (simp add: control_handleTrim_def handleTrim_def split: prod.split option.split)

lemma control_split_same:
  assumes "cq_splitTime C = ep_splitTime P" and "cq_hook C = ep_hook P"
  shows "snd (control_handleSplit api sf (Some handleSplitComplete) video d (C, a)) = snd (handleSplit api sf video d (P, a)) \<and>
    cq_hook (fst (control_handleSplit api sf (Some handleSplitComplete) video d (C, a))) = ep_hook (fst (handleSplit api sf video d (P, a)))"
  using assms by (simp add: control_handleSplit_def handleSplit_def split: prod.split option.split)

text \<open>A button of \<open>ControlPanel\<close> that can be pressed never ends in an alert; those of \<open>EditPanel\<close> can, since they are
  disabled during a request only.\<close>

lemma control_never_alerts:
  assumes "c \<in> set (clicks (ControlPanel_view num duration C))"
  shows "cq_alerts (fst (control_click api tf sf onTrim onSplit video duration t c (C, a))) = cq_alerts C"
proof -
  let ?busy = "hk_loading (cq_hook C)"
  have "c \<in> {SetMode ModeTrim, SetMode ModeSplit, TrimStartCurrent, TrimEndCurrent, SplitCurrent} \<or>
      c = DoTrim \<and> \<not> cq_trimEnd C \<le> cq_trimStart C \<or>
      c = DoSplit \<and> \<not> (cq_splitTime C \<le> 0 \<or> duration \<le> cq_splitTime C)"
    using assms by (cases "hk_error (cq_hook C)"; cases "cq_split C"; cases ?busy; cases "cq_trimEnd C \<le> cq_trimStart C";
        cases "cq_splitTime C \<le> 0"; cases "duration \<le> cq_splitTime C")
      (simp_all add: ControlPanel_view_def range_row_def only_if_def Let_def, (elim disjE; simp)+)
  then show ?thesis
    by (auto simp: control_click_def control_handleTrim_def control_handleSplit_def split: prod.split option.split)
qed

lemma edit_panel_alerts:
  assumes "ep_mode P = ModeTrim" and "\<not> hk_loading (ep_hook P)" and "ep_trimEnd P \<le> ep_trimStart P"
  shows "DoTrim \<in> set (clicks (EditPanel_view num fixed1 E P))"
    and "ep_alerts (fst (edit_click api tf sf pf video d t DoTrim (P, a))) =
      ep_alerts P @ [''End time must be greater than start time'']"
  using assms by (simp_all add: EditPanel_view_def edit_click_def handleTrim_def only_if_def)

end
