(* ===== verification/Video_Realtime.thy ===== *)
theory Video_Realtime
  imports Video_Storage
begin

text \<open>
  The real-time part of the video editor's backend (\<open>ws/websocket.service.ts\<close>).

  The WebSocket library is seen through the events it emits and the \<open>readyState\<close> of its
  sockets; the handlers of the service are functions on the state of the service, and the
  relation \<open>ws_step\<close> says which event can happen when.  Every frame is kept as the message whose
  JSON text it carries.
\<close>

section \<open>WebSocket service\<close>

datatype readyState = CONNECTING | OPEN | CLOSING | CLOSED

record ProgressData =
  pd_operationId :: string
  pd_operation :: string
  pd_progress :: jsnum
  pd_message :: "string option"

datatype 'r ws_data =
    Welcome string string
  | Timestamp nat
  | ProgressOf ProgressData
  | ResultOf string 'r
  | ErrorOf string string

record 'r WSMessage =
  ws_type :: string
  ws_payload :: "'r ws_data"

text \<open>\<open>clients\<close> is the map of the service in insertion order, \<open>sockets\<close> the ready state of every
  socket the server has accepted, \<open>outbox\<close> what was sent on it, and \<open>owner\<close> the client
  identifier its event handlers have captured.\<close>

record 'r ws_state =
  clients :: "(string \<times> nat) list"
  sockets :: "nat \<rightharpoonup> readyState"
  outbox :: "nat \<Rightarrow> 'r WSMessage list"
  owner :: "nat \<rightharpoonup> string"
  pinging :: bool
  listening :: bool

text \<open>\<open>ws.send\<close>, and the method of the service that calls it on an open socket only.\<close>

definition ws_put :: "nat \<Rightarrow> 'r WSMessage \<Rightarrow> 'r ws_state \<Rightarrow> 'r ws_state" where
  "ws_put ws m s = s\<lparr>outbox := (outbox s)(ws := outbox s ws @ [m])\<rparr>"

definition ws_send :: "nat \<Rightarrow> 'r WSMessage \<Rightarrow> 'r ws_state \<Rightarrow> 'r ws_state" where
  "ws_send ws m s = (if sockets s ws = Some OPEN then ws_put ws m s else s)"

definition on_connection :: "string \<Rightarrow> nat \<Rightarrow> 'r ws_state \<Rightarrow> 'r ws_state" where
  "on_connection clientId ws s =
     ws_send ws \<lparr>ws_type = ''ping'', ws_payload = Welcome clientId ''Connected to VrewCraft WebSocket''\<rparr>
       (s\<lparr>clients := map_set clientId ws (clients s)\<rparr>)"

definition handleMessage :: "nat \<Rightarrow> nat \<Rightarrow> string \<Rightarrow> 'r ws_state \<Rightarrow> 'r ws_state" where
  "handleMessage now ws type_of_message s =
     (if type_of_message = ''ping'' then ws_send ws \<lparr>ws_type = ''pong'', ws_payload = Timestamp now\<rparr> s
      else s)"

text \<open>The type of a message is read off its text by \<open>JSON.parse\<close>; a text that does not parse is
  logged.\<close>

definition on_message :: "(string \<Rightarrow> string option) \<Rightarrow> nat \<Rightarrow> nat \<Rightarrow> string \<Rightarrow> 'r ws_state \<Rightarrow> 'r ws_state" where
  "on_message parse_type now ws frame s =
     (case parse_type frame of None \<Rightarrow> s | Some t \<Rightarrow> handleMessage now ws t s)"

definition on_close :: "string \<Rightarrow> 'r ws_state \<Rightarrow> 'r ws_state" where
  "on_close clientId s = s\<lparr>clients := map_remove clientId (clients s)\<rparr>"

definition on_error :: "string \<Rightarrow> 'r ws_state \<Rightarrow> 'r ws_state" where
  "on_error clientId s = s\<lparr>clients := map_remove clientId (clients s)\<rparr>"

definition broadcast :: "'r WSMessage \<Rightarrow> 'r ws_state \<Rightarrow> 'r ws_state" where
  "broadcast m s = foldl (\<lambda>s (c, ws). if sockets s ws = Some OPEN then ws_put ws m s else s) s (clients s)"

definition broadcastProgress :: "ProgressData \<Rightarrow> 'r ws_state \<Rightarrow> 'r ws_state" where
  "broadcastProgress d = broadcast \<lparr>ws_type = ''progress'', ws_payload = ProgressOf d\<rparr>"

definition broadcastComplete :: "string \<Rightarrow> 'r \<Rightarrow> 'r ws_state \<Rightarrow> 'r ws_state" where
  "broadcastComplete operationId r = broadcast \<lparr>ws_type = ''complete'', ws_payload = ResultOf operationId r\<rparr>"

definition broadcastError :: "string \<Rightarrow> string \<Rightarrow> 'r ws_state \<Rightarrow> 'r ws_state" where
  "broadcastError operationId err = broadcast \<lparr>ws_type = ''error'', ws_payload = ErrorOf operationId err\<rparr>"

text \<open>One run of the interval.  The loop deletes no entry but the one it visits, so that it visits
  the entries there were.\<close>

definition ping_tick :: "nat \<Rightarrow> 'r ws_state \<Rightarrow> 'r ws_state" where
  "ping_tick now s =
     foldl (\<lambda>s (c, ws).
         if sockets s ws = Some OPEN then ws_send ws \<lparr>ws_type = ''ping'', ws_payload = Timestamp now\<rparr> s
         else s\<lparr>clients := map_remove c (clients s)\<rparr>) s (clients s)"

definition getClientCount :: "'r ws_state \<Rightarrow> nat" where
  "getClientCount s = length (clients s)"

text \<open>\<open>ws.close()\<close> starts the closing handshake of a socket that is not closing yet.\<close>

definition ws_close :: "nat \<Rightarrow> 'r ws_state \<Rightarrow> 'r ws_state" where
  "ws_close ws s = (case sockets s ws of
       Some CONNECTING \<Rightarrow> s\<lparr>sockets := (sockets s)(ws \<mapsto> CLOSING)\<rparr>
     | Some OPEN \<Rightarrow> s\<lparr>sockets := (sockets s)(ws \<mapsto> CLOSING)\<rparr>
     | _ \<Rightarrow> s)"

definition WebSocketService_close :: "'r ws_state \<Rightarrow> 'r ws_state" where
  "WebSocketService_close s =
     (let s1 = s\<lparr>pinging := False\<rparr>;
          s2 = foldl (\<lambda>s (c, ws). ws_close ws s) s1 (clients s1)
      in s2\<lparr>listening := False\<rparr>)"

text \<open>The constructor: no clients, the interval runs.\<close>

definition new_WebSocketService :: "'r ws_state" where
  "new_WebSocketService =
     \<lparr>clients = [], sockets = Map.empty, outbox = (\<lambda>_. []), owner = Map.empty, pinging = True, listening = True\<rparr>"

text \<open>\<open>FFmpegService.emitProgress\<close>: the service is a global that may be missing.\<close>

definition emitProgress ::
    "bool \<Rightarrow> string \<Rightarrow> string \<Rightarrow> jsnum \<Rightarrow> string option \<Rightarrow> 'r ws_state \<Rightarrow> 'r ws_state" where
  "emitProgress has_service operationId operation progress message s =
     (if has_service
      then broadcastProgress \<lparr>pd_operationId = operationId, pd_operation = operation, pd_progress = progress,
             pd_message = message\<rparr> s
      else s)"

subsection \<open>Events\<close>

text \<open>The library emits \<open>connection\<close> for an open socket, with a client identifier that was never
  used; \<open>error\<close> on a socket that is closing or closed, and \<open>close\<close> once a socket is closed.\<close>

definition accept :: "string \<Rightarrow> nat \<Rightarrow> 'r ws_state \<Rightarrow> 'r ws_state" where
  "accept c ws s = s\<lparr>sockets := (sockets s)(ws \<mapsto> OPEN), owner := (owner s)(ws \<mapsto> c)\<rparr>"

definition socket_to :: "nat \<Rightarrow> readyState \<Rightarrow> 'r ws_state \<Rightarrow> 'r ws_state" where
  "socket_to ws r s = s\<lparr>sockets := (sockets s)(ws \<mapsto> r)\<rparr>"

datatype 'r ws_event =
    Connect string nat
  | Message nat string nat
  | PeerCloses nat
  | Errored nat
  | Closed nat
  | Tick nat
  | Broadcast "'r WSMessage"
  | Shutdown

inductive ws_step :: "(string \<Rightarrow> string option) \<Rightarrow> 'r ws_state \<Rightarrow> 'r ws_event \<Rightarrow> 'r ws_state \<Rightarrow> bool"
  for parse_type :: "string \<Rightarrow> string option" where
  connect: "listening s \<Longrightarrow> sockets s ws = None \<Longrightarrow> c \<notin> ran (owner s) \<Longrightarrow>
     ws_step parse_type s (Connect c ws) (on_connection c ws (accept c ws s))"
| message: "sockets s ws = Some r \<Longrightarrow> r \<noteq> CLOSED \<Longrightarrow>
     ws_step parse_type s (Message ws frame now) (on_message parse_type now ws frame s)"
| peer_closes: "sockets s ws = Some OPEN \<Longrightarrow> ws_step parse_type s (PeerCloses ws) (socket_to ws CLOSING s)"
| errored: "sockets s ws = Some r \<Longrightarrow> r \<in> {CLOSING, CLOSED} \<Longrightarrow> owner s ws = Some c \<Longrightarrow>
     ws_step parse_type s (Errored ws) (on_error c s)"
| closed: "sockets s ws = Some r \<Longrightarrow> r \<noteq> CLOSED \<Longrightarrow> owner s ws = Some c \<Longrightarrow>
     ws_step parse_type s (Closed ws) (on_close c (socket_to ws CLOSED s))"
| tick: "pinging s \<Longrightarrow> ws_step parse_type s (Tick now) (ping_tick now s)"
| broadcast: "ws_step parse_type s (Broadcast m) (broadcast m s)"
| shutdown: "ws_step parse_type s Shutdown (WebSocketService_close s)"

inductive_cases ws_stepE: "ws_step parse_type s e s'"

inductive ws_reach :: "(string \<Rightarrow> string option) \<Rightarrow> 'r ws_state \<Rightarrow> bool"
  for parse_type :: "string \<Rightarrow> string option" where
  start: "ws_reach parse_type new_WebSocketService"
| after: "ws_reach parse_type s \<Longrightarrow> ws_step parse_type s e s' \<Longrightarrow> ws_reach parse_type s'"

subsection \<open>The invariant\<close>

text \<open>A registered client is the owner of its socket, an owner has one socket, and every open socket
  is registered.\<close>

definition registered :: "'r ws_state \<Rightarrow> nat set" where
  "registered s = snd ` set (clients s)"

definition open_sockets :: "'r ws_state \<Rightarrow> nat set" where
  "open_sockets s = {ws. sockets s ws = Some OPEN}"

definition ws_inv :: "'r ws_state \<Rightarrow> bool" where
  "ws_inv s \<longleftrightarrow> distinct (map fst (clients s)) \<and> (\<forall>(c, ws) \<in> set (clients s). owner s ws = Some c) \<and>
     inj_on (owner s) (dom (owner s)) \<and> dom (owner s) = dom (sockets s) \<and> open_sockets s \<subseteq> registered s"

lemma ws_inv_owner: "ws_inv s \<Longrightarrow> p \<in> set (clients s) \<Longrightarrow> owner s (snd p) = Some (fst p)"
  by (cases p) (auto simp: ws_inv_def)

lemma ws_inv_owner_inj: "ws_inv s \<Longrightarrow> owner s a = Some c \<Longrightarrow> owner s b = Some c \<Longrightarrow> a = b"
  unfolding ws_inv_def by (metis domI inj_onD)

lemma ws_inv_distinct:
  assumes "ws_inv s" shows "distinct (map snd (clients s))"
proof -
  have "inj_on snd (set (clients s))"
    using ws_inv_owner [OF assms] by (intro inj_onI prod_eqI) (metis option.inject)+
  moreover have "distinct (clients s)" using assms by (simp add: ws_inv_def distinct_map)
  ultimately show ?thesis by (simp add: distinct_map)
qed

lemma ws_put_sel [simp]:
  "clients (ws_put ws m s) = clients s" "sockets (ws_put ws m s) = sockets s" "owner (ws_put ws m s) = owner s"
  "pinging (ws_put ws m s) = pinging s" "listening (ws_put ws m s) = listening s"
  "outbox (ws_put ws m s) = (outbox s)(ws := outbox s ws @ [m])"
  by (simp_all add: ws_put_def)

lemma ws_send_sel [simp]:
  "clients (ws_send ws m s) = clients s" "sockets (ws_send ws m s) = sockets s" "owner (ws_send ws m s) = owner s"
  by (simp_all add: ws_send_def)

lemma ws_inv_cong:
  "clients s' = clients s \<Longrightarrow> sockets s' = sockets s \<Longrightarrow> owner s' = owner s \<Longrightarrow> ws_inv s' = ws_inv s"
  by (simp add: ws_inv_def open_sockets_def registered_def)

lemma broadcast_sel [simp]:
  "clients (broadcast m s) = clients s" "sockets (broadcast m s) = sockets s" "owner (broadcast m s) = owner s"
proof -
  have "clients (foldl (\<lambda>s (c, ws). if sockets s ws = Some OPEN then ws_put ws m s else s) s xs) = clients s \<and>
      sockets (foldl (\<lambda>s (c, ws). if sockets s ws = Some OPEN then ws_put ws m s else s) s xs) = sockets s \<and>
      owner (foldl (\<lambda>s (c, ws). if sockets s ws = Some OPEN then ws_put ws m s else s) s xs) = owner s" for xs
    by (induction xs arbitrary: s) (auto split: prod.split)
  from this [of "clients s"]
  show "clients (broadcast m s) = clients s" "sockets (broadcast m s) = sockets s" "owner (broadcast m s) = owner s"
    by (simp_all add: broadcast_def)
qed

lemma broadcast_only_outbox: "broadcast m s = s\<lparr>outbox := outbox (broadcast m s)\<rparr>"
proof -
  let ?f = "\<lambda>s (c, ws). if sockets s ws = Some OPEN then ws_put ws m s else s"
  have "foldl ?f s xs = s\<lparr>outbox := outbox (foldl ?f s xs)\<rparr>" for xs
  proof (induction xs arbitrary: s)
    case (Cons p xs)
    have "?f s p = s\<lparr>outbox := outbox (?f s p)\<rparr>" by (simp add: ws_put_def split: prod.split)
    then show ?case using Cons [of "?f s p"] by (metis (no_types, lifting) foldl_Cons ws_state.ext_inject ws_state.surjective ws_state.update_convs(3))
  qed simp
  from this [of "clients s"] show ?thesis by (simp add: broadcast_def)
qed

lemma broadcast_outbox:
  assumes "distinct (map snd (clients s))"
  shows "outbox (broadcast m s) ws =
    outbox s ws @ (if ws \<in> registered s \<and> sockets s ws = Some OPEN then [m] else [])"
proof -
  let ?f = "\<lambda>s (c, ws). if sockets s ws = Some OPEN then ws_put ws m s else s"
  have "distinct (map snd xs) \<Longrightarrow>
      outbox (foldl ?f s xs) ws = outbox s ws @ (if ws \<in> snd ` set xs \<and> sockets s ws = Some OPEN then [m] else [])" for xs
    by (induction xs arbitrary: s) (auto simp: image_iff split: prod.split)
  from this [OF assms] show ?thesis by (simp add: broadcast_def registered_def)
qed

lemma ping_tick_loop:
  assumes "distinct (map fst xs)" and "set xs \<subseteq> set (clients s)" and "distinct (map fst (clients s))"
  shows "let s' = foldl (\<lambda>s (c, ws).
         if sockets s ws = Some OPEN then ws_send ws \<lparr>ws_type = ''ping'', ws_payload = Timestamp now\<rparr> s
         else s\<lparr>clients := map_remove c (clients s)\<rparr>) s xs
    in sockets s' = sockets s \<and> owner s' = owner s \<and>
       clients s' = filter (\<lambda>p. p \<in> set xs \<longrightarrow> sockets s (snd p) = Some OPEN) (clients s)"
  using assms
proof (induction xs arbitrary: s)
  case (Cons p xs)
  obtain c ws where p: "p = (c, ws)" by fastforce
  show ?case
  proof (cases "sockets s ws = Some OPEN")
    case True
    let ?s = "ws_send ws \<lparr>ws_type = ''ping'', ws_payload = Timestamp now\<rparr> s"
    have "set xs \<subseteq> set (clients ?s)" "distinct (map fst (clients ?s))" using Cons.prems by auto
    then show ?thesis
      using Cons.IH [of ?s] Cons.prems True by (auto simp: p Let_def intro!: filter_cong)
  next
    case False
    let ?s = "s\<lparr>clients := map_remove c (clients s)\<rparr>"
    have key: "q \<in> set (clients s) \<Longrightarrow> fst q = c \<longleftrightarrow> q = p" for q
      using Cons.prems by (cases q) (auto simp: p dest: eq_key_imp_eq_value)
    have "set xs \<subseteq> set (clients ?s)" "distinct (map fst (clients ?s))"
      using Cons.prems by (auto simp: p map_remove_def distinct_map_filter)
    then show ?thesis
      using Cons.IH [of ?s] Cons.prems False key by (auto simp: p Let_def map_remove_def intro!: filter_cong)
  qed
qed (simp add: Let_def)

lemma ping_tick_sel:
  assumes "distinct (map fst (clients s))"
  shows "sockets (ping_tick now s) = sockets s" "owner (ping_tick now s) = owner s"
    "clients (ping_tick now s) = filter (\<lambda>p. sockets s (snd p) = Some OPEN) (clients s)"
  using ping_tick_loop [of "clients s" s now] assms
  by (auto simp: ping_tick_def Let_def intro!: filter_cong)

lemma open_socket_to: "r \<noteq> OPEN \<Longrightarrow> open_sockets (socket_to ws r s) = open_sockets s - {ws}"
  by (auto simp: open_sockets_def socket_to_def)

lemma close_loop:
  "clients (foldl (\<lambda>s (c, ws). ws_close ws s) s xs) = clients s \<and>
   owner (foldl (\<lambda>s (c, ws). ws_close ws s) s xs) = owner s \<and>
   dom (sockets (foldl (\<lambda>s (c, ws). ws_close ws s) s xs)) = dom (sockets s) \<and>
   open_sockets (foldl (\<lambda>s (c, ws). ws_close ws s) s xs) = open_sockets s - snd ` set xs"
proof (induction xs arbitrary: s)
  case (Cons p xs)
  have "clients (ws_close (snd p) s) = clients s \<and> owner (ws_close (snd p) s) = owner s \<and>
      dom (sockets (ws_close (snd p) s)) = dom (sockets s) \<and> open_sockets (ws_close (snd p) s) = open_sockets s - {snd p}"
  proof (cases "sockets s (snd p) \<in> {Some OPEN, Some CONNECTING}")
    case True
    then have "ws_close (snd p) s = socket_to (snd p) CLOSING s" by (auto simp: ws_close_def socket_to_def)
    moreover have "snd p \<in> dom (sockets s)" using True by auto
    ultimately show ?thesis using open_socket_to [of CLOSING "snd p" s] by (simp add: insert_absorb socket_to_def)
  next
    case False
    then have "ws_close (snd p) s = s" by (auto simp: ws_close_def split: option.split readyState.split)
    then show ?thesis using False by (auto simp: open_sockets_def)
  qed
  moreover have "open_sockets s - snd ` set (p # xs) = open_sockets s - {snd p} - snd ` set xs" by auto
  moreover have "foldl (\<lambda>s (c, ws). ws_close ws s) s (p # xs) = foldl (\<lambda>s (c, ws). ws_close ws s) (ws_close (snd p) s) xs"
    by (cases p) simp
  ultimately show ?case using Cons.IH [of "ws_close (snd p) s"] by (simp only:)
qed simp

lemma close_sel:
  "clients (WebSocketService_close s) = clients s" "owner (WebSocketService_close s) = owner s"
  "dom (sockets (WebSocketService_close s)) = dom (sockets s)"
  "open_sockets (WebSocketService_close s) = open_sockets s - registered s"
  using close_loop [of "s\<lparr>pinging := False\<rparr>" "clients s"]
  by (simp_all add: WebSocketService_close_def Let_def open_sockets_def registered_def)

lemma ws_inv_remove:
  assumes "ws_inv s" and "owner s ws = Some c" and "sockets s ws \<noteq> Some OPEN"
  shows "ws_inv (s\<lparr>clients := map_remove c (clients s)\<rparr>)"
proof -
  have keep: "open_sockets s \<subseteq> snd ` set (map_remove c (clients s))"
  proof
    fix w assume w: "w \<in> open_sockets s"
    then obtain d where d: "(d, w) \<in> set (clients s)" using assms(1) by (auto simp: ws_inv_def registered_def)
    have "d \<noteq> c"
      using ws_inv_owner [OF assms(1) d] ws_inv_owner_inj [OF assms(1,2), of w] assms(3) w by (auto simp: open_sockets_def)
    then show "w \<in> snd ` set (map_remove c (clients s))" using d by (force simp: map_remove_def)
  qed
  have "open_sockets (s\<lparr>clients := map_remove c (clients s)\<rparr>) = open_sockets s" by (simp add: open_sockets_def)
  then show ?thesis
    using assms(1) keep by (auto simp: ws_inv_def registered_def map_remove_def distinct_map_filter)
qed

lemma ws_inv_connect:
  assumes "ws_inv s" and "sockets s ws = None" and "c \<notin> ran (owner s)"
  shows "ws_inv (on_connection c ws (accept c ws s))"
proof -
  have new: "c \<notin> fst ` set (clients s)" using assms by (auto simp: ws_inv_def ran_def)
  have "ws \<notin> dom (owner s)" using assms(1,2) by (simp add: ws_inv_def domIff)
  then have "owner s ws = None" by (simp add: domIff)
  then have "ws \<notin> registered s" using assms(1) by (auto simp: ws_inv_def registered_def)
  then have "(a, ws) \<notin> set (clients s)" for a by (force simp: registered_def)
  then show ?thesis
    using assms new by (auto simp: on_connection_def accept_def ws_inv_def map_set_def open_sockets_def registered_def
        inj_on_def ran_def split: if_splits)
qed

lemma ws_inv_shrink:
  assumes "ws_inv s" and "clients s' = clients s" and "owner s' = owner s" and "dom (sockets s') = dom (sockets s)"
    and "open_sockets s' \<subseteq> open_sockets s"
  shows "ws_inv s'"
  using assms by (auto simp: ws_inv_def registered_def)

lemma ws_inv_socket_to:
  assumes "ws_inv s" and "sockets s ws = Some r" and "r' \<noteq> OPEN"
  shows "ws_inv (socket_to ws r' s)"
proof (rule ws_inv_shrink [OF assms(1)])
  have "ws \<in> dom (sockets s)" using assms(2) by blast
  then show "dom (sockets (socket_to ws r' s)) = dom (sockets s)" by (simp add: socket_to_def insert_absorb)
  show "open_sockets (socket_to ws r' s) \<subseteq> open_sockets s" using assms(3) by (auto simp: open_socket_to)
qed (simp_all add: socket_to_def)

lemma ws_step_inv: "ws_step parse_type s e s' \<Longrightarrow> ws_inv s \<Longrightarrow> ws_inv s'"
proof (induction rule: ws_step.induct)
  case (connect s ws c)
  then show ?case by (intro ws_inv_connect)
next
  case (message s ws r frame now)
  then show ?case
    by (subst ws_inv_cong [of _ s]) (auto simp: on_message_def handleMessage_def split: option.split)
next
  case (peer_closes s ws)
  then show ?case by (intro ws_inv_socket_to) simp_all
next
  case (errored s ws r c)
  then show ?case using ws_inv_remove [of s ws c] by (auto simp: on_error_def)
next
  case (closed s ws r c)
  have "ws_inv (socket_to ws CLOSED s)"
    using closed by (intro ws_inv_socket_to) simp_all
  then show ?case using closed ws_inv_remove [of "socket_to ws CLOSED s" ws c] by (simp add: on_close_def socket_to_def)
next
  case (tick s now)
  then have d: "distinct (map fst (clients s))" by (simp add: ws_inv_def)
  from tick show ?case
    by (auto simp: ws_inv_def ping_tick_sel [OF d] distinct_map_filter open_sockets_def registered_def image_iff)
next
  case (broadcast s m)
  then show ?case by (subst ws_inv_cong [of _ s]) auto
next
  case (shutdown s)
  then show ?case by (rule ws_inv_shrink) (simp_all add: close_sel)
qed

lemma ws_reach_inv: "ws_reach parse_type s \<Longrightarrow> ws_inv s"
proof (induction rule: ws_reach.induct)
  case start
  then show ?case by (simp add: ws_inv_def new_WebSocketService_def open_sockets_def)
qed (rule ws_step_inv)

text \<open>C15: In every state the service can reach, a broadcast is sent exactly once to every open
  connection and to no other, nothing else changes, and after a run of the interval the service
  counts exactly the open connections.\<close>

theorem broadcast_reaches_open:
  assumes "ws_reach parse_type s"
  shows "outbox (broadcast m s) ws = outbox s ws @ (if sockets s ws = Some OPEN then [m] else []) \<and>
    broadcast m s = s\<lparr>outbox := outbox (broadcast m s)\<rparr> \<and>
    getClientCount (ping_tick now s) = card (open_sockets s) \<and>
    snd ` set (clients (ping_tick now s)) = open_sockets s"
proof -
  note inv = ws_reach_inv [OF assms]
  have reg: "sockets s ws = Some OPEN \<Longrightarrow> ws \<in> registered s" using inv by (auto simp: ws_inv_def open_sockets_def)
  have keys: "distinct (map fst (clients s))" using inv by (simp add: ws_inv_def)
  have live: "snd ` set (clients (ping_tick now s)) = open_sockets s"
    using inv by (auto simp: ping_tick_sel [OF keys] ws_inv_def open_sockets_def registered_def image_iff)
  have "distinct (map snd (clients (ping_tick now s)))"
    using ws_inv_distinct [OF inv] by (simp add: ping_tick_sel [OF keys] distinct_map_filter)
  from distinct_card [OF this] have "getClientCount (ping_tick now s) = card (open_sockets s)"
    by (simp add: getClientCount_def live)
  then show ?thesis using broadcast_outbox [OF ws_inv_distinct [OF inv]] reg live broadcast_only_outbox by auto
qed

text \<open>Two connections, one of which the peer has begun to close.\<close>

definition two_clients :: "nat ws_state" where
  "two_clients = socket_to 1 CLOSING (on_connection ''b'' 1 (accept ''b'' 1
     (on_connection ''a'' 0 (accept ''a'' 0 new_WebSocketService))))"

lemma two_clients_reach: "ws_reach (\<lambda>_. None) two_clients"
proof -
  let ?a = "on_connection ''a'' 0 (accept ''a'' 0 new_WebSocketService) :: nat ws_state"
  let ?b = "on_connection ''b'' 1 (accept ''b'' 1 ?a) :: nat ws_state"
  have "ws_reach (\<lambda>_. None) ?a"
    by (rule ws_reach.after [OF ws_reach.start ws_step.connect]) (simp_all add: new_WebSocketService_def)
  then have "ws_reach (\<lambda>_. None) ?b"
    by (rule ws_reach.after [OF _ ws_step.connect])
      (simp_all add: new_WebSocketService_def on_connection_def accept_def ws_send_def)
  then show ?thesis
    unfolding two_clients_def by (rule ws_reach.after [OF _ ws_step.peer_closes]) (simp add: on_connection_def accept_def)
qed

theorem broadcast_reaches_open_witness:
  "length (outbox (broadcastComplete ''op'' (7 :: nat) two_clients) 0) = 2 \<and>
   length (outbox (broadcastComplete ''op'' (7 :: nat) two_clients) 1) = 1"
  using broadcast_reaches_open [OF two_clients_reach, of "\<lparr>ws_type = ''complete'', ws_payload = ResultOf ''op'' 7\<rparr>" 0]
    broadcast_reaches_open [OF two_clients_reach, of "\<lparr>ws_type = ''complete'', ws_payload = ResultOf ''op'' 7\<rparr>" 1]
  by (simp add: broadcastComplete_def two_clients_def socket_to_def on_connection_def accept_def ws_send_def
      new_WebSocketService_def)

subsection \<open>Shutdown\<close>

text \<open>A sequence of events.\<close>

inductive ws_run :: "(string \<Rightarrow> string option) \<Rightarrow> 'r ws_state \<Rightarrow> 'r ws_event list \<Rightarrow> 'r ws_state \<Rightarrow> bool"
  for parse_type :: "string \<Rightarrow> string option" where
  none: "ws_run parse_type s [] s"
| one: "ws_step parse_type s e s' \<Longrightarrow> ws_run parse_type s' es s'' \<Longrightarrow> ws_run parse_type s (e # es) s''"

definition quiet :: "'r ws_state \<Rightarrow> bool" where
  "quiet s = (open_sockets s = {} \<and> \<not> listening s \<and> \<not> pinging s)"

lemma close_flags:
  "listening (WebSocketService_close s) = False" "pinging (WebSocketService_close s) = False"
  "outbox (WebSocketService_close s) = outbox s"
proof -
  have keep: "pinging (foldl (\<lambda>s (c, ws). ws_close ws s) s xs) = pinging s \<and>
      outbox (foldl (\<lambda>s (c, ws). ws_close ws s) s xs) = outbox s" for xs and s :: "'a ws_state"
  proof (induction xs arbitrary: s)
    case (Cons p xs)
    have "pinging (ws_close (snd p) s) = pinging s" "outbox (ws_close (snd p) s) = outbox s"
      by (simp_all add: ws_close_def split: option.split readyState.split)
    then show ?case using Cons [of "ws_close (snd p) s"] by (cases p) simp
  qed simp
  show "listening (WebSocketService_close s) = False" "pinging (WebSocketService_close s) = False"
    "outbox (WebSocketService_close s) = outbox s"
    using keep [of "s\<lparr>pinging := False\<rparr>" "clients s"] by (simp_all add: WebSocketService_close_def Let_def)
qed

lemma close_quiet: "open_sockets s \<subseteq> registered s \<Longrightarrow> quiet (WebSocketService_close s)"
  by (simp add: quiet_def close_sel close_flags)

lemma quiet_send [simp]: "quiet s \<Longrightarrow> ws_send ws m s = s"
  by (auto simp: quiet_def ws_send_def open_sockets_def)

lemma quiet_broadcast: "quiet s \<Longrightarrow> broadcast m s = s"
proof -
  assume q: "quiet s"
  have "foldl (\<lambda>s (c, ws). if sockets s ws = Some OPEN then ws_put ws m s else s) s xs = s" for xs
    using q by (induction xs) (auto simp: quiet_def open_sockets_def split: prod.split)
  then show ?thesis by (simp add: broadcast_def)
qed

lemma quiet_step: "ws_step parse_type s e s' \<Longrightarrow> quiet s \<Longrightarrow> ws_inv s \<Longrightarrow> quiet s' \<and> outbox s' = outbox s"
proof (induction rule: ws_step.induct)
  case (message s ws r frame now)
  then show ?case by (simp add: on_message_def handleMessage_def split: option.split)
next
  case (closed s ws r c)
  then show ?case by (auto simp: quiet_def on_close_def socket_to_def open_sockets_def)
next
  case (broadcast s m)
  then show ?case by (simp add: quiet_broadcast)
next
  case (shutdown s)
  then show ?case by (simp add: close_sel close_flags quiet_def)
qed (auto simp: quiet_def open_sockets_def on_error_def)

text \<open>Once the service has been closed, in any state it can reach, no event makes a connection open
  again or sends anything: whatever happens afterwards, what every client was sent stays as it
  was at the shutdown.\<close>

theorem shutdown_final:
  assumes "ws_reach parse_type s" and "ws_run parse_type (WebSocketService_close s) es s'"
  shows "outbox s' = outbox s \<and> open_sockets s' = {}"
proof -
  have inv: "ws_inv (WebSocketService_close s)"
    using ws_step_inv [OF ws_step.shutdown] ws_reach_inv [OF assms(1)] by blast
  have q: "quiet (WebSocketService_close s)" using ws_reach_inv [OF assms(1)] by (intro close_quiet) (simp add: ws_inv_def)
  have "quiet s' \<and> outbox s' = outbox (WebSocketService_close s)"
    using assms(2) inv q
  proof (induction rule: ws_run.induct)
    case (one s e s' es s'')
    then show ?case using quiet_step [OF one.hyps(1)] ws_step_inv [OF one.hyps(1)] by simp
  qed simp
  then show ?thesis by (simp add: close_flags quiet_def)
qed

theorem shutdown_final_witness:
  "outbox (broadcastError ''op'' ''late'' (WebSocketService_close two_clients)) = outbox two_clients"
proof -
  have "ws_run (\<lambda>_. None) (WebSocketService_close two_clients)
      [Broadcast \<lparr>ws_type = ''error'', ws_payload = ErrorOf ''op'' ''late''\<rparr>]
      (broadcastError ''op'' ''late'' (WebSocketService_close two_clients))"
    unfolding broadcastError_def by (rule ws_run.one [OF ws_step.broadcast ws_run.none])
  from shutdown_final [OF two_clients_reach this] show ?thesis by simp
qed

end
