(* ===== verification/Client_Socket.thy ===== *)
theory Client_Socket
  imports Video_Realtime
begin

text \<open>
  The WebSocket client of the video editor's frontend (\<open>hooks/useWebSocket.ts\<close>).  The browser is seen
  through the sockets it has, whether they are closed, and the timers that are pending; the
  callbacks of the hook are functions on that state and \<open>wc_step\<close> says which event can happen when.
  A frame is the message whose JSON text it carries, or nothing if it does not parse.
\<close>

section \<open>Definitions\<close>

record 'r ws_client =
  wc_connected :: bool
  wc_progress :: "'r ws_data option"
  wc_current :: "nat option"
  wc_reconnectTimeout :: "nat option"
  wc_sockets :: "nat list"
  wc_closing :: "nat list"
  wc_timers :: "nat list"
  wc_pongs :: "nat list"
  wc_next :: nat
  wc_mounted :: bool

text \<open>\<open>wc_sockets\<close> are the sockets whose \<open>onclose\<close> has not run, \<open>wc_closing\<close> those of them that were told
  to close, \<open>wc_timers\<close> the timers that are pending and \<open>wc_pongs\<close> the sockets a pong was sent on;
  \<open>wc_next\<close> is the next identifier the browser gives out.\<close>

definition connect :: "'r ws_client \<Rightarrow> 'r ws_client" where
  "connect c = c\<lparr>wc_sockets := wc_next c # wc_sockets c, wc_current := Some (wc_next c), wc_next := wc_next c + 1\<rparr>"

definition onopen :: "'r ws_client \<Rightarrow> 'r ws_client" where
  "onopen c = c\<lparr>wc_connected := True\<rparr>"

definition onmessage :: "nat \<Rightarrow> 'r WSMessage option \<Rightarrow> 'r ws_client \<Rightarrow> 'r ws_client" where
  "onmessage socket frame c = (case frame of
       None \<Rightarrow> c
     | Some m \<Rightarrow>
         (if ws_type m = ''progress'' then c\<lparr>wc_progress := Some (ws_payload m)\<rparr>
          else if ws_type m = ''ping'' then c\<lparr>wc_pongs := wc_pongs c @ [socket]\<rparr>
          else c))"

definition onclose :: "'r ws_client \<Rightarrow> 'r ws_client" where
  "onclose c = c\<lparr>wc_connected := False, wc_reconnectTimeout := Some (wc_next c), wc_timers := wc_next c # wc_timers c,
     wc_next := wc_next c + 1\<rparr>"

text \<open>The clean-up of the effect.  The identifier of a timer is positive.\<close>

definition unmount :: "'r ws_client \<Rightarrow> 'r ws_client" where
  "unmount c =
     (let c1 = (case wc_reconnectTimeout c of None \<Rightarrow> c | Some k \<Rightarrow> c\<lparr>wc_timers := removeAll k (wc_timers c)\<rparr>);
          c2 = (case wc_current c1 of None \<Rightarrow> c1
                | Some n \<Rightarrow> if n \<in> set (wc_sockets c1) then c1\<lparr>wc_closing := n # wc_closing c1\<rparr> else c1)
      in c2\<lparr>wc_mounted := False\<rparr>)"

definition new_client :: "'r ws_client" where
  "new_client = connect \<lparr>wc_connected = False, wc_progress = None, wc_current = None, wc_reconnectTimeout = None,
     wc_sockets = [], wc_closing = [], wc_timers = [], wc_pongs = [], wc_next = 1, wc_mounted = True\<rparr>"

section \<open>Events\<close>

datatype 'r wc_event = Opened nat | Received nat "'r WSMessage option" | SocketClosed nat | TimerFires nat | Unmount

definition drop_socket :: "nat \<Rightarrow> 'r ws_client \<Rightarrow> 'r ws_client" where
  "drop_socket n c = c\<lparr>wc_sockets := removeAll n (wc_sockets c), wc_closing := removeAll n (wc_closing c)\<rparr>"

inductive wc_step :: "'r ws_client \<Rightarrow> 'r wc_event \<Rightarrow> 'r ws_client \<Rightarrow> bool" where
  opened: "n \<in> set (wc_sockets c) \<Longrightarrow> n \<notin> set (wc_closing c) \<Longrightarrow> wc_step c (Opened n) (onopen c)"
| received: "n \<in> set (wc_sockets c) \<Longrightarrow> wc_step c (Received n f) (onmessage n f c)"
| socket_closed: "n \<in> set (wc_sockets c) \<Longrightarrow> wc_step c (SocketClosed n) (onclose (drop_socket n c))"
| timer_fires: "k \<in> set (wc_timers c) \<Longrightarrow> wc_step c (TimerFires k) (connect (c\<lparr>wc_timers := removeAll k (wc_timers c)\<rparr>))"
| unmounted: "wc_mounted c \<Longrightarrow> wc_step c Unmount (unmount c)"

inductive wc_reach :: "'r ws_client \<Rightarrow> bool" where
  mounted: "wc_reach new_client"
| later: "wc_reach c \<Longrightarrow> wc_step c e c' \<Longrightarrow> wc_reach c'"

inductive_cases wc_stepE: "wc_step c e c'"

text \<open>One socket, or one pending timer; and while mounted, no socket was told to close.\<close>

definition wc_inv :: "'r ws_client \<Rightarrow> bool" where
  "wc_inv c \<longleftrightarrow>
     (wc_mounted c \<longrightarrow> wc_closing c = [] \<and>
        ((\<exists>n. wc_sockets c = [n] \<and> wc_current c = Some n \<and> wc_timers c = []) \<or>
         (\<exists>k. wc_sockets c = [] \<and> wc_timers c = [k] \<and> wc_reconnectTimeout c = Some k \<and> \<not> wc_connected c)))"

lemma wc_step_mounted: "wc_step c e c' \<Longrightarrow> wc_mounted c' \<Longrightarrow> wc_mounted c"
  by (induction rule: wc_step.induct)
    (auto simp: onopen_def onmessage_def onclose_def drop_socket_def connect_def split: option.splits if_splits)

lemma wc_inv_step: "wc_step c e c' \<Longrightarrow> wc_inv c \<Longrightarrow> wc_inv c'"
proof (induction rule: wc_step.induct)
  case (unmounted c)
  have "\<not> wc_mounted (unmount c)" by (simp add: unmount_def Let_def)
  then show ?case by (simp add: wc_inv_def)
qed (auto simp: wc_inv_def onopen_def onmessage_def onclose_def drop_socket_def connect_def split: option.splits)

lemma wc_reach_inv: "wc_reach c \<Longrightarrow> wc_inv c"
proof (induction rule: wc_reach.induct)
  case mounted
  then show ?case by (simp add: wc_inv_def new_client_def connect_def)
qed (rule wc_inv_step)

section \<open>Properties\<close>



text \<open>C40: Unmounting does not end it.  Leaving the page with a live connection closes the socket, whose
  close event starts the timer again, after the clean-up that would have cleared it: the hook opens a
  new connection although it is gone.\<close>

theorem reconnects_after_unmount:
  assumes "wc_reach c" and "wc_mounted c" and "wc_sockets c = [n]"
  shows "\<exists>c1 c2 c3 k. wc_step c Unmount c1 \<and> wc_step c1 (SocketClosed n) c2 \<and> wc_step c2 (TimerFires k) c3 \<and>
    \<not> wc_mounted c3 \<and> wc_sockets c3 \<noteq> []"
proof -
  let ?c1 = "unmount c"
  let ?c2 = "onclose (drop_socket n ?c1)"
  let ?c3 = "connect (?c2\<lparr>wc_timers := removeAll (wc_next ?c1) (wc_timers ?c2)\<rparr>)"
  have keep: "wc_sockets ?c1 = [n]" "\<not> wc_mounted ?c1" "wc_next ?c1 = wc_next c"
    using assms(3) by (simp_all add: unmount_def Let_def split: option.splits)
  have "wc_step c Unmount ?c1" using assms(2) by (rule wc_step.unmounted)
  moreover have "wc_step ?c1 (SocketClosed n) ?c2" using keep by (intro wc_step.socket_closed) simp
  moreover have "wc_step ?c2 (TimerFires (wc_next ?c1)) ?c3"
    by (intro wc_step.timer_fires) (simp add: onclose_def drop_socket_def)
  moreover have "\<not> wc_mounted ?c3" "wc_sockets ?c3 \<noteq> []" using keep by (simp_all add: connect_def onclose_def drop_socket_def)
  ultimately show ?thesis by blast
qed

theorem reconnects_after_unmount_witness:
  "\<exists>c1 c2 c3 k. wc_step (new_client :: nat ws_client) Unmount c1 \<and> wc_step c1 (SocketClosed 1) c2 \<and>
     wc_step c2 (TimerFires k) c3 \<and> \<not> wc_mounted c3 \<and> wc_sockets c3 \<noteq> []"
proof (rule reconnects_after_unmount)
  show "wc_reach (new_client :: nat ws_client)" by (rule wc_reach.mounted)
qed (simp_all add: new_client_def connect_def)

end
