(* ===== verification/Client_Player.thy ===== *)
theory Client_Player
  imports Client_Panels Client_Socket Js_Double "HOL-Library.Monad_Syntax"
begin

text \<open>
  The player, the time line, the upload area and the application of the video editor's frontend
  (\<open>VideoPlayer.tsx\<close>, \<open>Timeline.tsx\<close>, \<open>VideoUpload.tsx\<close>, \<open>ProgressBar.tsx\<close>, \<open>App.tsx\<close>): what is drawn on the canvas, by loops that need not
  end, what the components show, and the player together with the video element of the browser, whose
  events it follows.
\<close>

section \<open>Definitions\<close>

subsection \<open>Numbers\<close>

text \<open>Products and quotients of numbers; a zero counts as positive.\<close>

definition num_sgn :: "jsnum \<Rightarrow> rat" where
  "num_sgn n = (case n of Fin x \<Rightarrow> sgn x | Infinity \<Rightarrow> 1 | NegInfinity \<Rightarrow> - 1 | NaN \<Rightarrow> 0)"

definition inf_of :: "rat \<Rightarrow> jsnum" where
  "inf_of q = (if q = 0 then NaN else if 0 < q then Infinity else NegInfinity)"

definition num_mul :: "jsnum \<Rightarrow> jsnum \<Rightarrow> jsnum" where
  "num_mul m n = (if m = NaN \<or> n = NaN then NaN
     else case (m, n) of (Fin x, Fin y) \<Rightarrow> to_jsnum (x * y) | _ \<Rightarrow> inf_of (num_sgn m * num_sgn n))"

definition num_div :: "jsnum \<Rightarrow> jsnum \<Rightarrow> jsnum" where
  "num_div m n = (if m = NaN \<or> n = NaN then NaN
     else case (m, n) of
         (Fin x, Fin y) \<Rightarrow> if y = 0 then inf_of (sgn x) else to_jsnum (x / y)
       | (Fin x, _) \<Rightarrow> Fin 0
       | (_, Fin y) \<Rightarrow> inf_of (num_sgn m * (if y = 0 then 1 else sgn y))
       | _ \<Rightarrow> NaN)"

subsection \<open>\<open>Timeline\<close>\<close>

text \<open>What is drawn, in the pixels of the page: a filled rectangle from the corner, a line with its colour, width and
  opacity from one height to another, a text and a disc at a place.  The duration is a number, not
  always finite.\<close>

datatype drawn =
    Rect string rat rat
  | Line string rat rat jsnum rat rat
  | Text string string jsnum rat
  | Disc string jsnum rat rat

definition tick_interval :: "jsnum \<Rightarrow> rat" where
  "tick_interval duration = (if num_less (Fin 60) duration then 10 else if num_less (Fin 30) duration then 5 else 1)"

definition tick_label :: "rat \<Rightarrow> string" where
  "tick_label time =
     (let mins = \<lfloor>js_div time 60\<rfloor>; secs = \<lfloor>js_mod time 60\<rfloor>
      in if 0 < mins then show_int mins @ '':'' @ padStart 2 CHR ''0'' (show_int secs) else show_int secs @ ''s'')"

text \<open>\<open>for (let time = 0; time <= duration; time += step)\<close>: the times of the loop, if it ends.\<close>

partial_function (option) tick_times :: "jsnum \<Rightarrow> rat \<Rightarrow> rat \<Rightarrow> rat list option" where
  "tick_times duration step time =
     (if num_le (Fin time) duration
      then Option.bind (tick_times duration step (js_add time step)) (\<lambda>ts. Some (time # ts))
      else Some [])"

definition major_tick :: "jsnum \<Rightarrow> rat \<Rightarrow> drawn list" where
  "major_tick pixelsPerSecond time =
     (let x = num_mul (Fin time) pixelsPerSecond
      in [Line ''#4b5563'' 1 1 x 60 80, Text ''#9ca3af'' (tick_label time) (num_sub x (Fin (- 2))) 55])"

definition minor_tick :: "jsnum \<Rightarrow> rat \<Rightarrow> rat \<Rightarrow> drawn list" where
  "minor_tick pixelsPerSecond interval time =
     (if js_mod time interval \<noteq> 0 then [Line ''#4b5563'' 1 (3 / 10) (num_mul (Fin time) pixelsPerSecond) 70 80] else [])"

definition playhead :: "jsnum \<Rightarrow> rat \<Rightarrow> drawn list" where
  "playhead pixelsPerSecond currentTime =
     (let playheadX = num_mul (Fin currentTime) pixelsPerSecond
      in [Line ''#3b82f6'' 2 1 playheadX 0 80, Disc ''#3b82f6'' playheadX 5 5])"

definition timeline_draw :: "rat \<Rightarrow> jsnum \<Rightarrow> rat \<Rightarrow> drawn list option" where
  "timeline_draw width duration currentTime =
     (if num_le duration (Fin 0) then Some [Rect ''#1f2937'' width 80]
      else let pixelsPerSecond = num_div (Fin width) duration; interval = tick_interval duration
           in do {
             major \<leftarrow> tick_times duration interval 0;
             minor \<leftarrow> tick_times duration (js_div interval 5) 0;
             Some ([Rect ''#1f2937'' width 80] @ concat (map (major_tick pixelsPerSecond) major) @
               concat (map (minor_tick pixelsPerSecond interval) minor) @ playhead pixelsPerSecond currentTime)
           })"

subsection \<open>What is shown\<close>

text \<open>The parts of the page: a text, the video element with its source, a slider with its greatest value and its value, a
  button, the canvas of the time line, the choice of a file, a link for downloading with the name of the file, a bar filled to a
  per cent, and the panels.  Characters beyond ASCII are given by their bytes in UTF-8.\<close>

datatype app_click =
    TogglePlay
  | Seek
  | ToggleMute
  | Volume
  | ClickTimeline
  | ChooseFile
  | UploadNew

datatype app_html =
    Shown string
  | VideoTag string
  | Slider rat rat app_click
  | Button string app_click
  | Canvas app_click
  | FileInput string app_click
  | Download string string
  | Filled rat
  | Panel panel_view
  | Block "app_html list"

definition shown_if :: "bool \<Rightarrow> app_html list \<Rightarrow> app_html list" where
  "shown_if c vs = (if c then vs else [])"

text \<open>\<open>Math.round\<close>\<close>

definition math_round :: "rat \<Rightarrow> int" where
  "math_round x = \<lfloor>x + 1 / 2\<rfloor>"

definition play_label :: "bool \<Rightarrow> string" where
  "play_label playing =
     (if playing then [CHR 0xE2, CHR 0x8F, CHR 0xB8] @ '' Pause'' else [CHR 0xE2, CHR 0x96, CHR 0xB6] @ '' Play'')"

definition mute_label :: "bool \<Rightarrow> string" where
  "mute_label muted =
     (if muted then [CHR 0xF0, CHR 0x9F, CHR 0x94, CHR 0x87] else [CHR 0xF0, CHR 0x9F, CHR 0x94, CHR 0x8A])"

definition VideoPlayer_view :: "video_info \<Rightarrow> player_state \<Rightarrow> app_html" where
  "VideoPlayer_view video p =
     Block [VideoTag (vi_url video), Slider (pl_duration p) (pl_currentTime p) Seek,
       Filled (js_mul (js_div (pl_currentTime p) (if pl_duration p = 0 then 1 else pl_duration p)) 100),
       Shown (player_formatTime (pl_currentTime p)), Shown (player_formatTime (pl_duration p)),
       Button (play_label (pl_playing p)) TogglePlay, Button (mute_label (pl_muted p)) ToggleMute,
       Slider 1 (pl_volume p) Volume, Shown (vi_originalName video)]"

definition Timeline_view :: app_html where
  "Timeline_view = Block [Shown ''Timeline'', Canvas ClickTimeline]"

definition ProgressBar_view :: "rat \<Rightarrow> string option \<Rightarrow> string option \<Rightarrow> app_html" where
  "ProgressBar_view progress operation message =
     Block ([Shown (or_else operation ''Processing''), Shown (show_int (math_round progress) @ ''%''), Filled progress] @
       (case message of None \<Rightarrow> [] | Some m \<Rightarrow> shown_if (truthy m) [Shown m]))"

definition VideoUpload_view :: "upload_state \<Rightarrow> app_html" where
  "VideoUpload_view u =
     Block ((if us_uploading u
        then [Shown (''Uploading... '' @ show_int (math_round (us_progress u)) @ ''%''), Filled (us_progress u)]
        else [Shown [CHR 0xF0, CHR 0x9F, CHR 0x93, CHR 0xB9], Shown ''Drag & drop your video here, or click to browse'',
              FileInput ''Select Video'' ChooseFile, Shown ''Supports MP4, MOV, AVI, MKV, WebM (max 500MB)'']) @
       (case us_error u of None \<Rightarrow> [] | Some e \<Rightarrow> shown_if (truthy e) [Shown e]))"

text \<open>\<open>{pv.duration && ...}\<close>: a response has a finite duration or none; React shows the number 0.\<close>

definition processed_duration :: "jsval \<Rightarrow> string" where
  "processed_duration d = (case d of
       JNum (Fin q) \<Rightarrow> if q = 0 then ''0'' else '' '' @ [CHR 0xE2, CHR 0x80, CHR 0xA2] @ '' '' @ show_int \<lfloor>q\<rfloor> @ ''s''
     | _ \<Rightarrow> [])"

definition processed_row :: "nat \<Rightarrow> nat \<times> ProcessingResult \<Rightarrow> app_html" where
  "processed_row n ir = (case ir of (index, pv) \<Rightarrow>
     Block [Shown (if 1 < n then ''Part '' @ show_nat (index + 1) else ''Trimmed Video''),
       Shown (toFixed2 (js_div (of_nat (pr_size pv)) (1024 * 1024)) @ '' MB'' @ processed_duration (pr_duration pv)),
       Download (pr_url pv) (pr_filename pv)])"

text \<open>A number that is not finite is \<open>null\<close> in a message, which counts as 0.\<close>

definition wire_number :: "jsnum \<Rightarrow> rat" where
  "wire_number n = (case n of Fin q \<Rightarrow> q | _ \<Rightarrow> 0)"

definition progress_bar :: "'r ws_data option \<Rightarrow> app_html list" where
  "progress_bar progress = (case progress of
       Some (ProgressOf pd) \<Rightarrow>
         shown_if (wire_number (pd_progress pd) < 100)
           [ProgressBar_view (wire_number (pd_progress pd)) (Some (pd_operation pd)) (pd_message pd)]
     | _ \<Rightarrow> [])"

definition App_view ::
    "'r ws_client \<Rightarrow> panel_view \<Rightarrow> panel_view \<Rightarrow> player_state \<Rightarrow> upload_state \<Rightarrow> app \<Rightarrow> app_html" where
  "App_view ws editPanel projectPanel p u a =
     Block ([Shown ''VrewCraft'', Shown ''Web-Based Video Editor'', Shown ''Phase 1 - MVP 1.3: WebSocket + PostgreSQL''] @
       shown_if (wc_connected ws) [Shown ([CHR 0xE2, CHR 0x97, CHR 0x8F] @ '' WebSocket Connected'')] @
       (case ap_video a of
          None \<Rightarrow> [VideoUpload_view u]
        | Some video \<Rightarrow>
            [VideoPlayer_view video p, Timeline_view] @
            shown_if (ap_processedVideos a \<noteq> [])
              (Shown ''Processed Videos'' #
               map (processed_row (length (ap_processedVideos a))) (enumerate 0 (ap_processedVideos a))) @
            [Button ''Upload New Video'' UploadNew, Panel editPanel, Panel projectPanel]) @
       progress_bar (wc_progress ws))"

subsection \<open>Handlers\<close>

definition handlePlay :: "player_state \<Rightarrow> player_state" where
  "handlePlay p = p\<lparr>pl_playing := True\<rparr>"

definition handlePause :: "player_state \<Rightarrow> player_state" where
  "handlePause p = p\<lparr>pl_playing := False\<rparr>"

text \<open>\<open>handleSeek\<close> of \<open>App\<close>, with the player there; the button for a new video; and the upload area, whose first component
  is \<open>isDragging\<close>.\<close>

definition app_handleSeek :: "rat \<Rightarrow> video_element \<Rightarrow> video_element" where
  "app_handleSeek time v = seekTo time v"

definition upload_new :: "app \<Rightarrow> app" where
  "upload_new a = a\<lparr>ap_video := None\<rparr>"

definition handleDrop ::
    "string \<Rightarrow> (form_file \<Rightarrow> 's \<Rightarrow> video_info option \<times> 's) \<Rightarrow> form_file list \<Rightarrow> bool \<times> string list \<times> 's \<times> app
      \<Rightarrow> bool \<times> string list \<times> 's \<times> app" where
  "handleDrop apiUrl uploadVideo files st = (case st of (isDragging, s) \<Rightarrow>
     (False, case files of [] \<Rightarrow> s | f # _ \<Rightarrow> handleFile apiUrl uploadVideo f s))"

definition handleDragOver :: "bool \<times> 'a \<Rightarrow> bool \<times> 'a" where
  "handleDragOver st = (case st of (isDragging, s) \<Rightarrow> (True, s))"

definition handleDragLeave :: "bool \<times> 'a \<Rightarrow> bool \<times> 'a" where
  "handleDragLeave st = (case st of (isDragging, s) \<Rightarrow> (False, s))"

definition handleFileInput ::
    "string \<Rightarrow> (form_file \<Rightarrow> 's \<Rightarrow> video_info option \<times> 's) \<Rightarrow> form_file list option \<Rightarrow> bool \<times> string list \<times> 's \<times> app
      \<Rightarrow> bool \<times> string list \<times> 's \<times> app" where
  "handleFileInput apiUrl uploadVideo files st = (case st of (isDragging, s) \<Rightarrow>
     (isDragging, case files of Some (f # _) \<Rightarrow> handleFile apiUrl uploadVideo f s | _ \<Rightarrow> s))"

section \<open>The player and the video element\<close>

text \<open>The element queues its events and the player's handlers run later.  \<open>play()\<close> and \<open>pause()\<close> fire an event only when
  they change something; a new source stops the element without a \<open>pause\<close> event and drops the events
  that are queued (the load algorithm of media elements in HTML).\<close>

datatype media_event = TimeUpdate | DurationChange | PlayEvent | PauseEvent

record player_world =
  pw_player :: player_state
  pw_app :: app
  pw_video :: video_element
  pw_events :: "media_event list"

text \<open>What can happen: the controls, a click on the time line, the position of the element moves, it reports its position, it knows its
  duration, the video ends, a trimmed video replaces the source, the oldest event fires.\<close>

datatype player_act =
    ClickPlay
  | MoveSeek rat
  | MoveVolume rat
  | ClickMute
  | ClickLine rat rat
  | Moves rat
  | Reports
  | Loaded rat
  | Ended
  | NewSource ProcessingResult rat
  | Fires

definition run_handler :: "media_event \<Rightarrow> video_element \<Rightarrow> player_state \<times> app \<Rightarrow> player_state \<times> app" where
  "run_handler e v st = (case e of
       TimeUpdate \<Rightarrow> player_timeupdate v st
     | DurationChange \<Rightarrow> player_durationchange v st
     | PlayEvent \<Rightarrow> (case st of (p, a) \<Rightarrow> (handlePlay p, a))
     | PauseEvent \<Rightarrow> (case st of (p, a) \<Rightarrow> (handlePause p, a)))"

definition fires :: "media_event list \<Rightarrow> player_world \<Rightarrow> player_world" where
  "fires es w = w\<lparr>pw_events := pw_events w @ es\<rparr>"

definition play_events :: "bool \<Rightarrow> bool \<Rightarrow> media_event list" where
  "play_events was is = (if was = is then [] else if is then [PlayEvent] else [TimeUpdate, PauseEvent])"

fun player_step :: "player_act \<Rightarrow> player_world \<Rightarrow> player_world" where
  "player_step ClickPlay w =
     (let v' = togglePlay (pw_player w) (pw_video w)
      in fires (play_events (ve_playing (pw_video w)) (ve_playing v')) (w\<lparr>pw_video := v'\<rparr>))"
| "player_step (MoveSeek time) w =
     (case player_handleSeek time (pw_player w, pw_video w) of (p, v) \<Rightarrow> fires [TimeUpdate] (w\<lparr>pw_player := p, pw_video := v\<rparr>))"
| "player_step (MoveVolume volume) w =
     (case handleVolumeChange volume (pw_player w, pw_video w) of (p, v) \<Rightarrow> w\<lparr>pw_player := p, pw_video := v\<rparr>)"
| "player_step ClickMute w =
     (case toggleMute (pw_player w, pw_video w) of (p, v) \<Rightarrow> w\<lparr>pw_player := p, pw_video := v\<rparr>)"
| "player_step (ClickLine x width) w =
     (case timeline_handleClick (ap_duration (pw_app w)) x width of
        None \<Rightarrow> w
      | Some time \<Rightarrow> fires [TimeUpdate] (w\<lparr>pw_video := app_handleSeek time (pw_video w)\<rparr>))"
| "player_step (Moves time) w = w\<lparr>pw_video := (pw_video w)\<lparr>ve_currentTime := time\<rparr>\<rparr>"
| "player_step Reports w = fires [TimeUpdate] w"
| "player_step (Loaded duration) w = fires [DurationChange] (w\<lparr>pw_video := (pw_video w)\<lparr>ve_duration := duration\<rparr>\<rparr>)"
| "player_step Ended w =
     fires (TimeUpdate # play_events (ve_playing (pw_video w)) False) (w\<lparr>pw_video := (pw_video w)\<lparr>ve_playing := False\<rparr>\<rparr>)"
| "player_step (NewSource result duration) w =
     w\<lparr>pw_app := handleTrimComplete result (pw_app w),
       pw_video := (pw_video w)\<lparr>ve_playing := False, ve_currentTime := 0, ve_duration := duration\<rparr>,
       pw_events := [TimeUpdate, DurationChange]\<rparr>"
| "player_step Fires w = (case pw_events w of
       [] \<Rightarrow> w
     | e # es \<Rightarrow>
         (case run_handler e (pw_video w) (pw_player w, pw_app w) of (p, a) \<Rightarrow> w\<lparr>pw_player := p, pw_app := a, pw_events := es\<rparr>))"

definition player_run :: "player_act list \<Rightarrow> player_world \<Rightarrow> player_world" where
  "player_run acts w = fold player_step acts w"

text \<open>The player when its component appears, after an upload.\<close>

definition fresh_player :: "video_info \<Rightarrow> app \<Rightarrow> player_world" where
  "fresh_player video a =
     \<lparr>pw_player = \<lparr>pl_playing = False, pl_currentTime = 0, pl_duration = 0, pl_volume = 1, pl_muted = False\<rparr>,
      pw_app = handleVideoUploaded video a,
      pw_video = \<lparr>ve_playing = False, ve_currentTime = 0, ve_duration = 0, ve_volume = 1, ve_muted = False\<rparr>,
      pw_events = []\<rparr>"

text \<open>A new source comes only while the button and the element agree that nothing is played.\<close>

fun paused_sources :: "player_act list \<Rightarrow> player_world \<Rightarrow> bool" where
  "paused_sources [] w = True"
| "paused_sources (act # acts) w =
     ((case act of NewSource _ _ \<Rightarrow> \<not> pl_playing (pw_player w) \<and> \<not> ve_playing (pw_video w) | _ \<Rightarrow> True) \<and>
      paused_sources acts (player_step act w))"

section \<open>Drawing the time line\<close>

lemma tick_progress:
  assumes "0 \<le> t" and "t \<le> 2 ^ 48" and "1 / 8 \<le> st" and "st \<le> 16"
  shows "t + 1 / 16 \<le> js_add t st"
proof -
  let ?x = "t + st"
  have x: "0 < ?x" "?x \<le> 2 ^ 49" using assms by simp_all
  have "pow2 (- 1000) \<le> 1 / 8" by (simp add: pow2_def)
  then have "pow2 (- 1000) \<le> ?x" using assms by linarith
  then have "\<bar>round_double ?x - ?x\<bar> \<le> ?x * pow2 (- 53)" by (rule round_double_error [OF x(1)])
  moreover have "?x * pow2 (- 53) \<le> 2 ^ 49 * pow2 (- 53)" using x by (intro mult_right_mono) simp_all
  moreover have "2 ^ 49 * pow2 (- 53) = (1 / 16 :: rat)" by (simp add: pow2_def)
  ultimately show ?thesis using assms(3) unfolding js_add_def by linarith
qed

lemma tick_times_end:
  assumes "d \<le> 2 ^ 48" and "1 / 8 \<le> st" and "st \<le> 16" and "0 \<le> t"
  shows "\<exists>ts. tick_times (Fin d) st t = Some ts"
  using assms(4)
proof (induction "nat \<lceil>16 * (d - t) + 1\<rceil>" arbitrary: t rule: less_induct)
  case less
  show ?case
  proof (cases "t \<le> d")
    case True
    then have p: "t + 1 / 16 \<le> js_add t st" using tick_progress [of t st] less.prems assms by linarith
    then have "16 * (d - js_add t st) + 1 \<le> 16 * (d - t)" unfolding right_diff_distrib by linarith
    then have "\<lceil>16 * (d - js_add t st) + 1\<rceil> \<le> \<lceil>16 * (d - t)\<rceil>" by (rule ceiling_mono)
    then have "nat \<lceil>16 * (d - js_add t st) + 1\<rceil> < nat \<lceil>16 * (d - t) + 1\<rceil>" using True by simp
    with less.hyps p less.prems obtain ts where "tick_times (Fin d) st (js_add t st) = Some ts" by force
    with True show ?thesis by (simp add: tick_times.simps [of "Fin d" st t])
  next
    case False
    then show ?thesis by (simp add: tick_times.simps [of "Fin d" st t] num_le_def)
  qed
qed

text \<open>Whole steps are exact.\<close>

lemma tick_times_whole:
  assumes "0 \<le> d" and "d \<le> 2 ^ 48" and "0 < k" and "k \<le> 16"
    and "n \<le> Suc (nat (\<lfloor>d\<rfloor> div k))"
  shows "tick_times (Fin d) (of_int k) (of_int (int n * k)) = Some (map (\<lambda>i. of_int (int i * k)) [n..<Suc (nat (\<lfloor>d\<rfloor> div k))])"
  using assms(5)
proof (induction rule: inc_induct)
  case base
  have "\<not> (\<lfloor>d\<rfloor> div k + 1) * k \<le> \<lfloor>d\<rfloor>" using pos_mod_bound [OF assms(3), of "\<lfloor>d\<rfloor>"] div_mult_mod_eq [of "\<lfloor>d\<rfloor>" k] unfolding distrib_right by linarith
  then have "\<not> of_int ((\<lfloor>d\<rfloor> div k + 1) * k) \<le> d" by (metis floor_of_int floor_mono)
  moreover have "0 \<le> \<lfloor>d\<rfloor> div k" using assms by (simp add: pos_imp_zdiv_nonneg_iff)
  ultimately show ?case by (subst tick_times.simps) (simp add: num_le_def not_le add.commute)
next
  case (step n)
  have z: "0 \<le> \<lfloor>d\<rfloor> div k" using assms by (simp add: pos_imp_zdiv_nonneg_iff)
  with step.hyps have "int n \<le> \<lfloor>d\<rfloor> div k" by linarith
  then have "int n * k \<le> \<lfloor>d\<rfloor> div k * k" using assms(3) by (intro mult_right_mono) simp_all
  then have le: "int n * k \<le> \<lfloor>d\<rfloor>" using div_mult_mod_eq [of "\<lfloor>d\<rfloor>" k] pos_mod_sign [OF assms(3), of "\<lfloor>d\<rfloor>"] by linarith
  then have "of_int (int n * k) \<le> d" by linarith
  moreover have "js_add (of_int (int n * k)) (of_int k) = of_int (int (Suc n) * k)"
  proof -
    have "\<lfloor>d\<rfloor> \<le> 2 ^ 48" using assms(2) by (simp add: floor_le_iff)
    then have "int n * k + k \<le> 2 ^ 48 + 16" using le assms(4) by linarith
    then have "\<bar>int n * k + k\<bar> \<le> 2 ^ 53" using assms(3) by simp
    from js_add_int [OF this] show ?thesis by (simp add: distrib_right add.commute)
  qed
  ultimately show ?case using step by (subst tick_times.simps) (simp add: num_le_def upt_conv_Cons del: upt_Suc)
qed

lemma tick_times_infinite: "tick_times Infinity st t = None"
proof -
  have "d \<noteq> Infinity" if "tick_times d st t = Some ts" for d st t ts
    by (rule tick_times.raw_induct [of "\<lambda>d st t ts. d \<noteq> Infinity", OF _ that])
      (auto simp: num_le_def split: if_splits Option.bind_splits)
  then show ?thesis by fastforce
qed

lemma tick_interval_whole: "of_int \<lfloor>tick_interval d\<rfloor> = tick_interval d"
  by (simp add: tick_interval_def)

lemma minor_step: "1 / 8 \<le> js_div (tick_interval d) 5 \<and> js_div (tick_interval d) 5 \<le> 16"
proof -
  let ?x = "tick_interval d / 5"
  have x: "1 / 5 \<le> ?x" "?x \<le> 2" by (auto simp: tick_interval_def)
  have "pow2 (- 1000) \<le> 1 / 5" by (simp add: pow2_def)
  then have "pow2 (- 1000) \<le> ?x" using x by linarith
  then have "\<bar>round_double ?x - ?x\<bar> \<le> ?x * pow2 (- 53)" using x by (intro round_double_error) linarith+
  moreover have "?x * pow2 (- 53) \<le> 2 * pow2 (- 53)" using x by (intro mult_right_mono) simp_all
  moreover have "2 * pow2 (- 53) \<le> (1 / 16 :: rat)" by (simp add: pow2_def)
  ultimately show ?thesis using x unfolding js_div_def by linarith
qed

lemma tick_label_whole:
  assumes "0 \<le> n" and "n \<le> 2 ^ 48"
  shows "tick_label (of_int n) =
    (if n < 60 then show_int n @ ''s'' else show_int (n div 60) @ '':'' @ padStart 2 CHR ''0'' (show_int (n mod 60)))"
proof -
  have d: "is_double (of_int n)" using assms by (simp add: is_double_def round_double_int)
  have "\<lfloor>js_div (of_int n) 60\<rfloor> = n div 60" using floor_js_div [OF d, of 60] floor_div_int [of 60 "of_int n"] assms by simp
  moreover have "\<lfloor>js_mod (of_int n) 60\<rfloor> = n mod 60" using js_mod_floor(2) [of "of_int n" 60] assms by simp
  moreover have "0 < n div 60 \<longleftrightarrow> \<not> n < 60" by linarith
  ultimately show ?thesis using assms by (auto simp: tick_label_def Let_def)
qed

section \<open>The player follows the element\<close>

text \<open>The last of the queued \<open>play\<close> and \<open>pause\<close> events decides; the other events only bring values over.\<close>

fun settled :: "media_event list \<Rightarrow> bool \<Rightarrow> bool" where
  "settled [] playing = playing"
| "settled (PlayEvent # es) playing = settled es True"
| "settled (PauseEvent # es) playing = settled es False"
| "settled (_ # es) playing = settled es playing"

lemma settled_append [simp]: "settled (es @ es') b = settled es' (settled es b)"
  by (induction es b rule: settled.induct) simp_all

definition values_follow :: "player_world \<Rightarrow> bool" where
  "values_follow w = (
     pl_volume (pw_player w) = ve_volume (pw_video w) \<and>
     ap_duration (pw_app w) = pl_duration (pw_player w) \<and>
     (DurationChange \<notin> set (pw_events w) \<longrightarrow> pl_duration (pw_player w) = ve_duration (pw_video w)) \<and>
     (TimeUpdate \<notin> set (pw_events w) \<longrightarrow> ap_currentTime (pw_app w) = pl_currentTime (pw_player w)))"

definition playing_follows :: "player_world \<Rightarrow> bool" where
  "playing_follows w = (ve_playing (pw_video w) = settled (pw_events w) (pl_playing (pw_player w)))"

lemmas player_defs = fires_def play_events_def togglePlay_def player_handleSeek_def handleVolumeChange_def toggleMute_def
  app_handleSeek_def seekTo_def handleTrimComplete_def run_handler_def player_timeupdate_def player_durationchange_def
  handlePlay_def handlePause_def

lemma values_follow_step: "values_follow w \<Longrightarrow> values_follow (player_step act w)"
  by (cases act)
    (auto simp: values_follow_def player_defs Let_def split: option.splits list.splits media_event.splits)

lemma playing_follows_step:
  assumes "playing_follows w" and "paused_sources [act] w"
  shows "playing_follows (player_step act w)"
  using assms by (cases act)
    (auto simp: playing_follows_def player_defs Let_def split: option.splits list.splits media_event.splits)

lemma values_follow_run: "values_follow w \<Longrightarrow> values_follow (player_run acts w)"
  unfolding player_run_def by (induction acts arbitrary: w) (simp_all add: values_follow_step)

lemma playing_follows_run: "playing_follows w \<Longrightarrow> paused_sources acts w \<Longrightarrow> playing_follows (player_run acts w)"
  unfolding player_run_def by (induction acts arbitrary: w) (simp_all add: playing_follows_step)

lemma fresh_follows: "values_follow (fresh_player video a)" "playing_follows (fresh_player video a)"
  by (simp_all add: values_follow_def playing_follows_def fresh_player_def handleVideoUploaded_def)

section \<open>Properties\<close>

text \<open>C18: For every duration of up to \<open>2 ^ 48\<close> seconds the drawing of the time line ends.  Long ticks with a label stand
  exactly at the multiples of the interval (10, 5 or 1 seconds) that do not exceed the duration, whatever the rounding
  of the additions; between them are faint short ticks only, and the play head comes last.  A label
  gives seconds, from a minute on minutes and seconds.  With an infinite duration, which the element has for a stream,
  the loop never ends.\<close>

theorem timeline_draws:
  assumes "0 < d" and "d \<le> 2 ^ 48"
  shows "(\<exists>minor.
      timeline_draw w (Fin d) t = Some ([Rect ''#1f2937'' w 80] @
        concat (map (\<lambda>i. major_tick (num_div (Fin w) (Fin d)) (of_int (int i * \<lfloor>tick_interval (Fin d)\<rfloor>)))
          [0..<Suc (nat (\<lfloor>d\<rfloor> div \<lfloor>tick_interval (Fin d)\<rfloor>))]) @
        minor @ playhead (num_div (Fin w) (Fin d)) t) \<and>
      (\<forall>m \<in> set minor. \<exists>x. m = Line ''#4b5563'' 1 (3 / 10) x 70 80)) \<and>
    (\<forall>n \<in> {0 .. 2 ^ 48}. tick_label (of_int n) =
      (if n < 60 then show_int n @ ''s'' else show_int (n div 60) @ '':'' @ padStart 2 CHR ''0'' (show_int (n mod 60)))) \<and>
    timeline_draw w Infinity t = None"
proof (intro conjI)
  let ?k = "\<lfloor>tick_interval (Fin d)\<rfloor>"
  let ?minor = "\<lambda>ts. concat (map (minor_tick (num_div (Fin w) (Fin d)) (tick_interval (Fin d))) ts)"
  have k: "0 < ?k" "?k \<le> 16" by (auto simp: tick_interval_def)
  have major: "tick_times (Fin d) (tick_interval (Fin d)) 0 = Some (map (\<lambda>i. of_int (int i * ?k)) [0..<Suc (nat (\<lfloor>d\<rfloor> div ?k))])"
    using tick_times_whole [OF _ assms(2) k, of 0] assms(1) unfolding tick_interval_whole by simp
  obtain ts where minor: "tick_times (Fin d) (js_div (tick_interval (Fin d)) 5) 0 = Some ts"
    using tick_times_end [OF assms(2)] minor_step by blast
  have "\<exists>x. m = Line ''#4b5563'' 1 (3 / 10) x 70 80" if "m \<in> set (?minor ts)" for m
    using that by (auto simp: minor_tick_def split: if_splits)
  then show "\<exists>minor.
      timeline_draw w (Fin d) t = Some ([Rect ''#1f2937'' w 80] @
        concat (map (\<lambda>i. major_tick (num_div (Fin w) (Fin d)) (of_int (int i * ?k))) [0..<Suc (nat (\<lfloor>d\<rfloor> div ?k))]) @
        minor @ playhead (num_div (Fin w) (Fin d)) t) \<and>
      (\<forall>m \<in> set minor. \<exists>x. m = Line ''#4b5563'' 1 (3 / 10) x 70 80)"
    using assms(1) by (intro exI [of _ "?minor ts"]) (simp add: timeline_draw_def num_le_def major minor comp_def Let_def del: upt_Suc)
  show "\<forall>n \<in> {0 .. 2 ^ 48}. tick_label (of_int n) =
      (if n < 60 then show_int n @ ''s'' else show_int (n div 60) @ '':'' @ padStart 2 CHR ''0'' (show_int (n mod 60)))"
    by (simp add: tick_label_whole)
  show "timeline_draw w Infinity t = None" by (simp add: timeline_draw_def num_le_def tick_times_infinite Let_def)
qed

text \<open>A video of twelve seconds on a time line of 600 pixels.\<close>

theorem timeline_draws_witness:
  "0 < (12 :: rat) \<and> (12 :: rat) \<le> 2 ^ 48 \<and> timeline_draw 600 (Fin 12) 3 \<noteq> None \<and> timeline_draw 600 Infinity 3 = None \<and>
   tick_label 90 = ''1:30''"
proof -
  have h: "0 < (12 :: rat)" "(12 :: rat) \<le> 2 ^ 48" by simp_all
  note T = timeline_draws [OF h, of 600 3]
  have "90 \<in> {0 .. 2 ^ 48 :: int}" by simp
  from bspec [OF T [THEN conjunct2, THEN conjunct1] this] have "tick_label 90 = ''1:30''" by (simp, code_simp)
  then show ?thesis using h T by (auto simp del: upt_Suc)
qed



section \<open>Trimming during playback\<close>

text \<open>A trimmed video that replaces the source while the player shows \<open>Pause\<close> leaves the element stopped and the button at
  \<open>Pause\<close>; pressing it calls \<open>pause()\<close>, which changes nothing, however often.\<close>

lemma click_pause_nothing:
  assumes "pl_playing (pw_player w)" and "\<not> ve_playing (pw_video w)"
  shows "player_step ClickPlay w = w"
  using assms by (simp add: player_defs Let_def)

lemma trim_blocks_button:
  assumes "pl_playing (pw_player w)"
  shows "let w' = player_run ([NewSource result duration, Fires, Fires] @ replicate n ClickPlay) w
    in pl_playing (pw_player w') \<and> \<not> ve_playing (pw_video w') \<and> pw_events w' = []"
proof -
  let ?w = "player_run [NewSource result duration, Fires, Fires] w"
  have h: "pl_playing (pw_player ?w)" "\<not> ve_playing (pw_video ?w)" "pw_events ?w = []"
    using assms by (simp_all add: player_run_def player_defs)
  then have "player_run (replicate n ClickPlay) ?w = ?w"
    unfolding player_run_def by (induction n) (simp_all add: click_pause_nothing del: player_step.simps)
  with h show ?thesis by (simp add: player_run_def Let_def)
qed

end
