(* ===== verification/Video_Sessions.thy ===== *)
theory Video_Sessions
  imports Js_Number
begin

text \<open>
  The session store and metadata cache of the video editor's backend (\<open>db/redis.service.ts\<close>).
  The Redis client and the JSON text of the stored objects are parameters; the locale
  \<open>redis_store\<close> states what the service relies on of the client, \<open>json_text\<close> that an
  object is read back from its text, and \<open>session_service\<close> puts both together.
\<close>

section \<open>Definitions\<close>

record 's redis_client =
  client_setex :: "string \<Rightarrow> jsnum \<Rightarrow> string \<Rightarrow> (string, 's, unit) action"
  client_get :: "string \<Rightarrow> (string, 's, string option) action"
  client_del :: "string \<Rightarrow> (string, 's, nat) action"
  client_exists :: "string \<Rightarrow> (string, 's, nat) action"
  client_expire :: "string \<Rightarrow> jsnum \<Rightarrow> (string, 's, nat) action"
  client_quit :: "(string, 's, unit) action"

record 'd json_codec =
  to_text :: "'d \<Rightarrow> string"
  of_text :: "string \<Rightarrow> string + 'd"

definition SESSION_TTL :: jsnum where
  "SESSION_TTL = Fin 3600"

text \<open>The delay before the connection is tried again, in milliseconds.\<close>

definition retryStrategy :: "nat \<Rightarrow> nat" where
  "retryStrategy attempt = min (attempt * 50) 2000"

text \<open>\<open>ttl || this.SESSION_TTL\<close>: a missing, zero or NaN time takes the default.\<close>

definition expiry_of :: "jsnum option \<Rightarrow> jsnum" where
  "expiry_of ttl = (case ttl of None \<Rightarrow> SESSION_TTL | Some t \<Rightarrow> if t = Fin 0 \<or> t = NaN then SESSION_TTL else t)"

definition RedisService_set :: "'s redis_client \<Rightarrow> string \<Rightarrow> string \<Rightarrow> jsnum option \<Rightarrow> (string, 's, unit) action" where
  "RedisService_set C key val ttl = client_setex C key (expiry_of ttl) val"

definition RedisService_get :: "'s redis_client \<Rightarrow> string \<Rightarrow> (string, 's, string option) action" where
  "RedisService_get C key = client_get C key"

definition RedisService_delete :: "'s redis_client \<Rightarrow> string \<Rightarrow> (string, 's, unit) action" where
  "RedisService_delete C key = bind_action (client_del C key) (\<lambda>_. ret ())"

definition RedisService_exists :: "'s redis_client \<Rightarrow> string \<Rightarrow> (string, 's, bool) action" where
  "RedisService_exists C key = bind_action (client_exists C key) (\<lambda>n. ret (n = 1))"

definition session_key :: "string \<Rightarrow> string" where
  "session_key sessionId = ''session:'' @ sessionId"

definition metadata_key :: "string \<Rightarrow> string" where
  "metadata_key filename = ''metadata:'' @ filename"

text \<open>\<open>data ? JSON.parse(data) : null\<close>: a missing or empty text is \<open>null\<close>.\<close>

definition parse_stored :: "'d json_codec \<Rightarrow> string option \<Rightarrow> (string, 's, 'd option) action" where
  "parse_stored J data =
     (if data = None \<or> data = Some [] then ret None
      else case of_text J (the data) of Inl e \<Rightarrow> throw e | Inr d \<Rightarrow> ret (Some d))"

definition setSession :: "'d json_codec \<Rightarrow> 's redis_client \<Rightarrow> string \<Rightarrow> 'd \<Rightarrow> (string, 's, unit) action" where
  "setSession J C sessionId data = RedisService_set C (session_key sessionId) (to_text J data) (Some SESSION_TTL)"

definition getSession :: "'d json_codec \<Rightarrow> 's redis_client \<Rightarrow> string \<Rightarrow> (string, 's, 'd option) action" where
  "getSession J C sessionId = bind_action (RedisService_get C (session_key sessionId)) (parse_stored J)"

definition extendSession :: "'s redis_client \<Rightarrow> string \<Rightarrow> (string, 's, unit) action" where
  "extendSession C sessionId = bind_action (client_expire C (session_key sessionId) SESSION_TTL) (\<lambda>_. ret ())"

definition deleteSession :: "'s redis_client \<Rightarrow> string \<Rightarrow> (string, 's, unit) action" where
  "deleteSession C sessionId = RedisService_delete C (session_key sessionId)"

definition cacheMetadata :: "'d json_codec \<Rightarrow> 's redis_client \<Rightarrow> string \<Rightarrow> 'd \<Rightarrow> (string, 's, unit) action" where
  "cacheMetadata J C filename metadata = RedisService_set C (metadata_key filename) (to_text J metadata) (Some (Fin 3600))"

definition getCachedMetadata :: "'d json_codec \<Rightarrow> 's redis_client \<Rightarrow> string \<Rightarrow> (string, 's, 'd option) action" where
  "getCachedMetadata J C filename = bind_action (RedisService_get C (metadata_key filename)) (parse_stored J)"

definition RedisService_close :: "'s redis_client \<Rightarrow> (string, 's, unit) action" where
  "RedisService_close C = client_quit C"

section \<open>What the service relies on\<close>

text \<open>A stored value has a deadline; \<open>clock\<close> is the time of the server in seconds and \<open>up\<close> says that
  it can be reached.\<close>

definition live :: "(string \<rightharpoonup> string \<times> int) \<Rightarrow> int \<Rightarrow> string \<Rightarrow> string option" where
  "live st t k = (case st k of None \<Rightarrow> None | Some (v, d) \<Rightarrow> if t < d then Some v else None)"

locale redis_store =
  fixes C :: "'s redis_client" and store :: "'s \<Rightarrow> string \<rightharpoonup> string \<times> int" and clock :: "'s \<Rightarrow> int" and up :: "'s \<Rightarrow> bool"
  assumes setex_ok: "up s \<Longrightarrow> 0 < n \<Longrightarrow> \<exists>s'. client_setex C k (Fin (of_int n)) v s = (Inr (), s') \<and>
      store s' = (store s)(k \<mapsto> (v, clock s + n)) \<and> clock s' = clock s \<and> up s'"
    and get_ok: "up s \<Longrightarrow> \<exists>s'. client_get C k s = (Inr (live (store s) (clock s) k), s') \<and> store s' = store s \<and> clock s' = clock s \<and> up s'"
    and del_ok: "up s \<Longrightarrow> \<exists>n s'. client_del C k s = (Inr n, s') \<and> store s' = (store s)(k := None) \<and> clock s' = clock s \<and> up s'"
    and exists_ok: "up s \<Longrightarrow> \<exists>s'. client_exists C k s = (Inr (if live (store s) (clock s) k = None then 0 else 1), s') \<and>
      store s' = store s \<and> clock s' = clock s \<and> up s'"
    and expire_ok: "up s \<Longrightarrow> 0 < n \<Longrightarrow> \<exists>r s'. client_expire C k (Fin (of_int n)) s = (Inr r, s') \<and>
      store s' = (case live (store s) (clock s) k of None \<Rightarrow> store s | Some v \<Rightarrow> (store s)(k \<mapsto> (v, clock s + n))) \<and>
      clock s' = clock s \<and> up s'"
begin

lemma set_ttl:
  assumes "up s" and "0 < n"
  obtains s' where "RedisService_set C k v (Some (Fin (of_int n))) s = (Inr (), s')"
    "store s' = (store s)(k \<mapsto> (v, clock s + n))" "up s'" "clock s' = clock s"
  using setex_ok [OF assms, of k v] assms(2) that by (auto simp: RedisService_set_def expiry_of_def)

end

locale json_text =
  fixes J :: "'d json_codec"
  assumes text_roundtrip: "of_text J (to_text J d) = Inr d"
    and text_nonempty: "to_text J d \<noteq> []"

lemma keys_apart [simp]: "session_key a \<noteq> metadata_key b" "metadata_key b \<noteq> session_key a"
  by (simp_all add: session_key_def metadata_key_def)

lemma session_key_inject [simp]: "session_key a = session_key b \<longleftrightarrow> a = b"
  by (simp add: session_key_def)

lemma SESSION_TTL_int: "SESSION_TTL = Fin (of_int 3600)"
  by (simp add: SESSION_TTL_def)

text \<open>The service on a store and a codec.\<close>

locale session_service = redis_store C store clock up + json_text J
  for C :: "'s redis_client" and store clock up and J :: "'d json_codec"
begin

lemma getSession_live:
  assumes "up s" and "live (store s) (clock s) (session_key sid) = map_option (to_text J) d"
  shows "fst (getSession J C sid s) = Inr d"
proof -
  obtain s' where "client_get C (session_key sid) s = (Inr (map_option (to_text J) d), s')"
    using get_ok [OF assms(1), of "session_key sid"] assms(2) by auto
  then show ?thesis
    using text_roundtrip text_nonempty
    by (cases d) (simp_all add: getSession_def RedisService_get_def parse_stored_def bind_action_def)
qed

lemma setSession_store:
  assumes "up s"
  obtains s1 where "setSession J C sid d s = (Inr (), s1)" "up s1" "clock s1 = clock s"
    "store s1 = (store s)(session_key sid \<mapsto> (to_text J d, clock s + 3600))"
  using set_ttl [OF assms, of 3600 "session_key sid" "to_text J d"] by (auto simp: setSession_def SESSION_TTL_int)

lemma extendSession_store:
  assumes "up s" and "live (store s) (clock s) (session_key sid) = Some v"
  obtains s1 where "extendSession C sid s = (Inr (), s1)" "store s1 = (store s)(session_key sid \<mapsto> (v, clock s + 3600))"
  using expire_ok [OF assms(1), of 3600 "session_key sid"] assms(2)
  by (auto simp: extendSession_def bind_action_def SESSION_TTL_int)

lemma deleteSession_gone:
  assumes "up s"
  shows "\<exists>s1. deleteSession C sid s = (Inr (), s1) \<and> fst (getSession J C sid s1) = Inr None"
  using del_ok [OF assms, of "session_key sid"]
  by (auto simp: deleteSession_def RedisService_delete_def bind_action_def live_def intro!: getSession_live)

end

section \<open>The store in memory\<close>

record mem_redis =
  mr_store :: "string \<rightharpoonup> string \<times> int"
  mr_clock :: int
  mr_up :: bool

definition reachable_or :: "(string, mem_redis, 'a) action \<Rightarrow> (string, mem_redis, 'a) action" where
  "reachable_or m s = (if mr_up s then m s else (Inl ''Connection is closed.'', s))"

fun whole_seconds :: "jsnum \<Rightarrow> int option" where
  "whole_seconds (Fin q) = (if of_int (floor q) = q \<and> 0 < q then Some (floor q) else None)"
| "whole_seconds _ = None"

definition mem_redis_client :: "mem_redis redis_client" where
  "mem_redis_client =
     \<lparr>client_setex = (\<lambda>k t v. reachable_or (\<lambda>s. case whole_seconds t of
          None \<Rightarrow> (Inl ''ERR invalid expire time'', s)
        | Some n \<Rightarrow> (Inr (), s\<lparr>mr_store := (mr_store s)(k \<mapsto> (v, mr_clock s + n))\<rparr>))),
      client_get = (\<lambda>k. reachable_or (\<lambda>s. (Inr (live (mr_store s) (mr_clock s) k), s))),
      client_del = (\<lambda>k. reachable_or (\<lambda>s. (Inr (if live (mr_store s) (mr_clock s) k = None then 0 else 1),
          s\<lparr>mr_store := (mr_store s)(k := None)\<rparr>))),
      client_exists = (\<lambda>k. reachable_or (\<lambda>s. (Inr (if live (mr_store s) (mr_clock s) k = None then 0 else 1), s))),
      client_expire = (\<lambda>k t. reachable_or (\<lambda>s. case (live (mr_store s) (mr_clock s) k, whole_seconds t) of
          (Some v, Some n) \<Rightarrow> (Inr 1, s\<lparr>mr_store := (mr_store s)(k \<mapsto> (v, mr_clock s + n))\<rparr>)
        | _ \<Rightarrow> (Inr 0, s))),
      client_quit = reachable_or (\<lambda>s. (Inr (), s\<lparr>mr_up := False\<rparr>))\<rparr>"

interpretation mem_redis: redis_store mem_redis_client mr_store mr_clock mr_up
  by unfold_locales (auto simp: mem_redis_client_def reachable_or_def split: option.splits)

definition quoted :: "string json_codec" where
  "quoted = \<lparr>to_text = (\<lambda>d. CHR 0x22 # d), of_text = (\<lambda>t. Inr (tl t))\<rparr>"

interpretation quoted: json_text quoted
  by unfold_locales (simp_all add: quoted_def)

interpretation mem_session: session_service mem_redis_client mr_store mr_clock mr_up quoted
  by unfold_locales

section \<open>Properties\<close>


definition empty_redis :: mem_redis where
  "empty_redis = \<lparr>mr_store = Map.empty, mr_clock = 100, mr_up = True\<rparr>"


end
