(* ===== verification/Video_Metrics.thy ===== *)
theory Video_Metrics
  imports Js_Double
begin

text \<open>
  The metrics of the video editor's backend (\<open>services/metrics.service.ts\<close>).  The Prometheus
  client is a parameter: it registers a metric under a name that is not taken, and refuses a
  sample with a label the metric was not declared with.  The locale \<open>prom_client\<close> states this,
  with the abstract registry the samples are kept in.
\<close>

section \<open>Definitions\<close>

text \<open>What a \<open>throw\<close> can carry: an \<open>Error\<close> with its name and message, or any other value.\<close>

datatype thrown = Error string string | NotError

datatype metric_kind = Histogram | Counter | Gauge

record metric =
  m_kind :: metric_kind
  m_name :: string
  m_help :: string
  m_labelNames :: "string list"
  m_buckets :: "rat list"

type_synonym labels = "(string \<times> string) list"

record 's prom =
  prom_collectDefaults :: "string \<Rightarrow> (thrown, 's, unit) action"
  prom_new :: "metric \<Rightarrow> (thrown, 's, unit) action"
  prom_observe :: "metric \<Rightarrow> labels \<Rightarrow> rat \<Rightarrow> (thrown, 's, unit) action"
  prom_inc :: "metric \<Rightarrow> labels \<Rightarrow> (thrown, 's, unit) action"
  prom_set :: "metric \<Rightarrow> labels \<Rightarrow> rat \<Rightarrow> (thrown, 's, unit) action"
  prom_metrics :: "(thrown, 's, string) action"

definition thumbnailDuration :: metric where
  "thumbnailDuration = \<lparr>m_kind = Histogram, m_name = ''vrewcraft_thumbnail_duration_seconds'',
     m_help = ''Duration of thumbnail extraction operations in seconds'', m_labelNames = [''status''],
     m_buckets = [1/100, 25/1000, 5/100, 1/10, 25/100, 5/10, 1, 25/10, 5, 10]\<rparr>"

definition thumbnailRequests :: metric where
  "thumbnailRequests = \<lparr>m_kind = Counter, m_name = ''vrewcraft_thumbnail_requests_total'',
     m_help = ''Total number of thumbnail extraction requests'', m_labelNames = [''status''], m_buckets = []\<rparr>"

definition thumbnailCacheHitRatio :: metric where
  "thumbnailCacheHitRatio = \<lparr>m_kind = Gauge, m_name = ''vrewcraft_thumbnail_cache_hit_ratio'',
     m_help = ''Cache hit ratio for thumbnail extraction (0-1)'', m_labelNames = [], m_buckets = []\<rparr>"

definition thumbnailErrors :: metric where
  "thumbnailErrors = \<lparr>m_kind = Counter, m_name = ''vrewcraft_thumbnail_errors_total'',
     m_help = ''Total number of thumbnail extraction errors'', m_labelNames = [''error_type''], m_buckets = []\<rparr>"

definition metadataDuration :: metric where
  "metadataDuration = \<lparr>m_kind = Histogram, m_name = ''vrewcraft_metadata_duration_seconds'',
     m_help = ''Duration of metadata extraction operations in seconds'', m_labelNames = [''status''],
     m_buckets = [1/1000, 5/1000, 1/100, 25/1000, 5/100, 1/10, 25/100, 5/10, 1]\<rparr>"

definition metadataRequests :: metric where
  "metadataRequests = \<lparr>m_kind = Counter, m_name = ''vrewcraft_metadata_requests_total'',
     m_help = ''Total number of metadata extraction requests'', m_labelNames = [''status''], m_buckets = []\<rparr>"

definition metadataErrors :: metric where
  "metadataErrors = \<lparr>m_kind = Counter, m_name = ''vrewcraft_metadata_errors_total'',
     m_help = ''Total number of metadata extraction errors'', m_labelNames = [''error_type''], m_buckets = []\<rparr>"

definition apiLatency :: metric where
  "apiLatency = \<lparr>m_kind = Histogram, m_name = ''vrewcraft_api_latency_seconds'',
     m_help = ''HTTP API request latency in seconds'', m_labelNames = [''method'', ''route'', ''status_code''],
     m_buckets = [1/100, 5/100, 1/10, 5/10, 1, 2, 5, 10]\<rparr>"

definition apiRequests :: metric where
  "apiRequests = \<lparr>m_kind = Counter, m_name = ''vrewcraft_api_requests_total'',
     m_help = ''Total number of API requests'', m_labelNames = [''method'', ''route'', ''status_code''], m_buckets = []\<rparr>"

definition apiErrors :: metric where
  "apiErrors = \<lparr>m_kind = Counter, m_name = ''vrewcraft_api_errors_total'',
     m_help = ''Total number of API errors'', m_labelNames = [''method'', ''route'', ''error_type''], m_buckets = []\<rparr>"

definition ffmpegDuration :: metric where
  "ffmpegDuration = \<lparr>m_kind = Histogram, m_name = ''vrewcraft_ffmpeg_duration_seconds'',
     m_help = ''Duration of FFmpeg operations in seconds'', m_labelNames = [''operation'', ''status''],
     m_buckets = [1/10, 5/10, 1, 2, 5, 10, 30, 60, 120]\<rparr>"

definition ffmpegErrors :: metric where
  "ffmpegErrors = \<lparr>m_kind = Counter, m_name = ''vrewcraft_ffmpeg_errors_total'',
     m_help = ''Total number of FFmpeg errors'', m_labelNames = [''operation'', ''error_type''], m_buckets = []\<rparr>"

definition memoryUsage :: metric where
  "memoryUsage = \<lparr>m_kind = Gauge, m_name = ''vrewcraft_memory_usage_bytes'',
     m_help = ''Memory usage in bytes'', m_labelNames = [''type''], m_buckets = []\<rparr>"

definition cpuUsage :: metric where
  "cpuUsage = \<lparr>m_kind = Gauge, m_name = ''vrewcraft_cpu_usage_percent'',
     m_help = ''CPU usage percentage'', m_labelNames = [], m_buckets = []\<rparr>"

definition all_metrics :: "metric list" where
  "all_metrics = [thumbnailDuration, thumbnailRequests, thumbnailCacheHitRatio, thumbnailErrors, metadataDuration,
     metadataRequests, metadataErrors, apiLatency, apiRequests, apiErrors, ffmpegDuration, ffmpegErrors, memoryUsage, cpuUsage]"

definition new_MetricsService :: "'s prom \<Rightarrow> (thrown, 's, unit) action" where
  "new_MetricsService M =
     bind_action (prom_collectDefaults M ''vrewcraft_'')
       (\<lambda>_. bind_action (map_action (prom_new M) all_metrics) (\<lambda>_. ret ()))"

text \<open>One run of the interval of \<open>startSystemMetricsCollection\<close>; the readings are those of
  \<open>process.memoryUsage\<close> and \<open>process.cpuUsage\<close>.\<close>

record readings =
  rd_rss :: nat
  rd_heapTotal :: nat
  rd_heapUsed :: nat
  rd_external :: nat
  rd_user :: nat
  rd_system :: nat

definition collect_system_metrics :: "'s prom \<Rightarrow> readings \<Rightarrow> (thrown, 's, unit) action" where
  "collect_system_metrics M u =
     bind_action (prom_set M memoryUsage [(''type'', ''rss'')] (of_nat (rd_rss u))) (\<lambda>_.
     bind_action (prom_set M memoryUsage [(''type'', ''heap_total'')] (of_nat (rd_heapTotal u))) (\<lambda>_.
     bind_action (prom_set M memoryUsage [(''type'', ''heap_used'')] (of_nat (rd_heapUsed u))) (\<lambda>_.
     bind_action (prom_set M memoryUsage [(''type'', ''external'')] (of_nat (rd_external u))) (\<lambda>_.
     prom_set M cpuUsage [] (js_div (js_add (of_nat (rd_user u)) (of_nat (rd_system u))) 1000000)))))"

definition getMetrics :: "'s prom \<Rightarrow> (thrown, 's, string) action" where
  "getMetrics M = prom_metrics M"

definition status_of :: "bool \<Rightarrow> string" where
  "status_of success = (if success then ''success'' else ''error'')"

definition recordThumbnailExtraction :: "'s prom \<Rightarrow> rat \<Rightarrow> bool \<Rightarrow> (thrown, 's, unit) action" where
  "recordThumbnailExtraction M durationSeconds success =
     bind_action (prom_observe M thumbnailDuration [(''status'', status_of success)] durationSeconds) (\<lambda>_.
     prom_inc M thumbnailRequests [(''status'', status_of success)])"

definition hit_ratio :: "rat \<Rightarrow> rat \<Rightarrow> rat" where
  "hit_ratio hits misses = (let t = js_add hits misses in if 0 < t then js_div hits t else 0)"

definition updateThumbnailCacheStats :: "'s prom \<Rightarrow> rat \<Rightarrow> rat \<Rightarrow> (thrown, 's, unit) action" where
  "updateThumbnailCacheStats M hits misses = prom_set M thumbnailCacheHitRatio [] (hit_ratio hits misses)"

definition recordMetadataExtraction :: "'s prom \<Rightarrow> rat \<Rightarrow> bool \<Rightarrow> (thrown, 's, unit) action" where
  "recordMetadataExtraction M durationSeconds success =
     bind_action (prom_observe M metadataDuration [(''status'', status_of success)] durationSeconds) (\<lambda>_.
     prom_inc M metadataRequests [(''status'', status_of success)])"

definition recordApiRequest :: "'s prom \<Rightarrow> string \<Rightarrow> string \<Rightarrow> nat \<Rightarrow> rat \<Rightarrow> (thrown, 's, unit) action" where
  "recordApiRequest M meth route statusCode durationSeconds =
     bind_action (prom_observe M apiLatency [(''method'', meth), (''route'', route), (''status_code'', show_nat statusCode)]
         durationSeconds) (\<lambda>_.
     prom_inc M apiRequests [(''method'', meth), (''route'', route), (''status_code'', show_nat statusCode)])"

definition recordFFmpegOperation :: "'s prom \<Rightarrow> string \<Rightarrow> rat \<Rightarrow> bool \<Rightarrow> (thrown, 's, unit) action" where
  "recordFFmpegOperation M operation durationSeconds success =
     prom_observe M ffmpegDuration [(''operation'', operation), (''status'', status_of success)] durationSeconds"

datatype error_source = ThumbnailError | MetadataError | ApiError | FfmpegError

text \<open>\<open>{ ...labels, error_type: errorType }\<close>\<close>

definition with_error_type :: "labels option \<Rightarrow> string \<Rightarrow> labels" where
  "with_error_type ls errorType = map_set ''error_type'' errorType (case ls of None \<Rightarrow> [] | Some l \<Rightarrow> l)"

definition recordError :: "'s prom \<Rightarrow> error_source \<Rightarrow> string \<Rightarrow> labels option \<Rightarrow> (thrown, 's, unit) action" where
  "recordError M src errorType ls = (case src of
       ThumbnailError \<Rightarrow> prom_inc M thumbnailErrors [(''error_type'', errorType)]
     | MetadataError \<Rightarrow> prom_inc M metadataErrors [(''error_type'', errorType)]
     | ApiError \<Rightarrow> prom_inc M apiErrors (with_error_type ls errorType)
     | FfmpegError \<Rightarrow> prom_inc M ffmpegErrors (with_error_type ls errorType))"

section \<open>What the service relies on\<close>

text \<open>The registry: the names taken, the value of each counter and gauge and the samples of each
  histogram, per metric name and labels.\<close>

record registry =
  rg_names :: "string list"
  rg_total :: "string \<Rightarrow> labels \<Rightarrow> nat"
  rg_observed :: "string \<Rightarrow> labels \<Rightarrow> rat list"
  rg_gauge :: "string \<Rightarrow> labels \<Rightarrow> rat option"

definition accepts :: "metric \<Rightarrow> labels \<Rightarrow> registry \<Rightarrow> bool" where
  "accepts m ls r = (m_name m \<in> set (rg_names r) \<and> (\<forall>l \<in> set ls. fst l \<in> set (m_labelNames m)))"

definition reg_inc :: "metric \<Rightarrow> labels \<Rightarrow> registry \<Rightarrow> registry" where
  "reg_inc m ls r = r\<lparr>rg_total := (rg_total r)(m_name m := (rg_total r (m_name m))(ls := rg_total r (m_name m) ls + 1))\<rparr>"

definition reg_observe :: "metric \<Rightarrow> labels \<Rightarrow> rat \<Rightarrow> registry \<Rightarrow> registry" where
  "reg_observe m ls x r =
     r\<lparr>rg_observed := (rg_observed r)(m_name m := (rg_observed r (m_name m))(ls := rg_observed r (m_name m) ls @ [x]))\<rparr>"

definition reg_set :: "metric \<Rightarrow> labels \<Rightarrow> rat \<Rightarrow> registry \<Rightarrow> registry" where
  "reg_set m ls x r = r\<lparr>rg_gauge := (rg_gauge r)(m_name m := (rg_gauge r (m_name m))(ls := Some x))\<rparr>"

text \<open>The default metrics are documented to be named \<open>process_...\<close> and \<open>nodejs_...\<close>.\<close>

locale prom_client =
  fixes M :: "'s prom" and reg :: "'s \<Rightarrow> registry" and default_names :: "string list"
  assumes defaults_named: "d \<in> set default_names \<Longrightarrow> startsWith d ''process_'' \<or> startsWith d ''nodejs_''"
    and defaults_ok: "rg_names (reg s) = [] \<Longrightarrow> \<exists>s'. prom_collectDefaults M p s = (Inr (), s') \<and>
      reg s' = (reg s)\<lparr>rg_names := map ((@) p) default_names\<rparr>"
    and new_ok: "m_name m \<notin> set (rg_names (reg s)) \<Longrightarrow> \<exists>s'. prom_new M m s = (Inr (), s') \<and>
      reg s' = (reg s)\<lparr>rg_names := rg_names (reg s) @ [m_name m]\<rparr>"
    and observe_ok: "accepts m ls (reg s) \<Longrightarrow> \<exists>s'. prom_observe M m ls x s = (Inr (), s') \<and> reg s' = reg_observe m ls x (reg s)"
    and inc_ok: "accepts m ls (reg s) \<Longrightarrow> \<exists>s'. prom_inc M m ls s = (Inr (), s') \<and> reg s' = reg_inc m ls (reg s)"
    and set_ok: "accepts m ls (reg s) \<Longrightarrow> \<exists>s'. prom_set M m ls x s = (Inr (), s') \<and> reg s' = reg_set m ls x (reg s)"
    and refused: "\<not> accepts m ls (reg s) \<Longrightarrow> \<exists>e. prom_inc M m ls s = (Inl e, s)"
begin

lemma new_all:
  assumes "distinct (map m_name ms)" and "set (map m_name ms) \<inter> set (rg_names (reg s)) = {}"
  shows "\<exists>us s'. map_action (prom_new M) ms s = (Inr us, s') \<and>
    reg s' = (reg s)\<lparr>rg_names := rg_names (reg s) @ map m_name ms\<rparr>"
  using assms
proof (induction ms arbitrary: s)
  case (Cons m ms)
  obtain s1 where s1: "prom_new M m s = (Inr (), s1)" "reg s1 = (reg s)\<lparr>rg_names := rg_names (reg s) @ [m_name m]\<rparr>"
    using new_ok [of m s] Cons.prems by auto
  obtain us s2 where "map_action (prom_new M) ms s1 = (Inr us, s2)"
    "reg s2 = (reg s1)\<lparr>rg_names := rg_names (reg s1) @ map m_name ms\<rparr>"
    using Cons.IH [of s1] Cons.prems s1(2) by auto
  then show ?case using s1 by (simp add: bind_action_def)
qed simp

end

text \<open>The service has been started: every metric of it is registered.\<close>

definition started :: "registry \<Rightarrow> bool" where
  "started r = (\<forall>m \<in> set all_metrics. m_name m \<in> set (rg_names r))"

lemmas metric_defs = thumbnailDuration_def thumbnailRequests_def thumbnailCacheHitRatio_def thumbnailErrors_def
  metadataDuration_def metadataRequests_def metadataErrors_def apiLatency_def apiRequests_def apiErrors_def
  ffmpegDuration_def ffmpegErrors_def memoryUsage_def cpuUsage_def

lemma started_metrics [simp]:
  assumes "started r"
  shows "m_name thumbnailDuration \<in> set (rg_names r)" "m_name thumbnailRequests \<in> set (rg_names r)"
    "m_name thumbnailCacheHitRatio \<in> set (rg_names r)" "m_name thumbnailErrors \<in> set (rg_names r)"
    "m_name metadataDuration \<in> set (rg_names r)" "m_name metadataRequests \<in> set (rg_names r)"
    "m_name metadataErrors \<in> set (rg_names r)" "m_name apiLatency \<in> set (rg_names r)"
    "m_name apiRequests \<in> set (rg_names r)" "m_name apiErrors \<in> set (rg_names r)"
    "m_name ffmpegDuration \<in> set (rg_names r)" "m_name ffmpegErrors \<in> set (rg_names r)"
    "m_name memoryUsage \<in> set (rg_names r)" "m_name cpuUsage \<in> set (rg_names r)"
  using assms by (simp_all add: started_def all_metrics_def)

lemma reg_names [simp]:
  "rg_names (reg_inc m ls r) = rg_names r" "rg_names (reg_observe m ls x r) = rg_names r" "rg_names (reg_set m ls x r) = rg_names r"
  by (simp_all add: reg_inc_def reg_observe_def reg_set_def)

lemma started_reg [simp]:
  "started (reg_inc m ls r) = started r" "started (reg_observe m ls x r) = started r" "started (reg_set m ls x r) = started r"
  by (simp_all add: started_def)

lemma status_labels [simp]:
  "m_labelNames thumbnailDuration = [''status'']" "m_labelNames thumbnailRequests = [''status'']"
  "m_labelNames metadataDuration = [''status'']" "m_labelNames metadataRequests = [''status'']"
  "m_labelNames thumbnailErrors = [''error_type'']" "m_labelNames metadataErrors = [''error_type'']"
  by (simp_all add: metric_defs)

context prom_client
begin

lemma record_thumbnail:
  assumes "started (reg s)"
  obtains s' where "recordThumbnailExtraction M t ok s = (Inr (), s')"
    "reg s' = reg_inc thumbnailRequests [(''status'', status_of ok)] (reg_observe thumbnailDuration [(''status'', status_of ok)] t (reg s))"
proof -
  let ?l = "[(''status'', status_of ok)]"
  obtain s1 where s1: "prom_observe M thumbnailDuration ?l t s = (Inr (), s1)" "reg s1 = reg_observe thumbnailDuration ?l t (reg s)"
    using observe_ok [of thumbnailDuration ?l s t] assms by (auto simp: accepts_def)
  obtain s2 where s2: "prom_inc M thumbnailRequests ?l s1 = (Inr (), s2)" "reg s2 = reg_inc thumbnailRequests ?l (reg s1)"
    using inc_ok [of thumbnailRequests ?l s1] assms s1(2) by (auto simp: accepts_def)
  show thesis using that [of s2] s1 s2 by (simp add: recordThumbnailExtraction_def bind_action_def)
qed

lemma record_metadata:
  assumes "started (reg s)"
  obtains s' where "recordMetadataExtraction M t ok s = (Inr (), s')"
    "reg s' = reg_inc metadataRequests [(''status'', status_of ok)] (reg_observe metadataDuration [(''status'', status_of ok)] t (reg s))"
proof -
  let ?l = "[(''status'', status_of ok)]"
  obtain s1 where s1: "prom_observe M metadataDuration ?l t s = (Inr (), s1)" "reg s1 = reg_observe metadataDuration ?l t (reg s)"
    using observe_ok [of metadataDuration ?l s t] assms by (auto simp: accepts_def)
  obtain s2 where s2: "prom_inc M metadataRequests ?l s1 = (Inr (), s2)" "reg s2 = reg_inc metadataRequests ?l (reg s1)"
    using inc_ok [of metadataRequests ?l s1] assms s1(2) by (auto simp: accepts_def)
  show thesis using that [of s2] s1 s2 by (simp add: recordMetadataExtraction_def bind_action_def)
qed

lemma record_error:
  assumes "started (reg s)"
  obtains s' where "recordError M ThumbnailError e ls s = (Inr (), s')" "reg s' = reg_inc thumbnailErrors [(''error_type'', e)] (reg s)"
  using inc_ok [of thumbnailErrors "[(''error_type'', e)]" s] assms by (auto simp: accepts_def recordError_def)

lemma record_metadata_error:
  assumes "started (reg s)"
  obtains s' where "recordError M MetadataError e ls s = (Inr (), s')" "reg s' = reg_inc metadataErrors [(''error_type'', e)] (reg s)"
  using inc_ok [of metadataErrors "[(''error_type'', e)]" s] assms by (auto simp: accepts_def recordError_def)

lemma record_ratio:
  assumes "started (reg s)"
  obtains s' where "updateThumbnailCacheStats M h m s = (Inr (), s')" "reg s' = reg_set thumbnailCacheHitRatio [] (hit_ratio h m) (reg s)"
  using set_ok [of thumbnailCacheHitRatio "[]" s] assms by (auto simp: accepts_def updateThumbnailCacheStats_def)

end

lemma hit_ratio_bounds:
  assumes "0 \<le> h" and "0 \<le> m" and "h + m \<le> 2 ^ 53"
  shows "0 \<le> hit_ratio (of_int h) (of_int m)" "hit_ratio (of_int h) (of_int m) \<le> 1"
proof -
  have sum: "js_add (of_int h) (of_int m) = of_int (h + m)" using assms by (intro js_add_int) simp
  show "0 \<le> hit_ratio (of_int h) (of_int m)"
    using assms by (simp add: hit_ratio_def sum js_div_def Let_def round_double_nonneg)
  show "hit_ratio (of_int h) (of_int m) \<le> 1"
    using assms by (auto simp: hit_ratio_def sum js_div_def Let_def intro!: round_double_le_one)
qed

section \<open>The registry in memory\<close>

text \<open>The client on any state that holds a registry.\<close>

definition sample ::
    "('s \<Rightarrow> registry) \<Rightarrow> (registry \<Rightarrow> 's \<Rightarrow> 's) \<Rightarrow> metric \<Rightarrow> labels \<Rightarrow> (registry \<Rightarrow> registry) \<Rightarrow> (thrown, 's, unit) action" where
  "sample get put m ls f s =
     (if accepts m ls (get s) then (Inr (), put (f (get s)) s)
      else (Inl (Error ''Error'' ''Added label is not included in initial labelset''), s))"

definition registry_prom :: "('s \<Rightarrow> registry) \<Rightarrow> (registry \<Rightarrow> 's \<Rightarrow> 's) \<Rightarrow> 's prom" where
  "registry_prom get put =
     \<lparr>prom_collectDefaults = (\<lambda>p s. (Inr (), put ((get s)\<lparr>rg_names := [p @ ''process_cpu_seconds_total'']\<rparr>) s)),
      prom_new = (\<lambda>m s. if m_name m \<in> set (rg_names (get s))
        then (Inl (Error ''Error'' ''A metric with that name has already been registered.''), s)
        else (Inr (), put ((get s)\<lparr>rg_names := rg_names (get s) @ [m_name m]\<rparr>) s)),
      prom_observe = (\<lambda>m ls x. sample get put m ls (reg_observe m ls x)),
      prom_inc = (\<lambda>m ls. sample get put m ls (reg_inc m ls)),
      prom_set = (\<lambda>m ls x. sample get put m ls (reg_set m ls x)),
      prom_metrics = ret []\<rparr>"

lemma registry_prom_client:
  assumes "\<And>r s. get (put r s) = r"
  shows "prom_client (registry_prom get put) get [''process_cpu_seconds_total'']"
  using assms by unfold_locales (simp_all add: registry_prom_def sample_def startsWith_def)

interpretation own_registry: prom_client "registry_prom id (\<lambda>r _. r)" id "[''process_cpu_seconds_total'']"
  by (rule registry_prom_client) simp

section \<open>Properties\<close>

lemma all_names:
  "map m_name all_metrics = map ((@) ''vrewcraft_'') [''thumbnail_duration_seconds'', ''thumbnail_requests_total'',
     ''thumbnail_cache_hit_ratio'', ''thumbnail_errors_total'', ''metadata_duration_seconds'', ''metadata_requests_total'',
     ''metadata_errors_total'', ''api_latency_seconds'', ''api_requests_total'', ''api_errors_total'', ''ffmpeg_duration_seconds'',
     ''ffmpeg_errors_total'', ''memory_usage_bytes'', ''cpu_usage_percent'']"
  by (simp add: all_metrics_def metric_defs)

text \<open>The constructor registers every metric: the names differ from one another and from those of the
  default metrics.\<close>

lemma metrics_service_starts:
  assumes "prom_client M reg default_names" and "rg_names (reg s) = []"
  shows "\<exists>s'. new_MetricsService M s = (Inr (), s') \<and> started (reg s') \<and>
    reg s' = (reg s)\<lparr>rg_names := map ((@) ''vrewcraft_'') default_names @ map m_name all_metrics\<rparr>"
proof -
  obtain s1 where s1: "prom_collectDefaults M ''vrewcraft_'' s = (Inr (), s1)"
    "reg s1 = (reg s)\<lparr>rg_names := map ((@) ''vrewcraft_'') default_names\<rparr>"
    using prom_client.defaults_ok [OF assms(1), of s "''vrewcraft_''"] assms(2) by auto
  have "set (map m_name all_metrics) \<inter> set (rg_names (reg s1)) = {}"
    using prom_client.defaults_named [OF assms(1)] by (fastforce simp: s1(2) all_names startsWith_def)
  moreover have "distinct (map m_name all_metrics)" by (simp add: all_names)
  ultimately obtain us s2 where "map_action (prom_new M) all_metrics s1 = (Inr us, s2)"
    "reg s2 = (reg s1)\<lparr>rg_names := rg_names (reg s1) @ map m_name all_metrics\<rparr>"
    using prom_client.new_all [OF assms(1)] by blast
  then show ?thesis using s1 by (auto simp: new_MetricsService_def bind_action_def started_def)
qed

end
