(* ===== verification/Video_Native.thy ===== *)
theory Video_Native
  imports Video_Edit Video_Metrics
begin

text \<open>
  The native video service (\<open>services/native-video.service.ts\<close>) and the routes over it
  (\<open>routes/thumbnail.ts\<close>, \<open>routes/metadata.ts\<close>, \<open>routes/metrics.ts\<close>).  The addon that
  \<open>require\<close> loads is a parameter: its functions are actions that may throw.  An object made from
  a class of the addon is represented by the addon.
\<close>

section \<open>Definitions\<close>

record ThumbnailExtractorStats =
  totalExtractions :: int
  avgDurationMs :: rat
  cacheHits :: int
  cacheMisses :: int

record VideoStreamInfo =
  vs_codecName :: string
  vs_codecLongName :: string
  vs_width :: int
  vs_height :: int
  vs_bitrate :: int
  vs_fps :: rat
  vs_pixelFormat :: string
  vs_nbFrames :: int

record AudioStreamInfo =
  as_codecName :: string
  as_codecLongName :: string
  as_sampleRate :: int
  as_channels :: int
  as_bitrate :: int
  as_channelLayout :: string

record FormatInfo =
  fi_formatName :: string
  fi_formatLongName :: string
  fi_durationSec :: rat
  fi_sizeBytes :: int
  fi_bitrate :: int
  fi_nbStreams :: int
  fi_metadata :: "(string \<times> string) list"

record VideoMetadata =
  md_format :: FormatInfo
  md_videoStreams :: "VideoStreamInfo list"
  md_audioStreams :: "AudioStreamInfo list"

record 's NativeVideoProcessor =
  addon_getVersion :: "(thrown, 's, string) action"
  addon_ThumbnailExtractor :: "(thrown, 's, unit) action"
  addon_extractThumbnail :: "string \<Rightarrow> jsnum \<Rightarrow> jsval \<Rightarrow> jsval \<Rightarrow> (thrown, 's, string) action"
  addon_getStats :: "(thrown, 's, ThumbnailExtractorStats) action"
  addon_MetadataAnalyzer :: "(thrown, 's, unit) action"
  addon_extractMetadata :: "string \<Rightarrow> (thrown, 's, VideoMetadata) action"
  addon_isCodecSupported :: "string \<Rightarrow> (thrown, 's, bool) action"

record 's NativeVideoService =
  nativeModule :: "'s NativeVideoProcessor option"
  thumbnailExtractor :: "'s NativeVideoProcessor option"
  metadataAnalyzer :: "'s NativeVideoProcessor option"

definition possiblePaths :: "string \<Rightarrow> string list" where
  "possiblePaths dirname =
     [path_join [dirname, ''../../../native/build/Release/video_processor.node''],
      ''/app/native/build/Release/video_processor.node'',
      path_join [dirname, ''../../node_modules/vrewcraft-native/build/Release/video_processor.node'']]"

definition existsSync :: "string \<Rightarrow> 'z fs_scheme \<Rightarrow> bool" where
  "existsSync p s = (fst (fs_access p s) = Inr ())"

text \<open>The \<open>try\<close> block of the loader for one path: the service as far as the block got, and whether
  it returned.\<close>

definition load_module ::
    "(string \<Rightarrow> (thrown, 's, 's NativeVideoProcessor) action) \<Rightarrow> string \<Rightarrow> 's NativeVideoService \<Rightarrow> 's \<Rightarrow>
      (bool \<times> 's NativeVideoService) \<times> 's" where
  "load_module require p svc s = (case require p s of
       (Inl e, s1) \<Rightarrow> ((False, svc), s1)
     | (Inr m, s1) \<Rightarrow>
         (let svc1 = svc\<lparr>nativeModule := Some m\<rparr>
          in case addon_getVersion m s1 of
               (Inl e, s2) \<Rightarrow> ((False, svc1), s2)
             | (Inr v, s2) \<Rightarrow>
                 (case addon_ThumbnailExtractor m s2 of
                    (Inl e, s3) \<Rightarrow> ((False, svc1), s3)
                  | (Inr u, s3) \<Rightarrow>
                      (let svc2 = svc1\<lparr>thumbnailExtractor := Some m\<rparr>
                       in case addon_MetadataAnalyzer m s3 of
                            (Inl e, s4) \<Rightarrow> ((False, svc2), s4)
                          | (Inr w, s4) \<Rightarrow> ((True, svc2\<lparr>metadataAnalyzer := Some m\<rparr>), s4)))))"

fun loadNativeModule ::
    "(string \<Rightarrow> (thrown, 'z fs_scheme, 'z fs_scheme NativeVideoProcessor) action) \<Rightarrow> string list \<Rightarrow>
      'z fs_scheme NativeVideoService \<Rightarrow> 'z fs_scheme \<Rightarrow> 'z fs_scheme NativeVideoService \<times> 'z fs_scheme" where
  "loadNativeModule require [] svc s = (svc, s)"
| "loadNativeModule require (p # ps) svc s =
     (if existsSync p s
      then case load_module require p svc s of
             ((True, svc'), s') \<Rightarrow> (svc', s')
           | ((False, svc'), s') \<Rightarrow> loadNativeModule require ps svc' s'
      else loadNativeModule require ps svc s)"

definition new_NativeVideoService ::
    "(string \<Rightarrow> (thrown, 'z fs_scheme, 'z fs_scheme NativeVideoProcessor) action) \<Rightarrow> string \<Rightarrow> 'z fs_scheme \<Rightarrow>
      'z fs_scheme NativeVideoService \<times> 'z fs_scheme" where
  "new_NativeVideoService require dirname =
     loadNativeModule require (possiblePaths dirname) \<lparr>nativeModule = None, thumbnailExtractor = None, metadataAnalyzer = None\<rparr>"

definition isAvailable :: "'s NativeVideoService \<Rightarrow> bool" where
  "isAvailable svc = (nativeModule svc \<noteq> None)"

definition not_available :: thrown where
  "not_available = Error ''Error'' ''Native module not available''"

definition file_not_found :: "string \<Rightarrow> thrown" where
  "file_not_found videoPath = Error ''Error'' (''Video file not found: '' @ videoPath)"

definition getVersion :: "'s NativeVideoService \<Rightarrow> (thrown, 's, string) action" where
  "getVersion svc = (case nativeModule svc of None \<Rightarrow> throw not_available | Some m \<Rightarrow> addon_getVersion m)"

definition extractThumbnail ::
    "'z fs_scheme NativeVideoService \<Rightarrow> string \<Rightarrow> jsnum \<Rightarrow> jsval \<Rightarrow> jsval \<Rightarrow> (thrown, 'z fs_scheme, string) action" where
  "extractThumbnail svc videoPath timestamp width height = (case thumbnailExtractor svc of
       None \<Rightarrow> throw not_available
     | Some x \<Rightarrow> bind_action (reads (existsSync videoPath)) (\<lambda>found.
         if \<not> found then throw (file_not_found videoPath)
         else addon_extractThumbnail x videoPath timestamp width height))"

definition getThumbnailStats :: "'s NativeVideoService \<Rightarrow> (thrown, 's, ThumbnailExtractorStats) action" where
  "getThumbnailStats svc = (case thumbnailExtractor svc of None \<Rightarrow> throw not_available | Some x \<Rightarrow> addon_getStats x)"

definition extractMetadata :: "'z fs_scheme NativeVideoService \<Rightarrow> string \<Rightarrow> (thrown, 'z fs_scheme, VideoMetadata) action" where
  "extractMetadata svc videoPath = (case metadataAnalyzer svc of
       None \<Rightarrow> throw not_available
     | Some a \<Rightarrow> bind_action (reads (existsSync videoPath)) (\<lambda>found.
         if \<not> found then throw (file_not_found videoPath) else addon_extractMetadata a videoPath))"

definition isCodecSupported ::
    "(string \<Rightarrow> (thrown, 's, 's NativeVideoProcessor) action) \<Rightarrow> string \<Rightarrow> string \<Rightarrow> (thrown, 's, bool) action" where
  "isCodecSupported require dirname codecName =
     try_catch (bind_action (require (path_join [dirname, ''../../../native/build/Release/video_processor.node'']))
         (\<lambda>m. addon_isCodecSupported m codecName))
       (\<lambda>_. ret False)"

subsection \<open>Routes\<close>

text \<open>An answer, or a status with the error and its message.  The path in a request is a string, as the
  routes document it, or missing; the other members of the body are any scalar value.\<close>

datatype 'a answer = Answer 'a | Problem nat string "string option"

definition error_message :: "thrown \<Rightarrow> string" where
  "error_message e = (case e of Error n m \<Rightarrow> m | NotError \<Rightarrow> ''Unknown error'')"

definition error_name :: "thrown \<Rightarrow> string" where
  "error_name e = (case e of Error n m \<Rightarrow> n | NotError \<Rightarrow> ''UnknownError'')"

definition seconds_between :: "int \<Rightarrow> int \<Rightarrow> rat" where
  "seconds_between startTime now = js_div (js_sub (of_int now) (of_int startTime)) 1000"

text \<open>The image with the number its file name is made of.\<close>

record thumbnail =
  tn_contentType :: string
  tn_timestamp :: jsnum
  tn_buffer :: string

definition thumbnail_failed ::
    "'s prom \<Rightarrow> int \<Rightarrow> int \<Rightarrow> thrown \<Rightarrow> (thrown, 's, 'a answer) action" where
  "thumbnail_failed M startTime now e =
     bind_action (recordThumbnailExtraction M (seconds_between startTime now) False) (\<lambda>_.
     bind_action (recordError M ThumbnailError (error_name e) None) (\<lambda>_.
     ret (Problem 500 ''Failed to extract thumbnail'' (Some (error_message e)))))"

definition thumbnail_done ::
    "'s prom \<Rightarrow> 's NativeVideoService \<Rightarrow> int \<Rightarrow> int \<Rightarrow> jsnum \<Rightarrow> string \<Rightarrow> (thrown, 's, thumbnail answer) action" where
  "thumbnail_done M svc startTime now t thumbnailBuffer =
     bind_action (recordThumbnailExtraction M (seconds_between startTime now) True) (\<lambda>_.
     bind_action (getThumbnailStats svc) (\<lambda>stats.
     bind_action (updateThumbnailCacheStats M (of_int (cacheHits stats)) (of_int (cacheMisses stats))) (\<lambda>_.
     ret (Answer \<lparr>tn_contentType = ''application/octet-stream'', tn_timestamp = t, tn_buffer = thumbnailBuffer\<rparr>))))"

definition post_thumbnail ::
    "'z fs_scheme prom \<Rightarrow> 'z fs_scheme NativeVideoService \<Rightarrow> int \<Rightarrow> int \<Rightarrow> string field \<Rightarrow> jsval \<Rightarrow> jsval \<Rightarrow> jsval \<Rightarrow>
      (thrown, 'z fs_scheme, thumbnail answer) action" where
  "post_thumbnail M svc startTime now videoPath timestamp width height =
     try_catch
       (if \<not> isAvailable svc
        then ret (Problem 503 ''Native video processing not available''
               (Some ''C++ native addon is not loaded. Thumbnail extraction is unavailable.''))
        else case videoPath of
            Value p \<Rightarrow>
              (if p = [] then ret (Problem 400 ''videoPath is required'' None)
               else case timestamp of
                   JUndef \<Rightarrow> ret (Problem 400 ''timestamp is required'' None)
                 | JNull \<Rightarrow> ret (Problem 400 ''timestamp is required'' None)
                 | JNum t \<Rightarrow>
                     (if num_less t (Fin 0) then ret (Problem 400 ''timestamp must be a positive number'' None)
                      else bind_action (extractThumbnail svc p t (if width = JUndef then lit 0 else width)
                               (if height = JUndef then lit 0 else height)) (thumbnail_done M svc startTime now t))
                 | _ \<Rightarrow> ret (Problem 400 ''timestamp must be a positive number'' None))
          | _ \<Rightarrow> ret (Problem 400 ''videoPath is required'' None))
       (thumbnail_failed M startTime now)"

definition get_thumbnail_stats :: "'s NativeVideoService \<Rightarrow> (thrown, 's, ThumbnailExtractorStats answer) action" where
  "get_thumbnail_stats svc =
     try_catch
       (if \<not> isAvailable svc then ret (Problem 503 ''Native video processing not available'' None)
        else bind_action (getThumbnailStats svc) (\<lambda>stats. ret (Answer stats)))
       (\<lambda>e. ret (Problem 500 ''Failed to get thumbnail stats'' (Some (error_message e))))"

text \<open>The two health routes; what \<open>getVersion\<close> throws is not caught.\<close>

definition get_native_health :: "'s NativeVideoService \<Rightarrow> (thrown, 's, string answer) action" where
  "get_native_health svc =
     (if isAvailable svc then bind_action (getVersion svc) (\<lambda>v. ret (Answer v))
      else ret (Problem 503 ''unavailable'' (Some ''Native module not loaded'')))"

definition metadata_failed :: "'s prom \<Rightarrow> int \<Rightarrow> int \<Rightarrow> thrown \<Rightarrow> (thrown, 's, 'a answer) action" where
  "metadata_failed M startTime now e =
     bind_action (recordMetadataExtraction M (seconds_between startTime now) False) (\<lambda>_.
     bind_action (recordError M MetadataError (error_name e) None) (\<lambda>_.
     ret (Problem 500 ''Failed to extract metadata'' (Some (error_message e)))))"

definition post_metadata ::
    "'z fs_scheme prom \<Rightarrow> 'z fs_scheme NativeVideoService \<Rightarrow> int \<Rightarrow> int \<Rightarrow> string field \<Rightarrow>
      (thrown, 'z fs_scheme, VideoMetadata answer) action" where
  "post_metadata M svc startTime now videoPath =
     try_catch
       (if \<not> isAvailable svc
        then ret (Problem 503 ''Native video processing not available''
               (Some ''C++ native addon is not loaded. Metadata extraction is unavailable.''))
        else case videoPath of
            Value p \<Rightarrow>
              (if p = [] then ret (Problem 400 ''videoPath is required'' None)
               else bind_action (extractMetadata svc p) (\<lambda>metadata.
                    bind_action (recordMetadataExtraction M (seconds_between startTime now) True) (\<lambda>_.
                    ret (Answer metadata))))
          | _ \<Rightarrow> ret (Problem 400 ''videoPath is required'' None))
       (metadata_failed M startTime now)"

definition get_codec ::
    "(string \<Rightarrow> (thrown, 's, 's NativeVideoProcessor) action) \<Rightarrow> string \<Rightarrow> string \<Rightarrow>
      (thrown, 's, (string \<times> bool) answer) action" where
  "get_codec require dirname codecName =
     try_catch
       (if codecName = [] then ret (Problem 400 ''codecName is required'' None)
        else bind_action (isCodecSupported require dirname codecName) (\<lambda>supported. ret (Answer (codecName, supported))))
       (\<lambda>e. ret (Problem 500 ''Failed to check codec support'' (Some (error_message e))))"

definition get_metrics :: "'s prom \<Rightarrow> (thrown, 's, string answer) action" where
  "get_metrics M =
     try_catch (bind_action (getMetrics M) (\<lambda>metrics. ret (Answer metrics)))
       (\<lambda>e. ret (Problem 500 ''Error generating metrics'' None))"

section \<open>What the routes rely on\<close>

text \<open>The addon does not touch the metrics, and its statistics are counts.\<close>

locale native_addon =
  fixes x :: "'s NativeVideoProcessor" and reg :: "'s \<Rightarrow> registry"
  assumes extract_reg: "reg (snd (addon_extractThumbnail x p t w h s)) = reg s"
    and stats_ok: "\<exists>st s'. addon_getStats x s = (Inr st, s') \<and> reg s' = reg s \<and>
      0 \<le> cacheHits st \<and> 0 \<le> cacheMisses st \<and> cacheHits st + cacheMisses st \<le> 2 ^ 53"

definition thumbnails_counted :: "registry \<Rightarrow> bool \<Rightarrow> nat" where
  "thumbnails_counted r success = rg_total r (m_name thumbnailRequests) [(''status'', status_of success)]"

definition cache_ratio :: "registry \<Rightarrow> rat option" where
  "cache_ratio r = rg_gauge r (m_name thumbnailCacheHitRatio) []"

lemma thumbnails_counted_simps [simp]:
  "thumbnails_counted (reg_inc thumbnailRequests [(''status'', status_of b)] r) c = thumbnails_counted r c + (if b = c then 1 else 0)"
  "thumbnails_counted (reg_inc thumbnailErrors ls r) c = thumbnails_counted r c"
  "thumbnails_counted (reg_observe m ls y r) c = thumbnails_counted r c"
  "thumbnails_counted (reg_set m ls y r) c = thumbnails_counted r c"
  by (auto simp: thumbnails_counted_def reg_inc_def reg_observe_def reg_set_def status_of_def
      thumbnailRequests_def thumbnailErrors_def)

lemma cache_ratio_set [simp]: "cache_ratio (reg_set thumbnailCacheHitRatio [] q r) = Some q"
  by (simp add: cache_ratio_def reg_set_def)

lemma thumbnail_failure:
  assumes "prom_client M reg dn" and "started (reg s)"
  shows "\<exists>s'. thumbnail_failed M t0 t1 e s = (Inr (Problem 500 ''Failed to extract thumbnail'' (Some (error_message e))), s') \<and>
    reg s' = reg_inc thumbnailErrors [(''error_type'', error_name e)] (reg_inc thumbnailRequests [(''status'', status_of False)]
       (reg_observe thumbnailDuration [(''status'', status_of False)] (seconds_between t0 t1) (reg s)))"
proof -
  obtain s1 where s1: "recordThumbnailExtraction M (seconds_between t0 t1) False s = (Inr (), s1)"
    "reg s1 = reg_inc thumbnailRequests [(''status'', status_of False)]
       (reg_observe thumbnailDuration [(''status'', status_of False)] (seconds_between t0 t1) (reg s))"
    by (rule prom_client.record_thumbnail [OF assms])
  then have "started (reg s1)" using assms(2) by simp
  from prom_client.record_error [OF assms(1) this] obtain s2 where
    "recordError M ThumbnailError (error_name e) None s1 = (Inr (), s2)"
    "reg s2 = reg_inc thumbnailErrors [(''error_type'', error_name e)] (reg s1)" .
  then show ?thesis using s1 by (simp add: thumbnail_failed_def bind_action_def)
qed

lemma thumbnail_success:
  assumes "prom_client M reg dn" and "native_addon x reg" and "started (reg s)" and "thumbnailExtractor svc = Some x"
  obtains img s' and st :: ThumbnailExtractorStats where "thumbnail_done M svc t0 t1 t b s = (Inr (Answer img), s')"
    "reg s' = reg_set thumbnailCacheHitRatio [] (hit_ratio (of_int (cacheHits st)) (of_int (cacheMisses st)))
       (reg_inc thumbnailRequests [(''status'', status_of True)]
         (reg_observe thumbnailDuration [(''status'', status_of True)] (seconds_between t0 t1) (reg s)))"
    "0 \<le> cacheHits st" "0 \<le> cacheMisses st" "cacheHits st + cacheMisses st \<le> 2 ^ 53"
proof -
  obtain s1 where s1: "recordThumbnailExtraction M (seconds_between t0 t1) True s = (Inr (), s1)"
    "reg s1 = reg_inc thumbnailRequests [(''status'', status_of True)]
       (reg_observe thumbnailDuration [(''status'', status_of True)] (seconds_between t0 t1) (reg s))"
    by (rule prom_client.record_thumbnail [OF assms(1,3)])
  obtain st s2 where s2: "addon_getStats x s1 = (Inr st, s2)" "reg s2 = reg s1"
    "0 \<le> cacheHits st" "0 \<le> cacheMisses st" "cacheHits st + cacheMisses st \<le> 2 ^ 53"
    using native_addon.stats_ok [OF assms(2)] by blast
  have "started (reg s2)" using s1(2) s2(2) assms(3) by simp
  from prom_client.record_ratio [OF assms(1) this] obtain s3 where s3:
    "updateThumbnailCacheStats M (of_int (cacheHits st)) (of_int (cacheMisses st)) s2 = (Inr (), s3)"
    "reg s3 = reg_set thumbnailCacheHitRatio [] (hit_ratio (of_int (cacheHits st)) (of_int (cacheMisses st))) (reg s2)" .
  have run: "thumbnail_done M svc t0 t1 t b s =
      (Inr (Answer \<lparr>tn_contentType = ''application/octet-stream'', tn_timestamp = t, tn_buffer = b\<rparr>), s3)"
    using s1(1) s2(1) s3(1) assms(4) by (simp add: thumbnail_done_def bind_action_def getThumbnailStats_def)
  show thesis by (rule that [OF run _ s2(3-5)]) (simp add: s1(2) s2(2) s3(2))
qed

definition thumbnail_valid :: "'s NativeVideoService \<Rightarrow> string field \<Rightarrow> jsval \<Rightarrow> bool" where
  "thumbnail_valid svc v ts =
     (isAvailable svc \<and> (case v of Value p \<Rightarrow> p \<noteq> [] | _ \<Rightarrow> False) \<and> (case ts of JNum t \<Rightarrow> \<not> num_less t (Fin 0) | _ \<Rightarrow> False))"

lemma thumbnail_refused:
  assumes "\<not> thumbnail_valid svc v ts"
  shows "\<exists>c e m. post_thumbnail M svc t0 t1 v ts w h s = (Inr (Problem c e m), s) \<and> c \<noteq> 500"
proof (cases "isAvailable svc \<and> v \<noteq> Undefined \<and> v \<noteq> Null \<and> v \<noteq> Value []")
  case True
  then obtain p where "v = Value p" "p \<noteq> []" by (cases v) auto
  then show ?thesis using True assms by (cases ts) (auto simp: post_thumbnail_def try_catch_def thumbnail_valid_def)
next
  case False
  then show ?thesis by (cases v) (auto simp: post_thumbnail_def try_catch_def)
qed

lemma thumbnail_extracted:
  assumes "thumbnail_valid svc v ts"
  obtains p t w' h' where "post_thumbnail M svc t0 t1 v ts w h =
    try_catch (bind_action (extractThumbnail svc p t w' h') (thumbnail_done M svc t0 t1 t)) (thumbnail_failed M t0 t1)"
proof -
  obtain p t where "isAvailable svc" "v = Value p" "p \<noteq> []" "ts = JNum t" "\<not> num_less t (Fin 0)"
    using assms by (auto simp: thumbnail_valid_def split: field.splits jsval.splits)
  then show thesis by (intro that) (simp add: post_thumbnail_def)
qed

lemma extract_keeps_registry:
  assumes "native_addon x reg" and "thumbnailExtractor svc = Some x"
  shows "reg (snd (extractThumbnail svc p t w h s)) = reg s"
  using native_addon.extract_reg [OF assms(1)] assms(2) by (simp add: extractThumbnail_def)

section \<open>Properties\<close>


subsection \<open>A service in memory\<close>

text \<open>The addon reads a file and answers with its content; it counts nothing.\<close>

record native_world = fs +
  nw_metrics :: registry

definition file_addon :: "'z fs_scheme NativeVideoProcessor" where
  "file_addon =
     \<lparr>addon_getVersion = ret ''1.0.0'', addon_ThumbnailExtractor = ret (),
      addon_extractThumbnail = (\<lambda>p t w h s. (case fs_files s p of None \<Rightarrow> Inl (Error ''Error'' ''Failed to open'') | Some c \<Rightarrow> Inr c, s)),
      addon_getStats = ret \<lparr>totalExtractions = 4, avgDurationMs = 0, cacheHits = 3, cacheMisses = 1\<rparr>,
      addon_MetadataAnalyzer = ret (), addon_extractMetadata = (\<lambda>p. throw NotError), addon_isCodecSupported = (\<lambda>c. ret False)\<rparr>"

interpretation file_addon: native_addon file_addon nw_metrics
  by unfold_locales (simp_all add: file_addon_def)

definition world_prom :: "native_world prom" where
  "world_prom = registry_prom nw_metrics (\<lambda>r s. s\<lparr>nw_metrics := r\<rparr>)"

interpretation world_prom: prom_client world_prom nw_metrics "[''process_cpu_seconds_total'']"
  unfolding world_prom_def by (rule registry_prom_client) simp

definition world :: native_world where
  "world = \<lparr>fs_files = [''/v/a.mp4'' \<mapsto> ''pixels''], fs_dirs = [''/v''],
     nw_metrics = \<lparr>rg_names = map m_name all_metrics, rg_total = (\<lambda>_ _. 0), rg_observed = (\<lambda>_ _. []), rg_gauge = (\<lambda>_ _. None)\<rparr>\<rparr>"

definition loaded :: "native_world NativeVideoService" where
  "loaded = \<lparr>nativeModule = Some file_addon, thumbnailExtractor = Some file_addon, metadataAnalyzer = Some file_addon\<rparr>"


text \<open>When the extractor cannot be made, the module stays set: the service calls itself available and
  every request fails with status 500.\<close>

definition half_addon :: "native_world NativeVideoProcessor" where
  "half_addon = file_addon\<lparr>addon_ThumbnailExtractor := throw (Error ''Error'' ''no codec'')\<rparr>"

lemma half_loaded_available:
  "isAvailable (snd (fst (load_module (\<lambda>_. ret half_addon) p \<lparr>nativeModule = None, thumbnailExtractor = None, metadataAnalyzer = None\<rparr> s))) \<and>
   fst (extractThumbnail (snd (fst (load_module (\<lambda>_. ret half_addon) p
      \<lparr>nativeModule = None, thumbnailExtractor = None, metadataAnalyzer = None\<rparr> s))) q t w h s) = Inl not_available"
  by (simp add: load_module_def half_addon_def file_addon_def isAvailable_def extractThumbnail_def Let_def)

text \<open>An extractor or an analyzer is there only if the module is.\<close>

definition consistent :: "'s NativeVideoService \<Rightarrow> bool" where
  "consistent svc = (thumbnailExtractor svc = None \<and> metadataAnalyzer svc = None \<or> isAvailable svc)"

lemma load_module_consistent: "consistent svc \<Longrightarrow> load_module require p svc s = ((b, svc'), s') \<Longrightarrow> consistent svc'"
  by (auto simp: load_module_def consistent_def isAvailable_def Let_def split: sum.splits prod.splits)

lemma loader_consistent: "consistent svc \<Longrightarrow> consistent (fst (loadNativeModule require ps svc s))"
proof (induction ps arbitrary: svc s)
  case (Cons p ps)
  obtain b svc' s' where "load_module require p svc s = ((b, svc'), s')" by (metis surj_pair)
  then show ?case using Cons load_module_consistent [OF Cons.prems] by (cases b) simp_all
qed simp

end
