(* ===== verification/Video_Server.thy ===== *)
theory Video_Server
  imports Video_Projects Video_Realtime Video_Sessions Video_Native
begin

text \<open>
  The entry point of the video editor's backend (\<open>server.ts\<close>): the health route, the start-up and
  the handler of \<open>SIGTERM\<close>, composed of the services of the other theories.  The routing table, the
  middlewares and the static files are in \<open>Video_Backend\<close>.
\<close>

section \<open>Definitions\<close>

record server_health =
  h_status :: string
  h_service :: string
  h_connected :: nat
  h_available :: bool
  h_version :: string

definition get_health :: "'r ws_state \<Rightarrow> 's NativeVideoService \<Rightarrow> (thrown, 's, server_health) action" where
  "get_health wsService svc =
     bind_action (if isAvailable svc then getVersion svc else ret ''n/a'') (\<lambda>v.
       ret \<lparr>h_status = ''ok'', h_service = ''vrewcraft-backend'', h_connected = getClientCount wsService,
            h_available = isAvailable svc, h_version = v\<rparr>)"

text \<open>The migrations may fail; the server then goes on without a database.\<close>

definition initialize ::
    "StorageService \<Rightarrow> ('z fs_scheme, 'r) pool_lib \<Rightarrow> string + string list \<Rightarrow> (string \<Rightarrow> string + string) \<Rightarrow>
      (string, 'z fs_scheme, unit) action" where
  "initialize storageService L listing readFile =
     bind_action (ensureUploadDir storageService)
       (\<lambda>_. try_catch (DatabaseService_runMigrations L listing readFile) (\<lambda>_. ret ()))"

text \<open>The handler closes the WebSocket service, the pool and the Redis client, in this order, and then
  the server; a rejected promise ends it early.\<close>

record ('r, 's) server_state =
  sv_ws :: "'r ws_state"
  sv_libs :: 's
  sv_listening :: bool

definition on_SIGTERM ::
    "('s, 'p) pool_lib \<Rightarrow> 's redis_client \<Rightarrow> (string, ('r, 's) server_state, unit) action" where
  "on_SIGTERM L C s =
     (let s1 = s\<lparr>sv_ws := WebSocketService_close (sv_ws s)\<rparr>
      in case bind_action (DatabaseService_close L) (\<lambda>_. RedisService_close C) (sv_libs s1) of
           (Inl e, libs) \<Rightarrow> (Inl e, s1\<lparr>sv_libs := libs\<rparr>)
         | (Inr u, libs) \<Rightarrow> (Inr (), s1\<lparr>sv_libs := libs, sv_listening := False\<rparr>))"

section \<open>Lemmas\<close>

lemma map_action_try: "fst (try_catch m (\<lambda>_. ret ()) s) = Inr ()"
  by (auto simp: try_catch_def split: prod.splits sum.splits)

text \<open>The start-up fails only if the upload directory cannot be made, and then no migration has run.\<close>

lemma initialize_result:
  "fst (initialize S L listing readFile s) = fst (ensureUploadDir S s)"
proof -
  obtain r s1 where "ensureUploadDir S s = (r, s1)" by fastforce
  then show ?thesis by (cases r) (simp_all add: initialize_def bind_action_def map_action_try)
qed

lemma initialize_upload_dir: "fst (initialize S L listing readFile s) = Inr ()"
  unfolding initialize_result
  by (simp add: ensureUploadDir_def try_catch_def fs_access_def fs_mkdir_def)

text \<open>The handler closes the WebSocket connections whatever the other services do.\<close>

lemma sigterm_closes_sockets: "sv_ws (snd (on_SIGTERM L C s)) = WebSocketService_close (sv_ws s)"
  by (simp add: on_SIGTERM_def Let_def split: prod.split sum.split)

lemma sigterm_listening:
  "sv_listening (snd (on_SIGTERM L C s)) = (sv_listening s \<and> fst (on_SIGTERM L C s) \<noteq> Inr ())"
  by (simp add: on_SIGTERM_def Let_def split: prod.split sum.split)

end
