(* ===== verification/Web_Layers.thy ===== *)
theory Web_Layers
  imports Routing
begin

text \<open>
  The interface of Express that the video editor's backend is written against.  An application is a
  list of layers, each with a path, the number of parameters of its function and what the
  function does with a request.  How Express walks through the layers is third-party code: a
  parameter with the documented laws \<open>express_app\<close>, interpreted on an executable walk.
\<close>

section \<open>Definitions\<close>

record http_req =
  rq_method :: http_method
  rq_path :: "string list"

text \<open>What a function of a layer does: it sends a response, calls \<open>next\<close>, throws or passes on an error (with the
  status Express reads from it), or leaves the request without an answer.\<close>

datatype 'a verdict = Responded 'a | Next | Raised nat | Silent

record ('q, 's, 'a) layer =
  ly_method :: "http_method option"
  ly_pattern :: "segment list"
  ly_arity :: nat
  ly_function :: "'q \<Rightarrow> 's \<Rightarrow> 'a verdict \<times> 's"

text \<open>\<open>app.use(path, f)\<close> and the routes of a router; \<open>arity\<close> is \<open>f.length\<close>.\<close>

definition use_layer :: "segment list \<Rightarrow> nat \<Rightarrow> ('q \<Rightarrow> 's \<Rightarrow> 'a verdict \<times> 's) \<Rightarrow> ('q, 's, 'a) layer" where
  "use_layer pat arity f = \<lparr>ly_method = None, ly_pattern = pat, ly_arity = arity, ly_function = f\<rparr>"

definition route_layer ::
    "('e \<Rightarrow> string list \<Rightarrow> 'z http_req_scheme \<Rightarrow> 's \<Rightarrow> 'a verdict \<times> 's) \<Rightarrow> http_method \<times> segment list \<times> 'e
      \<Rightarrow> ('z http_req_scheme, 's, 'a) layer" where
  "route_layer run r = (case r of (m, pat, e) \<Rightarrow>
     \<lparr>ly_method = Some m, ly_pattern = pat, ly_arity = 2, ly_function = (\<lambda>rq. run e (param_values pat (rq_path rq)) rq)\<rparr>)"

text \<open>\<open>app.use(prefix, router)\<close>: the routes of the router below the prefix.\<close>

definition mounted :: "segment list \<Rightarrow> (http_method \<times> segment list \<times> 'e) list \<Rightarrow> (http_method \<times> segment list \<times> 'e) list" where
  "mounted prefix table = map (\<lambda>(m, pat, e). (m, prefix @ pat, e)) table"

text \<open>A route wants the whole path, a function given to \<open>use\<close> only its beginning.\<close>

definition applies ::
    "(segment list \<Rightarrow> string list \<Rightarrow> bool) \<Rightarrow> ('q, 's, 'a) layer \<Rightarrow> 'z http_req_scheme \<Rightarrow> bool" where
  "applies matches l rq = (case ly_method l of
       Some m \<Rightarrow> m = rq_method rq \<and> matches (ly_pattern l) (rq_path rq)
     | None \<Rightarrow> length (ly_pattern l) \<le> length (rq_path rq) \<and> matches (ly_pattern l) (take (length (ly_pattern l)) (rq_path rq)))"

text \<open>How a request ends: with a response of the application, with the default answer of Express, or with none.\<close>

datatype 'a served = Answered 'a | Default nat | Unanswered

text \<open>How it ends with a function that does not call \<open>next\<close>, when no function takes errors.\<close>

fun ending :: "'a verdict \<Rightarrow> 'a served" where
  "ending (Responded a) = Answered a"
| "ending Next = Default 404"
| "ending (Raised c) = Default c"
| "ending Silent = Unanswered"

text \<open>A function that keeps \<open>I\<close>.\<close>

definition layer_keeps :: "('s \<Rightarrow> bool) \<Rightarrow> 'z http_req_scheme \<Rightarrow> ('z http_req_scheme, 's, 'a) layer \<Rightarrow> bool" where
  "layer_keeps I rq l = (\<forall>s. I s \<longrightarrow> I (snd (ly_function l rq s)))"

section \<open>The laws\<close>

text \<open>Layers are tried in order.  A function with four parameters is for errors only and is passed
  over; one with fewer is never given an error.  Without an answer the status is 404, and an error
  that no function takes is answered with its status.\<close>

locale express_app = path_matcher +
  fixes handle :: "('z http_req_scheme, 's, 'a) layer list \<Rightarrow> 'z http_req_scheme \<Rightarrow> 's \<Rightarrow> 'a served \<times> 's"
    and failing :: "('z http_req_scheme, 's, 'a) layer list \<Rightarrow> 'z http_req_scheme \<Rightarrow> nat \<Rightarrow> 's \<Rightarrow> 'a served \<times> 's"
  assumes no_layer: "handle [] rq s = (Default 404, s)"
    and passed_over: "\<not> applies matches l rq \<or> ly_arity l = 4 \<Longrightarrow> handle (l # ls) rq s = handle ls rq s"
    and called: "applies matches l rq \<Longrightarrow> ly_arity l \<noteq> 4 \<Longrightarrow> ly_function l rq s = (r, s') \<Longrightarrow>
      handle (l # ls) rq s = (case r of
          Responded a \<Rightarrow> (Answered a, s')
        | Next \<Rightarrow> handle ls rq s'
        | Raised c \<Rightarrow> failing ls rq c s'
        | Silent \<Rightarrow> (Unanswered, s'))"
    and error_end: "failing [] rq c s = (Default c, s)"
    and error_passed: "ly_arity l \<noteq> 4 \<Longrightarrow> failing (l # ls) rq c s = failing ls rq c s"
begin

lemma error_default: "list_all (\<lambda>l. ly_arity l \<noteq> 4) ls \<Longrightarrow> failing ls rq c s = (Default c, s)"
  by (induction ls) (simp_all add: error_end error_passed)

text \<open>The routes of a table: the first that matches is called.\<close>

lemma route_called:
  assumes "first_route matches (rq_method rq) (rq_path rq) table = Some (m, pat, e)"
    and "run e (param_values pat (rq_path rq)) rq s = (r, s')" and "r \<noteq> Next" and "list_all (\<lambda>l. ly_arity l \<noteq> 4) ls"
  shows "handle (map (route_layer run) table @ ls) rq s = (ending r, s')"
  using assms(1)
proof (induction table)
  case Nil
  then show ?case by (simp add: first_route_def)
next
  case (Cons q table)
  obtain m' pat' e' where q: "q = (m', pat', e')" by (cases q)
  show ?case
  proof (cases "m' = rq_method rq \<and> matches pat' (rq_path rq)")
    case True
    with Cons.prems have "(m, pat, e) = (m', pat', e')" by (simp add: q first_route_def)
    with True assms(2) have f: "applies matches (route_layer run q) rq" "ly_arity (route_layer run q) \<noteq> 4"
        "ly_function (route_layer run q) rq s = (r, s')"
      by (simp_all add: q applies_def route_layer_def)
    have "list_all (\<lambda>l. ly_arity l \<noteq> 4) (map (route_layer run) table @ ls)"
      using assms(4) by (auto simp: list_all_iff route_layer_def)
    then show ?thesis using assms(3) by (cases r) (simp_all add: called [OF f] error_default)
  next
    case False
    then have "first_route matches (rq_method rq) (rq_path rq) table = Some (m, pat, e)"
      using Cons.prems by (auto simp: q first_route_def)
    moreover have "\<not> applies matches (route_layer run q) rq"
      using False by (auto simp: q applies_def route_layer_def)
    ultimately show ?thesis by (simp add: passed_over Cons.IH)
  qed
qed

lemma no_route:
  "first_route matches (rq_method rq) (rq_path rq) table = None \<Longrightarrow>
   handle (map (route_layer run) table @ ls) rq s = handle ls rq s"
proof (induction table)
  case (Cons r table)
  then have "\<not> applies matches (route_layer run r) rq"
      and "first_route matches (rq_method rq) (rq_path rq) table = None"
    by (auto simp: first_route_def applies_def route_layer_def split: if_splits prod.splits)
  then show ?case by (simp add: passed_over Cons.IH)
qed simp

text \<open>What no function of the layers changes, no request changes.\<close>

lemma handle_keeps:
  assumes "list_all (layer_keeps I rq) ls" and "list_all (\<lambda>l. ly_arity l \<noteq> 4) ls" and "I s"
  shows "I (snd (handle ls rq s))"
  using assms
proof (induction ls arbitrary: s)
  case Nil
  then show ?case by (simp add: no_layer)
next
  case (Cons l ls)
  show ?case
  proof (cases "applies matches l rq")
    case True
    obtain r s' where f: "ly_function l rq s = (r, s')" by fastforce
    with Cons.prems have "I s'" by (auto simp: layer_keeps_def dest: spec [of _ s])
    then show ?thesis
      using Cons.prems Cons.IH [of s'] by (cases r) (simp_all add: called [OF True _ f] error_default)
  qed (use Cons in \<open>simp add: passed_over\<close>)
qed

end

section \<open>A walk through the layers\<close>

fun express_failing ::
    "(segment list \<Rightarrow> string list \<Rightarrow> bool) \<Rightarrow> ('z http_req_scheme, 's, 'a) layer list \<Rightarrow> 'z http_req_scheme \<Rightarrow> nat \<Rightarrow> 's \<Rightarrow> 'a served \<times> 's" where
  "express_failing matches [] rq c s = (Default c, s)"
| "express_failing matches (l # ls) rq c s =
     (if ly_arity l = 4 \<and> applies matches l rq
      then case ly_function l rq s of
             (Responded a, s') \<Rightarrow> (Answered a, s')
           | (Next, s') \<Rightarrow> express_failing matches ls rq c s'
           | (Raised c', s') \<Rightarrow> express_failing matches ls rq c' s'
           | (Silent, s') \<Rightarrow> (Unanswered, s')
      else express_failing matches ls rq c s)"

fun express_walk ::
    "(segment list \<Rightarrow> string list \<Rightarrow> bool) \<Rightarrow> ('z http_req_scheme, 's, 'a) layer list \<Rightarrow> 'z http_req_scheme \<Rightarrow> 's \<Rightarrow> 'a served \<times> 's" where
  "express_walk matches [] rq s = (Default 404, s)"
| "express_walk matches (l # ls) rq s =
     (if applies matches l rq \<and> ly_arity l \<noteq> 4
      then case ly_function l rq s of
             (Responded a, s') \<Rightarrow> (Answered a, s')
           | (Next, s') \<Rightarrow> express_walk matches ls rq s'
           | (Raised c, s') \<Rightarrow> express_failing matches ls rq c s'
           | (Silent, s') \<Rightarrow> (Unanswered, s')
      else express_walk matches ls rq s)"

interpretation express_walk: express_app express_match "express_walk express_match" "express_failing express_match"
  by unfold_locales (auto split: verdict.split)

end
