(* ===== verification/Video_Backend.thy ===== *)
theory Video_Backend
  imports Video_Server Web_Layers
begin

text \<open>
  The video editor's backend as a whole: the layers that \<open>server.ts\<close> gives to Express (CORS, the body
  parser, the static files, the routers under their prefixes and the error function at the end), every
  handler behind its route, and the requests they serve one after the other.  Express, \<open>cors\<close>,
  \<open>express.json\<close> and \<open>express.static\<close> are parameters.
\<close>

section \<open>Definitions\<close>

subsection \<open>Requests\<close>

text \<open>The members that the handlers read from a JSON body; a member that is not there is undefined.\<close>

record json_body =
  jb_filename :: "string field"
  jb_startTime :: jsval
  jb_endTime :: jsval
  jb_splitTime :: jsval
  jb_subtitles :: "Subtitle list field"
  jb_speed :: jsval
  jb_project :: vproject_body
  jb_videoPath :: "string field"
  jb_timestamp :: jsval
  jb_width :: jsval
  jb_height :: jsval

definition empty_body :: json_body where
  "empty_body =
     \<lparr>jb_filename = Undefined, jb_startTime = JUndef, jb_endTime = JUndef, jb_splitTime = JUndef, jb_subtitles = Undefined,
      jb_speed = JUndef,
      jb_project = \<lparr>vb_name = Undefined, vb_description = Undefined, vb_videoFilename = Undefined, vb_videoUrl = Undefined,
        vb_timelineState = Undefined\<rparr>,
      jb_videoPath = Undefined, jb_timestamp = JUndef, jb_width = JUndef, jb_height = JUndef\<rparr>"

text \<open>A request, with whether its body is JSON, the file of its form, and what the clock and the
  random numbers give while it is handled.\<close>

record video_request = http_req +
  vr_parses :: bool
  vr_body :: json_body
  vr_file :: "form_file option"
  vr_now :: nat
  vr_rnd :: nat
  vr_end :: nat

subsection \<open>The routers\<close>

datatype video_endpoint =
    Vp_health | Vp_upload
  | Vp_trim | Vp_split | Vp_editMetadata | Vp_process
  | Vp_createProject | Vp_projects | Vp_project | Vp_updateProject | Vp_deleteProject
  | Vp_thumbnail | Vp_thumbnailStats | Vp_thumbnailHealth
  | Vp_metadata | Vp_codec | Vp_metadataHealth
  | Vp_metrics

type_synonym video_route = "http_method \<times> segment list \<times> video_endpoint"

definition uploadRoutes :: "video_route list" where
  "uploadRoutes = [(POST, [Lit ''upload''], Vp_upload)]"

definition editRoutes :: "video_route list" where
  "editRoutes =
     [(POST, [Lit ''trim''], Vp_trim), (POST, [Lit ''split''], Vp_split),
      (GET, [Lit ''metadata'', Par ''filename''], Vp_editMetadata), (POST, [Lit ''process''], Vp_process)]"

definition projectRoutes :: "video_route list" where
  "projectRoutes =
     [(POST, [], Vp_createProject), (GET, [], Vp_projects), (GET, [Par ''id''], Vp_project),
      (PUT, [Par ''id''], Vp_updateProject), (DELETE, [Par ''id''], Vp_deleteProject)]"

definition thumbnailRoutes :: "video_route list" where
  "thumbnailRoutes =
     [(POST, [], Vp_thumbnail), (GET, [Lit ''stats''], Vp_thumbnailStats), (GET, [Lit ''health''], Vp_thumbnailHealth)]"

definition metadataRoutes :: "video_route list" where
  "metadataRoutes =
     [(POST, [], Vp_metadata), (GET, [Lit ''codec'', Par ''codecName''], Vp_codec), (GET, [Lit ''health''], Vp_metadataHealth)]"

definition metricsRoutes :: "video_route list" where
  "metricsRoutes = [(GET, [], Vp_metrics)]"

definition video_routes :: "video_route list" where
  "video_routes =
     [(GET, [Lit ''health''], Vp_health)] @ mounted [Lit ''api''] uploadRoutes @ mounted [Lit ''api'', Lit ''edit''] editRoutes @
     mounted [Lit ''api'', Lit ''projects''] projectRoutes @ mounted [Lit ''api'', Lit ''thumbnail''] thumbnailRoutes @
     mounted [Lit ''api'', Lit ''metadata''] metadataRoutes @ mounted [Lit ''metrics''] metricsRoutes"

subsection \<open>The handlers\<close>

datatype video_response =
    RUpload "UploadResponse reply"
  | REdit "ProcessingResult reply"
  | RParts "ProcessingResult list reply"
  | RProbe "video_metadata reply"
  | RCreated "vproject option reply"
  | RProjects "vproject list reply"
  | RProject "vproject reply"
  | RDeleted "(string \<times> vproject) reply"
  | RThumbnail "thumbnail answer"
  | RStats "ThumbnailExtractorStats answer"
  | RNative "string answer"
  | RMetadata "VideoMetadata answer"
  | RCodec "(string \<times> bool) answer"
  | RHealth server_health
  | RFile string
  | RPreflight

text \<open>The objects the modules share, and the libraries.\<close>

record 'z video_env =
  vv_storage :: StorageService
  vv_apiUrl :: "string option"
  vv_multer :: "'z fs_scheme multer"
  vv_ffmpeg :: "'z fs_scheme ffmpeg"
  vv_pool :: "('z fs_scheme, vproject) pool_lib"
  vv_metrics :: "'z fs_scheme prom"
  vv_native :: "'z fs_scheme NativeVideoService"
  vv_require :: "string \<Rightarrow> (thrown, 'z fs_scheme, 'z fs_scheme NativeVideoProcessor) action"
  vv_dirname :: string
  vv_cors :: "video_request \<Rightarrow> bool"
  vv_json :: "video_request \<Rightarrow> nat option"
  vv_static :: "string \<Rightarrow> http_method \<Rightarrow> string list \<Rightarrow> 'z fs_scheme \<Rightarrow> string option"

type_synonym ('r, 'z) video_state = "('r, 'z fs_scheme) server_state"

text \<open>Express sees what a function throws, but not that a promise is rejected.\<close>

definition sync_handler ::
    "('a \<Rightarrow> video_response) \<Rightarrow> ('e, 'l, 'a) action \<Rightarrow> ('r, 'l) server_state \<Rightarrow> video_response verdict \<times> ('r, 'l) server_state" where
  "sync_handler f m s = (case m (sv_libs s) of
       (Inl e, l) \<Rightarrow> (Raised 500, s\<lparr>sv_libs := l\<rparr>)
     | (Inr a, l) \<Rightarrow> (Responded (f a), s\<lparr>sv_libs := l\<rparr>))"

definition async_handler ::
    "('a \<Rightarrow> video_response) \<Rightarrow> ('e, 'l, 'a) action \<Rightarrow> ('r, 'l) server_state \<Rightarrow> video_response verdict \<times> ('r, 'l) server_state" where
  "async_handler f m s = (case m (sv_libs s) of
       (Inl e, l) \<Rightarrow> (Silent, s\<lparr>sv_libs := l\<rparr>)
     | (Inr a, l) \<Rightarrow> (Responded (f a), s\<lparr>sv_libs := l\<rparr>))"

fun video_run ::
    "'z video_env \<Rightarrow> video_endpoint \<Rightarrow> string list \<Rightarrow> video_request \<Rightarrow> ('r, 'z) video_state
      \<Rightarrow> video_response verdict \<times> ('r, 'z) video_state" where
  "video_run v Vp_health ps rq s = sync_handler RHealth (get_health (sv_ws s) (vv_native v)) s"
| "video_run v Vp_upload ps rq s =
     sync_handler RUpload (post_upload (vv_multer v) (vv_storage v) (vr_now rq) (vr_rnd rq) (vr_file rq)) s"
| "video_run v Vp_trim ps rq s =
     async_handler REdit (post_trim (vv_apiUrl v) (vv_ffmpeg v) (vv_storage v) (vr_now rq) (vr_rnd rq)
       (jb_filename (vr_body rq)) (jb_startTime (vr_body rq)) (jb_endTime (vr_body rq))) s"
| "video_run v Vp_split ps rq s =
     async_handler RParts (post_split (vv_apiUrl v) (vv_ffmpeg v) (vv_storage v) (vr_now rq) (vr_rnd rq)
       (jb_filename (vr_body rq)) (jb_splitTime (vr_body rq))) s"
| "video_run v Vp_editMetadata ps rq s = async_handler RProbe (get_metadata (vv_ffmpeg v) (vv_storage v) (hd ps)) s"
| "video_run v Vp_process ps rq s =
     async_handler REdit (post_process (vv_apiUrl v) (vv_ffmpeg v) (vv_storage v) (vr_now rq) (vr_rnd rq)
       (jb_filename (vr_body rq)) (jb_subtitles (vr_body rq)) (jb_speed (vr_body rq))) s"
| "video_run v Vp_createProject ps rq s = async_handler RCreated (post_project (vv_pool v) (jb_project (vr_body rq))) s"
| "video_run v Vp_projects ps rq s = async_handler RProjects (get_projects (vv_pool v)) s"
| "video_run v Vp_project ps rq s = async_handler RProject (get_project (vv_pool v) (hd ps)) s"
| "video_run v Vp_updateProject ps rq s =
     async_handler RProject (put_project (vv_pool v) (hd ps) (jb_project (vr_body rq))) s"
| "video_run v Vp_deleteProject ps rq s = async_handler RDeleted (delete_project (vv_pool v) (hd ps)) s"
| "video_run v Vp_thumbnail ps rq s =
     async_handler RThumbnail (post_thumbnail (vv_metrics v) (vv_native v) (int (vr_now rq)) (int (vr_end rq))
       (jb_videoPath (vr_body rq)) (jb_timestamp (vr_body rq)) (jb_width (vr_body rq)) (jb_height (vr_body rq))) s"
| "video_run v Vp_thumbnailStats ps rq s = sync_handler RStats (get_thumbnail_stats (vv_native v)) s"
| "video_run v Vp_thumbnailHealth ps rq s = sync_handler RNative (get_native_health (vv_native v)) s"
| "video_run v Vp_metadata ps rq s =
     async_handler RMetadata (post_metadata (vv_metrics v) (vv_native v) (int (vr_now rq)) (int (vr_end rq))
       (jb_videoPath (vr_body rq))) s"
| "video_run v Vp_codec ps rq s = sync_handler RCodec (get_codec (vv_require v) (vv_dirname v) (hd ps)) s"
| "video_run v Vp_metadataHealth ps rq s = sync_handler RNative (get_native_health (vv_native v)) s"
| "video_run v Vp_metrics ps rq s = async_handler RNative (get_metrics (vv_metrics v)) s"

subsection \<open>The application\<close>

definition cors_function :: "'z video_env \<Rightarrow> video_request \<Rightarrow> 's \<Rightarrow> video_response verdict \<times> 's" where
  "cors_function v rq s = (if vv_cors v rq then Responded RPreflight else Next, s)"

definition json_function :: "'z video_env \<Rightarrow> video_request \<Rightarrow> 's \<Rightarrow> video_response verdict \<times> 's" where
  "json_function v rq s = (case vv_json v rq of None \<Rightarrow> Next | Some c \<Rightarrow> Raised c, s)"

text \<open>Below \<open>/videos\<close> Express gives the rest of the path.\<close>

definition static_function ::
    "'z video_env \<Rightarrow> video_request \<Rightarrow> ('r, 'z) video_state \<Rightarrow> video_response verdict \<times> ('r, 'z) video_state" where
  "static_function v rq s =
     (case vv_static v (getUploadDir (vv_storage v)) (rq_method rq) (drop 1 (rq_path rq)) (sv_libs s) of
        None \<Rightarrow> (Next, s)
      | Some content \<Rightarrow> (Responded (RFile content), s))"

text \<open>\<open>(err, _req, res) => ...\<close> has three parameters, so it is called as an ordinary function with the
  request, the response and \<open>next\<close>: \<open>res.status\<close> is a member that \<open>next\<close> does not have, and calling it throws.\<close>

definition error_function :: "video_request \<Rightarrow> 's \<Rightarrow> video_response verdict \<times> 's" where
  "error_function rq s = (Raised 500, s)"

definition video_app :: "'z video_env \<Rightarrow> (video_request, ('r, 'z) video_state, video_response) layer list" where
  "video_app v =
     [use_layer [] 3 (cors_function v), use_layer [] 3 (json_function v), use_layer [Lit ''videos''] 3 (static_function v)] @
     map (route_layer (video_run v)) video_routes @
     [use_layer [] 3 error_function]"

text \<open>A request at a time.\<close>

definition video_step ::
    "((video_request, ('r, 'z) video_state, video_response) layer list \<Rightarrow> video_request \<Rightarrow> ('r, 'z) video_state
       \<Rightarrow> video_response served \<times> ('r, 'z) video_state) \<Rightarrow> 'z video_env
      \<Rightarrow> ('r, 'z) video_state \<Rightarrow> video_request \<Rightarrow> ('r, 'z) video_state" where
  "video_step handle v s rq = snd (handle (video_app v) rq s)"

section \<open>What the backend relies on\<close>

text \<open>\<open>cors\<close> answers only \<open>OPTIONS\<close> requests, which are not among the requests here; the body parser refuses what is not
  JSON; static files are read, not written, and only for \<open>GET\<close>.\<close>

locale web_functions =
  fixes v :: "'z video_env"
  assumes cors_passes: "\<not> vv_cors v rq"
    and json_passes: "vr_parses rq \<Longrightarrow> vv_json v rq = None"
    and json_refuses: "\<not> vr_parses rq \<Longrightarrow> vv_json v rq = Some 400"
    and static_sends: "plain_segment name \<Longrightarrow> hd name \<noteq> CHR ''.'' \<Longrightarrow> fs_files s (path_join [dir, name]) = Some c \<Longrightarrow>
      vv_static v dir GET [name] s = Some c"
    and static_passes: "m \<noteq> GET \<or> list_all plain_segment ws \<and> fs_files s (path_join (dir # ws)) = None \<and>
      path_join (dir # ws) \<notin> set (fs_dirs s) \<Longrightarrow> vv_static v dir m ws s = None"

section \<open>Which layer serves a request\<close>

text \<open>The reference: what is not JSON is refused; below \<open>/videos\<close> a file is sent if there is one; otherwise the first
  route of the table serves the request, and without one the function meant for errors does.\<close>

definition sent_file :: "'z video_env \<Rightarrow> video_request \<Rightarrow> ('r, 'z) video_state \<Rightarrow> string option" where
  "sent_file v rq s = (case rq_path rq of
       [] \<Rightarrow> None
     | p # ps \<Rightarrow> if p = ''videos'' then vv_static v (getUploadDir (vv_storage v)) (rq_method rq) ps (sv_libs s) else None)"

definition video_serve ::
    "'z video_env \<Rightarrow> video_request \<Rightarrow> ('r, 'z) video_state \<Rightarrow> video_response served \<times> ('r, 'z) video_state" where
  "video_serve v rq s =
     (if \<not> vr_parses rq then (Default 400, s)
      else case sent_file v rq s of
             Some content \<Rightarrow> (Answered (RFile content), s)
           | None \<Rightarrow>
               (case first_route (list_all2 seg_matches) (rq_method rq) (rq_path rq) video_routes of
                  None \<Rightarrow> (Default 500, s)
                | Some (m, pat, e) \<Rightarrow>
                    (case video_run v e (param_values pat (rq_path rq)) rq s of (r, s') \<Rightarrow> (ending r, s'))))"

lemma video_routes_worded: "table_worded video_routes"
  by code_simp

lemma video_run_ends: "video_run v e ps rq s = (r, s') \<Longrightarrow> r \<noteq> Next"
  by (cases e) (auto simp: sync_handler_def async_handler_def split: prod.splits sum.splits)

locale video_server = express_app matches handle failing + web_functions v
  for matches :: "segment list \<Rightarrow> string list \<Rightarrow> bool"
    and handle :: "(video_request, ('r, 'z) video_state, video_response) layer list \<Rightarrow> video_request \<Rightarrow> ('r, 'z) video_state
      \<Rightarrow> video_response served \<times> ('r, 'z) video_state"
    and failing :: "(video_request, ('r, 'z) video_state, video_response) layer list \<Rightarrow> video_request \<Rightarrow> nat \<Rightarrow> ('r, 'z) video_state
      \<Rightarrow> video_response served \<times> ('r, 'z) video_state"
    and v :: "'z video_env"
begin

lemma matches_all: "applies matches (use_layer [] n f) rq"
  using matches_plain [of "[]" "[]"] by (simp add: applies_def use_layer_def)

lemma first_plain:
  assumes "list_all plain_segment path"
  shows "first_route matches m path video_routes = first_route (list_all2 seg_matches) m path video_routes"
  unfolding first_route_def
proof (rule find_agree)
  fix q :: video_route assume "q \<in> set video_routes"
  with video_routes_worded have "list_all worded (fst (snd q))" by (auto simp: table_worded_def list_all_iff)
  then have "matches (fst (snd q)) path = list_all2 seg_matches (fst (snd q)) path" by (rule matches_plain [OF _ assms])
  then show "(case q of (m', pat, _) \<Rightarrow> m' = m \<and> matches pat path) =
      (case q of (m', pat, _) \<Rightarrow> m' = m \<and> list_all2 seg_matches pat path)"
    by (cases q) simp
qed

lemma static_applies:
  assumes "list_all plain_segment (rq_path rq)"
  shows "applies matches (use_layer [Lit ''videos''] 3 f) rq = (rq_path rq \<noteq> [] \<and> hd (rq_path rq) = ''videos'')"
proof (cases "rq_path rq")
  case (Cons p ps)
  have "list_all worded [Lit ''videos'']" by code_simp
  then have "matches [Lit ''videos''] [p] = (p = ''videos'')"
    using assms by (simp add: Cons matches_plain)
  then show ?thesis by (simp add: applies_def use_layer_def Cons)
qed (simp add: applies_def use_layer_def)

lemma handle_serves:
  assumes "list_all plain_segment (rq_path rq)"
  shows "handle (video_app v) rq s = video_serve v rq s"
proof -
  let ?last = "[use_layer [] 3 error_function]"
  let ?static = "use_layer [Lit ''videos''] 3 (static_function v :: video_request \<Rightarrow> ('r, 'z) video_state \<Rightarrow> _)"
  let ?routes = "map (route_layer (video_run v)) video_routes @ ?last"
  let ?json = "use_layer [] 3 (json_function v)"
  have arity: "list_all (\<lambda>l. ly_arity l \<noteq> 4) (?static # ?routes)" "list_all (\<lambda>l. ly_arity l \<noteq> 4) ?last"
    by (auto simp: use_layer_def route_layer_def list_all_iff)
  have fin: "handle ?last rq s = (Default 500, s)"
    by (subst called [OF matches_all, where r = "Raised 500" and s' = s])
      (simp_all add: use_layer_def error_function_def error_end)
  have routes: "handle ?routes rq s = video_serve v rq s" if "vr_parses rq" "sent_file v rq s = None"
  proof (cases "first_route (list_all2 seg_matches) (rq_method rq) (rq_path rq) video_routes")
    case None
    then show ?thesis using that no_route [where table = video_routes] first_plain [OF assms] fin
      by (simp add: video_serve_def)
  next
    case (Some q)
    obtain m pat e where q: "q = (m, pat, e)" by (cases q)
    obtain r s' where r: "video_run v e (param_values pat (rq_path rq)) rq s = (r, s')" by fastforce
    show ?thesis
      using route_called [where run = "video_run v" and table = video_routes, OF _ r video_run_ends [OF r] arity(2)] Some q r that first_plain [OF assms]
      by (simp add: video_serve_def)
  qed
  have static: "handle (?static # ?routes) rq s = video_serve v rq s" if "vr_parses rq"
  proof (cases "rq_path rq \<noteq> [] \<and> hd (rq_path rq) = ''videos''")
    case True
    then have sf: "sent_file v rq s = vv_static v (getUploadDir (vv_storage v)) (rq_method rq) (drop 1 (rq_path rq)) (sv_libs s)"
      by (cases "rq_path rq") (simp_all add: sent_file_def)
    have ap: "applies matches ?static rq" using True static_applies [OF assms] by blast
    show ?thesis
    proof (cases "sent_file v rq s")
      case None
      then have f: "ly_function ?static rq s = (Next, s)" by (simp add: use_layer_def static_function_def sf)
      show ?thesis using called [OF ap _ f] routes [OF that None] by (simp add: use_layer_def)
    next
      case (Some c)
      then have f: "ly_function ?static rq s = (Responded (RFile c), s)" by (simp add: use_layer_def static_function_def sf)
      show ?thesis using called [OF ap _ f] that Some by (simp add: use_layer_def video_serve_def)
    qed
  next
    case False
    then have "sent_file v rq s = None" by (cases "rq_path rq") (simp_all add: sent_file_def)
    moreover have "\<not> applies matches ?static rq" using False static_applies [OF assms] by blast
    ultimately show ?thesis using passed_over [OF disjI1] routes [OF that] by simp
  qed
  have cors: "handle (video_app v) rq s = handle (?json # ?static # ?routes) rq s"
    unfolding video_app_def append.simps
    by (subst called [OF matches_all, where r = Next and s' = s]) (simp_all add: use_layer_def cors_function_def cors_passes)
  show ?thesis
  proof (cases "vr_parses rq")
    case True
    then have "handle (?json # ?static # ?routes) rq s = handle (?static # ?routes) rq s"
      by (subst called [OF matches_all, where r = Next and s' = s]) (simp_all add: use_layer_def json_function_def json_passes)
    then show ?thesis using static [OF True] cors by simp
  next
    case False
    then have "handle (?json # ?static # ?routes) rq s = failing (?static # ?routes) rq 400 s"
      by (subst called [OF matches_all, where r = "Raised 400" and s' = s])
        (simp_all add: use_layer_def json_function_def json_refuses)
    then show ?thesis using cors False error_default [OF arity(1)] by (simp add: video_serve_def)
  qed
qed

end

section \<open>A backend in memory\<close>

record video_world = native_world +
  vw_pg :: pg_state

definition on_part :: "('w \<Rightarrow> 's) \<Rightarrow> ('s \<Rightarrow> 'w \<Rightarrow> 'w) \<Rightarrow> ('e, 's, 'a) action \<Rightarrow> ('e, 'w, 'a) action" where
  "on_part get put m = (\<lambda>w. case m (get w) of (r, s) \<Rightarrow> (r, put s w))"

definition world_pool :: "(video_world, vproject) pool_lib" where
  "world_pool =
     (let part = (\<lambda>s w. w\<lparr>vw_pg := s\<rparr>); L = mem_pool pg_id
      in \<lparr>pool_connect = on_part vw_pg part (pool_connect L), pool_release = (\<lambda>w. w\<lparr>vw_pg := pool_release L (vw_pg w)\<rparr>),
          client_query = (\<lambda>stmt ps. on_part vw_pg part (client_query L stmt ps)),
          pool_query = (\<lambda>stmt. on_part vw_pg part (pool_query L stmt)), pool_end = ret ()\<rparr>)"

text \<open>Static files by name; names that start with a dot are not sent.\<close>

definition send_static :: "string \<Rightarrow> http_method \<Rightarrow> string list \<Rightarrow> 'z fs_scheme \<Rightarrow> string option" where
  "send_static dir m ws s =
     (if m = GET \<and> ws \<noteq> [] \<and> list_all (\<lambda>w. w \<noteq> [] \<and> hd w \<noteq> CHR ''.'') ws then fs_files s (path_join (dir # ws)) else None)"

definition world_env :: "unit video_world_ext native_world_ext video_env" where
  "world_env =
     \<lparr>vv_storage = srv_storage, vv_apiUrl = None, vv_multer = disk_multer, vv_ffmpeg = copy_ffmpeg, vv_pool = world_pool,
      vv_metrics = registry_prom nw_metrics (\<lambda>r w. w\<lparr>nw_metrics := r\<rparr>),
      vv_native = \<lparr>nativeModule = Some file_addon, thumbnailExtractor = Some file_addon, metadataAnalyzer = Some file_addon\<rparr>,
      vv_require = (\<lambda>p. ret file_addon), vv_dirname = ''/srv/dist/services'', vv_cors = (\<lambda>_. False),
      vv_json = (\<lambda>rq. if vr_parses rq then None else Some 400), vv_static = send_static\<rparr>"

interpretation world_web: web_functions world_env
  by unfold_locales (auto simp: world_env_def send_static_def plain_segment_def)

interpretation world_server: video_server express_match "express_walk express_match" "express_failing express_match" world_env
  by unfold_locales

definition plain_request :: "http_method \<Rightarrow> string list \<Rightarrow> nat \<Rightarrow> video_request" where
  "plain_request m path now =
     \<lparr>rq_method = m, rq_path = path, vr_parses = True, vr_body = empty_body, vr_file = None, vr_now = now, vr_rnd = 4, vr_end = now\<rparr>"

lemma plain_request_sel [simp]:
  "rq_method (plain_request m path now) = m" "rq_path (plain_request m path now) = path" "vr_parses (plain_request m path now)"
  "vr_now (plain_request m path now) = now" "vr_rnd (plain_request m path now) = 4"
  by (simp_all add: plain_request_def)

definition world_state :: "(nat, unit video_world_ext native_world_ext) video_state" where
  "world_state =
     \<lparr>sv_ws = new_WebSocketService,
      sv_libs = \<lparr>fs_files = [''/srv/uploads/a.mp4'' \<mapsto> ''12345''], fs_dirs = [''/srv/uploads''],
        nw_metrics = nw_metrics world, vw_pg = demo_pg\<rparr>,
      sv_listening = True\<rparr>"

section \<open>Properties\<close>



end
