(* ===== verification/Video_Files.thy ===== *)
theory Video_Files
  imports Video_Backend
begin

text \<open>
  The files of the video editor's backend under any sequence of requests: which files a request may
  write, that all others stay as they are, and that an uploaded video can be played from then on.
\<close>

section \<open>What the libraries write\<close>

text \<open>FFmpeg writes its output and no other file; the database, the metrics and the addon write no
  file the application can see.\<close>

definition files_kept :: "('e, 'z fs_scheme, 'a) action \<Rightarrow> bool" where
  "files_kept m = (\<forall>s. fs_files (snd (m s)) = fs_files s)"

definition addon_files_kept :: "'z fs_scheme NativeVideoProcessor \<Rightarrow> bool" where
  "addon_files_kept x =
     (files_kept (addon_getVersion x) \<and> (\<forall>p t w h. files_kept (addon_extractThumbnail x p t w h)) \<and>
      files_kept (addon_getStats x) \<and> (\<forall>p. files_kept (addon_extractMetadata x p)) \<and>
      (\<forall>c. files_kept (addon_isCodecSupported x c)))"

locale file_frame =
  fixes v :: "'z video_env"
  assumes multer: "multer_disk (vv_multer v)"
    and run_frame: "p \<noteq> job_output job \<Longrightarrow> fs_files (snd (ff_run (vv_ffmpeg v) job s)) p = fs_files s p"
    and probe_frame: "files_kept (ff_probe (vv_ffmpeg v) p)"
    and connect_frame: "files_kept (pool_connect (vv_pool v))"
    and query_frame: "files_kept (client_query (vv_pool v) stmt params)"
    and release_frame: "fs_files (pool_release (vv_pool v) s) = fs_files s"
    and observe_frame: "files_kept (prom_observe (vv_metrics v) m ls x)"
    and inc_frame: "files_kept (prom_inc (vv_metrics v) m ls)"
    and set_frame: "files_kept (prom_set (vv_metrics v) m ls x)"
    and text_frame: "files_kept (prom_metrics (vv_metrics v))"
    and module_frame: "nativeModule (vv_native v) = Some a \<Longrightarrow> addon_files_kept a"
    and extractor_frame: "thumbnailExtractor (vv_native v) = Some a \<Longrightarrow> addon_files_kept a"
    and analyzer_frame: "metadataAnalyzer (vv_native v) = Some a \<Longrightarrow> addon_files_kept a"
    and require_frame: "files_kept (vv_require v p)"
    and required_frame: "vv_require v p s = (Inr a, s') \<Longrightarrow> addon_files_kept a"

section \<open>Files that requests leave alone\<close>

text \<open>The names a request may write: those made of its time and random number, and of its time for the
  subtitle file.\<close>

definition made_names :: "string list" where
  "made_names = [''video-'', ''trim-'', ''split-part1-'', ''split-part2-'', ''processed-'']"

definition made_by :: "video_request \<Rightarrow> string \<Rightarrow> bool" where
  "made_by rq name =
     (name = ''temp-'' @ show_nat (vr_now rq) @ ''.srt'' \<or>
      list_ex (\<lambda>pre. startsWith name (pre @ show_nat (vr_now rq) @ ''-'' @ show_nat (vr_rnd rq))) made_names)"

text \<open>A path that is an entry of the directory \<open>ws\<close> with such a name.\<close>

definition may_write :: "string list \<Rightarrow> video_request \<Rightarrow> string \<Rightarrow> bool" where
  "may_write ws rq p = (path_parts p \<noteq> [] \<and> butlast (path_parts p) = ws \<and> made_by rq (last (path_parts p)))"

definition file_is :: "string \<Rightarrow> string option \<Rightarrow> 'z fs_scheme \<Rightarrow> bool" where
  "file_is p c s = (fs_files s p = c)"

lemma file_is_kept [intro]: "files_kept m \<Longrightarrow> preserves (file_is p c) m"
  by (simp add: preserves_def files_kept_def file_is_def)

lemma preserves_all2 [intro]:
  "preserves I m1 \<Longrightarrow> preserves I m2 \<Longrightarrow> preserves I (promise_all2 m1 m2)"
proof (rule preservesI)
  fix s assume m: "preserves I m1" "preserves I m2" and "I s"
  obtain r1 s1 r2 s2 where e: "m1 s = (r1, s1)" "m2 s1 = (r2, s2)" by (metis surj_pair)
  then have "I s2" using preservesD [OF m(2)] preservesD [OF m(1) \<open>I s\<close>] by blast
  then show "I (snd (promise_all2 m1 m2 s))" by (cases r1; cases r2) (simp_all add: promise_all2_def e)
qed

lemma preserves_map_error [intro]: "preserves I m \<Longrightarrow> preserves I (map_error f m)"
  by (auto simp: map_error_def)

lemma preserves_finally [intro]: "preserves I m \<Longrightarrow> (\<And>s. I s \<Longrightarrow> I (f s)) \<Longrightarrow> preserves I (try_finally m f)"
  by (simp add: preserves_def try_finally_def split_def)

lemma file_is_fs [intro, simp]:
  "preserves (file_is p c) (fs_stat_size q)" "preserves (file_is p c) (fs_access q)" "preserves (file_is p c) (fs_mkdir q)"
  by (auto simp: preserves_def file_is_def fs_stat_size_def fs_access_def fs_mkdir_def)

lemma file_is_write: "p \<noteq> q \<Longrightarrow> preserves (file_is p c) (fs_writeFile q d)"
  by (simp add: preserves_def file_is_def fs_writeFile_def)

lemma file_is_unlink: "p \<noteq> q \<Longrightarrow> preserves (file_is p c) (fs_unlink q)"
  by (auto simp: preserves_def file_is_def fs_unlink_def split: option.split)

lemma file_is_service [intro, simp]:
  "preserves (file_is p c) (ensureUploadDir S)" "preserves (file_is p c) (fileExists S n)"
  "preserves (file_is p c) (finish_job n q d)"
  by (auto simp: ensureUploadDir_def fileExists_def finish_job_def)

lemma file_is_with_file [intro]:
  "(\<And>q. preserves (file_is p c) (k q)) \<Longrightarrow> preserves (file_is p c) (with_file S n k)"
  by (auto simp: with_file_def Let_def)

lemmas kept_intros = preserves_bind preserves_try preserves_option preserves_if preserves_all2 preserves_map_error
  preserves_finally preserves_ret preserves_throw preserves_reads file_is_fs file_is_service file_is_with_file

text \<open>The names the services make are entries of the upload directory.\<close>

lemma unique_name_plain: "prefix \<noteq> [] \<Longrightarrow> hd prefix \<noteq> CHR ''.'' \<Longrightarrow> slash \<notin> set prefix \<Longrightarrow>
    plain (unique_name prefix now rnd (path_extname q))"
  using extname_no_slash [of q] show_nat_digits [of slash]
  by (cases prefix) (auto simp: plain_def unique_name_def slash_def is_digit_def)

lemma temp_name_plain: "plain (''temp-'' @ show_nat now @ ''.srt'')"
  using show_nat_digits [of slash now] by (auto simp: plain_def slash_def is_digit_def)

lemma startsWith_append: "startsWith (a @ b) a"
  by (simp add: startsWith_def)

lemma upload_unique: "upload_filename now rnd f = unique_name ''video-'' now rnd (path_extname (ff_originalname f))"
  by (simp add: upload_filename_def unique_name_def)

lemma made_unique:
  assumes "pre \<in> set made_names"
  shows "made_by rq (unique_name pre (vr_now rq) (vr_rnd rq) ext)"
  using assms startsWith_append [of "pre @ show_nat (vr_now rq) @ ''-'' @ show_nat (vr_rnd rq)" ext]
  by (auto simp: made_by_def list_ex_iff unique_name_def)

text \<open>So a path a request may not write differs from all of them.\<close>

definition safe_from :: "StorageService \<Rightarrow> video_request \<Rightarrow> string \<Rightarrow> bool" where
  "safe_from S rq p =
     (p \<noteq> temp_path S (vr_now rq) \<and>
      (\<forall>pre \<in> set made_names. \<forall>q. p \<noteq> getFilePath S (unique_name pre (vr_now rq) (vr_rnd rq) (path_extname q))))"

lemma safe_fromI:
  assumes "uploadDir S = abs_path ws" and "\<forall>w \<in> set ws. plain w" and "\<not> may_write ws rq p"
  shows "safe_from S rq p"
proof -
  have parts: "path_parts (getFilePath S name) = ws @ [name]" if "plain name" for name
    using join_dir_plain [OF assms(2) that] by (simp add: getFilePath_def assms(1))
  have no: "p \<noteq> getFilePath S name" if "plain name" "made_by rq name" for name
    using assms(3) parts [OF that(1)] that(2) by (auto simp: may_write_def)
  have "plain (unique_name pre n r (path_extname q))" if "pre \<in> set made_names" for pre n r q
    using that by (intro unique_name_plain) (auto simp: made_names_def slash_def)
  then show ?thesis
    using no made_unique temp_name_plain by (auto simp: safe_from_def temp_path_def made_by_def)
qed

lemma safe_fromD:
  assumes "safe_from S rq p"
  shows "p \<noteq> temp_path S (vr_now rq)"
    and "p \<noteq> getFilePath S (unique_name ''trim-'' (vr_now rq) (vr_rnd rq) (path_extname q))"
    and "p \<noteq> getFilePath S (unique_name ''split-part1-'' (vr_now rq) (vr_rnd rq) (path_extname q))"
    and "p \<noteq> getFilePath S (unique_name ''split-part2-'' (vr_now rq) (vr_rnd rq) (path_extname q))"
    and "p \<noteq> getFilePath S (unique_name ''processed-'' (vr_now rq) (vr_rnd rq) (path_extname q))"
    and "p \<noteq> getFilePath S (upload_filename (vr_now rq) (vr_rnd rq) f)"
  using assms by (simp_all add: safe_from_def made_names_def upload_unique)

context file_frame begin

lemma run_kept: "p \<noteq> job_output job \<Longrightarrow> preserves (file_is p c) (ff_run (vv_ffmpeg v) job)"
  by (simp add: preserves_def file_is_def run_frame)

lemma probe_kept: "preserves (file_is p c) (getVideoMetadata (vv_ffmpeg v) q)"
  unfolding getVideoMetadata_def Let_def by (intro kept_intros file_is_kept probe_frame)

lemma upload_kept:
  assumes "safe_from S rq p"
  shows "preserves (file_is p c) (post_upload (vv_multer v) S (vr_now rq) (vr_rnd rq) part)"
proof -
  have "preserves (file_is p c) (vv_multer v (upload_options S (vr_now rq) (vr_rnd rq)) part)"
  proof (rule preservesI)
    fix s :: "'z fs_scheme" assume s: "file_is p c s"
    let ?o = "upload_options S (vr_now rq) (vr_rnd rq)"
    obtain s1 where d: "upload_destination S s = (Inr (uploadDir S), s1)" "fs_files s1 = fs_files s" by (rule destination_ok)
    show "file_is p c (snd (vv_multer v ?o part s))"
    proof (cases part)
      case None
      then show ?thesis using s by (simp add: multer_disk.no_file [OF multer])
    next
      case (Some f)
      consider e where "upload_fileFilter f = Some e" | "upload_fileFilter f = None" "524288000 < length (ff_content f)"
        | "upload_fileFilter f = None" "length (ff_content f) \<le> 524288000"
        by (cases "upload_fileFilter f"; cases "length (ff_content f) \<le> 524288000") simp_all
      then show ?thesis
      proof cases
        case 1
        then show ?thesis using s by (simp add: Some multer_disk.filtered [OF multer])
      next
        case 2
        then show ?thesis using s d by (simp add: Some multer_disk.too_large [OF multer, where dir = "uploadDir S" and s' = s1] file_is_def)
      next
        case 3
        then show ?thesis using s d safe_fromD(6) [OF assms, of f]
          by (simp add: Some multer_disk.stored [OF multer, where dir = "uploadDir S" and s' = s1] file_is_def getFilePath_def)
      qed
    qed
  qed
  then show ?thesis by (auto simp: post_upload_def Let_def split: option.split)
qed

lemma trim_kept:
  assumes "safe_from S rq p"
  shows "preserves (file_is p c) (post_trim env (vv_ffmpeg v) S (vr_now rq) (vr_rnd rq) n a b)"
  unfolding post_trim_def catch_500_def trimVideo_def Let_def
  by (intro kept_intros run_kept) (simp add: safe_fromD [OF assms])

lemma split_kept:
  assumes "safe_from S rq p"
  shows "preserves (file_is p c) (post_split env (vv_ffmpeg v) S (vr_now rq) (vr_rnd rq) n a)"
  unfolding post_split_def catch_500_def splitVideo_def split_part_def Let_def
  by (intro kept_intros run_kept probe_kept) (simp_all add: safe_fromD [OF assms])

lemma temp_kept: "q \<noteq> Some p \<Longrightarrow> preserves (file_is p c) (remove_temp q)"
  by (cases q) (auto simp: remove_temp_def intro!: file_is_unlink)

lemma process_kept:
  assumes "safe_from S rq p"
  shows "preserves (file_is p c) (post_process env (vv_ffmpeg v) S (vr_now rq) (vr_rnd rq) n subs a)"
proof -
  have run: "preserves (file_is p c) (process_run (vv_ffmpeg v) i q a o_name o_path)"
    if "q \<noteq> Some p" "p \<noteq> o_path" for i q o_name o_path
    unfolding process_run_def by (intro kept_intros run_kept temp_kept that) (simp add: process_job_def Let_def that)
  have prep: "preserves (file_is p c) (process_prepare S (vr_now rq) xs)" for xs
    unfolding process_prepare_def Let_def by (intro kept_intros file_is_write safe_fromD(1) [OF assms])
  have temp: "q \<noteq> Some p" if "process_prepare S (vr_now rq) xs s = (Inr q, s')" for xs q and s s' :: "'z fs_scheme"
    using that safe_fromD(1) [OF assms] by (auto simp: process_prepare_def Let_def bind_action_def fs_writeFile_def split: if_splits)
  have "preserves (file_is p c) (addSubtitlesAndSpeed (vv_ffmpeg v) S (vr_now rq) (vr_rnd rq) i xs a)" for i xs
  proof (rule preservesI)
    fix s :: "'z fs_scheme" assume s: "file_is p c s"
    obtain q s1 where q: "process_prepare S (vr_now rq) xs s = (Inr q, s1)"
      by (cases "xs = []") (auto simp: process_prepare_def Let_def bind_action_def fs_writeFile_def)
    show "file_is p c (snd (addSubtitlesAndSpeed (vv_ffmpeg v) S (vr_now rq) (vr_rnd rq) i xs a s))"
      using preserves_snd [OF run [OF temp [OF q]] preservesD [OF prep s q]] safe_fromD(5) [OF assms]
      by (simp add: addSubtitlesAndSpeed_def Let_def bind_action_def q)
  qed
  then show ?thesis
    unfolding post_process_def catch_500_def by (intro kept_intros) auto
qed

lemma probe_route_kept: "preserves (file_is p c) (get_metadata (vv_ffmpeg v) S n)"
  unfolding get_metadata_def catch_500_def by (intro kept_intros probe_kept)

lemma database_kept:
  "preserves (file_is p c) (DatabaseService_query (vv_pool v) stmt params)"
  "preserves (file_is p c) (DatabaseService_queryOne (vv_pool v) stmt params)"
proof -
  show q: "preserves (file_is p c) (DatabaseService_query (vv_pool v) stmt params)"
    unfolding DatabaseService_query_def
    by (intro kept_intros file_is_kept connect_frame query_frame) (simp add: file_is_def release_frame)
  show "preserves (file_is p c) (DatabaseService_queryOne (vv_pool v) stmt params)"
    unfolding DatabaseService_queryOne_def by (intro kept_intros q)
qed

lemma project_routes_kept:
  "preserves (file_is p c) (post_project (vv_pool v) b)" "preserves (file_is p c) (get_projects (vv_pool v))"
  "preserves (file_is p c) (get_project (vv_pool v) i)" "preserves (file_is p c) (put_project (vv_pool v) i b)"
  "preserves (file_is p c) (delete_project (vv_pool v) i)"
  unfolding post_project_def get_projects_def get_project_def put_project_def delete_project_def respond_500_def found_or_404_def
    split_def Let_def
  by (intro kept_intros database_kept)+

lemma metric_kept:
  "preserves (file_is p c) (recordThumbnailExtraction (vv_metrics v) d b)"
  "preserves (file_is p c) (updateThumbnailCacheStats (vv_metrics v) x y)"
  "preserves (file_is p c) (recordMetadataExtraction (vv_metrics v) d b)"
  "preserves (file_is p c) (recordError (vv_metrics v) src e ls)"
  unfolding recordThumbnailExtraction_def updateThumbnailCacheStats_def recordMetadataExtraction_def recordError_def
  by (intro kept_intros file_is_kept observe_frame inc_frame set_frame)+ (cases src; simp add: file_is_kept inc_frame)

lemma addon_kept:
  assumes "addon_files_kept a"
  shows "preserves (file_is p c) (addon_getVersion a)" "preserves (file_is p c) (addon_extractThumbnail a q t w h)"
    "preserves (file_is p c) (addon_getStats a)" "preserves (file_is p c) (addon_extractMetadata a q)"
    "preserves (file_is p c) (addon_isCodecSupported a k)"
  using assms by (auto simp: addon_files_kept_def)

lemma native_kept:
  "preserves (file_is p c) (getVersion (vv_native v))" "preserves (file_is p c) (extractThumbnail (vv_native v) q t w h)"
  "preserves (file_is p c) (getThumbnailStats (vv_native v))" "preserves (file_is p c) (extractMetadata (vv_native v) q)"
proof -
  show "preserves (file_is p c) (getVersion (vv_native v))"
    by (cases "nativeModule (vv_native v)") (simp_all add: getVersion_def addon_kept [OF module_frame])
  show "preserves (file_is p c) (extractThumbnail (vv_native v) q t w h)"
    by (cases "thumbnailExtractor (vv_native v)") (auto simp: extractThumbnail_def intro!: kept_intros addon_kept [OF extractor_frame])
  show "preserves (file_is p c) (getThumbnailStats (vv_native v))"
    by (cases "thumbnailExtractor (vv_native v)") (simp_all add: getThumbnailStats_def addon_kept [OF extractor_frame])
  show "preserves (file_is p c) (extractMetadata (vv_native v) q)"
    by (cases "metadataAnalyzer (vv_native v)") (auto simp: extractMetadata_def intro!: kept_intros addon_kept [OF analyzer_frame])
qed

lemma codec_kept: "preserves (file_is p c) (isCodecSupported (vv_require v) d k)"
proof -
  have "preserves (file_is p c) (bind_action (vv_require v q) (\<lambda>m. addon_isCodecSupported m k))" for q
  proof (rule preservesI)
    fix s :: "'z fs_scheme" assume s: "file_is p c s"
    obtain r s1 where r: "vv_require v q s = (r, s1)" by fastforce
    then have "file_is p c s1" using preservesD [OF file_is_kept [OF require_frame] s] by blast
    then show "file_is p c (snd (bind_action (vv_require v q) (\<lambda>m. addon_isCodecSupported m k) s))"
      using r required_frame [of q s] addon_kept(5) [THEN preserves_snd]
      by (cases r) (simp_all add: bind_action_def)
  qed
  then show ?thesis unfolding isCodecSupported_def by (intro preserves_try preserves_ret)
qed

lemma native_routes_kept:
  "preserves (file_is p c) (get_health ws (vv_native v))"
  "preserves (file_is p c) (post_thumbnail (vv_metrics v) (vv_native v) t0 t1 q t w h)"
  "preserves (file_is p c) (get_thumbnail_stats (vv_native v))"
  "preserves (file_is p c) (get_native_health (vv_native v))"
  "preserves (file_is p c) (post_metadata (vv_metrics v) (vv_native v) t0 t1 q)"
  "preserves (file_is p c) (get_codec (vv_require v) d k)"
  "preserves (file_is p c) (get_metrics (vv_metrics v))"
proof -
  note native = native_kept metric_kept codec_kept
  show "preserves (file_is p c) (get_health ws (vv_native v))"
    unfolding get_health_def by (intro kept_intros native)
  have failed: "preserves (file_is p c) (thumbnail_failed (vv_metrics v) t0 t1 e)" "preserves (file_is p c) (metadata_failed (vv_metrics v) t0 t1 e)" for e
    unfolding thumbnail_failed_def metadata_failed_def by (intro kept_intros native)+
  have done_ok: "preserves (file_is p c) (thumbnail_done (vv_metrics v) (vv_native v) t0 t1 x b)" for x b
    unfolding thumbnail_done_def by (intro kept_intros native)
  show "preserves (file_is p c) (post_thumbnail (vv_metrics v) (vv_native v) t0 t1 q t w h)"
    unfolding post_thumbnail_def
    by (intro preserves_try failed) (auto split: field.split jsval.split intro!: kept_intros native done_ok)
  show "preserves (file_is p c) (get_thumbnail_stats (vv_native v))"
    unfolding get_thumbnail_stats_def by (intro kept_intros native)
  show "preserves (file_is p c) (get_native_health (vv_native v))"
    unfolding get_native_health_def by (intro kept_intros native)
  show "preserves (file_is p c) (post_metadata (vv_metrics v) (vv_native v) t0 t1 q)"
    unfolding post_metadata_def
    by (intro preserves_try failed) (auto split: field.split intro!: kept_intros native)
  show "preserves (file_is p c) (get_codec (vv_require v) d k)"
    unfolding get_codec_def by (intro kept_intros native)
  show "preserves (file_is p c) (get_metrics (vv_metrics v))"
    unfolding get_metrics_def getMetrics_def by (intro kept_intros file_is_kept text_frame)
qed

text \<open>No layer of the application changes such a file.\<close>

lemma sync_kept: "preserves (file_is p c) m \<Longrightarrow> file_is p c (sv_libs s) \<Longrightarrow> file_is p c (sv_libs (snd (sync_handler f m s)))"
  and async_kept: "preserves (file_is p c) m \<Longrightarrow> file_is p c (sv_libs s) \<Longrightarrow> file_is p c (sv_libs (snd (async_handler f m s)))"
  by (auto simp: sync_handler_def async_handler_def split: prod.split sum.split dest: preservesD)

lemma run_endpoint_kept:
  assumes "safe_from (vv_storage v) rq p" and "file_is p c (sv_libs s)"
  shows "file_is p c (sv_libs (snd (video_run v e ps rq s)))"
  by (cases e) (simp_all add: sync_kept async_kept assms upload_kept trim_kept split_kept process_kept probe_route_kept
      project_routes_kept native_routes_kept)

end

section \<open>Uploading and playing\<close>

context file_frame begin

lemma upload_result:
  assumes "ff_mimetype f \<in> set allowedMimes" and "length (ff_content f) \<le> 524288000"
  obtains r s' where "post_upload (vv_multer v) S now rnd (Some f) s = (Inr (Sent 200 r), s')"
    "up_filename r = upload_filename now rnd f" "up_url r = ''/videos/'' @ up_filename r"
    "fs_files s' (getFilePath S (up_filename r)) = Some (ff_content f)"
proof -
  obtain s1 where d: "upload_destination S s = (Inr (uploadDir S), s1)" by (rule destination_ok)
  show ?thesis
    using that assms d
    by (simp add: post_upload_def bind_action_def Let_def upload_fileFilter_def getFilePath_def
        multer_disk.stored [OF multer, where dir = "uploadDir S" and s' = s1])
qed

end

lemma unique_name_segment:
  assumes "list_all plain_char ext" and "list_all plain_char prefix" and "prefix \<noteq> []" and "hd prefix \<noteq> CHR ''.''"
  shows "plain_segment (unique_name prefix now rnd ext)" "hd (unique_name prefix now rnd ext) \<noteq> CHR ''.''"
proof -
  have "list_all plain_char (show_nat n)" for n
    using show_nat_digits [of _ n] by (auto simp: list_all_iff plain_char_def)
  moreover have "plain_char CHR ''-''" by code_simp
  ultimately show "plain_segment (unique_name prefix now rnd ext)" "hd (unique_name prefix now rnd ext) \<noteq> CHR ''.''"
    using assms by (simp_all add: plain_segment_def unique_name_def)
qed

lemma plain_prefix: "list_all plain_char ''video-''" "list_all plain_char ''trim-''"
  by code_simp+

lemma upload_name_segment:
  assumes "list_all plain_char (path_extname (ff_originalname f))"
  shows "plain_segment (upload_filename now rnd f)" "hd (upload_filename now rnd f) \<noteq> CHR ''.''"
  using unique_name_segment [OF assms plain_prefix(1)] by (simp_all add: upload_unique)

context video_server begin

lemma sends_file:
  assumes "rq_method rq = GET" "rq_path rq = [''videos'', name]" "vr_parses rq" and "plain_segment name" "hd name \<noteq> CHR ''.''"
    and "fs_files (sv_libs s) (getFilePath (vv_storage v) name) = Some c"
  shows "handle (video_app v) rq s = (Answered (RFile c), s)"
proof -
  have "plain_segment ''videos''" by code_simp
  then show ?thesis
    using assms handle_serves [of rq s]
    by (simp add: video_serve_def sent_file_def static_sends getFilePath_def getUploadDir_def)
qed

lemma serves_upload:
  assumes "rq_method rq = POST" "rq_path rq = [''api'', ''upload'']" "vr_parses rq"
  shows "handle (video_app v) rq s = (case video_run v Vp_upload [] rq s of (r, s') \<Rightarrow> (ending r, s'))"
proof -
  have "list_all plain_segment [''api'', ''upload'']"
      "first_route (list_all2 seg_matches) POST [''api'', ''upload''] video_routes = Some (POST, [Lit ''api'', Lit ''upload''], Vp_upload)"
      "param_values [Lit ''api'', Lit ''upload''] [''api'', ''upload''] = []"
    by code_simp+
  then show ?thesis
    using assms handle_serves [of rq s] by (simp add: video_serve_def sent_file_def del: video_run.simps list.pred_inject)
qed

end

section \<open>Any sequence of requests\<close>

lemma files_after:
  assumes "express_app matches handle failing" and "file_frame v"
    and "uploadDir (vv_storage v) = abs_path ws" and "\<forall>w \<in> set ws. plain w"
    and "list_all (\<lambda>rq. \<not> may_write ws rq p) rqs"
  shows "fs_files (sv_libs (foldl (video_step handle v) s rqs)) p = fs_files (sv_libs s) p"
proof -
  have step: "file_is p c (sv_libs (video_step handle v s rq))" if "file_is p c (sv_libs s)" "\<not> may_write ws rq p" for s rq c
  proof -
    have "list_all (layer_keeps (\<lambda>s. file_is p c (sv_libs s)) rq) (video_app v)"
      using file_frame.run_endpoint_kept [OF assms(2) safe_fromI [OF assms(3,4) that(2)]]
      by (auto simp: video_app_def list_all_iff layer_keeps_def use_layer_def route_layer_def cors_function_def
          json_function_def static_function_def error_function_def split: option.split)
    moreover have "list_all (\<lambda>l. ly_arity l \<noteq> 4) (video_app v)"
      by (auto simp: video_app_def list_all_iff use_layer_def route_layer_def)
    ultimately show ?thesis
      using express_app.handle_keeps [OF assms(1)] that(1) unfolding video_step_def by blast
  qed
  have "file_is p c (sv_libs (foldl (video_step handle v) s rqs))" if "file_is p c (sv_libs s)" for c
    using that assms(5) by (induction rqs arbitrary: s) (simp_all add: step)
  then show ?thesis by (simp add: file_is_def)
qed

section \<open>The backend in memory\<close>

lemma files_kept_simps [simp]:
  "files_kept (ret a)" "files_kept (throw e)" "files_kept (\<lambda>s. (r s, s))"
  by (simp_all add: files_kept_def)

lemma files_kept_part: "(\<And>s w. fs_files (put s w) = fs_files w) \<Longrightarrow> files_kept (on_part get put m)"
  by (simp add: files_kept_def on_part_def split: prod.split)

lemma files_kept_sample:
  "(\<And>r w. fs_files (put r w) = fs_files w) \<Longrightarrow> files_kept (sample get put m ls f)"
  by (simp add: files_kept_def sample_def)

lemma copy_frame: "p \<noteq> job_output job \<Longrightarrow> fs_files (snd (ff_run copy_ffmpeg job s)) p = fs_files s p"
  and copy_probe: "files_kept (ff_probe copy_ffmpeg q)"
  by (simp_all add: copy_ffmpeg_def split: option.split)

interpretation world_files: file_frame world_env
proof (rule file_frame.intro)
  show "multer_disk (vv_multer world_env)" by (simp add: world_env_def disk.multer_disk_axioms)
qed (simp_all add: world_env_def world_pool_def Let_def copy_frame files_kept_part registry_prom_def
      files_kept_sample file_addon_def addon_files_kept_def copy_probe ret_apply)

section \<open>Properties\<close>

text \<open>C2: No request touches a file it has not made.  Whatever requests reach the backend, in whatever order and
  with whatever names in their bodies, a file stays as it is unless its path is an entry of the upload
  directory whose name a request makes of its own time and random number.  So nothing outside the
  upload directory is ever written or deleted, although the handlers read files there, and a
  stored video is changed only when two requests come in the same millisecond.\<close>

theorem requests_keep_files:
  assumes "express_app matches handle failing" and "file_frame v"
    and "uploadDir (vv_storage v) = abs_path ws" and "\<forall>w \<in> set ws. plain w"
    and "list_all (\<lambda>rq. \<not> may_write ws rq p) rqs"
  shows "fs_files (sv_libs (foldl (video_step handle v) s rqs)) p = fs_files (sv_libs s) p"
  by (rule files_after [OF assms])

definition trim_request :: video_request where
  "trim_request = (plain_request POST [''api'', ''edit'', ''trim''] 17)
     \<lparr>vr_body := empty_body\<lparr>jb_filename := Value ''a.mp4'', jb_startTime := lit 0, jb_endTime := lit 2\<rparr>\<rparr>"

theorem requests_keep_files_witness:
  "fs_files (sv_libs (foldl (video_step (express_walk express_match) world_env) world_state
     [trim_request, plain_request DELETE [''api'', ''projects'', ''1''] 18])) ''/srv/uploads/a.mp4'' = Some ''12345''"
proof -
  have d: "uploadDir (vv_storage world_env) = abs_path [''srv'', ''uploads'']"
    by (simp add: world_env_def srv_storage_def abs_path_def)
  have p: "\<forall>w \<in> set [''srv'', ''uploads'']. plain w" by code_simp
  have q: "list_all (\<lambda>rq. \<not> may_write [''srv'', ''uploads''] rq ''/srv/uploads/a.mp4'')
      [trim_request, plain_request DELETE [''api'', ''projects'', ''1''] 18]" by code_simp
  show ?thesis
    using requests_keep_files [OF express_walk.express_app_axioms world_files.file_frame_axioms d p q, of world_state]
    by (simp add: world_state_def)
qed


definition upload_request :: video_request where
  "upload_request = (plain_request POST [''api'', ''upload''] 17)\<lparr>vr_file := Some sample_upload\<rparr>"


end
