(* ===== verification/Client_Network.thy ===== *)
theory Client_Network
  imports Client_Editor Video_Files
begin

text \<open>
  The video editor's frontend against its whole backend: the requests of the hooks and panels go
  through the browser to the routes of \<open>Video_Backend\<close>.  The URLs are the texts the hooks build, and the bodies
  the JSON texts of their parameters.
\<close>

section \<open>Definitions\<close>

subsection \<open>The way of a request\<close>

definition method_of :: "string \<Rightarrow> http_method option" where
  "method_of m = (if m = ''GET'' then Some GET else if m = ''POST'' then Some POST else if m = ''PUT'' then Some PUT
     else if m = ''DELETE'' then Some DELETE else None)"

text \<open>The path of a URL at the backend's origin.\<close>

definition url_path :: "string \<Rightarrow> string \<Rightarrow> string list option" where
  "url_path origin url =
     (if startsWith url (origin @ ''/'') then Some (split_on slash (drop (length origin + 1) url)) else None)"

text \<open>The members of a JSON body the hooks send.\<close>

definition json_trim :: "TrimParams \<Rightarrow> json_body" where
  "json_trim p = empty_body\<lparr>jb_filename := Value (tp_filename p), jb_startTime := lit (tp_startTime p), jb_endTime := lit (tp_endTime p)\<rparr>"

definition json_split :: "SplitParams \<Rightarrow> json_body" where
  "json_split p = empty_body\<lparr>jb_filename := Value (sp_filename p), jb_splitTime := lit (sp_splitTime p)\<rparr>"

definition json_process :: "process_params \<Rightarrow> json_body" where
  "json_process p = empty_body\<lparr>jb_filename := Value (qp_filename p),
     jb_subtitles := (case qp_subtitles p of None \<Rightarrow> Undefined | Some us \<Rightarrow> Value (map sent_subtitle us)),
     jb_speed := (case qp_speed p of None \<Rightarrow> JUndef | Some x \<Rightarrow> lit x)\<rparr>"

definition json_project :: "vproject_body \<Rightarrow> json_body" where
  "json_project b = empty_body\<lparr>jb_project := b\<rparr>"

text \<open>The default answers of Express are HTML, which the hooks cannot read as JSON.\<close>

definition not_json :: "nat \<Rightarrow> 'a response" where
  "not_json c = \<lparr>rs_ok = (200 \<le> c \<and> c < 300), rs_data = Inl ''not JSON'', rs_error = Inl ''not JSON''\<rparr>"

text \<open>\<open>fetch\<close> against the backend at \<open>origin\<close>; \<open>pick\<close> reads the JSON of the response as what the hook expects.\<close>

definition network ::
    "((video_request, ('r, 'z) video_state, video_response) layer list \<Rightarrow> video_request \<Rightarrow> ('r, 'z) video_state
       \<Rightarrow> video_response served \<times> ('r, 'z) video_state) \<Rightarrow> 'z video_env \<Rightarrow> string \<Rightarrow> nat \<Rightarrow> nat
      \<Rightarrow> ('b \<Rightarrow> json_body) \<Rightarrow> (video_response \<Rightarrow> 'a reply option) \<Rightarrow> ('b, ('r, 'z) video_state, 'a) fetch" where
  "network handle v origin now rnd encode pick meth url body s =
     (case (method_of meth, url_path origin url) of
        (Some m, Some path) \<Rightarrow>
          (case handle (video_app v) \<lparr>rq_method = m, rq_path = path, vr_parses = True,
                  vr_body = (case body of None \<Rightarrow> empty_body | Some b \<Rightarrow> encode b), vr_file = None,
                  vr_now = now, vr_rnd = rnd, vr_end = now\<rparr> s of
             (Answered x, s') \<Rightarrow> (Inr (case pick x of Some r \<Rightarrow> http_response r | None \<Rightarrow> not_json 200), s')
           | (Default c, s') \<Rightarrow> (Inr (not_json c), s')
           | (Unanswered, s') \<Rightarrow> (Inl ''Failed to fetch'', s'))
      | _ \<Rightarrow> (Inl ''Failed to fetch'', s))"

fun pick_edit :: "video_response \<Rightarrow> ProcessingResult reply option" where
  "pick_edit (REdit r) = Some r"
| "pick_edit _ = None"

fun pick_parts :: "video_response \<Rightarrow> ProcessingResult list reply option" where
  "pick_parts (RParts r) = Some r"
| "pick_parts _ = None"

fun pick_created :: "video_response \<Rightarrow> vproject option reply option" where
  "pick_created (RCreated r) = Some r"
| "pick_created _ = None"

fun pick_projects :: "video_response \<Rightarrow> vproject list reply option" where
  "pick_projects (RProjects r) = Some r"
| "pick_projects _ = None"

fun pick_project :: "video_response \<Rightarrow> vproject reply option" where
  "pick_project (RProject r) = Some r"
| "pick_project _ = None"

fun pick_deleted :: "video_response \<Rightarrow> (string \<times> vproject) reply option" where
  "pick_deleted (RDeleted r) = Some r"
| "pick_deleted _ = None"

subsection \<open>The handlers the requests are meant for\<close>

definition on_libs :: "('e, 'l, 'a) action \<Rightarrow> ('e, ('r, 'l) server_state, 'a) action" where
  "on_libs = on_part sv_libs (\<lambda>l s. s\<lparr>sv_libs := l\<rparr>)"

definition trim_handler :: "'z video_env \<Rightarrow> nat \<Rightarrow> nat \<Rightarrow> TrimParams \<Rightarrow> (string, 'z fs_scheme, ProcessingResult reply) action" where
  "trim_handler v now rnd p =
     post_trim (vv_apiUrl v) (vv_ffmpeg v) (vv_storage v) now rnd (Value (tp_filename p)) (lit (tp_startTime p)) (lit (tp_endTime p))"

definition split_handler :: "'z video_env \<Rightarrow> nat \<Rightarrow> nat \<Rightarrow> SplitParams \<Rightarrow> (string, 'z fs_scheme, ProcessingResult list reply) action" where
  "split_handler v now rnd p =
     post_split (vv_apiUrl v) (vv_ffmpeg v) (vv_storage v) now rnd (Value (sp_filename p)) (lit (sp_splitTime p))"

definition process_handler :: "'z video_env \<Rightarrow> nat \<Rightarrow> nat \<Rightarrow> process_params \<Rightarrow> (string, 'z fs_scheme, ProcessingResult reply) action" where
  "process_handler v now rnd p =
     post_process (vv_apiUrl v) (vv_ffmpeg v) (vv_storage v) now rnd (Value (qp_filename p))
       (case qp_subtitles p of None \<Rightarrow> Undefined | Some us \<Rightarrow> Value (map sent_subtitle us))
       (case qp_speed p of None \<Rightarrow> JUndef | Some x \<Rightarrow> lit x)"

text \<open>A \<open>fetch\<close> that runs the given handler, whatever the address.\<close>

definition direct :: "(('b option) \<Rightarrow> (string, 'l, 'a reply) action) \<Rightarrow> ('b, ('r, 'l) server_state, 'a) fetch" where
  "direct h meth url body = on_libs (serve (h body))"

section \<open>Lemmas\<close>

lemma url_path_at: "url_path origin (origin @ CHR ''/'' # p) = Some (split_on slash p)"
  by (simp add: url_path_def startsWith_def)

lemma segment_no_slash: "plain_segment w \<Longrightarrow> slash \<notin> set w"
  by (auto simp: plain_segment_def list_all_iff plain_char_def slash_def is_digit_def)

lemma split_on_show: "split_on slash (show_int i) = [show_int i]"
  using show_int_chars [of slash i] by (intro split_on_free) (auto simp: slash_def is_digit_def)

context video_server begin

lemma network_reaches:
  fixes h :: "(string, 'z fs_scheme, 'a reply) action"
  assumes "method_of meth = Some m" and "url_path origin url = Some path" and "list_all plain_segment path"
    and "hd path = ''api''" and "path \<noteq> []"
    and "first_route (list_all2 seg_matches) m path video_routes = Some (m, pat, e)"
    and "\<And>rq s. vr_body rq = (case body of None \<Rightarrow> empty_body | Some b \<Rightarrow> encode b) \<Longrightarrow> vr_now rq = now \<Longrightarrow> vr_rnd rq = rnd \<Longrightarrow>
      video_run v e (param_values pat path) rq (s :: ('r, 'z) video_state) = async_handler f h s"
    and "\<And>r. pick (f r) = Some r"
  shows "network handle v origin now rnd encode pick meth url body = on_libs (serve h)"
proof
  fix s :: "('r, 'z) video_state"
  let ?rq = "\<lparr>rq_method = m, rq_path = path, vr_parses = True, vr_body = (case body of None \<Rightarrow> empty_body | Some b \<Rightarrow> encode b),
    vr_file = None, vr_now = now, vr_rnd = rnd, vr_end = now\<rparr>"
  have "sent_file v ?rq s = None" using assms(4,5) by (cases path) (simp_all add: sent_file_def)
  then have "handle (video_app v) ?rq s = (case async_handler f h s of (r, s') \<Rightarrow> (ending r, s'))"
    using handle_serves [of ?rq s] assms(3,6,7) by (simp add: video_serve_def)
  then show "network handle v origin now rnd encode pick meth url body s = on_libs (serve h) s"
    using assms(1,2,8)
    by (cases "h (sv_libs s)"; cases "fst (h (sv_libs s))")
      (simp_all add: network_def async_handler_def on_libs_def on_part_def serve_def)
qed

end

text \<open>The routes of the requests, for any project.\<close>

lemma project_routes_found:
  "list_all plain_segment [''api'', ''projects'']"
  "first_route (list_all2 seg_matches) POST [''api'', ''projects''] video_routes = Some (POST, [Lit ''api'', Lit ''projects''], Vp_createProject)"
  "first_route (list_all2 seg_matches) GET [''api'', ''projects''] video_routes = Some (GET, [Lit ''api'', Lit ''projects''], Vp_projects)"
  by code_simp+

lemma project_route_found:
  "list_all plain_segment [''api'', ''projects'', show_int i]"
  "m \<in> {GET, PUT, DELETE} \<Longrightarrow> first_route (list_all2 seg_matches) m [''api'', ''projects'', show_int i] video_routes =
     Some (m, [Lit ''api'', Lit ''projects'', Par ''id''],
       case m of GET \<Rightarrow> Vp_project | PUT \<Rightarrow> Vp_updateProject | _ \<Rightarrow> Vp_deleteProject)"
proof -
  have "plain_segment ''api''" "plain_segment ''projects''" by code_simp+
  then show "list_all plain_segment [''api'', ''projects'', show_int i]" by simp
  have f: "first_route (list_all2 seg_matches) m (map (fill (\<lambda>_. i)) pat) video_routes =
      List.find (\<lambda>(m', pat', _). m' = m \<and> list_all2 seg_hits pat' pat) video_routes"
    if "list_all worded pat" for pat
    unfolding first_route_def
    using video_routes_worded by (intro find_agree) (auto simp: table_worded_def list_all_iff matches_fill)
  have w: "list_all worded [Lit ''api'', Lit ''projects'', Par ''id'']" by code_simp
  assume "m \<in> {GET, PUT, DELETE}"
  then show "first_route (list_all2 seg_matches) m [''api'', ''projects'', show_int i] video_routes =
     Some (m, [Lit ''api'', Lit ''projects'', Par ''id''],
       case m of GET \<Rightarrow> Vp_project | PUT \<Rightarrow> Vp_updateProject | _ \<Rightarrow> Vp_deleteProject)"
    using f [OF w] by (auto; code_simp)
qed

lemma project_param: "param_values [Lit ''api'', Lit ''projects'', Par ''id''] [''api'', ''projects'', x] = [x]"
  by (simp add: param_values_def)

lemma edit_routes_found:
  "list_all plain_segment [''api'', ''edit'', ''trim'']" "list_all plain_segment [''api'', ''edit'', ''split'']"
  "list_all plain_segment [''api'', ''edit'', ''process'']"
  "first_route (list_all2 seg_matches) POST [''api'', ''edit'', ''trim''] video_routes =
     Some (POST, [Lit ''api'', Lit ''edit'', Lit ''trim''], Vp_trim)"
  "first_route (list_all2 seg_matches) POST [''api'', ''edit'', ''split''] video_routes =
     Some (POST, [Lit ''api'', Lit ''edit'', Lit ''split''], Vp_split)"
  "first_route (list_all2 seg_matches) POST [''api'', ''edit'', ''process''] video_routes =
     Some (POST, [Lit ''api'', Lit ''edit'', Lit ''process''], Vp_process)"
  by code_simp+

lemma request_paths:
  "url_path api (projects_url api) = Some [''api'', ''projects'']"
  "url_path api (project_url api i) = Some [''api'', ''projects'', show_int i]"
  "url_path api (api @ ''/api/edit/trim'') = Some [''api'', ''edit'', ''trim'']"
  "url_path api (api @ ''/api/edit/split'') = Some [''api'', ''edit'', ''split'']"
  "url_path api (api @ ''/api/edit/process'') = Some [''api'', ''edit'', ''process'']"
proof -
  show "url_path api (project_url api i) = Some [''api'', ''projects'', show_int i]"
    using split_on_append [of slash "''api''" "''projects/'' @ show_int i"] split_on_append [of slash "''projects''" "show_int i"]
    by (simp add: project_url_def url_path_at split_on_show [unfolded slash_def] slash_def)
qed (simp_all add: projects_url_def url_path_at slash_def)

lemma methods [simp]:
  "method_of ''POST'' = Some POST" "method_of ''GET'' = Some GET" "method_of ''PUT'' = Some PUT" "method_of ''DELETE'' = Some DELETE"
  by (simp_all add: method_of_def)

context video_server begin

lemma project_requests:
  "network handle v api now rnd (json_project \<circ> project_body) pick_created ''POST'' (projects_url api) (Some p) =
     on_libs (serve (post_project (vv_pool v) (project_body p)))"
  "network handle v api now rnd encode pick_projects ''GET'' (projects_url api) None = on_libs (serve (get_projects (vv_pool v)))"
  "network handle v api now rnd encode pick_project ''GET'' (project_url api i) None =
     on_libs (serve (get_project (vv_pool v) (show_int i)))"
  "network handle v api now rnd json_project pick_project ''PUT'' (project_url api i) (Some b) =
     on_libs (serve (put_project (vv_pool v) (show_int i) b))"
  "network handle v api now rnd encode pick_deleted ''DELETE'' (project_url api i) None =
     on_libs (serve (delete_project (vv_pool v) (show_int i)))"
proof -
  note plain = project_routes_found(1)
  show "network handle v api now rnd (json_project \<circ> project_body) pick_created ''POST'' (projects_url api) (Some p) =
     on_libs (serve (post_project (vv_pool v) (project_body p)))"
    by (rule network_reaches [OF methods(1) request_paths(1) plain _ _ project_routes_found(2), where f = RCreated])
      (simp_all add: json_project_def)
  show "network handle v api now rnd encode pick_projects ''GET'' (projects_url api) None = on_libs (serve (get_projects (vv_pool v)))"
    by (rule network_reaches [OF methods(2) request_paths(1) plain _ _ project_routes_found(3), where f = RProjects]) simp_all
  note one = request_paths(2) project_route_found(1)
  show "network handle v api now rnd encode pick_project ''GET'' (project_url api i) None =
     on_libs (serve (get_project (vv_pool v) (show_int i)))"
    by (rule network_reaches [OF methods(2) one _ _ project_route_found(2) [of GET, simplified], where f = RProject]) (simp_all add: project_param)
  show "network handle v api now rnd json_project pick_project ''PUT'' (project_url api i) (Some b) =
     on_libs (serve (put_project (vv_pool v) (show_int i) b))"
    by (rule network_reaches [OF methods(3) one _ _ project_route_found(2) [of PUT, simplified], where f = RProject])
      (simp_all add: project_param json_project_def)
  show "network handle v api now rnd encode pick_deleted ''DELETE'' (project_url api i) None =
     on_libs (serve (delete_project (vv_pool v) (show_int i)))"
    by (rule network_reaches [OF methods(4) one _ _ project_route_found(2) [of DELETE, simplified], where f = RDeleted]) (simp_all add: project_param)
qed

lemma edit_requests:
  "network handle v api now rnd json_trim pick_edit ''POST'' (api @ ''/api/edit/trim'') (Some tp) =
     on_libs (serve (trim_handler v now rnd tp))"
  "network handle v api now rnd json_split pick_parts ''POST'' (api @ ''/api/edit/split'') (Some sp) =
     on_libs (serve (split_handler v now rnd sp))"
  "network handle v api now rnd json_process pick_edit ''POST'' (api @ ''/api/edit/process'') (Some qp) =
     on_libs (serve (process_handler v now rnd qp))"
proof -
  show "network handle v api now rnd json_trim pick_edit ''POST'' (api @ ''/api/edit/trim'') (Some tp) =
     on_libs (serve (trim_handler v now rnd tp))"
    by (rule network_reaches [OF methods(1) request_paths(3) edit_routes_found(1) _ _ edit_routes_found(4), where f = REdit])
      (simp_all add: json_trim_def trim_handler_def)
  show "network handle v api now rnd json_split pick_parts ''POST'' (api @ ''/api/edit/split'') (Some sp) =
     on_libs (serve (split_handler v now rnd sp))"
    by (rule network_reaches [OF methods(1) request_paths(4) edit_routes_found(2) _ _ edit_routes_found(5), where f = RParts])
      (simp_all add: json_split_def split_handler_def)
  show "network handle v api now rnd json_process pick_edit ''POST'' (api @ ''/api/edit/process'') (Some qp) =
     on_libs (serve (process_handler v now rnd qp))"
    by (rule network_reaches [OF methods(1) request_paths(5) edit_routes_found(3) _ _ edit_routes_found(6), where f = REdit])
      (simp_all add: json_process_def process_handler_def)
qed

end

section \<open>Properties\<close>


definition world_origin :: string where
  "world_origin = ''http://localhost:3001''"

definition world_hook :: "(nat, unit video_world_ext native_world_ext) video_state hook" where
  "world_hook = \<lparr>hk_loading = False, hk_error = None, hk_world = world_state\<rparr>"



definition world_panel :: "(nat, unit video_world_ext native_world_ext) video_state edit_panel" where
  "world_panel = \<lparr>ep_mode = ModeTrim, ep_trimStart = 1, ep_trimEnd = 3, ep_splitTime = 5, ep_subtitles = [], ep_speed = 1,
     ep_processingSubtitle = False, ep_subtitleError = None, ep_alerts = [], ep_hook = world_hook\<rparr>"


end
