(* ===== verification/Db_Service.thy ===== *)
theory Db_Service
  imports Prelude Js_Text "HOL-Library.Sublist"
begin

text \<open>
  The database service of the issue tracker's backend (\<open>common/prisma/prisma.service.ts\<close>): connecting with the module, and
  emptying the database between tests.  The raw operations of the Prisma client are a record of actions on a state; the
  SQL texts are those of the code, with runs of spaces as one.
\<close>

section \<open>Definitions\<close>

record 's raw_ops =
  ro_connect :: "(string, 's, unit) action"
  ro_disconnect :: "(string, 's, unit) action"
  ro_query :: "string \<Rightarrow> (string, 's, string list) action"
  ro_execute :: "string \<Rightarrow> (string, 's, unit) action"

definition onModuleInit :: "'s raw_ops \<Rightarrow> (string, 's, unit) action" where
  "onModuleInit C = ro_connect C"

definition onModuleDestroy :: "'s raw_ops \<Rightarrow> (string, 's, unit) action" where
  "onModuleDestroy C = ro_disconnect C"

definition sqlite_query :: string where
  "sqlite_query = ''SELECT name FROM sqlite_master WHERE type = 'table' AND name NOT LIKE 'sqlite_%';''"

definition pg_query :: string where
  "pg_query = ''SELECT tablename FROM pg_tables WHERE schemaname = 'public' AND tablename NOT IN ('_prisma_migrations');''"

definition pragma_sql :: "bool \<Rightarrow> string" where
  "pragma_sql on = ''PRAGMA foreign_keys = '' @ (if on then ''ON'' else ''OFF'') @ '';''"

definition delete_sql :: "string \<Rightarrow> string" where
  "delete_sql name = ''DELETE FROM '' @ [CHR 0x22] @ name @ [CHR 0x22] @ '';''"

definition sequence_sql :: string where
  "sequence_sql = ''DELETE FROM sqlite_sequence;''"

definition truncate_sql :: "string list \<Rightarrow> string" where
  "truncate_sql names =
     ''TRUNCATE TABLE '' @ join '', '' (map (\<lambda>n. [CHR 0x22] @ n @ [CHR 0x22]) names) @ '' RESTART IDENTITY CASCADE;''"

text \<open>An error of the statement for the sequences is caught.\<close>

definition clean_sqlite :: "'s raw_ops \<Rightarrow> (string, 's, unit) action" where
  "clean_sqlite C =
     bind_action (ro_query C sqlite_query) (\<lambda>tables.
     if tables = [] then ret ()
     else bind_action (ro_execute C (pragma_sql False)) (\<lambda>_.
          bind_action (map_action (\<lambda>name. ro_execute C (delete_sql name)) tables) (\<lambda>_.
          bind_action (try_catch (ro_execute C sequence_sql) (\<lambda>_. ret ())) (\<lambda>_.
          ro_execute C (pragma_sql True)))))"

definition clean_postgres :: "'s raw_ops \<Rightarrow> (string, 's, unit) action" where
  "clean_postgres C =
     bind_action (ro_query C pg_query) (\<lambda>tables.
     if tables = [] then ret () else ro_execute C (truncate_sql tables))"

definition cleanDatabase :: "string option \<Rightarrow> string option \<Rightarrow> 's raw_ops \<Rightarrow> (string, 's, unit) action" where
  "cleanDatabase NODE_ENV DATABASE_URL C =
     (if NODE_ENV \<noteq> Some ''test'' then throw ''cleanDatabase should only be called in test environment''
      else let databaseUrl = (case DATABASE_URL of None \<Rightarrow> [] | Some u \<Rightarrow> u)
           in if startsWith databaseUrl ''file:'' then clean_sqlite C else clean_postgres C)"

section \<open>What the service relies on\<close>

text \<open>\<open>LIKE 'sqlite_%'\<close> in SQLite: the underscore stands for any character and letters count in either case.\<close>

definition like_sqlite :: "string \<Rightarrow> bool" where
  "like_sqlite n = (map to_upper (take 6 n) = ''SQLITE'' \<and> 7 \<le> length n)"

definition emptied :: "string list \<Rightarrow> (string \<times> 'r list) list \<Rightarrow> (string \<times> 'r list) list" where
  "emptied names ts = map (\<lambda>(n, rows). (n, if n \<in> set names then [] else rows)) ts"

lemma fst_emptied [simp]: "map fst (emptied ns ts) = map fst ts" "fst ` set (emptied ns ts) = fst ` set ts"
  by (force simp: emptied_def)+

lemma emptied_emptied [simp]: "emptied ms (emptied ns ts) = emptied (ns @ ms) ts"
  by (auto simp: emptied_def)

lemma emptied_none [simp]: "emptied [] ts = ts"
  by (simp add: emptied_def case_prod_beta)

lemma emptied_rows: "(n, rows) \<in> set (emptied ns ts) \<Longrightarrow> n \<in> set ns \<Longrightarrow> rows = []"
  by (auto simp: emptied_def split: if_splits)

text \<open>\<open>tables\<close> is the catalogue with the rows, \<open>enforced\<close> whether foreign keys are checked, which only matters to
  SQLite here.  The tables \<open>CASCADE\<close> adds may be emptied too.\<close>

locale raw_client =
  fixes C :: "'s raw_ops" and tables :: "'s \<Rightarrow> (string \<times> 'r list) list" and enforced :: "'s \<Rightarrow> bool"
  assumes sqlite_list: "ro_query C sqlite_query s = (Inr (filter (\<lambda>n. \<not> like_sqlite n) (map fst (tables s))), s)"
    and pg_list: "ro_query C pg_query s = (Inr (filter (\<lambda>n. n \<noteq> ''_prisma_migrations'') (map fst (tables s))), s)"
    and pragma: "\<exists>s'. ro_execute C (pragma_sql on) s = (Inr (), s') \<and> tables s' = tables s \<and> enforced s' = on"
    and delete: "name \<in> fst ` set (tables s) \<Longrightarrow> \<not> enforced s \<Longrightarrow>
      \<exists>s'. ro_execute C (delete_sql name) s = (Inr (), s') \<and> tables s' = emptied [name] (tables s) \<and> \<not> enforced s'"
    and sequences: "tables (snd (ro_execute C sequence_sql s)) = tables s"
    and truncate: "set names \<subseteq> fst ` set (tables s) \<Longrightarrow>
      \<exists>s'. ro_execute C (truncate_sql names) s = (Inr (), s') \<and> map fst (tables s') = map fst (tables s) \<and> enforced s' = enforced s \<and>
        (\<forall>n rows. (n, rows) \<in> set (tables s') \<longrightarrow> n \<in> set names \<longrightarrow> rows = [])"
begin

lemma delete_each:
  "set names \<subseteq> fst ` set (tables s) \<Longrightarrow> \<not> enforced s \<Longrightarrow>
    \<exists>us s'. map_action (\<lambda>name. ro_execute C (delete_sql name)) names s = (Inr us, s') \<and> tables s' = emptied names (tables s)"
proof (induction names arbitrary: s)
  case (Cons n ns)
  then obtain s1 where s1: "ro_execute C (delete_sql n) s = (Inr (), s1)" "tables s1 = emptied [n] (tables s)" "\<not> enforced s1"
    using delete [of n s] by auto
  with Cons.IH [of s1] Cons.prems obtain us s2 where "map_action (\<lambda>name. ro_execute C (delete_sql name)) ns s1 = (Inr us, s2)"
    "tables s2 = emptied ns (tables s1)" by auto
  with s1 show ?case by (simp add: bind_action_def)
qed simp

lemma sequences_caught: "\<exists>s'. try_catch (ro_execute C sequence_sql) (\<lambda>_. ret ()) s = (Inr (), s') \<and> tables s' = tables s"
  using sequences [of s] by (cases "ro_execute C sequence_sql s" rule: prod.exhaust; cases "fst (ro_execute C sequence_sql s)")
    (auto simp: try_catch_def)

lemma sqlite_cleaned:
  assumes "enforced s"
  shows "\<exists>s'. clean_sqlite C s = (Inr (), s') \<and> enforced s' \<and>
    tables s' = emptied (filter (\<lambda>n. \<not> like_sqlite n) (map fst (tables s))) (tables s)"
proof (cases "filter (\<lambda>n. \<not> like_sqlite n) (map fst (tables s)) = []")
  case True
  then show ?thesis using assms by (simp add: clean_sqlite_def bind_action_def sqlite_list)
next
  case False
  let ?ns = "filter (\<lambda>n. \<not> like_sqlite n) (map fst (tables s))"
  obtain s1 where s1: "ro_execute C (pragma_sql False) s = (Inr (), s1)" "tables s1 = tables s" "\<not> enforced s1"
    using pragma [of False s] by auto
  moreover have "set ?ns \<subseteq> fst ` set (tables s1)" by (auto simp: s1)
  ultimately obtain us s2 where s2: "map_action (\<lambda>name. ro_execute C (delete_sql name)) ?ns s1 = (Inr us, s2)"
      "tables s2 = emptied ?ns (tables s)"
    using delete_each [of ?ns s1] by auto
  obtain s3 where s3: "try_catch (ro_execute C sequence_sql) (\<lambda>_. ret ()) s2 = (Inr (), s3)" "tables s3 = tables s2"
    using sequences_caught by blast
  obtain s4 where s4: "ro_execute C (pragma_sql True) s3 = (Inr (), s4)" "tables s4 = tables s3" "enforced s4"
    using pragma [of True s3] by auto
  have "clean_sqlite C s = (Inr (), s4)"
    using False unfolding clean_sqlite_def bind_action_def by (simp add: sqlite_list s1(1) s2(1) s3(1) s4(1) del: filter_empty_conv)
  then show ?thesis using s2 s3 s4 by simp
qed

lemma postgres_cleaned:
  "\<exists>s'. clean_postgres C s = (Inr (), s') \<and> map fst (tables s') = map fst (tables s) \<and> enforced s' = enforced s \<and>
    (\<forall>n rows. (n, rows) \<in> set (tables s') \<longrightarrow> n \<noteq> ''_prisma_migrations'' \<longrightarrow> rows = [])"
proof (cases "filter (\<lambda>n. n \<noteq> ''_prisma_migrations'') (map fst (tables s)) = []")
  case True
  moreover have "n = ''_prisma_migrations''" if "(n, rows) \<in> set (tables s)" for n rows
    using True that by (force simp: filter_empty_conv)
  ultimately show ?thesis by (auto simp: clean_postgres_def bind_action_def pg_list)
next
  case False
  let ?ns = "filter (\<lambda>n. n \<noteq> ''_prisma_migrations'') (map fst (tables s))"
  obtain s' where s': "ro_execute C (truncate_sql ?ns) s = (Inr (), s')" "map fst (tables s') = map fst (tables s)" "enforced s' = enforced s"
      "\<forall>n rows. (n, rows) \<in> set (tables s') \<longrightarrow> n \<in> set ?ns \<longrightarrow> rows = []"
    using truncate [of ?ns s] by auto
  have "n \<in> set ?ns" if "(n, rows) \<in> set (tables s')" "n \<noteq> ''_prisma_migrations''" for n rows
  proof -
    have "n \<in> set (map fst (tables s'))" using that(1) by force
    then show ?thesis using that(2) unfolding s'(2) by simp
  qed
  moreover have "clean_postgres C s = (Inr (), s')"
    using False s'(1) by (simp add: clean_postgres_def bind_action_def pg_list)
  ultimately show ?thesis using s' by blast
qed

text \<open>In the tests every table of the application is emptied, and foreign keys are enforced as before.\<close>

lemma clean_empties:
  assumes "enforced s"
  shows "\<exists>s'. cleanDatabase (Some ''test'') DATABASE_URL C s = (Inr (), s') \<and> enforced s' \<and>
    map fst (tables s') = map fst (tables s) \<and>
    (\<forall>n rows. (n, rows) \<in> set (tables s') \<longrightarrow> n \<noteq> ''_prisma_migrations'' \<longrightarrow> \<not> like_sqlite n \<longrightarrow> rows = [])"
proof (cases "startsWith (case DATABASE_URL of None \<Rightarrow> [] | Some u \<Rightarrow> u) ''file:''")
  case True
  obtain s' where s': "clean_sqlite C s = (Inr (), s')" "enforced s'"
      "tables s' = emptied (filter (\<lambda>n. \<not> like_sqlite n) (map fst (tables s))) (tables s)"
    using sqlite_cleaned [OF assms] by blast
  have "rows = []" if "(n, rows) \<in> set (tables s')" "\<not> like_sqlite n" for n rows
  proof (rule emptied_rows [OF that(1) [unfolded s'(3)]])
    have "n \<in> fst ` set (tables s')" using that(1) by force
    then show "n \<in> set (filter (\<lambda>n. \<not> like_sqlite n) (map fst (tables s)))" using that(2) by (simp add: s'(3))
  qed
  with s' True show ?thesis by (auto simp: cleanDatabase_def)
next
  case False
  then show ?thesis using postgres_cleaned [of s] assms by (auto simp: cleanDatabase_def)
qed

end

section \<open>A database in memory\<close>

record 'r sql_db =
  sq_connected :: bool
  sq_tables :: "(string \<times> 'r list) list"
  sq_foreign_keys :: bool

definition mem_execute :: "string \<Rightarrow> (string, 'r sql_db, unit) action" where
  "mem_execute sql db =
     (if sql = pragma_sql True then (Inr (), db\<lparr>sq_foreign_keys := True\<rparr>)
      else if sql = pragma_sql False then (Inr (), db\<lparr>sq_foreign_keys := False\<rparr>)
      else if startsWith sql ''TRUNCATE''
      then (Inr (), db\<lparr>sq_tables := emptied
             (filter (\<lambda>n. sublist ([CHR 0x22] @ n @ [CHR 0x22]) sql) (map fst (sq_tables db))) (sq_tables db)\<rparr>)
      else case filter (\<lambda>n. sql = delete_sql n) (map fst (sq_tables db)) of
             [] \<Rightarrow> (Inl ''no such table'', db)
           | n # _ \<Rightarrow> (Inr (), db\<lparr>sq_tables := emptied [n] (sq_tables db)\<rparr>))"

definition mem_query :: "string \<Rightarrow> (string, 'r sql_db, string list) action" where
  "mem_query sql db = (Inr (filter (\<lambda>n. if sql = sqlite_query then \<not> like_sqlite n else n \<noteq> ''_prisma_migrations'') (map fst (sq_tables db))), db)"

definition mem_client :: "'r sql_db raw_ops" where
  "mem_client = \<lparr>ro_connect = (\<lambda>db. (Inr (), db\<lparr>sq_connected := True\<rparr>)), ro_disconnect = (\<lambda>db. (Inr (), db\<lparr>sq_connected := False\<rparr>)),
     ro_query = mem_query, ro_execute = mem_execute\<rparr>"

lemma sql_texts_apart [simp]:
  "delete_sql n \<noteq> pragma_sql b" "\<not> startsWith (delete_sql n) ''TRUNCATE''" "delete_sql n = delete_sql m \<longleftrightarrow> n = m"
  "sequence_sql \<noteq> pragma_sql b" "\<not> startsWith sequence_sql ''TRUNCATE''" "sequence_sql \<noteq> delete_sql n"
  "truncate_sql ns \<noteq> pragma_sql b" "startsWith (truncate_sql ns) ''TRUNCATE''" "pragma_sql b = pragma_sql c \<longleftrightarrow> b = c"
  "pg_query \<noteq> sqlite_query"
  by (simp_all add: delete_sql_def pragma_sql_def truncate_sql_def sequence_sql_def startsWith_def pg_query_def sqlite_query_def)

lemma join_part: "x \<in> set xs \<Longrightarrow> \<exists>ps ss. join sep xs = ps @ x @ ss"
proof (induction sep xs rule: join.induct)
  case (3 sep y z zs)
  show ?case
  proof (cases "x = y")
    case False
    with 3 obtain ps ss where "join sep (z # zs) = ps @ x @ ss" by auto
    then have "join sep (y # z # zs) = (y @ sep @ ps) @ x @ ss" by simp
    then show ?thesis by blast
  qed (metis append_Nil join.simps(3))
qed (auto intro: exI [of _ "[]"])

lemma truncate_names:
  assumes "n \<in> set ns"
  shows "sublist ([CHR 0x22] @ n @ [CHR 0x22]) (truncate_sql ns)"
proof -
  let ?q = "\<lambda>n. [CHR 0x22] @ n @ [CHR 0x22]"
  obtain ps ss where "join '', '' (map ?q ns) = ps @ ?q n @ ss" using join_part [of "?q n" "map ?q ns" "'', ''"] assms by auto
  then have "truncate_sql ns = (''TRUNCATE TABLE '' @ ps) @ ?q n @ ss @ '' RESTART IDENTITY CASCADE;''" by (simp add: truncate_sql_def)
  then show ?thesis unfolding sublist_def by blast
qed

interpretation mem: raw_client mem_client sq_tables sq_foreign_keys
proof
  fix on :: bool and s :: "'r sql_db" and name names
  show "\<exists>s'. ro_execute mem_client (pragma_sql on) s = (Inr (), s') \<and> sq_tables s' = sq_tables s \<and> sq_foreign_keys s' = on"
    by (cases on) (simp_all add: mem_client_def mem_execute_def)
  show "\<exists>s'. ro_execute mem_client (delete_sql name) s = (Inr (), s') \<and> sq_tables s' = emptied [name] (sq_tables s) \<and> \<not> sq_foreign_keys s'"
    if "name \<in> fst ` set (sq_tables s)" and "\<not> sq_foreign_keys s"
  proof -
    have "name \<in> set (filter ((=) name) (map fst (sq_tables s)))" using that(1) by simp
    then obtain m ms where "filter ((=) name) (map fst (sq_tables s)) = m # ms" by (cases "filter ((=) name) (map fst (sq_tables s))") auto
    moreover from this have "m = name" by (metis (mono_tags) filter_eq_ConsD)
    ultimately show ?thesis using that(2) by (simp add: mem_client_def mem_execute_def)
  qed
  show "sq_tables (snd (ro_execute mem_client sequence_sql s)) = sq_tables s" by (simp add: mem_client_def mem_execute_def)
  show "\<exists>s'. ro_execute mem_client (truncate_sql names) s = (Inr (), s') \<and> map fst (sq_tables s') = map fst (sq_tables s) \<and>
      sq_foreign_keys s' = sq_foreign_keys s \<and> (\<forall>n rows. (n, rows) \<in> set (sq_tables s') \<longrightarrow> n \<in> set names \<longrightarrow> rows = [])"
    if "set names \<subseteq> fst ` set (sq_tables s)"
    using that truncate_names by (auto simp: mem_client_def mem_execute_def dest!: emptied_rows)
qed (simp_all add: mem_client_def mem_query_def)

text \<open>Outside the tests nothing is sent.\<close>

lemma clean_only_in_tests:
  "NODE_ENV \<noteq> Some ''test'' \<Longrightarrow>
    cleanDatabase NODE_ENV DATABASE_URL C s = (Inl ''cleanDatabase should only be called in test environment'', s)"
  by (simp add: cleanDatabase_def)

text \<open>With SQLite the record of the migrations is emptied too, which the statement for PostgreSQL keeps.\<close>

definition migrated_db :: "nat sql_db" where
  "migrated_db = \<lparr>sq_connected = True, sq_tables = [(''_prisma_migrations'', [1]), (''users'', [2])], sq_foreign_keys = True\<rparr>"

lemma sqlite_loses_migrations:
  "sq_tables (snd (cleanDatabase (Some ''test'') (Some ''file:./test.db'') mem_client migrated_db)) = [(''_prisma_migrations'', []), (''users'', [])]"
  "sq_tables (snd (cleanDatabase (Some ''test'') (Some ''postgresql://localhost/test'') mem_client migrated_db)) =
     [(''_prisma_migrations'', [1]), (''users'', [])]"
  by code_simp+

end
