(* ===== verification/Spec2Isabelle.thy ===== *)
theory Spec2Isabelle
  imports Client_Pages Client_Player Client_Network Db_Service
begin

text \<open>
  A verification library for the TypeScript programs of this repository: the issue tracker and shop
  backend written with Nest (\<open>backend/node.js/src\<close>), the backend of the web video editor written
  with Express (\<open>video-editor/backend/src\<close>), and the React frontends of both
  (\<open>react/frontend/src\<close>, \<open>video-editor/frontend/src\<close>).

  \<^bold>\<open>How the code is modelled.\<close>  An asynchronous method is an \<^emph>\<open>action\<close> of \<open>Prelude\<close>: a function from
  the state to a sum (\<open>Inl\<close> the exception, \<open>Inr\<close> the value) paired with the new state; what was
  written before a throw stays written, unless the code runs in a transaction.  A class is a record,
  a request body a record whose members may be missing (\<open>field\<close>), an exception a value of a datatype,
  a number of the language a rational rounded to binary64 (\<open>Js_Number\<close>, \<open>Js_Double\<close>) where rounding
  matters and an integer where the schema says so.  Third-party code (the Prisma client, bcryptjs,
  the JWT library, the cache manager, Elasticsearch, Kafka, rxjs, multer, fluent-ffmpeg, pg, ws, ioredis,
  prom-client, the native addon) is an argument of the definitions that call it; what the code
  relies on is stated in a locale, and each locale is interpreted on an executable instance.  The
  clock, random numbers and environment variables are arguments too.

  \<^bold>\<open>Shared theories.\<close>
  \<^item> \<open>Prelude\<close>: actions, preservation of invariants by actions, result lists sorted by a relation, the
    maps of the language, and the locale \<open>step_system\<close>.
  \<^item> \<open>Js_Text\<close>, \<open>Js_Number\<close>, \<open>Js_Double\<close>, \<open>Js_Date\<close>: strings, number parsing and rounding, bounds of the
    rounding error, calendar dates and their ISO text.
  \<^item> \<open>Routing\<close>: methods, path patterns and the first route that matches, with the laws \<open>path_matcher\<close> of the routers of both
    frameworks and a model of them.  \<open>Web_Layers\<close>: an Express application as its layers in order, with the laws
    \<open>express_app\<close> of how a request passes them.

  \<^bold>\<open>The Nest backend.\<close>
  \<^item> \<open>Exceptions\<close> (\<open>common/exceptions\<close>, \<open>common/filters\<close>): the exception classes and the global filter.
  \<^item> \<open>Database\<close> (\<open>prisma/schema.prisma\<close>) and \<open>Integrity\<close>: the twelve tables with keys, unique and foreign
    key constraints and cascades, the client operations over a delegate, transactions, and the
    invariant \<open>db_inv\<close> that every create, update and delete keeps.  \<open>Db_Service\<close> (\<open>common/prisma\<close>): emptying
    the database is refused outside the tests and complete in them.
  \<^item> \<open>Users_Auth\<close> (\<open>user\<close>, \<open>auth\<close>): registration, login and the JWT guard.  A registered user can log in
    and is authenticated by the token; a wrong password or an unknown e-mail is the same 401.
  \<^item> \<open>Teams\<close> (\<open>team\<close>, \<open>common/guards\<close>): every handler behind the role guard.  No sequence of requests
    leaves a team without an owner; only owners and managers change memberships; two interleaved
    removals do break the rule, since the check and the deletion are separate statements.
  \<^item> \<open>Issues\<close> (\<open>project\<close>, \<open>issue\<close>, \<open>comment\<close>): the pages of an issue list are a partition of the
    matching issues, the popular list is the ten best, deletion cascades.
  \<^item> \<open>Stats\<close> (\<open>stats\<close>): what the aggregation counts in any time zone, the nightly job, range queries.
  \<^item> \<open>Catalog\<close> (\<open>product\<close>, \<open>search\<close>, \<open>elasticsearch\<close>, \<open>admin\<close>): the search index refines the product
    table under any sequence of requests, a failing index never fails a request, reindexing repairs.
  \<^item> \<open>Orders\<close> (\<open>order\<close>, \<open>kafka\<close>, \<open>notification\<close>): orders on every branch, the exactness of the total,
    status changes, and the consumer of the events.
  \<^item> \<open>External\<close> (\<open>external\<close>, \<open>common/health\<close>): the retries of the proxy end after at most four attempts.

  \<^item> \<open>Nest_Routes\<close> (the decorators of all controllers, \<open>main.ts\<close>): the routing table, and that a request reaches
    the handler written for it; the router of the framework has the laws \<open>path_matcher\<close>.
  \<^item> \<open>Nest_Backend\<close> (\<open>app.module.ts\<close>): the whole backend, all handlers and jobs behind that table, as one step
    function on the database.  Any sequence of steps keeps the integrity of the store and an owner in
    every team, all but four handlers need a token, and \<open>GET\<close> requests change no table.

  \<^bold>\<open>The video editor backend.\<close>
  \<^item> \<open>Video_Storage\<close> (\<open>services/storage.service.ts\<close>, \<open>routes/upload.routes.ts\<close>): Node's path functions,
    which names stay below the upload directory, what an upload stores.
  \<^item> \<open>Video_Edit\<close> (\<open>services/ffmpeg.service.ts\<close>, \<open>routes/edit.routes.ts\<close>): the jobs given to FFmpeg, the SRT
    text with its reading back and the accuracy of its times, the routes.
  \<^item> \<open>Video_Projects\<close> (\<open>routes/project.routes.ts\<close>, \<open>db/database.service.ts\<close>): the SQL texts the routes
    build, their reference semantics \<open>exec_stmt\<close>, and transactions.
  \<^item> \<open>Video_Realtime\<close> (\<open>ws/websocket.service.ts\<close>): the service as a step relation \<open>ws_step\<close> on the events of
    the library, its invariant by rule induction, delivery of broadcasts, shutdown.
  \<^item> \<open>Video_Sessions\<close> (\<open>db/redis.service.ts\<close>): the life of a session.
  \<^item> \<open>Video_Metrics\<close> (\<open>services/metrics.service.ts\<close>), \<open>Video_Native\<close> (\<open>services/native-video.service.ts\<close>,
    \<open>routes/thumbnail.ts\<close>, \<open>routes/metadata.ts\<close>, \<open>routes/metrics.ts\<close>): the metrics, the loader of the
    addon, and that every thumbnail request is counted once.
  \<^item> \<open>Video_Server\<close> (\<open>server.ts\<close>): health, start-up and the handler of \<open>SIGTERM\<close>.
  \<^item> \<open>Video_Backend\<close> (\<open>server.ts\<close> and the routers of \<open>routes\<close>): the whole application, its middlewares, routers, static files and
    error handler as layers, composed of the handlers of the other theories.  A request gets the answer of
    the handler written for it, a static file, or the answer to a request without a route.
  \<^item> \<open>Video_Files\<close>: no sequence of requests changes or removes a video that is stored, and an uploaded video
    can be played under the address the upload answered with, whatever requests come in between.

  \<^bold>\<open>The video editor frontend.\<close>  States and handlers of the components and hooks, and what they show.
  \<^item> \<open>Client_Projects\<close> (\<open>hooks/useProjects.ts\<close>, \<open>hooks/useVideoEdit.ts\<close>, \<open>hooks/useVideoUpload.ts\<close>,
    \<open>components/ProjectPanel.tsx\<close>): requests as a function of \<open>fetch\<close>; the panel run against the project
    routes shows what it has saved.
  \<^item> \<open>Client_Editor\<close> (\<open>App.tsx\<close>, \<open>EditPanel\<close>, \<open>SubtitleEditor\<close>, \<open>VideoPlayer\<close>, \<open>Timeline\<close>, \<open>VideoUpload\<close>): trimming from
    the panel through the route to FFmpeg and back; the order of the subtitles under any sequence of
    editor operations.
  \<^item> \<open>Client_Panels\<close> (\<open>ControlPanel\<close>, and what \<open>EditPanel\<close>, \<open>SubtitleEditor\<close> and \<open>ProjectPanel\<close> show): the two panels send the
    same requests, but only the buttons of one are disabled for an impossible range.
  \<^item> \<open>Client_Network\<close>: the requests of the hooks and panels, as \<open>fetch\<close> sends them, through the application of \<open>Video_Backend\<close>: each
    reaches the handler the panels were verified against, and a video trimmed in the editor plays.
  \<^item> \<open>Client_Player\<close> (\<open>VideoPlayer\<close>, \<open>Timeline\<close>, \<open>VideoUpload\<close>, \<open>ProgressBar\<close>, \<open>App\<close>): what is shown and drawn, where the drawing ends,
    and the player with the queued events of the video element: once the events are handled it shows what the
    element does, but for a trimmed video that comes in during playback.
  \<^item> \<open>Client_Socket\<close> (\<open>hooks/useWebSocket.ts\<close>): the reconnecting client as a step relation; it never gives up
    while mounted, nor, against its intent, after it was unmounted.

  The client of the issue tracker:

  \<^item> \<open>Client_Tracker\<close> (\<open>shared/lib/apiClient.ts\<close>, \<open>features/auth\<close>, \<open>features/*/hooks.ts\<close>, \<open>shared/hooks/useQueryParams.ts\<close>,
    \<open>features/team/useTeamRole.ts\<close>, \<open>app/routes/ProductSearchPage.tsx\<close>, \<open>app/routes/TeamDetailPage.tsx\<close>): the
    parameters of the address round-trip; the keys of the queries are distinct and every mutation
    invalidates exactly what it changed; the controls of the team page are those the backend's
    guard allows and its handlers carry out; and an application without a token reloads its
    login page for ever.  React Query is a record of operations with the laws \<open>query_client_laws\<close>.

  \<^item> \<open>Client_Requests\<close> (\<open>features/*/api.ts\<close>, \<open>shared/types/api.ts\<close>): every request of the client as a path, a
    query and a body, and how the backend's router, pipes and handlers read it.  Every request but two
    is received by its handler with the arguments it was sent with.
  \<^item> \<open>Client_Forms\<close> (the schemas and \<open>onSubmit\<close> of the forms): what is typed is what the backend stores, and the
    edit form sent unchanged leaves the issue as it was.
  \<^item> \<open>Views\<close>, \<open>Client_Views\<close> (\<open>shared/components\<close>, \<open>app/layouts\<close>, the forms) and \<open>Client_Pages\<close> (\<open>App.tsx\<close>,
    \<open>app/routes\<close>, \<open>DailyStatsChart.tsx\<close>): what is shown, as a tree of words, links, entries and buttons; the
    routes of the application and the queries of each page.  Every link has a page, a card opens its item,
    the bars of the chart fit, and the issue list asks for a page the backend refuses.

  \<^bold>\<open>Recursion and bounds.\<close>  Every definition but one is total: recursion is structural or has a termination
  proof (the reader \<open>parse_cues\<close> of SRT texts, by the number of lines left).  The loops that draw the time line need not end, so
  \<open>tick_times\<close> gives an optional result; it is proved to return for durations up to \<open>2 ^ 48\<close> seconds, below which every addition
  of a step makes progress of a sixteenth of a second, and not to return for an infinite one.  No fuel is used.  The
  bounds in the statements are those of the code: integers of the database are 32 bits wide, sums
  of prices and counters are exact up to \<open>2 ^ 53\<close>, and subtitle times are doubles.

  \<^bold>\<open>Not modelled.\<close>  Logging; dependency injection and configuration, which have no behaviour of their own; style and the texts
  of help boxes; the internals of Express, Nest, React, its router and its form library, which are arguments with
  laws or applied as documented; the native C++ addon, which is a parameter; the C++, Java and Python
  programs of the repository (\<open>arena\<close>, \<open>game-server\<close>, \<open>ray-tracing\<close>, \<open>backend/spring\<close>, \<open>e-commerce\<close>,
  \<open>framework\<close>).

  \<^bold>\<open>What could follow.\<close>  The client of the issue tracker as one machine, with its cache, pages and mutations running against
  \<open>Nest_Backend\<close>, and requests of several clients interleaved inside their handlers, which is done here for the removal
  of owners only.
\<close>

end
